(* ===== verification/Prelude.thy ===== *)
theory Prelude
  imports Main "HOL-Library.AList" "HOL-Library.Word"
begin

text \<open>
  Shared vocabulary of the development: Go values that every component uses (bytes, strings,
  maps, errors, panics, times) and the generic lemmas about them.

  \<^item> A Go \<open>[]byte\<close> is a list of \<open>8 word\<close>; a Go \<open>string\<close> is a list of \<open>char\<close> (one per byte).
  \<^item> A Go map with string keys is an optional association list: \<open>None\<close> is the nil map, the
    list holds the entries in the order in which \<open>range\<close> visits them. Go leaves that order
    open, so every theorem is stated for an arbitrary list with distinct keys.
  \<^item> An \<open>error\<close> is a value of \<open>go_error\<close>; a function returning \<open>(T, error)\<close> returns \<open>go_error + T\<close>.
  \<^item> A run-time panic is not an error value: a function that can panic returns an \<open>outcome\<close>.
  \<^item> A \<open>time.Time\<close> is an \<open>int\<close>, the nanoseconds since Go's zero time (January 1 of year 1).
\<close>

named_theorems gomap_simps "reading, writing and deleting entries of a Go map"
named_theorems outcome_simps "sequencing of computations that may panic or fail"

section \<open>Bytes and strings\<close>

type_synonym byte = "8 word"
type_synonym bytes = "byte list"

definition string_bytes :: "string \<Rightarrow> bytes" where
  "string_bytes s = map of_char s"

definition bytes_string :: "bytes \<Rightarrow> string" where
  "bytes_string b = map (\<lambda>w. char_of (unat w)) b"

lemma unat_of_char [simp]: "unat (of_char c :: byte) = of_char c"
proof -
  have "(of_char c :: nat) mod 256 = of_char c" by simp
  moreover have "unat (word_of_nat (of_char c) :: byte) = of_char c mod 256"
    by (simp only: unat_of_nat) simp
  ultimately show ?thesis by (simp add: of_nat_of_char)
qed

lemma of_char_char_of_unat [simp]: "of_char (char_of (unat w)) = (w :: byte)"
proof (rule word_unat_eq_iff [THEN iffD2])
  have "unat w < 256"
    using unsigned_less [of w] by simp
  then show "unat (of_char (char_of (unat w)) :: byte) = unat w"
    by (simp only: unat_of_char of_char_of) simp
qed

lemma bytes_string_bytes [simp]: "bytes_string (string_bytes s) = s"
  by (simp add: bytes_string_def string_bytes_def comp_def)

lemma string_bytes_string [simp]: "string_bytes (bytes_string b) = b"
  by (simp add: bytes_string_def string_bytes_def comp_def)

lemma string_bytes_eq_iff [simp]: "string_bytes s = string_bytes t \<longleftrightarrow> s = t"
  by (metis bytes_string_bytes)

lemma length_string_bytes [simp]: "length (string_bytes s) = length s"
  by (simp add: string_bytes_def)

section \<open>Errors and panics\<close>

text \<open>
  The errors of the program. \<open>Errorf\<close> carries the text a call of \<open>fmt.Errorf\<close> builds,
  \<open>StatusError\<close> is an API error (\<open>k8serrors.StatusError\<close>: HTTP code, reason and message) and
  \<open>LibError\<close> is any other error of the standard library or of a package outside the repository.
\<close>

datatype go_error =
    ErrTooShort
  | ErrCast string
  | ErrPrivateKeyNotRSA
  | Errorf string
  | StatusError nat string string
  | LibError string

text \<open>The method \<open>Error()\<close> of each of them.\<close>

fun err_text :: "go_error \<Rightarrow> string" where
  "err_text ErrTooShort = ''SealedSecret data is too short''"
| "err_text (ErrCast s) = ''cast error: '' @ s"
| "err_text ErrPrivateKeyNotRSA = ''private key is not an RSA key''"
| "err_text (Errorf s) = s"
| "err_text (StatusError c r s) = s"
| "err_text (LibError s) = s"

text \<open>\<open>k8serrors.IsNotFound\<close>: the reason of a status error.\<close>

fun IsNotFound :: "go_error \<Rightarrow> bool" where
  "IsNotFound (StatusError c r s) = (r = ''NotFound'')"
| "IsNotFound e = False"

datatype panic = NilMapAssignment | IndexOutOfRange | TypeAssertion | NilDereference | PanicWith go_error

datatype 'a outcome = Ret 'a | Panic panic

fun obind :: "'a outcome \<Rightarrow> ('a \<Rightarrow> 'b outcome) \<Rightarrow> 'b outcome" where
  "obind (Ret a) f = f a"
| "obind (Panic p) f = Panic p"

lemma obind_eq_Ret [outcome_simps]: "obind m f = Ret b \<longleftrightarrow> (\<exists>a. m = Ret a \<and> f a = Ret b)"
  by (cases m) auto

lemma obind_eq_Panic [outcome_simps]:
  "obind m f = Panic p \<longleftrightarrow> m = Panic p \<or> (\<exists>a. m = Ret a \<and> f a = Panic p)"
  by (cases m) auto

lemma obind_RetE: "obind m f = Ret b \<Longrightarrow> (\<And>a. m = Ret a \<Longrightarrow> f a = Ret b \<Longrightarrow> P) \<Longrightarrow> P"
  by (cases m) auto

fun returns :: "'a outcome \<Rightarrow> bool" where
  "returns (Ret a) = True"
| "returns (Panic p) = False"

section \<open>Go maps\<close>

type_synonym 'v gomap = "(string \<times> 'v) list option"

definition map_entries :: "'v gomap \<Rightarrow> (string \<times> 'v) list" where
  "map_entries m = (case m of None \<Rightarrow> [] | Some al \<Rightarrow> al)"

text \<open>The comma-ok read \<open>v, ok := m[k]\<close>, and the plain read of a map of strings or slices, which
  gives the zero value for a missing key.\<close>

definition map_get :: "'v gomap \<Rightarrow> string \<Rightarrow> 'v option" where
  "map_get m k = map_of (map_entries m) k"

definition map_read :: "'a list gomap \<Rightarrow> string \<Rightarrow> 'a list" where
  "map_read m k = (case map_get m k of None \<Rightarrow> [] | Some v \<Rightarrow> v)"

text \<open>Assignment \<open>m[k] = v\<close> panics on the nil map; \<open>delete(m, k)\<close> does nothing there.\<close>

definition map_set :: "'v gomap \<Rightarrow> string \<Rightarrow> 'v \<Rightarrow> 'v gomap outcome" where
  "map_set m k v = (case m of None \<Rightarrow> Panic NilMapAssignment
     | Some al \<Rightarrow> Ret (Some (AList.update k v al)))"

definition map_del :: "string \<Rightarrow> 'v gomap \<Rightarrow> 'v gomap" where
  "map_del k m = map_option (AList.delete k) m"

definition map_wf :: "'v gomap \<Rightarrow> bool" where
  "map_wf m \<longleftrightarrow> distinct (map fst (map_entries m))"

text \<open>The loop \<open>for k, v := range src { dst[k] = v }\<close>.\<close>

fun put_all :: "(string \<times> 'v) list \<Rightarrow> (string \<times> 'v) list \<Rightarrow> (string \<times> 'v) list" where
  "put_all [] dst = dst"
| "put_all ((k, v) # src) dst = put_all src (AList.update k v dst)"

definition map_put_all :: "'v gomap \<Rightarrow> 'v gomap \<Rightarrow> 'v gomap outcome" where
  "map_put_all src dst = (case map_entries src of [] \<Rightarrow> Ret dst
     | es \<Rightarrow> (case dst of None \<Rightarrow> Panic NilMapAssignment | Some al \<Rightarrow> Ret (Some (put_all es al))))"

text \<open>\<open>reflect.DeepEqual\<close> on maps: both nil or both not, and the same entries in any order.\<close>

definition entries_equal :: "(string \<times> 'v) list \<Rightarrow> (string \<times> 'v) list \<Rightarrow> bool" where
  "entries_equal a b \<longleftrightarrow> length a = length b \<and> list_all (\<lambda>(k, v). map_of b k = Some v) a"

definition map_deep_equal :: "'v gomap \<Rightarrow> 'v gomap \<Rightarrow> bool" where
  "map_deep_equal m n = (case (m, n) of (None, None) \<Rightarrow> True | (Some a, Some b) \<Rightarrow> entries_equal a b
     | _ \<Rightarrow> False)"

lemma map_entries_simps [simp]: "map_entries None = []" "map_entries (Some al) = al"
  by (simp_all add: map_entries_def)

lemma map_of_AList_update [gomap_simps]: "map_of (AList.update k v al) = (map_of al)(k \<mapsto> v)"
  by (simp add: update_conv')

lemma map_of_AList_delete [gomap_simps]: "map_of (AList.delete k al) = (map_of al)(k := None)"
  by (simp add: delete_conv')

lemma map_get_simps [gomap_simps]:
  "map_get None k = None" "map_get (Some al) k = map_of al k"
  by (simp_all add: map_get_def)

lemma map_get_del [gomap_simps]: "map_get (map_del k m) j = (if j = k then None else map_get m j)"
  by (cases m) (simp_all add: map_del_def gomap_simps)

lemma map_set_get [gomap_simps]:
  "map_set m k v = Ret m' \<Longrightarrow> map_get m' j = (if j = k then Some v else map_get m j)"
  by (auto simp: map_set_def gomap_simps split: option.splits)

lemma map_of_put_all [gomap_simps]:
  "distinct (map fst src) \<Longrightarrow> map_of (put_all src dst) k =
    (case map_of src k of Some v \<Rightarrow> Some v | None \<Rightarrow> map_of dst k)"
proof (induction src dst rule: put_all.induct)
  case (2 k' v src dst)
  have "map_of src k' = None"
    using 2 by (simp add: map_of_eq_None_iff)
  with 2 show ?case
    by (auto simp: gomap_simps split: option.splits)
qed simp

lemma map_put_all_get [gomap_simps]:
  assumes "map_wf src" "map_put_all src dst = Ret m"
  shows "map_get m k = (case map_get src k of Some v \<Rightarrow> Some v | None \<Rightarrow> map_get dst k)"
  using assms by (auto simp: map_put_all_def map_wf_def map_get_def map_of_put_all
      simp del: put_all.simps split: list.splits option.splits)

lemma map_put_all_panics:
  "map_put_all src dst = Panic p \<longleftrightarrow> p = NilMapAssignment \<and> map_entries src \<noteq> [] \<and> dst = None"
  by (auto simp: map_put_all_def split: list.splits option.splits)

lemma distinct_put_all [simp]: "distinct (map fst dst) \<Longrightarrow> distinct (map fst (put_all src dst))"
  by (induction src dst rule: put_all.induct) (simp_all add: distinct_update)

lemma map_wf_simps [simp]: "map_wf None" "map_wf (Some al) \<longleftrightarrow> distinct (map fst al)"
  by (simp_all add: map_wf_def)

lemma map_wf_del [simp]: "map_wf m \<Longrightarrow> map_wf (map_del k m)"
  by (cases m) (simp_all add: map_del_def distinct_delete)

lemma entries_equal_refl: "distinct (map fst a) \<Longrightarrow> entries_equal a a"
  by (force simp: entries_equal_def list_all_iff)

lemma card_dom_map_of: "distinct (map fst a) \<Longrightarrow> card (dom (map_of a)) = length a"
  using distinct_card [of "map fst a"] by (simp add: dom_map_of_conv_image_fst)

lemma entries_equal_iff:
  assumes a: "distinct (map fst a)" and b: "distinct (map fst b)"
  shows "entries_equal a b \<longleftrightarrow> map_of a = map_of b"
proof
  assume eq: "entries_equal a b"
  have sub: "map_of a \<subseteq>\<^sub>m map_of b"
    unfolding map_le_def
  proof
    fix k
    assume "k \<in> dom (map_of a)"
    then obtain v where v: "map_of a k = Some v" by auto
    then have "(k, v) \<in> set a" by (rule map_of_SomeD)
    with eq have "map_of b k = Some v"
      by (auto simp: entries_equal_def list_all_iff)
    with v show "map_of a k = map_of b k" by simp
  qed
  then have "dom (map_of a) \<subseteq> dom (map_of b)"
    by (rule map_le_implies_dom_le)
  moreover have "card (dom (map_of a)) = card (dom (map_of b))"
    using eq card_dom_map_of [OF a] card_dom_map_of [OF b] by (simp add: entries_equal_def)
  ultimately have dom: "dom (map_of a) = dom (map_of b)"
    using finite_dom_map_of [of b] card_subset_eq by blast
  have "map_of b \<subseteq>\<^sub>m map_of a"
    using sub dom by (simp add: map_le_def)
  with sub show "map_of a = map_of b"
    by (rule map_le_antisym)
next
  assume eq: "map_of a = map_of b"
  then have "length a = length b"
    using card_dom_map_of [OF a] card_dom_map_of [OF b] by simp
  then show "entries_equal a b"
    using a by (force simp: entries_equal_def list_all_iff simp flip: eq)
qed

section \<open>Times and durations\<close>

type_synonym time = int
type_synonym duration = int

text \<open>\<open>Time.Unix\<close>: whole seconds since 1970, rounded towards minus infinity.\<close>

definition unixSeconds :: "time \<Rightarrow> int" where
  "unixSeconds t = t div 1000000000 - 62135596800"

text \<open>A \<open>time.Duration\<close> is an \<open>int64\<close>: \<open>Time.Sub\<close> saturates, plain subtraction wraps around.\<close>

definition saturate64 :: "int \<Rightarrow> duration" where
  "saturate64 d = max (- (2 ^ 63)) (min (2 ^ 63 - 1) d)"

definition wrap64 :: "int \<Rightarrow> int" where
  "wrap64 d = sint (word_of_int d :: 64 word)"

lemma saturate64_bounds: "- (2 ^ 63) \<le> saturate64 d" "saturate64 d < 2 ^ 63"
  by (simp_all add: saturate64_def)

lemma saturate64_id [simp]: "- (2 ^ 63) \<le> d \<Longrightarrow> d < 2 ^ 63 \<Longrightarrow> saturate64 d = d"
  by (simp add: saturate64_def)

lemma wrap64_id [simp]: "- (2 ^ 63) \<le> d \<Longrightarrow> d < 2 ^ 63 \<Longrightarrow> wrap64 d = d"
  by (simp add: wrap64_def signed_of_int signed_take_bit_int_eq_self)

end
