(* ===== verification/Crypto.thy ===== *)
theory Crypto
  imports Prelude
begin

text \<open>
  \<open>pkg/crypto\<close>: the hybrid RSA-OAEP / AES-GCM encryption, the trial decryption with every key of
  a key ring, and the self-signed certificates. The ciphers themselves (and X.509) belong to Go's
  standard library and are the fields of a record, \<open>crypto_lib\<close>; what the code relies on is
  stated by the named predicates \<open>oaep_correct\<close>, \<open>oaep_key_bound\<close>, \<open>oaep_label_bound\<close>,
  \<open>oaep_fits\<close> and \<open>gcm_correct\<close>. The framing, the length checks, the key-size check of
  \<open>aes.NewCipher\<close> and the reading of random bytes are modelled in full.

  A source of randomness is the list of bytes it still has to give.
\<close>

section \<open>Keys, certificates and the library\<close>

record rsa_public_key =
  rsaN :: nat
  rsaE :: nat

record rsa_private_key =
  rsaPublicKey :: rsa_public_key
  rsaD :: nat

datatype cert_public_key = RSAPublicKey rsa_public_key | OtherPublicKey string

record Certificate =
  cert_Raw :: bytes
  cert_SerialNumber :: nat
  cert_KeyUsage :: nat
  cert_NotBefore :: time
  cert_NotAfter :: time
  cert_IssuerCN :: string
  cert_SubjectCN :: string
  cert_BasicConstraintsValid :: bool
  cert_IsCA :: bool
  cert_PublicKey :: cert_public_key

record crypto_lib =
  EncryptOAEP :: "bytes \<Rightarrow> rsa_public_key \<Rightarrow> bytes \<Rightarrow> bytes \<Rightarrow> (go_error + bytes) \<times> bytes"
  DecryptOAEP :: "rsa_private_key \<Rightarrow> bytes \<Rightarrow> bytes \<Rightarrow> go_error + bytes"
  GCMSeal :: "bytes \<Rightarrow> bytes \<Rightarrow> bytes \<Rightarrow> bytes"
  GCMOpen :: "bytes \<Rightarrow> bytes \<Rightarrow> bytes \<Rightarrow> go_error + bytes"
  FingerprintSHA256 :: "rsa_public_key \<Rightarrow> go_error + string"
  GenerateKey :: "bytes \<Rightarrow> int \<Rightarrow> (go_error + rsa_private_key) \<times> bytes"
  RandInt :: "bytes \<Rightarrow> nat \<Rightarrow> (go_error + nat) \<times> bytes"
  CreateCertificate :: "bytes \<Rightarrow> Certificate \<Rightarrow> rsa_private_key \<Rightarrow> (go_error + bytes) \<times> bytes"
  ParseCertificate :: "bytes \<Rightarrow> go_error + Certificate"

section \<open>Reading bytes\<close>

text \<open>\<open>io.ReadFull\<close> of \<open>n\<close> bytes, and the big-endian 16-bit length in front of a ciphertext.\<close>

definition ReadFull :: "bytes \<Rightarrow> nat \<Rightarrow> (go_error + bytes) \<times> bytes" where
  "ReadFull r n = (if n \<le> length r then (Inr (take n r), drop n r)
     else (Inl (LibError (if r = [] then ''EOF'' else ''unexpected EOF'')), []))"

definition PutUint16 :: "16 word \<Rightarrow> bytes" where
  "PutUint16 w = [ucast (drop_bit 8 w), ucast w]"

definition Uint16 :: "bytes \<Rightarrow> 16 word" where
  "Uint16 b = word_of_nat (unat (b ! 0) * 256 + unat (b ! 1))"

text \<open>\<open>aes.NewCipher\<close> takes keys of 16, 24 or 32 bytes; \<open>cipher.NewGCM\<close> of an AES block cannot
  fail, and its nonce has 12 bytes.\<close>

definition aesNewCipher :: "bytes \<Rightarrow> go_error + bytes" where
  "aesNewCipher k = (if length k = 16 \<or> length k = 24 \<or> length k = 32 then Inr k
     else Inl (LibError (''crypto/aes: invalid key size '')))"

definition zeroNonce :: bytes where
  "zeroNonce = replicate 12 0"

definition sessionKeyBytes :: nat where
  "sessionKeyBytes = 32"

section \<open>Encryption and decryption\<close>

definition PublicKeyFingerprint :: "crypto_lib \<Rightarrow> rsa_public_key \<Rightarrow> go_error + string" where
  "PublicKeyFingerprint C rp = FingerprintSHA256 C rp"

definition HybridEncrypt ::
  "crypto_lib \<Rightarrow> bytes \<Rightarrow> rsa_public_key \<Rightarrow> bytes \<Rightarrow> bytes \<Rightarrow> (go_error + bytes) \<times> bytes" where
  "HybridEncrypt C rnd pubKey plaintext label =
     (case ReadFull rnd sessionKeyBytes of
        (Inl e, rnd) \<Rightarrow> (Inl e, rnd)
      | (Inr sessionKey, rnd) \<Rightarrow>
          (case aesNewCipher sessionKey of
             Inl e \<Rightarrow> (Inl e, rnd)
           | Inr block \<Rightarrow>
               (case EncryptOAEP C rnd pubKey sessionKey label of
                  (Inl e, rnd) \<Rightarrow> (Inl e, rnd)
                | (Inr rsaCiphertext, rnd) \<Rightarrow>
                    (let ciphertext = PutUint16 (word_of_nat (length rsaCiphertext));
                         ciphertext = ciphertext @ rsaCiphertext
                     in (Inr (ciphertext @ GCMSeal C block zeroNonce plaintext), rnd)))))"

definition singleDecrypt :: "crypto_lib \<Rightarrow> rsa_private_key \<Rightarrow> bytes \<Rightarrow> bytes \<Rightarrow> go_error + bytes" where
  "singleDecrypt C privKey ciphertext label =
     (if length ciphertext < 2 then Inl ErrTooShort
      else let rsaLen = unat (Uint16 ciphertext) in
        if length ciphertext < rsaLen + 2 then Inl ErrTooShort
        else let rsaCiphertext = take rsaLen (drop 2 ciphertext);
                 aesCiphertext = drop (rsaLen + 2) ciphertext in
          (case DecryptOAEP C privKey rsaCiphertext label of
             Inl e \<Rightarrow> Inl e
           | Inr sessionKey \<Rightarrow>
               (case aesNewCipher sessionKey of
                  Inl e \<Rightarrow> Inl e
                | Inr block \<Rightarrow> GCMOpen C block zeroNonce aesCiphertext)))"

text \<open>The map of private keys is visited in whatever order \<open>range\<close> takes: the list's order.\<close>

fun HybridDecrypt ::
  "crypto_lib \<Rightarrow> (string \<times> rsa_private_key) list \<Rightarrow> bytes \<Rightarrow> bytes \<Rightarrow> go_error + bytes" where
  "HybridDecrypt C [] ciphertext label = Inl (Errorf ''no key could decrypt secret'')"
| "HybridDecrypt C ((_, privKey) # privKeys) ciphertext label =
     (case singleDecrypt C privKey ciphertext label of
        Inr secret \<Rightarrow> Inr secret
      | Inl _ \<Rightarrow> HybridDecrypt C privKeys ciphertext label)"

section \<open>Certificates\<close>

definition KeyUsageEncipherOnly :: nat where
  "KeyUsageEncipherOnly = 128"

definition SignKeyWithNotBefore ::
  "crypto_lib \<Rightarrow> bytes \<Rightarrow> rsa_private_key \<Rightarrow> time \<Rightarrow> duration \<Rightarrow> string \<Rightarrow> (go_error + Certificate) \<times> bytes" where
  "SignKeyWithNotBefore C r key notBefore validFor cn =
     (case RandInt C r (2 ^ 128) of
        (Inl e, r) \<Rightarrow> (Inl e, r)
      | (Inr serialNo, r) \<Rightarrow>
          (let cert = \<lparr> cert_Raw = [], cert_SerialNumber = serialNo,
                        cert_KeyUsage = KeyUsageEncipherOnly,
                        cert_NotBefore = notBefore, cert_NotAfter = notBefore + validFor,
                        cert_IssuerCN = cn, cert_SubjectCN = cn,
                        cert_BasicConstraintsValid = True, cert_IsCA = True,
                        cert_PublicKey = RSAPublicKey (rsaPublicKey key) \<rparr>
           in (case CreateCertificate C r cert key of
                 (Inl e, r) \<Rightarrow> (Inl e, r)
               | (Inr data, r) \<Rightarrow> (ParseCertificate C data, r))))"

definition SignKey ::
  "crypto_lib \<Rightarrow> time \<Rightarrow> bytes \<Rightarrow> rsa_private_key \<Rightarrow> duration \<Rightarrow> string \<Rightarrow> (go_error + Certificate) \<times> bytes" where
  "SignKey C now r key validFor cn = SignKeyWithNotBefore C r key now validFor cn"

definition GeneratePrivateKeyAndCert ::
  "crypto_lib \<Rightarrow> time \<Rightarrow> bytes \<Rightarrow> int \<Rightarrow> duration \<Rightarrow> string
    \<Rightarrow> (go_error + rsa_private_key \<times> Certificate) \<times> bytes" where
  "GeneratePrivateKeyAndCert C now r keySize validFor cn =
     (case GenerateKey C r keySize of
        (Inl e, r) \<Rightarrow> (Inl e, r)
      | (Inr privKey, r) \<Rightarrow>
          (case SignKey C now r privKey validFor cn of
             (Inl e, r) \<Rightarrow> (Inl e, r)
           | (Inr cert, r) \<Rightarrow> (Inr (privKey, cert), r)))"

section \<open>What the code relies on\<close>

definition oaep_correct :: "crypto_lib \<Rightarrow> bytes \<Rightarrow> bool" where
  "oaep_correct C label \<longleftrightarrow> (\<forall>rnd priv msg ct rnd'. length msg = sessionKeyBytes \<longrightarrow>
     EncryptOAEP C rnd (rsaPublicKey priv) msg label = (Inr ct, rnd') \<longrightarrow>
     DecryptOAEP C priv ct label = Inr msg)"

definition oaep_key_bound :: "crypto_lib \<Rightarrow> bytes \<Rightarrow> bool" where
  "oaep_key_bound C label \<longleftrightarrow> (\<forall>rnd pub priv msg ct rnd'. rsaPublicKey priv \<noteq> pub \<longrightarrow>
     EncryptOAEP C rnd pub msg label = (Inr ct, rnd') \<longrightarrow> isl (DecryptOAEP C priv ct label))"

definition oaep_label_bound :: "crypto_lib \<Rightarrow> bytes \<Rightarrow> bytes \<Rightarrow> bool" where
  "oaep_label_bound C label label' \<longleftrightarrow> label \<noteq> label' \<longrightarrow> (\<forall>rnd pub priv msg ct rnd'.
     EncryptOAEP C rnd pub msg label = (Inr ct, rnd') \<longrightarrow> isl (DecryptOAEP C priv ct label'))"

definition oaep_fits :: "crypto_lib \<Rightarrow> rsa_public_key \<Rightarrow> bytes \<Rightarrow> bool" where
  "oaep_fits C pub label \<longleftrightarrow> (\<forall>rnd msg ct rnd'. length msg = sessionKeyBytes \<longrightarrow>
     EncryptOAEP C rnd pub msg label = (Inr ct, rnd') \<longrightarrow> length ct < 65536)"

definition gcm_correct :: "crypto_lib \<Rightarrow> bool" where
  "gcm_correct C \<longleftrightarrow> (\<forall>key nonce pt. GCMOpen C key nonce (GCMSeal C key nonce pt) = Inr pt)"

text \<open>The contract of a sealing made with \<open>pub\<close> under \<open>label\<close>, and a key ring that can open it.\<close>

definition crypto_sound :: "crypto_lib \<Rightarrow> rsa_public_key \<Rightarrow> bytes \<Rightarrow> bool" where
  "crypto_sound C pub label \<longleftrightarrow>
     oaep_correct C label \<and> oaep_key_bound C label \<and> oaep_fits C pub label \<and> gcm_correct C"

definition holds_key :: "(string \<times> rsa_private_key) list \<Rightarrow> rsa_public_key \<Rightarrow> bool" where
  "holds_key privKeys pub \<longleftrightarrow> (\<exists>(fp, priv) \<in> set privKeys. rsaPublicKey priv = pub)"

definition label_separated :: "crypto_lib \<Rightarrow> rsa_public_key \<Rightarrow> bytes \<Rightarrow> bytes \<Rightarrow> bool" where
  "label_separated C pub label label' \<longleftrightarrow>
     label \<noteq> label' \<and> oaep_label_bound C label label' \<and> oaep_fits C pub label"

section \<open>The frame\<close>

lemma length_PutUint16 [simp]: "length (PutUint16 w) = 2"
  by (simp add: PutUint16_def)

lemma Uint16_PutUint16 [simp]: "Uint16 (PutUint16 w @ rest) = w"
proof -
  have "unat w < 65536"
    using unsigned_less [of w] by simp
  then have "unat w div 256 mod 256 = unat w div 256"
    by simp
  then have "unat (ucast (drop_bit 8 w) :: byte) * 256 + unat (ucast w :: byte) = unat w"
    by (simp add: unsigned_ucast_eq unat_drop_bit_eq drop_bit_eq_div take_bit_eq_mod unat_div_distrib)
  then show ?thesis
    by (simp add: Uint16_def PutUint16_def)
qed

text \<open>A frame is cut where it was joined exactly when the RSA part's length fits 16 bits.\<close>

definition frame :: "bytes \<Rightarrow> bytes \<Rightarrow> bytes" where
  "frame rsaCt aesCt = PutUint16 (word_of_nat (length rsaCt)) @ rsaCt @ aesCt"

lemma frame_length [simp]: "length (frame r a) = 2 + length r + length a"
  by (simp add: frame_def)

lemma frame_Uint16: "unat (Uint16 (frame r a)) = length r mod 65536"
  by (simp add: frame_def unat_of_nat take_bit_eq_mod)

lemma frame_cut:
  "take (length r) (drop 2 (frame r a)) = r" "drop (length r + 2) (frame r a) = a"
  by (simp_all add: frame_def)

section \<open>One key\<close>

lemma HybridEncrypt_Inr:
  assumes "HybridEncrypt C rnd pub pt label = (Inr ct, rnd')"
  obtains rsaCt where
    "sessionKeyBytes \<le> length rnd"
    "EncryptOAEP C (drop sessionKeyBytes rnd) pub (take sessionKeyBytes rnd) label = (Inr rsaCt, rnd')"
    "ct = frame rsaCt (GCMSeal C (take sessionKeyBytes rnd) zeroNonce pt)"
  using assms
  by (auto simp: HybridEncrypt_def ReadFull_def aesNewCipher_def frame_def Let_def
      split: if_splits sum.splits prod.splits)

lemma singleDecrypt_frame:
  assumes "length rsaCt < 65536"
  shows "singleDecrypt C priv (frame rsaCt aesCt) label =
    (case DecryptOAEP C priv rsaCt label of Inl e \<Rightarrow> Inl e
     | Inr sessionKey \<Rightarrow> (case aesNewCipher sessionKey of Inl e \<Rightarrow> Inl e
         | Inr block \<Rightarrow> GCMOpen C block zeroNonce aesCt))"
  using assms by (simp add: singleDecrypt_def Let_def frame_Uint16 frame_cut del: add_2_eq_Suc')

lemma oaep_fitsD:
  assumes "oaep_fits C pub label" "sessionKeyBytes \<le> length rnd"
    "EncryptOAEP C rnd1 pub (take sessionKeyBytes rnd) label = (Inr rsaCt, rnd')"
  shows "length rsaCt < 65536"
  using assms unfolding oaep_fits_def by (metis length_take min_absorb2)

lemma singleDecrypt_own_key:
  assumes "crypto_sound C (rsaPublicKey priv) label"
    and enc: "HybridEncrypt C rnd (rsaPublicKey priv) pt label = (Inr ct, rnd')"
  shows "singleDecrypt C priv ct label = Inr pt"
proof -
  obtain rsaCt where r: "sessionKeyBytes \<le> length rnd"
    "EncryptOAEP C (drop sessionKeyBytes rnd) (rsaPublicKey priv) (take sessionKeyBytes rnd) label
      = (Inr rsaCt, rnd')"
    and ct: "ct = frame rsaCt (GCMSeal C (take sessionKeyBytes rnd) zeroNonce pt)"
    using enc by (rule HybridEncrypt_Inr)
  have "length rsaCt < 65536"
    using assms r by (auto simp: crypto_sound_def intro: oaep_fitsD)
  moreover have "DecryptOAEP C priv rsaCt label = Inr (take sessionKeyBytes rnd)"
    using assms r unfolding crypto_sound_def oaep_correct_def by (metis length_take min_absorb2)
  ultimately show ?thesis
    using assms r(1) unfolding ct
    by (simp add: singleDecrypt_frame aesNewCipher_def sessionKeyBytes_def crypto_sound_def gcm_correct_def)
qed

lemma singleDecrypt_isl:
  assumes "oaep_fits C pub label"
    and enc: "HybridEncrypt C rnd pub pt label = (Inr ct, rnd')"
    and rej: "\<And>rnd msg rsaCt rnd'. EncryptOAEP C rnd pub msg label = (Inr rsaCt, rnd')
        \<Longrightarrow> isl (DecryptOAEP C priv rsaCt label')"
  shows "isl (singleDecrypt C priv ct label')"
proof -
  obtain rsaCt where r: "sessionKeyBytes \<le> length rnd"
    "EncryptOAEP C (drop sessionKeyBytes rnd) pub (take sessionKeyBytes rnd) label = (Inr rsaCt, rnd')"
    and ct: "ct = frame rsaCt (GCMSeal C (take sessionKeyBytes rnd) zeroNonce pt)"
    using enc by (rule HybridEncrypt_Inr)
  have "length rsaCt < 65536"
    using assms(1) r by (rule oaep_fitsD)
  with rej [OF r(2)] show ?thesis
    unfolding ct by (auto simp: singleDecrypt_frame isl_def)
qed

lemma singleDecrypt_other_key:
  assumes "crypto_sound C pub label" "HybridEncrypt C rnd pub pt label = (Inr ct, rnd')"
    "rsaPublicKey priv \<noteq> pub"
  shows "isl (singleDecrypt C priv ct label)"
proof (rule singleDecrypt_isl [OF _ assms(2)])
  show "oaep_fits C pub label"
    using assms(1) by (simp add: crypto_sound_def)
  show "isl (DecryptOAEP C priv rsaCt label)"
    if "EncryptOAEP C rnd pub msg label = (Inr rsaCt, rnd')" for rnd msg rsaCt rnd'
    using assms(1,3) that unfolding crypto_sound_def oaep_key_bound_def by blast
qed

lemma singleDecrypt_other_label:
  assumes "label_separated C pub label label'" "HybridEncrypt C rnd pub pt label = (Inr ct, rnd')"
  shows "isl (singleDecrypt C priv ct label')"
proof (rule singleDecrypt_isl [OF _ assms(2)])
  show "oaep_fits C pub label"
    using assms(1) by (simp add: label_separated_def)
  show "isl (DecryptOAEP C priv rsaCt label')"
    if "EncryptOAEP C rnd pub msg label = (Inr rsaCt, rnd')" for rnd msg rsaCt rnd'
    using assms(1) that unfolding label_separated_def oaep_label_bound_def by blast
qed

lemma singleDecrypt_short:
  "length ct < 2 \<or> length ct < unat (Uint16 ct) + 2 \<Longrightarrow> singleDecrypt C priv ct label = Inl ErrTooShort"
  by (auto simp: singleDecrypt_def Let_def)

section \<open>A ring of keys\<close>

lemma HybridDecrypt_Inr:
  "HybridDecrypt C privKeys ct label = Inr pt \<Longrightarrow>
    \<exists>(fp, priv) \<in> set privKeys. singleDecrypt C priv ct label = Inr pt"
  by (induction C privKeys ct label rule: HybridDecrypt.induct) (auto split: sum.splits)

lemma HybridDecrypt_Inl:
  "HybridDecrypt C privKeys ct label = Inl e \<longleftrightarrow>
    e = Errorf ''no key could decrypt secret'' \<and> (\<forall>(fp, priv) \<in> set privKeys. isl (singleDecrypt C priv ct label))"
  by (induction C privKeys ct label rule: HybridDecrypt.induct) (auto split: sum.splits)

lemma HybridDecrypt_isl:
  "isl (HybridDecrypt C privKeys ct label) \<longleftrightarrow>
    (\<forall>(fp, priv) \<in> set privKeys. isl (singleDecrypt C priv ct label))"
  by (metis HybridDecrypt_Inl isl_def)

lemma HybridDecrypt_unique:
  assumes "\<forall>(fp, priv) \<in> set privKeys. isl (singleDecrypt C priv ct label) \<or> singleDecrypt C priv ct label = Inr pt"
    and "\<exists>(fp, priv) \<in> set privKeys. singleDecrypt C priv ct label = Inr pt"
  shows "HybridDecrypt C privKeys ct label = Inr pt"
  using assms
  by (induction C privKeys ct label rule: HybridDecrypt.induct) (auto split: sum.splits)

lemma HybridDecrypt_HybridEncrypt:
  assumes "crypto_sound C pub label" "holds_key privKeys pub"
    "HybridEncrypt C rnd pub pt label = (Inr ct, rnd')"
  shows "HybridDecrypt C privKeys ct label = Inr pt"
proof (rule HybridDecrypt_unique)
  have one: "isl (singleDecrypt C priv ct label) \<or> singleDecrypt C priv ct label = Inr pt" for priv
    using assms singleDecrypt_own_key singleDecrypt_other_key by metis
  then show "\<forall>(fp, priv) \<in> set privKeys. isl (singleDecrypt C priv ct label) \<or> singleDecrypt C priv ct label = Inr pt"
    by auto
  show "\<exists>(fp, priv) \<in> set privKeys. singleDecrypt C priv ct label = Inr pt"
    using assms singleDecrypt_own_key unfolding holds_key_def by fastforce
qed

lemma HybridDecrypt_other_label:
  assumes "label_separated C pub label label'" "HybridEncrypt C rnd pub pt label = (Inr ct, rnd')"
  shows "HybridDecrypt C privKeys ct label' = Inl (Errorf ''no key could decrypt secret'')"
  using assms singleDecrypt_other_label by (auto simp: HybridDecrypt_Inl)

section \<open>The interface of a sealing scheme\<close>

text \<open>
  What the packages that seal and unseal rely on: a value sealed for a public key under a label
  opens with a ring that holds the key, and never under another label.
\<close>

locale sealing_scheme =
  fixes enc :: "'lib \<Rightarrow> bytes \<Rightarrow> rsa_public_key \<Rightarrow> bytes \<Rightarrow> bytes \<Rightarrow> (go_error + bytes) \<times> bytes"
    and dec :: "'lib \<Rightarrow> (string \<times> rsa_private_key) list \<Rightarrow> bytes \<Rightarrow> bytes \<Rightarrow> go_error + bytes"
    and sound :: "'lib \<Rightarrow> rsa_public_key \<Rightarrow> bytes \<Rightarrow> bool"
    and separated :: "'lib \<Rightarrow> rsa_public_key \<Rightarrow> bytes \<Rightarrow> bytes \<Rightarrow> bool"
  assumes dec_enc: "sound C pub l \<Longrightarrow> holds_key ks pub \<Longrightarrow> enc C rnd pub pt l = (Inr ct, rnd')
      \<Longrightarrow> dec C ks ct l = Inr pt"
    and dec_other: "separated C pub l l' \<Longrightarrow> enc C rnd pub pt l = (Inr ct, rnd')
      \<Longrightarrow> \<exists>e. dec C ks ct l' = Inl e"

interpretation hybrid: sealing_scheme HybridEncrypt HybridDecrypt crypto_sound label_separated
  by unfold_locales (auto intro: HybridDecrypt_HybridEncrypt HybridDecrypt_other_label)

end
