(* ===== verification/GoStrings.thy ===== *)
theory GoStrings
  imports Prelude
begin

text \<open>
  The functions of Go's package \<open>strings\<close> that the program calls, on byte strings, with the
  round trips and characterisations the components use. Case mapping is given for ASCII, which
  is what the callers apply it to (flag names, output formats, URL schemes).
\<close>

section \<open>Splitting\<close>

text \<open>\<open>strings.Split(s, sep)\<close> for a one-byte separator: never the empty list.\<close>

fun Split :: "char \<Rightarrow> string \<Rightarrow> string list" where
  "Split c [] = [[]]"
| "Split c (x # xs) =
     (if x = c then [] # Split c xs
      else (case Split c xs of [] \<Rightarrow> [[x]] | y # ys \<Rightarrow> (x # y) # ys))"

text \<open>\<open>strings.SplitN(s, sep, 2)\<close>: cut at the first separator.\<close>

fun SplitN2 :: "char \<Rightarrow> string \<Rightarrow> string list" where
  "SplitN2 c [] = [[]]"
| "SplitN2 c (x # xs) =
     (if x = c then [[], xs]
      else (case SplitN2 c xs of [] \<Rightarrow> [[x]] | y # ys \<Rightarrow> (x # y) # ys))"

fun Join :: "char \<Rightarrow> string list \<Rightarrow> string" where
  "Join c [] = []"
| "Join c [x] = x"
| "Join c (x # xs) = x @ c # Join c xs"

lemma Split_not_Nil [simp]: "Split c s \<noteq> []"
  by (induction c s rule: Split.induct) (auto split: list.splits)

lemma SplitN2_not_Nil [simp]: "SplitN2 c s \<noteq> []"
  by (induction c s rule: SplitN2.induct) (auto split: list.splits)

lemma Split_no_sep: "c \<notin> set s \<Longrightarrow> Split c s = [s]"
  by (induction c s rule: Split.induct) auto

lemma SplitN2_no_sep: "c \<notin> set s \<Longrightarrow> SplitN2 c s = [s]"
  by (induction c s rule: SplitN2.induct) auto

lemma Split_append: "c \<notin> set a \<Longrightarrow> Split c (a @ c # b) = a # Split c b"
  by (induction a) (auto split: list.splits)

lemma SplitN2_append: "c \<notin> set a \<Longrightarrow> SplitN2 c (a @ c # b) = [a, b]"
  by (induction a) (auto split: list.splits)

lemma Split_pieces: "p \<in> set (Split c s) \<Longrightarrow> c \<notin> set p"
  by (induction c s arbitrary: p rule: Split.induct)
    (auto split: list.splits if_splits)

lemma Split_Join: "xs \<noteq> [] \<Longrightarrow> \<forall>x \<in> set xs. c \<notin> set x \<Longrightarrow> Split c (Join c xs) = xs"
  by (induction c xs rule: Join.induct) (auto simp: Split_no_sep Split_append)

lemma Join_Cons: "xs \<noteq> [] \<Longrightarrow> Join c (x # xs) = x @ c # Join c xs"
  by (cases xs) auto

lemma Join_Split: "Join c (Split c s) = s"
proof (induction c s rule: Split.induct)
  case (2 c x xs)
  obtain y ys where s: "Split c xs = y # ys"
    by (cases "Split c xs") auto
  with 2 show ?case
    by (cases ys) (auto simp: Join_Cons)
qed simp

text \<open>A name joined to another by a separator it does not contain determines both.\<close>

lemma sep_inject:
  fixes a :: string
  assumes "c \<notin> set a" "c \<notin> set a'"
  shows "a @ c # b = a' @ c # b' \<longleftrightarrow> a = a' \<and> b = b'"
proof
  assume "a @ c # b = a' @ c # b'"
  then have "SplitN2 c (a @ c # b) = SplitN2 c (a' @ c # b')" by (rule arg_cong)
  then show "a = a' \<and> b = b'"
    using SplitN2_append [OF assms(1)] SplitN2_append [OF assms(2)] by simp
qed simp

section \<open>Suffixes, case and replacement\<close>

definition HasSuffix :: "string \<Rightarrow> string \<Rightarrow> bool" where
  "HasSuffix s suf \<longleftrightarrow> length suf \<le> length s \<and> drop (length s - length suf) s = suf"

definition TrimSuffix :: "string \<Rightarrow> string \<Rightarrow> string" where
  "TrimSuffix s suf = (if HasSuffix s suf then take (length s - length suf) s else s)"

definition upper_char :: "char \<Rightarrow> char" where
  "upper_char c = (let n = (of_char c :: nat) in if 97 \<le> n \<and> n \<le> 122 then char_of (n - 32) else c)"

definition lower_char :: "char \<Rightarrow> char" where
  "lower_char c = (let n = (of_char c :: nat) in if 65 \<le> n \<and> n \<le> 90 then char_of (n + 32) else c)"

definition ToUpper :: "string \<Rightarrow> string" where
  "ToUpper s = map upper_char s"

definition ToLower :: "string \<Rightarrow> string" where
  "ToLower s = map lower_char s"

text \<open>\<open>strings.Replace(s, old, new, -1)\<close> for one-byte strings.\<close>

definition ReplaceAll :: "char \<Rightarrow> char \<Rightarrow> string \<Rightarrow> string" where
  "ReplaceAll old new s = map (\<lambda>c. if c = old then new else c) s"

text \<open>\<open>strings.TrimSpace\<close> of ASCII text.\<close>

definition is_space :: "char \<Rightarrow> bool" where
  "is_space c \<longleftrightarrow> (let n = (of_char c :: nat) in n = 32 \<or> 9 \<le> n \<and> n \<le> 13)"

definition TrimSpace :: "string \<Rightarrow> string" where
  "TrimSpace s = rev (dropWhile is_space (rev (dropWhile is_space s)))"

lemma HasSuffix_append [simp]: "HasSuffix (a @ b) b"
  by (simp add: HasSuffix_def)

lemma HasSuffix_iff: "HasSuffix s suf \<longleftrightarrow> (\<exists>p. s = p @ suf)"
proof
  assume "HasSuffix s suf"
  then have "s = take (length s - length suf) s @ suf"
    unfolding HasSuffix_def by (metis append_take_drop_id)
  then show "\<exists>p. s = p @ suf" by blast
qed auto

lemma TrimSuffix_append [simp]: "TrimSuffix (a @ b) b = a"
  by (simp add: TrimSuffix_def)

text \<open>
  \<open>%q\<close> of a string: quoted, with quotes, backslashes and control characters escaped. Bytes from
  0x80 on are copied, which is what Go does with printable runes.
\<close>

definition hex_digit :: "nat \<Rightarrow> char" where
  "hex_digit n = ''0123456789abcdef'' ! (n mod 16)"

definition quote_char :: "char \<Rightarrow> string" where
  "quote_char c = (let n = (of_char c :: nat); bs = CHR 0x5C in
     if c = CHR 0x22 then [bs, CHR 0x22] else if c = bs then [bs, bs]
     else if n = 7 then [bs, CHR ''a''] else if n = 8 then [bs, CHR ''b'']
     else if n = 12 then [bs, CHR ''f''] else if n = 10 then [bs, CHR ''n'']
     else if n = 13 then [bs, CHR ''r''] else if n = 9 then [bs, CHR ''t'']
     else if n = 11 then [bs, CHR ''v'']
     else if n < 32 \<or> n = 127 then [bs, CHR ''x'', hex_digit (n div 16), hex_digit n]
     else [c])"

definition quoted :: "string \<Rightarrow> string" where
  "quoted s = CHR 0x22 # concat (map quote_char s) @ [CHR 0x22]"

text \<open>\<open>%d\<close> of a natural number.\<close>

fun decimal :: "nat \<Rightarrow> string" where
  "decimal n = (if n < 10 then [char_of (48 + n)] else decimal (n div 10) @ [char_of (48 + n mod 10)])"

declare decimal.simps [simp del]

definition decimal_int :: "int \<Rightarrow> string" where
  "decimal_int i = (if i < 0 then CHR ''-'' # decimal (nat (- i)) else decimal (nat i))"

end
