(* ===== verification/SealedSecretTypes.thy ===== *)
theory SealedSecretTypes
  imports GoStrings "HOL-Library.Multiset"
begin

text \<open>
  The data of the program. First the API objects of Kubernetes that it reads and writes
  (\<open>metav1.ObjectMeta\<close>, \<open>OwnerReference\<close>, \<open>v1.Secret\<close>) with the fields the code touches and
  the ones its deep copies and comparisons carry along; then \<open>pkg/apis/sealedsecrets/v1alpha1/types.go\<close>:
  \<open>SealedSecret\<close>, its spec, template and status, the annotations that steer sealing and unsealing,
  and the order of secrets by creation time. Values are immutable here, so the generated
  \<open>DeepCopy\<close> methods are the identity (\<open>DeepCopyProps\<close> shows it of their code).
\<close>

section \<open>Kubernetes objects\<close>

record TypeMeta =
  tm_APIVersion :: string
  tm_Kind :: string

record OwnerReference =
  or_APIVersion :: string
  or_Kind :: string
  or_Name :: string
  or_UID :: string
  or_Controller :: "bool option"
  or_BlockOwnerDeletion :: "bool option"

record ObjectMeta =
  om_Name :: string
  om_GenerateName :: string
  om_Namespace :: string
  om_SelfLink :: string
  om_UID :: string
  om_ResourceVersion :: string
  om_Generation :: int
  om_CreationTimestamp :: time
  om_DeletionTimestamp :: "time option"
  om_DeletionGracePeriodSeconds :: "int option"
  om_Labels :: "string gomap"
  om_Annotations :: "string gomap"
  om_OwnerReferences :: "OwnerReference list"
  om_Finalizers :: "string list"

record Secret =
  sec_Meta :: ObjectMeta
  sec_Immutable :: "bool option"
  sec_Data :: "bytes gomap"
  sec_StringData :: "string gomap"
  sec_Type :: string

definition emptyObjectMeta :: ObjectMeta where
  "emptyObjectMeta = \<lparr> om_Name = [], om_GenerateName = [], om_Namespace = [], om_SelfLink = [],
     om_UID = [], om_ResourceVersion = [], om_Generation = 0, om_CreationTimestamp = 0,
     om_DeletionTimestamp = None, om_DeletionGracePeriodSeconds = None, om_Labels = None,
     om_Annotations = None, om_OwnerReferences = [], om_Finalizers = [] \<rparr>"

definition emptySecret :: Secret where
  "emptySecret = \<lparr> sec_Meta = emptyObjectMeta, sec_Immutable = None, sec_Data = None,
     sec_StringData = None, sec_Type = [] \<rparr>"

text \<open>\<open>reflect.DeepEqual\<close> of two object metadata: maps are compared as maps.\<close>

definition meta_deep_equal :: "ObjectMeta \<Rightarrow> ObjectMeta \<Rightarrow> bool" where
  "meta_deep_equal a b \<longleftrightarrow>
     a\<lparr>om_Labels := None, om_Annotations := None\<rparr> = b\<lparr>om_Labels := None, om_Annotations := None\<rparr> \<and>
     map_deep_equal (om_Labels a) (om_Labels b) \<and> map_deep_equal (om_Annotations a) (om_Annotations b)"

section \<open>Names and annotations\<close>

definition GroupName :: string where
  "GroupName = ''bitnami.com''"

definition annoNs :: string where
  "annoNs = ''sealedsecrets.'' @ GroupName @ ''/''"

definition SealedSecretClusterWideAnnotation :: string where
  "SealedSecretClusterWideAnnotation = annoNs @ ''cluster-wide''"

definition SealedSecretNamespaceWideAnnotation :: string where
  "SealedSecretNamespaceWideAnnotation = annoNs @ ''namespace-wide''"

definition SealedSecretManagedAnnotation :: string where
  "SealedSecretManagedAnnotation = annoNs @ ''managed''"

definition SealedSecretPatchAnnotation :: string where
  "SealedSecretPatchAnnotation = annoNs @ ''patch''"

definition SealedSecretSkipSetOwnerReferencesAnnotation :: string where
  "SealedSecretSkipSetOwnerReferencesAnnotation = annoNs @ ''skip-set-owner-references''"

lemmas annotation_defs = GroupName_def annoNs_def SealedSecretClusterWideAnnotation_def
  SealedSecretNamespaceWideAnnotation_def SealedSecretManagedAnnotation_def
  SealedSecretPatchAnnotation_def SealedSecretSkipSetOwnerReferencesAnnotation_def

lemma annotations_distinct [simp]:
  "SealedSecretClusterWideAnnotation \<noteq> SealedSecretNamespaceWideAnnotation"
  "SealedSecretNamespaceWideAnnotation \<noteq> SealedSecretClusterWideAnnotation"
  "SealedSecretManagedAnnotation \<noteq> SealedSecretPatchAnnotation"
  by (simp_all add: annotation_defs)

section \<open>Sealed secrets\<close>

record SecretTemplateSpec =
  tmpl_Meta :: ObjectMeta
  tmpl_Type :: string
  tmpl_Immutable :: "bool option"
  tmpl_Data :: "string gomap"

record SealedSecretSpec =
  spec_Template :: SecretTemplateSpec
  spec_Data :: "bytes option"
  spec_EncryptedData :: "string gomap"

datatype ConditionStatus = ConditionTrue | ConditionFalse | ConditionUnknown | ConditionOther string

definition SealedSecretSynced :: string where
  "SealedSecretSynced = ''Synced''"

record SealedSecretCondition =
  cond_Type :: string
  cond_Status :: ConditionStatus
  cond_LastUpdateTime :: time
  cond_LastTransitionTime :: time
  cond_Reason :: string
  cond_Message :: string

record SealedSecretStatus =
  st_ObservedGeneration :: int
  st_Conditions :: "SealedSecretCondition list"

record SealedSecret =
  ss_TypeMeta :: TypeMeta
  ss_Meta :: ObjectMeta
  ss_Spec :: SealedSecretSpec
  ss_Status :: "SealedSecretStatus option"

definition emptyTemplate :: SecretTemplateSpec where
  "emptyTemplate = \<lparr> tmpl_Meta = emptyObjectMeta, tmpl_Type = [], tmpl_Immutable = None, tmpl_Data = None \<rparr>"

definition emptySealedSecret :: SealedSecret where
  "emptySealedSecret = \<lparr> ss_TypeMeta = \<lparr> tm_APIVersion = [], tm_Kind = [] \<rparr>, ss_Meta = emptyObjectMeta,
     ss_Spec = \<lparr> spec_Template = emptyTemplate, spec_Data = None, spec_EncryptedData = None \<rparr>,
     ss_Status = None \<rparr>"

text \<open>
  \<open>SealedSecretEncryptedData.UnmarshalJSON\<close> drops the decoding error and assigns the map it
  filled so far (never nil). The JSON decoder is a parameter: the entries it stored before it
  stopped, and its error.
\<close>

definition UnmarshalEncryptedData ::
  "(bytes \<Rightarrow> (string \<times> string) list \<times> go_error option) \<Rightarrow> bytes \<Rightarrow> string gomap \<times> go_error option" where
  "UnmarshalEncryptedData json data = (case json data of (tmp, _) \<Rightarrow> (Some tmp, None))"

text \<open>\<open>reflect.DeepEqual\<close> of two specs.\<close>

definition spec_deep_equal :: "SealedSecretSpec \<Rightarrow> SealedSecretSpec \<Rightarrow> bool" where
  "spec_deep_equal a b \<longleftrightarrow>
     meta_deep_equal (tmpl_Meta (spec_Template a)) (tmpl_Meta (spec_Template b)) \<and>
     tmpl_Type (spec_Template a) = tmpl_Type (spec_Template b) \<and>
     tmpl_Immutable (spec_Template a) = tmpl_Immutable (spec_Template b) \<and>
     map_deep_equal (tmpl_Data (spec_Template a)) (tmpl_Data (spec_Template b)) \<and>
     spec_Data a = spec_Data b \<and>
     map_deep_equal (spec_EncryptedData a) (spec_EncryptedData b)"

section \<open>Order by creation time\<close>

text \<open>
  \<open>ByCreationTimestamp\<close>: \<open>Len\<close>, \<open>Swap\<close> and \<open>Less\<close>, which compares whole seconds. \<open>Swap\<close> is called by
  \<open>sort\<close> with indices in range only.
\<close>

definition ByCreationTimestamp_Len :: "Secret list \<Rightarrow> nat" where
  "ByCreationTimestamp_Len s = length s"

definition ByCreationTimestamp_Swap :: "Secret list \<Rightarrow> nat \<Rightarrow> nat \<Rightarrow> Secret list" where
  "ByCreationTimestamp_Swap s i j = s[i := s ! j, j := s ! i]"

definition ByCreationTimestamp_Less :: "Secret list \<Rightarrow> nat \<Rightarrow> nat \<Rightarrow> bool" where
  "ByCreationTimestamp_Less s i j \<longleftrightarrow>
     unixSeconds (om_CreationTimestamp (sec_Meta (s ! i))) < unixSeconds (om_CreationTimestamp (sec_Meta (s ! j)))"

text \<open>What \<open>sort.Sort\<close> promises of its result; it is not stable, so equal elements may come in any order.\<close>

definition sorted_by_creation :: "Secret list \<Rightarrow> bool" where
  "sorted_by_creation s \<longleftrightarrow> (\<forall>i < length s. \<forall>j < i. \<not> ByCreationTimestamp_Less s i j)"

lemma ByCreationTimestamp_Swap_mset:
  "i < length s \<Longrightarrow> j < length s \<Longrightarrow> mset (ByCreationTimestamp_Swap s i j) = mset s"
  by (simp add: ByCreationTimestamp_Swap_def mset_swap)

lemma ByCreationTimestamp_Less_asym:
  "ByCreationTimestamp_Less s i j \<Longrightarrow> \<not> ByCreationTimestamp_Less s j i"
  by (simp add: ByCreationTimestamp_Less_def)

lemma meta_deep_equal_refl:
  "map_wf (om_Labels a) \<Longrightarrow> map_wf (om_Annotations a) \<Longrightarrow> meta_deep_equal a a"
  by (auto simp: meta_deep_equal_def map_deep_equal_def entries_equal_refl split: option.splits)

end
