(* ===== verification/External.thy ===== *)
theory External
  imports Crypto SealedSecretTypes
begin

text \<open>
  The functions of packages outside the repository that the program calls on values, as the
  fields of a record, \<open>kube_lib\<close>: API machinery (codecs, owner references, semantic equality),
  the template engine with sprig's functions, error formatting and PEM parsing. Nothing is
  assumed of them here; a lemma that needs a law states it.
\<close>

text \<open>Values of Go's \<open>any\<close> that reach the event handlers and the decoders.\<close>

datatype any_object =
    SealedSecretObj SealedSecret
  | SecretObj Secret
  | DeletedFinalStateUnknown string any_object
  | OtherObj string

datatype private_key = RSAPrivateKey rsa_private_key | OtherPrivateKey string

text \<open>
  Rendering one template: \<open>template.New(key).Funcs(funcs).Parse(value)\<close> may fail; \<open>Execute\<close>
  writes some output and may fail after it.
\<close>

datatype template_result = TemplateParseError go_error | TemplateOutput bytes "go_error option"

record kube_lib =
  \<comment> \<open>\<open>GetObjectKind().GroupVersionKind()\<close>: the group/version as text, and the kind\<close>
  GroupVersionKind :: "TypeMeta \<Rightarrow> string \<times> string"
  IsControlledBy :: "ObjectMeta \<Rightarrow> ObjectMeta \<Rightarrow> bool"
  SemanticDeepEqual :: "Secret \<Rightarrow> Secret \<Rightarrow> bool"
  GenericFuncMap :: "string list"
  RenderTemplate :: "string list \<Rightarrow> string \<Rightarrow> string \<Rightarrow> (string \<times> string) list \<Rightarrow> template_result"
  \<comment> \<open>\<open>multierror.Format(errors.Join(multierror.Uniq(errs)...), InlineFormatter)\<close> of tagged errors\<close>
  FormatErrors :: "(string \<times> go_error) list \<Rightarrow> go_error"
  HasJSONSerializer :: bool
  EncodeSecret :: "Secret \<Rightarrow> go_error + bytes"
  DecodeSecretInto :: "bytes \<Rightarrow> go_error + Secret"
  DecodeObject :: "bytes \<Rightarrow> go_error + any_object"
  MarshalSealedSecret :: "SealedSecret \<Rightarrow> go_error + bytes"
  UnmarshalSealedSecret :: "bytes \<Rightarrow> go_error + SealedSecret"
  \<comment> \<open>\<open>Decode\<close> of a YAML decoder on the rest of its input: its error, and what is left\<close>
  YamlDecode :: "bytes \<Rightarrow> go_error option \<times> bytes"
  ParsePrivateKeyPEM :: "bytes \<Rightarrow> go_error + private_key"
  ParseCertsPEM :: "bytes \<Rightarrow> go_error + Certificate list"
  EncodeCertPEM :: "bytes \<Rightarrow> bytes"
  EncodeKeyPEM :: "rsa_private_key \<Rightarrow> bytes"
  \<comment> \<open>\<open>namespace/name\<close> keys of client-go's caches\<close>
  MetaNamespaceKeyFunc :: "any_object \<Rightarrow> go_error + string"
  DeletionHandlingMetaNamespaceKeyFunc :: "any_object \<Rightarrow> go_error + string"
  SplitMetaNamespaceKey :: "string \<Rightarrow> go_error + string \<times> string"
  \<comment> \<open>the verb \<open>%v\<close>, and \<open>GetObjectKind().GroupVersionKind().String()\<close>\<close>
  FormatValue :: "any_object \<Rightarrow> string"
  KindOf :: "any_object \<Rightarrow> string"

text \<open>
  The sprig functions offered to templates: the package's \<open>init\<close> deletes the ones that would
  let a template read the controller's environment or the network.
\<close>

definition forbiddenFuncs :: "string list" where
  "forbiddenFuncs = [''env'', ''expandenv'', ''getHostByName'']"

definition sprigFuncMap :: "kube_lib \<Rightarrow> string list" where
  "sprigFuncMap L = filter (\<lambda>f. f \<notin> set forbiddenFuncs) (GenericFuncMap L)"

end
