(* ===== verification/KubeAPI.thy ===== *)
theory KubeAPI
  imports External
begin

text \<open>
  The API server as the program sees it through client-go: a record of operations on an abstract
  world \<open>'w\<close>. Every call may change the world and may fail; other clients act between calls, so
  nothing is assumed of what a later call sees unless a theorem says so. \<open>storeAPI\<close> is an instance
  for the witnesses: a single-client store of secrets that numbers the ones with a generated name.
\<close>

record 'w kube_api =
  SecretsGet :: "string \<Rightarrow> string \<Rightarrow> 'w \<Rightarrow> (go_error + Secret) \<times> 'w"
  SecretsList :: "string \<Rightarrow> string \<Rightarrow> 'w \<Rightarrow> (go_error + Secret list) \<times> 'w"
  SecretsCreate :: "string \<Rightarrow> Secret \<Rightarrow> 'w \<Rightarrow> (go_error + Secret) \<times> 'w"
  SecretsUpdate :: "string \<Rightarrow> Secret \<Rightarrow> 'w \<Rightarrow> (go_error + Secret) \<times> 'w"
  SecretsDelete :: "string \<Rightarrow> string \<Rightarrow> 'w \<Rightarrow> go_error option \<times> 'w"
  SealedSecretsGet :: "string \<Rightarrow> string \<Rightarrow> 'w \<Rightarrow> (go_error + SealedSecret) \<times> 'w"
  SealedSecretsUpdateStatus :: "string \<Rightarrow> SealedSecret \<Rightarrow> 'w \<Rightarrow> (go_error + SealedSecret) \<times> 'w"

section \<open>A store for the witnesses\<close>

record store =
  store_secrets :: "((string \<times> string) \<times> Secret) list"
  store_sealed :: "((string \<times> string) \<times> SealedSecret) list"

definition notFound :: go_error where
  "notFound = StatusError 404 ''NotFound'' ''not found''"

definition shown :: "string \<Rightarrow> Secret \<Rightarrow> Secret" where
  "shown n s = s\<lparr>sec_Meta := (sec_Meta s)\<lparr>om_Name := n\<rparr>, sec_StringData := None\<rparr>"

lemma shown_simps [simp]:
  "om_Name (sec_Meta (shown n s)) = n" "sec_StringData (shown n s) = None" "shown n (shown m s) = shown n s"
  by (simp_all add: shown_def)

definition storeAPI :: "store kube_api" where
  "storeAPI =
     \<lparr> SecretsGet = (\<lambda>ns n w. (case map_of (store_secrets w) (ns, n) of None \<Rightarrow> Inl notFound
         | Some s \<Rightarrow> Inr (shown n s), w)),
       SecretsList = (\<lambda>ns sel w. (Inr (map snd (filter (\<lambda>((ns', n), s). ns' = ns) (store_secrets w))), w)),
       SecretsCreate = (\<lambda>ns s w.
         let name = (if om_Name (sec_Meta s) = '''' then om_GenerateName (sec_Meta s) @ decimal (length (store_secrets w))
                     else om_Name (sec_Meta s));
             s = shown name s
         in if map_of (store_secrets w) (ns, name) \<noteq> None
            then (Inl (StatusError 409 ''AlreadyExists'' ''already exists''), w)
            else (Inr s, w\<lparr>store_secrets := AList.update (ns, name) s (store_secrets w)\<rparr>)),
       SecretsUpdate = (\<lambda>ns s w. if map_of (store_secrets w) (ns, om_Name (sec_Meta s)) = None then (Inl notFound, w)
         else (Inr (shown (om_Name (sec_Meta s)) s),
               w\<lparr>store_secrets := AList.update (ns, om_Name (sec_Meta s)) s (store_secrets w)\<rparr>)),
       SecretsDelete = (\<lambda>ns n w. if map_of (store_secrets w) (ns, n) = None then (Some notFound, w)
         else (None, w\<lparr>store_secrets := AList.delete (ns, n) (store_secrets w)\<rparr>)),
       SealedSecretsGet = (\<lambda>ns n w. (case map_of (store_sealed w) (ns, n) of None \<Rightarrow> Inl notFound | Some s \<Rightarrow> Inr s, w)),
       SealedSecretsUpdateStatus = (\<lambda>ns s w. (Inr s,
         w\<lparr>store_sealed := AList.update (ns, om_Name (ss_Meta s)) s (store_sealed w)\<rparr>)) \<rparr>"

definition emptyStore :: store where
  "emptyStore = \<lparr> store_secrets = [], store_sealed = [] \<rparr>"

section \<open>An API server with one writer\<close>

text \<open>
  What the calls do to the secrets of the cluster when nobody else writes between them: \<open>view\<close> are
  the stored secrets by namespace and name. A stored secret shows what was sent, with the API
  server's own defaults (of an empty type) and conversions (of \<open>StringData\<close>, which
  is never shown) left open.
\<close>

definition stored :: "Secret \<Rightarrow> Secret \<Rightarrow> bool" where
  "stored sent s \<longleftrightarrow> sec_StringData s = None \<and> (sec_StringData sent = None \<longrightarrow> map_get (sec_Data s) = map_get (sec_Data sent)) \<and>
     (sec_Type sent \<noteq> '''' \<longrightarrow> sec_Type s = sec_Type sent) \<and>
     map_get (om_Labels (sec_Meta s)) = map_get (om_Labels (sec_Meta sent)) \<and>
     map_get (om_Annotations (sec_Meta s)) = map_get (om_Annotations (sec_Meta sent)) \<and>
     om_OwnerReferences (sec_Meta s) = om_OwnerReferences (sec_Meta sent)"

definition tracks_Get :: "'w kube_api \<Rightarrow> ('w \<Rightarrow> string \<times> string \<Rightarrow> Secret option) \<Rightarrow> bool" where
  "tracks_Get api view \<longleftrightarrow> (\<forall>ns n w r w'. SecretsGet api ns n w = (r, w') \<longrightarrow> view w' = view w \<and>
     (\<forall>s. r = Inr s \<longrightarrow> view w (ns, n) = Some s \<and> om_Name (sec_Meta s) = n \<and> sec_StringData s = None))"

definition tracks_Create :: "'w kube_api \<Rightarrow> ('w \<Rightarrow> string \<times> string \<Rightarrow> Secret option) \<Rightarrow> bool" where
  "tracks_Create api view \<longleftrightarrow> (\<forall>ns sent w s w'. SecretsCreate api ns sent w = (Inr s, w') \<longrightarrow>
     stored sent s \<and> view w' = (view w)((ns, om_Name (sec_Meta s)) \<mapsto> s) \<and>
     (om_Name (sec_Meta sent) \<noteq> '''' \<longrightarrow> om_Name (sec_Meta s) = om_Name (sec_Meta sent)))"

definition tracks_Update :: "'w kube_api \<Rightarrow> ('w \<Rightarrow> string \<times> string \<Rightarrow> Secret option) \<Rightarrow> bool" where
  "tracks_Update api view \<longleftrightarrow> (\<forall>ns sent w s w'. SecretsUpdate api ns sent w = (Inr s, w') \<longrightarrow>
     stored sent s \<and> view w' = (view w)((ns, om_Name (sec_Meta sent)) \<mapsto> s))"

definition tracks_UpdateStatus :: "'w kube_api \<Rightarrow> ('w \<Rightarrow> string \<times> string \<Rightarrow> Secret option) \<Rightarrow> bool" where
  "tracks_UpdateStatus api view \<longleftrightarrow>
     (\<forall>ns s w r w'. SealedSecretsUpdateStatus api ns s w = (r, w') \<longrightarrow> view w' = view w)"

definition tracks_secrets :: "'w kube_api \<Rightarrow> ('w \<Rightarrow> string \<times> string \<Rightarrow> Secret option) \<Rightarrow> bool" where
  "tracks_secrets api view \<longleftrightarrow>
     tracks_Get api view \<and> tracks_Create api view \<and> tracks_Update api view \<and> tracks_UpdateStatus api view"

lemma secrets_Get:
  assumes "tracks_secrets api view" "SecretsGet api ns n w = (r, w')"
  shows "view w' = view w" "r = Inr s \<Longrightarrow> view w (ns, n) = Some s \<and> om_Name (sec_Meta s) = n \<and> sec_StringData s = None"
  using assms unfolding tracks_secrets_def tracks_Get_def by simp_all

lemma secrets_Create:
  assumes "tracks_secrets api view" "SecretsCreate api ns sent w = (Inr s, w')"
  shows "stored sent s" "view w' = (view w)((ns, om_Name (sec_Meta s)) \<mapsto> s)"
    "om_Name (sec_Meta sent) \<noteq> '''' \<Longrightarrow> om_Name (sec_Meta s) = om_Name (sec_Meta sent)"
  using assms unfolding tracks_secrets_def tracks_Create_def by blast+

lemma secrets_Update:
  assumes "tracks_secrets api view" "SecretsUpdate api ns sent w = (Inr s, w')"
  shows "stored sent s" "view w' = (view w)((ns, om_Name (sec_Meta sent)) \<mapsto> s)"
  using assms unfolding tracks_secrets_def tracks_Update_def by blast+

lemma secrets_UpdateStatus:
  "tracks_secrets api view \<Longrightarrow> SealedSecretsUpdateStatus api ns s w = (r, w') \<Longrightarrow> view w' = view w"
  unfolding tracks_secrets_def tracks_UpdateStatus_def by blast

definition storeView :: "store \<Rightarrow> string \<times> string \<Rightarrow> Secret option" where
  "storeView w k = map_option (shown (snd k)) (map_of (store_secrets w) k)"

lemma storeView_update:
  "storeView (w\<lparr>store_secrets := AList.update k s al\<rparr>) =
    (storeView (w\<lparr>store_secrets := al\<rparr>))(k \<mapsto> shown (snd k) s)"
  by (rule ext) (simp add: storeView_def update_conv')

lemma stored_shown: "stored s (shown n s)"
  by (simp add: stored_def shown_def)

lemma store_tracks: "tracks_secrets storeAPI storeView"
proof -
  have "tracks_Get storeAPI storeView"
    by (auto simp: tracks_Get_def storeAPI_def storeView_def split: option.splits)
  moreover have "tracks_Create storeAPI storeView"
    by (auto simp: tracks_Create_def storeAPI_def Let_def stored_shown storeView_update split: if_splits)
  moreover have "tracks_Update storeAPI storeView"
    by (auto simp: tracks_Update_def storeAPI_def stored_shown storeView_update split: if_splits)
  moreover have "tracks_UpdateStatus storeAPI storeView"
    by (auto simp: tracks_UpdateStatus_def storeAPI_def storeView_def fun_eq_iff)
  ultimately show ?thesis by (simp add: tracks_secrets_def)
qed

end
