(* ===== verification/Status.thy ===== *)
theory Status
  imports KubeAPI
begin

text \<open>
  The status of a sealed secret (\<open>convertSealedSecret\<close>, \<open>updateSealedSecretStatus\<close> and
  \<open>updateSealedSecretsStatusConditions\<close> of \<open>controller.go\<close>) and the Prometheus metrics that mirror
  it (\<open>metrics.go\<close>). The objects are pointers into the informer's cache in the code, so every
  function that writes to its argument returns the written object here.
\<close>

section \<open>Objects of the cache\<close>

definition SchemeGroupVersion :: string where
  "SchemeGroupVersion = GroupName @ ''/v1alpha1''"

text \<open>The default of an object that came without its kind.\<close>

definition defaultTypeMeta :: "SealedSecret \<Rightarrow> SealedSecret" where
  "defaultTypeMeta s =
     (if tm_APIVersion (ss_TypeMeta s) = '''' \<or> tm_Kind (ss_TypeMeta s) = ''''
      then s\<lparr>ss_TypeMeta := \<lparr> tm_APIVersion = SchemeGroupVersion, tm_Kind = ''SealedSecret'' \<rparr>\<rparr> else s)"

definition convertSealedSecret :: "kube_lib \<Rightarrow> any_object \<Rightarrow> go_error + SealedSecret" where
  "convertSealedSecret L obj = (case obj of
     SealedSecretObj s \<Rightarrow> Inr (defaultTypeMeta s)
   | _ \<Rightarrow> Inl (ErrCast (''failed to cast '' @ FormatValue L obj @ '' into SealedSecret'')))"

text \<open>What a cached object is after \<open>convertSealedSecret\<close> wrote the default into it.\<close>

definition converted :: "any_object \<Rightarrow> any_object" where
  "converted obj = (case obj of SealedSecretObj s \<Rightarrow> SealedSecretObj (defaultTypeMeta s) | _ \<Rightarrow> obj)"

lemma defaultTypeMeta_simps [simp]:
  "ss_Meta (defaultTypeMeta s) = ss_Meta s" "ss_Spec (defaultTypeMeta s) = ss_Spec s"
  "ss_Status (defaultTypeMeta s) = ss_Status s" "defaultTypeMeta (defaultTypeMeta s) = defaultTypeMeta s"
  by (simp_all add: defaultTypeMeta_def SchemeGroupVersion_def GroupName_def)

section \<open>Conditions\<close>

text \<open>The part after the lookup: the new condition, and whether its status changed.\<close>

definition setSynced :: "time \<Rightarrow> go_error option \<Rightarrow> SealedSecretCondition \<Rightarrow> SealedSecretCondition \<times> bool" where
  "setSynced now unsealError cond =
     (let status = (case unsealError of None \<Rightarrow> ConditionTrue | Some e \<Rightarrow> ConditionFalse);
          message = (case unsealError of None \<Rightarrow> '''' | Some e \<Rightarrow> err_text e);
          cond = cond\<lparr>cond_Message := message\<rparr>;
          cond = cond\<lparr>cond_LastUpdateTime := now\<rparr>
      in if cond_Status cond \<noteq> status
         then (cond\<lparr>cond_LastTransitionTime := cond_LastUpdateTime cond, cond_Status := status\<rparr>, True)
         else (cond, False))"

definition newCondition :: SealedSecretCondition where
  "newCondition = \<lparr> cond_Type = SealedSecretSynced, cond_Status = ConditionOther '''', cond_LastUpdateTime = 0,
     cond_LastTransitionTime = 0, cond_Reason = '''', cond_Message = '''' \<rparr>"

text \<open>The first condition of type Synced is updated in place; without one a new one is appended.\<close>

fun updateConditions ::
  "time \<Rightarrow> go_error option \<Rightarrow> SealedSecretCondition list \<Rightarrow> SealedSecretCondition list \<times> bool" where
  "updateConditions now unsealError [] = (case setSynced now unsealError newCondition of (c, u) \<Rightarrow> ([c], u))"
| "updateConditions now unsealError (c # cs) =
     (if cond_Type c = SealedSecretSynced
      then (case setSynced now unsealError c of (c, u) \<Rightarrow> (c # cs, u))
      else (case updateConditions now unsealError cs of (cs, u) \<Rightarrow> (c # cs, u)))"

definition updateSealedSecretsStatusConditions ::
  "time \<Rightarrow> SealedSecretStatus \<Rightarrow> go_error option \<Rightarrow> SealedSecretStatus \<times> bool" where
  "updateSealedSecretsStatusConditions now st unsealError =
     (case updateConditions now unsealError (st_Conditions st) of (cs, u) \<Rightarrow> (st\<lparr>st_Conditions := cs\<rparr>, u))"

definition updateSealedSecretStatus ::
  "'w kube_api \<Rightarrow> bool \<Rightarrow> time \<Rightarrow> SealedSecret \<Rightarrow> go_error option \<Rightarrow> 'w \<Rightarrow> go_error option \<times> SealedSecret \<times> 'w" where
  "updateSealedSecretStatus api updateStatus now ssecret unsealError w =
     (if \<not> updateStatus then (None, ssecret, w)
      else let st = (case ss_Status ssecret of None \<Rightarrow> \<lparr> st_ObservedGeneration = 0, st_Conditions = [] \<rparr>
                     | Some st \<Rightarrow> st) in
        (case updateSealedSecretsStatusConditions now st unsealError of (st, updatedRequired) \<Rightarrow>
          (let ssecret = ssecret\<lparr>ss_Status := Some st\<rparr> in
           if updatedRequired \<or> st_ObservedGeneration st \<noteq> om_Generation (ss_Meta ssecret)
           then (let ssecret = ssecret\<lparr>ss_Status := Some (st\<lparr>st_ObservedGeneration := om_Generation (ss_Meta ssecret)\<rparr>)\<rparr>
                 in (case SealedSecretsUpdateStatus api (om_Namespace (ss_Meta ssecret)) ssecret w of
                       (Inl e, w) \<Rightarrow> (Some e, ssecret, w)
                     | (Inr _, w) \<Rightarrow> (None, ssecret, w)))
           else (None, ssecret, w))))"

section \<open>Metrics\<close>

type_synonym condition_labels = "string \<times> string \<times> string \<times> string"

record metrics =
  unsealRequestsTotal :: nat
  unsealErrorsTotal :: "string \<times> string \<Rightarrow> nat"
  conditionInfo :: "condition_labels \<Rightarrow> int option"

definition noMetrics :: metrics where
  "noMetrics = \<lparr> unsealRequestsTotal = 0, unsealErrorsTotal = (\<lambda>_. 0), conditionInfo = (\<lambda>_. None) \<rparr>"

text \<open>A status outside the three constants is missing from the map and reads as 0.\<close>

definition conditionStatusToGaugeValue :: "ConditionStatus \<Rightarrow> int" where
  "conditionStatusToGaugeValue st =
     (case st of ConditionFalse \<Rightarrow> -1 | ConditionUnknown \<Rightarrow> 0 | ConditionTrue \<Rightarrow> 1 | ConditionOther _ \<Rightarrow> 0)"

definition instanceLabel :: string where
  "instanceLabel = ''app.kubernetes.io/instance''"

definition conditionLabels :: "SealedSecret \<Rightarrow> SealedSecretCondition \<Rightarrow> condition_labels" where
  "conditionLabels ssecret condition =
     (om_Namespace (ss_Meta ssecret), om_Name (ss_Meta ssecret), cond_Type condition,
      map_read (om_Labels (ss_Meta ssecret)) instanceLabel)"

definition statusConditions :: "SealedSecret \<Rightarrow> SealedSecretCondition list" where
  "statusConditions ssecret = (case ss_Status ssecret of None \<Rightarrow> [] | Some st \<Rightarrow> st_Conditions st)"

definition ObserveCondition :: "SealedSecret \<Rightarrow> metrics \<Rightarrow> metrics" where
  "ObserveCondition ssecret m = fold (\<lambda>condition m. m\<lparr>conditionInfo :=
      (conditionInfo m)(conditionLabels ssecret condition \<mapsto> conditionStatusToGaugeValue (cond_Status condition))\<rparr>)
     (statusConditions ssecret) m"

definition UnregisterCondition :: "SealedSecret \<Rightarrow> metrics \<Rightarrow> metrics" where
  "UnregisterCondition ssecret m = fold (\<lambda>condition m. m\<lparr>conditionInfo :=
      (conditionInfo m)(conditionLabels ssecret condition := None)\<rparr>) (statusConditions ssecret) m"

definition countError :: "string \<Rightarrow> string \<Rightarrow> metrics \<Rightarrow> metrics" where
  "countError reason ns m = m\<lparr>unsealErrorsTotal :=
     (unsealErrorsTotal m)((reason, ns) := unsealErrorsTotal m (reason, ns) + 1)\<rparr>"

definition countRequest :: "metrics \<Rightarrow> metrics" where
  "countRequest m = m\<lparr>unsealRequestsTotal := unsealRequestsTotal m + 1\<rparr>"

end
