(* ===== verification/Samples.thy ===== *)
theory Samples
  imports External
begin

text \<open>
  Concrete instances of the two records of outside functions, small enough to be evaluated in
  the kernel. The witnesses of the properties run the program on them; nothing else uses them.
  \<open>sampleCrypto\<close> is an idealised cipher whose ciphertext names the key and the label in a prefix
  code, so that opening it with another key or label fails; \<open>sampleKube\<close> fixes one reading of the
  API machinery.
\<close>

section \<open>A cipher that binds key and label\<close>

definition unary :: "nat \<Rightarrow> bytes" where
  "unary n = replicate n 1 @ [0]"

definition sealPrefix :: "rsa_public_key \<Rightarrow> bytes \<Rightarrow> bytes" where
  "sealPrefix pub label = unary (rsaN pub) @ unary (rsaE pub) @ unary (length label) @ label"

definition sampleCert :: Certificate where
  "sampleCert = \<lparr> cert_Raw = [], cert_SerialNumber = 7, cert_KeyUsage = 128, cert_NotBefore = 100,
     cert_NotAfter = 150, cert_IssuerCN = ''ca'', cert_SubjectCN = ''ca'', cert_BasicConstraintsValid = True,
     cert_IsCA = True, cert_PublicKey = RSAPublicKey \<lparr> rsaN = 3, rsaE = 1 \<rparr> \<rparr>"

definition sampleCrypto :: crypto_lib where
  "sampleCrypto =
     \<lparr> EncryptOAEP = (\<lambda>rnd pub msg label. (Inr (sealPrefix pub label @ msg), rnd)),
       DecryptOAEP = (\<lambda>priv ct label. let p = sealPrefix (rsaPublicKey priv) label in
         if take (length p) ct = p then Inr (drop (length p) ct)
         else Inl (LibError ''crypto/rsa: decryption error'')),
       GCMSeal = (\<lambda>key nonce pt. key @ nonce @ pt),
       GCMOpen = (\<lambda>key nonce ct. if take (length (key @ nonce)) ct = key @ nonce
         then Inr (drop (length (key @ nonce)) ct) else Inl (LibError ''cipher: message authentication failed'')),
       FingerprintSHA256 = (\<lambda>pub. Inr (''SHA256:'' @ replicate (rsaN pub) CHR ''N'' @ replicate (rsaE pub) CHR ''E'')),
       GenerateKey = (\<lambda>rnd bits. (Inr \<lparr> rsaPublicKey = \<lparr> rsaN = nat bits, rsaE = 1 \<rparr>, rsaD = 1 \<rparr>, rnd)),
       RandInt = (\<lambda>rnd m. (Inr 7, rnd)),
       CreateCertificate = (\<lambda>rnd c key. (if c = sampleCert then Inr [1] else Inl (LibError ''x509''), rnd)),
       ParseCertificate = (\<lambda>b. if b = [1] then Inr (sampleCert\<lparr>cert_Raw := [1]\<rparr>) else Inl (LibError ''x509'')) \<rparr>"

definition sampleKey :: rsa_private_key where
  "sampleKey = \<lparr> rsaPublicKey = \<lparr> rsaN = 3, rsaE = 1 \<rparr>, rsaD = 5 \<rparr>"

definition otherKey :: rsa_private_key where
  "otherKey = \<lparr> rsaPublicKey = \<lparr> rsaN = 2, rsaE = 1 \<rparr>, rsaD = 4 \<rparr>"

definition sampleRing :: "(string \<times> rsa_private_key) list" where
  "sampleRing = [(''other'', otherKey), (''mine'', sampleKey)]"

definition sampleRandom :: bytes where
  "sampleRandom = replicate 96 9"

lemma unary_prefix: "take (length (unary n @ x)) (unary m @ y) = unary n @ x \<Longrightarrow> m = n \<and> take (length x) y = x"
proof (induction n arbitrary: m)
  case 0
  then show ?case by (cases m) (auto simp: unary_def)
next
  case (Suc n)
  then show ?case by (cases m) (auto simp: unary_def)
qed

lemma sealPrefix_prefix:
  assumes "take (length (sealPrefix pub' label')) (sealPrefix pub label @ msg) = sealPrefix pub' label'"
  shows "pub = pub' \<and> label = label'"
proof -
  have N: "rsaN pub = rsaN pub' \<and> take (length (unary (rsaE pub') @ unary (length label') @ label'))
      (unary (rsaE pub) @ unary (length label) @ label @ msg) = unary (rsaE pub') @ unary (length label') @ label'"
    by (rule unary_prefix) (use assms in \<open>simp only: sealPrefix_def append_assoc\<close>)
  have E: "rsaE pub = rsaE pub' \<and> take (length (unary (length label') @ label'))
      (unary (length label) @ label @ msg) = unary (length label') @ label'"
    by (rule unary_prefix) (use N in blast)
  have "length label = length label' \<and> take (length label') (label @ msg) = label'"
    by (rule unary_prefix) (use E in blast)
  with N E show ?thesis by (cases pub; cases pub') auto
qed

lemma sample_DecryptOAEP_other:
  fixes priv :: rsa_private_key
  assumes "pub \<noteq> rsaPublicKey priv \<or> label \<noteq> label'"
  shows "isl (DecryptOAEP sampleCrypto priv (sealPrefix pub label @ msg) label')"
  using assms sealPrefix_prefix [of "rsaPublicKey priv" label' pub label msg]
  by (auto simp: sampleCrypto_def Let_def)

lemma sample_oaep_correct: "oaep_correct sampleCrypto label"
  by (auto simp: oaep_correct_def sampleCrypto_def Let_def)

lemma sample_oaep_key_bound: "oaep_key_bound sampleCrypto label"
  unfolding oaep_key_bound_def
proof (intro allI impI)
  fix rnd pub and priv :: rsa_private_key and msg ct rnd'
  assume "rsaPublicKey priv \<noteq> pub" "EncryptOAEP sampleCrypto rnd pub msg label = (Inr ct, rnd')"
  then show "isl (DecryptOAEP sampleCrypto priv ct label)"
    using sample_DecryptOAEP_other [of pub priv label label msg] by (auto simp: sampleCrypto_def)
qed

lemma sample_oaep_label_bound: "oaep_label_bound sampleCrypto label label'"
  unfolding oaep_label_bound_def
proof (intro allI impI)
  fix rnd pub and priv :: rsa_private_key and msg ct rnd'
  assume "label \<noteq> label'" "EncryptOAEP sampleCrypto rnd pub msg label = (Inr ct, rnd')"
  then show "isl (DecryptOAEP sampleCrypto priv ct label')"
    using sample_DecryptOAEP_other [of pub priv label label' msg] by (auto simp: sampleCrypto_def)
qed

lemma sample_oaep_fits:
  "rsaN pub + rsaE pub + 2 * length label < 65000 \<Longrightarrow> oaep_fits sampleCrypto pub label"
  by (auto simp: oaep_fits_def sampleCrypto_def sealPrefix_def unary_def sessionKeyBytes_def)

lemma sample_gcm_correct: "gcm_correct sampleCrypto"
  by (simp add: gcm_correct_def sampleCrypto_def)

lemma sample_crypto_sound:
  "rsaN pub + rsaE pub + 2 * length label < 65000 \<Longrightarrow> crypto_sound sampleCrypto pub label"
  by (simp add: crypto_sound_def sample_oaep_correct sample_oaep_key_bound sample_oaep_fits sample_gcm_correct)

lemma sample_label_separated:
  "rsaN pub + rsaE pub + 2 * length label < 65000 \<Longrightarrow> label \<noteq> label' \<Longrightarrow>
    label_separated sampleCrypto pub label label'"
  by (simp add: label_separated_def sample_oaep_label_bound sample_oaep_fits)

lemma sample_holds_key: "holds_key sampleRing (rsaPublicKey sampleKey)"
  by (auto simp: holds_key_def sampleRing_def)

lemma sample_HybridEncrypt:
  "32 \<le> length rnd \<Longrightarrow> HybridEncrypt sampleCrypto rnd pub pt label =
    (Inr (frame (sealPrefix pub label @ take 32 rnd) (take 32 rnd @ zeroNonce @ pt)), drop 32 rnd)"
  by (simp add: HybridEncrypt_def ReadFull_def sessionKeyBytes_def aesNewCipher_def sampleCrypto_def
      frame_def Let_def)

section \<open>One reading of the API machinery\<close>

definition sampleKube :: kube_lib where
  "sampleKube =
     \<lparr> GroupVersionKind = (\<lambda>tm. (tm_APIVersion tm, tm_Kind tm)),
       IsControlledBy = (\<lambda>m owner. (case filter (\<lambda>r. or_Controller r = Some True) (om_OwnerReferences m) of
          [] \<Rightarrow> False | r # _ \<Rightarrow> or_UID r = om_UID owner)),
       SemanticDeepEqual = (\<lambda>a b. a = b),
       GenericFuncMap = [''upper'', ''env'', ''expandenv'', ''getHostByName''],
       RenderTemplate = (\<lambda>funcs key text data.
          if text = ''{{ env }}'' then (if ''env'' \<in> set funcs then TemplateOutput [1] None
             else TemplateParseError (LibError ''function env not defined''))
          else TemplateOutput (string_bytes text) None),
       FormatErrors = (\<lambda>errs. Errorf (concat (map (\<lambda>(k, e). k @ '': '' @ err_text e) errs))),
       HasJSONSerializer = True,
       EncodeSecret = (\<lambda>s. Inr []),
       DecodeSecretInto = (\<lambda>b. Inr emptySecret),
       DecodeObject = (\<lambda>b. if b = [1] then Inr (SealedSecretObj emptySealedSecret)
          else if b = [2] then Inr (SecretObj emptySecret) else Inl (LibError ''cannot decode'')),
       MarshalSealedSecret = (\<lambda>s. Inr [1]),
       UnmarshalSealedSecret = (\<lambda>b. Inr emptySealedSecret),
       YamlDecode = (\<lambda>b. case b of [] \<Rightarrow> (Some (LibError ''EOF''), []) | _ # rest \<Rightarrow> (None, rest)),
       ParsePrivateKeyPEM = (\<lambda>b. if b = [1] then Inr (RSAPrivateKey sampleKey)
          else if b = [2] then Inr (OtherPrivateKey ''ecdsa'') else Inl (LibError ''no PEM'')),
       ParseCertsPEM = (\<lambda>b. if b = [1] then Inr [sampleCert] else Inl (LibError ''no PEM'')),
       EncodeCertPEM = (\<lambda>b. b),
       EncodeKeyPEM = (\<lambda>k. [1]),
       MetaNamespaceKeyFunc = (\<lambda>obj. case obj of
            SealedSecretObj s \<Rightarrow> Inr (om_Namespace (ss_Meta s) @ ''/'' @ om_Name (ss_Meta s))
          | SecretObj s \<Rightarrow> Inr (om_Namespace (sec_Meta s) @ ''/'' @ om_Name (sec_Meta s))
          | _ \<Rightarrow> Inl (LibError ''object has no meta'')),
       DeletionHandlingMetaNamespaceKeyFunc = (\<lambda>obj. case obj of
            SealedSecretObj s \<Rightarrow> Inr (om_Namespace (ss_Meta s) @ ''/'' @ om_Name (ss_Meta s))
          | SecretObj s \<Rightarrow> Inr (om_Namespace (sec_Meta s) @ ''/'' @ om_Name (sec_Meta s))
          | DeletedFinalStateUnknown key _ \<Rightarrow> Inr key
          | OtherObj _ \<Rightarrow> Inl (LibError ''object has no meta'')),
       SplitMetaNamespaceKey = (\<lambda>key. case Split (CHR ''/'') key of
            [n] \<Rightarrow> Inr ('''', n) | [ns, n] \<Rightarrow> Inr (ns, n) | _ \<Rightarrow> Inl (LibError ''unexpected key format'')),
       FormatValue = (\<lambda>obj. ''object''),
       KindOf = (\<lambda>obj. ''v1, Kind=Secret'') \<rparr>"

text \<open>A secret to seal, with a binary and a string value.\<close>

definition sampleSecret :: Secret where
  "sampleSecret = emptySecret
     \<lparr> sec_Meta := emptyObjectMeta\<lparr>om_Name := ''db'', om_Namespace := ''prod''\<rparr>,
       sec_Data := Some [(''user'', [1, 2])], sec_StringData := Some [(''pass'', ''x'')], sec_Type := ''Opaque'' \<rparr>"

end
