(* ===== verification/StatusProps.thy ===== *)
theory StatusProps
  imports Status Samples
begin

text \<open>
  What the status and the metrics of a sealed secret tell: the outcome of the last attempt, with a
  transition time that moves only when the outcome changes, and one gauge per condition.
\<close>

section \<open>The Synced condition\<close>

definition synced :: "SealedSecretCondition list \<Rightarrow> SealedSecretCondition option" where
  "synced cs = find (\<lambda>c. cond_Type c = SealedSecretSynced) cs"

definition outcomeStatus :: "go_error option \<Rightarrow> ConditionStatus" where
  "outcomeStatus err = (if err = None then ConditionTrue else ConditionFalse)"

definition outcomeMessage :: "go_error option \<Rightarrow> string" where
  "outcomeMessage err = (case err of None \<Rightarrow> '''' | Some e \<Rightarrow> err_text e)"

lemma setSynced_fields:
  assumes "setSynced now err c = (c', u)"
  shows "cond_Type c' = cond_Type c" "cond_Status c' = outcomeStatus err" "cond_Message c' = outcomeMessage err"
    "cond_LastUpdateTime c' = now" "u \<longleftrightarrow> cond_Status c \<noteq> outcomeStatus err"
    "cond_LastTransitionTime c' = (if u then now else cond_LastTransitionTime c)"
    "cond_Reason c' = cond_Reason c"
  using assms
  by (auto simp: setSynced_def Let_def outcomeStatus_def outcomeMessage_def split: if_splits option.splits)

lemma newCondition_fields [simp]:
  "cond_Type newCondition = SealedSecretSynced" "cond_Status newCondition \<noteq> outcomeStatus err"
  by (simp_all add: newCondition_def outcomeStatus_def)

lemma updateConditions_synced:
  "updateConditions now err cs = (cs', u) \<Longrightarrow>
    (\<exists>c'. synced cs' = Some c' \<and>
       setSynced now err (case synced cs of None \<Rightarrow> newCondition | Some c \<Rightarrow> c) = (c', u))"
proof (induction cs arbitrary: cs')
  case Nil
  then show ?case
    by (auto simp: synced_def dest: setSynced_fields(1) split: prod.splits)
next
  case (Cons c cs)
  show ?case
  proof (cases "cond_Type c = SealedSecretSynced")
    case True
    with Cons.prems show ?thesis
      by (auto simp: synced_def dest: setSynced_fields(1) split: prod.splits)
  next
    case False
    then obtain cs1 where "updateConditions now err cs = (cs1, u)" "cs' = c # cs1"
      using Cons.prems by (auto split: prod.splits)
    with Cons.IH False show ?thesis by (simp add: synced_def)
  qed
qed

lemma updateConditions_others:
  "updateConditions now err cs = (cs', u) \<Longrightarrow>
    filter (\<lambda>c. cond_Type c \<noteq> SealedSecretSynced) cs' = filter (\<lambda>c. cond_Type c \<noteq> SealedSecretSynced) cs"
  by (induction cs arbitrary: cs') (auto dest: setSynced_fields(1) split: prod.splits if_splits)

text \<open>
  After a status update the Synced condition says whether the last attempt succeeded and why not,
  at the current time; an update of the API object is called for exactly when the outcome changed
  (or there was no such condition yet), and only then does the transition time move; conditions of
  other types stay as they are.
\<close>

theorem status_reports_outcome:
  assumes "updateSealedSecretsStatusConditions now st err = (st', required)"
  shows "(\<exists>c. synced (st_Conditions st') = Some c \<and> cond_Status c = outcomeStatus err
      \<and> cond_Message c = outcomeMessage err \<and> cond_LastUpdateTime c = now
      \<and> (required \<longleftrightarrow> map_option cond_Status (synced (st_Conditions st)) \<noteq> Some (outcomeStatus err))
      \<and> (cond_LastTransitionTime c = (if required then now
            else (case synced (st_Conditions st) of None \<Rightarrow> 0 | Some c0 \<Rightarrow> cond_LastTransitionTime c0))))
    \<and> filter (\<lambda>c. cond_Type c \<noteq> SealedSecretSynced) (st_Conditions st') =
      filter (\<lambda>c. cond_Type c \<noteq> SealedSecretSynced) (st_Conditions st)
    \<and> st_ObservedGeneration st' = st_ObservedGeneration st"
proof -
  obtain cs' where cs': "updateConditions now err (st_Conditions st) = (cs', required)" "st' = st\<lparr>st_Conditions := cs'\<rparr>"
    using assms by (auto simp: updateSealedSecretsStatusConditions_def split: prod.splits)
  then obtain c where c: "synced cs' = Some c"
    and set: "setSynced now err (case synced (st_Conditions st) of None \<Rightarrow> newCondition | Some c \<Rightarrow> c) = (c, required)"
    using updateConditions_synced by blast
  note f = setSynced_fields [OF set]
  show ?thesis
    using c cs'(2) f updateConditions_others [OF cs'(1)] by (auto split: option.splits)
qed

theorem status_reports_outcome_witness:
  "\<exists>c. synced (st_Conditions (fst (updateSealedSecretsStatusConditions 7
        \<lparr> st_ObservedGeneration = 3, st_Conditions = [] \<rparr> (Some ErrTooShort)))) = Some c
    \<and> cond_Status c = ConditionFalse \<and> cond_Message c = ''SealedSecret data is too short''"
  using status_reports_outcome [OF surjective_pairing,
      of 7 "\<lparr> st_ObservedGeneration = 3, st_Conditions = [] \<rparr>" "Some ErrTooShort"]
  by (auto simp: outcomeStatus_def outcomeMessage_def)

section \<open>Status and gauges\<close>

lemma updateSealedSecretStatus_synced:
  assumes "updateSealedSecretStatus api True now ssecret err w = (r, ssecret', w')"
  shows "\<exists>st c. ss_Status ssecret' = Some st \<and> synced (st_Conditions st) = Some c
    \<and> cond_Status c = outcomeStatus err \<and> cond_Message c = outcomeMessage err" "ss_Spec ssecret' = ss_Spec ssecret"
    "ss_Meta ssecret' = ss_Meta ssecret"
proof -
  define st0 where "st0 = (case ss_Status ssecret of None \<Rightarrow> \<lparr> st_ObservedGeneration = 0, st_Conditions = [] \<rparr>
                     | Some st \<Rightarrow> st)"
  obtain cs req where cs: "updateConditions now err (st_Conditions st0) = (cs, req)"
    by (metis surj_pair)
  obtain c where c: "synced cs = Some c" "cond_Status c = outcomeStatus err" "cond_Message c = outcomeMessage err"
    using updateConditions_synced [OF cs] setSynced_fields by blast
  show "\<exists>st c. ss_Status ssecret' = Some st \<and> synced (st_Conditions st) = Some c
    \<and> cond_Status c = outcomeStatus err \<and> cond_Message c = outcomeMessage err" "ss_Spec ssecret' = ss_Spec ssecret"
    "ss_Meta ssecret' = ss_Meta ssecret"
    using assms cs c
    by (auto simp: updateSealedSecretStatus_def updateSealedSecretsStatusConditions_def Let_def
        simp flip: st0_def split: prod.splits sum.splits if_splits)
qed

text \<open>
  With status updates turned on, whatever the API server answers, the object in memory ends up
  reporting the outcome; the API is called when the outcome changed or a new generation was seen,
  and then the reported generation is the object's. Turned off, nothing is touched.
\<close>

theorem updateSealedSecretStatus_object:
  "updateSealedSecretStatus api updateStatus now ssecret err w = (r, ssecret', w') \<Longrightarrow>
    (if updateStatus
     then \<exists>st c. ss_Status ssecret' = Some st \<and> synced (st_Conditions st) = Some c
       \<and> cond_Status c = outcomeStatus err \<and> cond_Message c = outcomeMessage err
       \<and> st_ObservedGeneration st = om_Generation (ss_Meta ssecret)
       \<and> ss_Spec ssecret' = ss_Spec ssecret \<and> ss_Meta ssecret' = ss_Meta ssecret
     else ssecret' = ssecret \<and> w' = w \<and> r = None)"
proof -
  assume u: "updateSealedSecretStatus api updateStatus now ssecret err w = (r, ssecret', w')"
  define st0 where "st0 = (case ss_Status ssecret of None \<Rightarrow> \<lparr> st_ObservedGeneration = 0, st_Conditions = [] \<rparr>
                     | Some st \<Rightarrow> st)"
  obtain cs req where cs: "updateConditions now err (st_Conditions st0) = (cs, req)"
    by (metis surj_pair)
  obtain c where c: "synced cs = Some c" "cond_Status c = outcomeStatus err" "cond_Message c = outcomeMessage err"
    using updateConditions_synced [OF cs] setSynced_fields by blast
  show ?thesis
    using u cs c
    by (auto simp: updateSealedSecretStatus_def updateSealedSecretsStatusConditions_def Let_def
        simp flip: st0_def split: prod.splits sum.splits if_splits)
qed

theorem updateSealedSecretStatus_object_witness:
  "\<exists>st c. ss_Status (fst (snd (updateSealedSecretStatus storeAPI True 5 emptySealedSecret None emptyStore))) = Some st
    \<and> synced (st_Conditions st) = Some c \<and> cond_Status c = ConditionTrue"
  using updateSealedSecretStatus_object [of storeAPI True 5 emptySealedSecret None emptyStore
      "fst (updateSealedSecretStatus storeAPI True 5 emptySealedSecret None emptyStore)"
      "fst (snd (updateSealedSecretStatus storeAPI True 5 emptySealedSecret None emptyStore))"
      "snd (snd (updateSealedSecretStatus storeAPI True 5 emptySealedSecret None emptyStore))"]
  by (auto simp: outcomeStatus_def)

lemma fold_gauge_fresh:
  "\<forall>c \<in> set cs. lab c \<noteq> k \<Longrightarrow>
    conditionInfo (fold (\<lambda>c m. m\<lparr>conditionInfo := (conditionInfo m)(lab c := v c)\<rparr>) cs m) k = conditionInfo m k"
  by (induction cs arbitrary: m) auto

lemma fold_gauge_const:
  "conditionInfo (fold (\<lambda>c m. m\<lparr>conditionInfo := (conditionInfo m)(lab c := v)\<rparr>) cs m) k =
    (if \<exists>c \<in> set cs. lab c = k then v else conditionInfo m k)"
  by (induction cs arbitrary: m) auto

lemma fold_gauge_distinct:
  "distinct (map lab cs) \<Longrightarrow> c \<in> set cs \<Longrightarrow>
    conditionInfo (fold (\<lambda>c m. m\<lparr>conditionInfo := (conditionInfo m)(lab c := v c)\<rparr>) cs m) (lab c) = v c"
proof (induction cs arbitrary: m)
  case (Cons a cs)
  show ?case
  proof (cases "c = a \<and> c \<notin> set cs")
    case True
    then have "\<forall>d \<in> set cs. lab d \<noteq> lab c"
      using Cons.prems(1) by auto (metis imageI)
    from fold_gauge_fresh [OF this, of v "m\<lparr>conditionInfo := (conditionInfo m)(lab a := v a)\<rparr>"]
    show ?thesis using conjunct1 [OF True] by (simp only: fold_simps) simp
  next
    case False
    with Cons show ?thesis by auto
  qed
qed simp

text \<open>
  The gauge of every condition shows 1, 0 or -1 as the condition is true, unknown or false
  (given one condition per type, as the API's merge key has it), and unregistering the sealed
  secret removes exactly the gauges of its conditions: observing and unregistering leaves no
  series behind that was not there before.
\<close>

theorem gauges_follow_conditions:
  assumes "distinct (map cond_Type (statusConditions s))"
  shows "(\<forall>c \<in> set (statusConditions s). conditionInfo (ObserveCondition s m) (conditionLabels s c)
        = Some (conditionStatusToGaugeValue (cond_Status c)))
    \<and> (\<forall>c \<in> set (statusConditions s). conditionInfo (UnregisterCondition s (ObserveCondition s m)) (conditionLabels s c) = None)
    \<and> (\<forall>k. k \<notin> conditionLabels s ` set (statusConditions s) \<longrightarrow>
        conditionInfo (UnregisterCondition s (ObserveCondition s m)) k = conditionInfo m k)"
proof -
  have "distinct (map (conditionLabels s) (statusConditions s))"
    using assms by (auto simp: distinct_map conditionLabels_def inj_on_def)
  note one = fold_gauge_distinct [OF this]
  show ?thesis
    by (auto simp: ObserveCondition_def UnregisterCondition_def fold_gauge_const fold_gauge_fresh image_iff
        intro!: one)
qed

theorem gauges_follow_conditions_witness:
  "conditionInfo (ObserveCondition (emptySealedSecret\<lparr>ss_Status := Some
      \<lparr> st_ObservedGeneration = 1, st_Conditions = [newCondition\<lparr>cond_Status := ConditionFalse\<rparr>] \<rparr>\<rparr>) noMetrics)
     ('''', '''', SealedSecretSynced, '''') = Some (- 1)"
  using gauges_follow_conditions [of "emptySealedSecret\<lparr>ss_Status := Some
      \<lparr> st_ObservedGeneration = 1, st_Conditions = [newCondition\<lparr>cond_Status := ConditionFalse\<rparr>] \<rparr>\<rparr>" noMetrics]
  by (simp add: statusConditions_def conditionLabels_def emptySealedSecret_def emptyObjectMeta_def newCondition_def
      map_read_def map_get_def conditionStatusToGaugeValue_def)

end
