(* ===== verification/Funcs.thy ===== *)
theory Funcs
  imports GoStrings
begin

text \<open>
  \<open>pkg/controller/funcs.go\<close>: the validation of the key prefix, the removal of duplicates and the
  scheduling of a job by a timer and a manual trigger. The two goroutines of
  \<open>ScheduleJobWithTrigger\<close> and the callers of the trigger are a step relation over their
  program counters, a clock and the callers blocked on the unbuffered channel.
\<close>

section \<open>Key prefixes\<close>

definition kubeChars :: string where
  "kubeChars = ''abcdefghijklmnopqrstuvwxyz0123456789-''"

definition maxNameLength :: nat where
  "maxNameLength = 245"

text \<open>
  The loop visits runes; a rune outside ASCII is never in \<open>kubeChars\<close>, so its first byte is where
  the model stops too (the message then shows that byte instead of the rune).
\<close>

fun checkPrefixChars :: "string \<Rightarrow> string \<Rightarrow> go_error + string" where
  "checkPrefixChars name [] = Inr name"
| "checkPrefixChars name (char # rest) =
     (if char \<notin> set kubeChars then Inl (Errorf (''name contains illegal character '' @ [char]))
      else checkPrefixChars name rest)"

definition validateKeyPrefix :: "string \<Rightarrow> go_error + string" where
  "validateKeyPrefix name =
     (if length name > maxNameLength
      then Inl (Errorf (''name is too long, must be shorter than '' @ decimal maxNameLength @ '', got ''
             @ decimal (length name)))
      else checkPrefixChars name name)"

definition initKeyPrefix :: "string \<Rightarrow> go_error + string" where
  "initKeyPrefix keyPrefix = validateKeyPrefix keyPrefix"

lemma checkPrefixChars_Inr:
  "checkPrefixChars name s = Inr n \<longleftrightarrow> n = name \<and> set s \<subseteq> set kubeChars"
  by (induction s) auto

text \<open>
  \<open>validateKeyPrefix\<close> accepts exactly the names of at most 245 characters from the alphabet of
  resource names, and returns them unchanged (the message of the rejection says "shorter than 245").
\<close>

theorem validateKeyPrefix_iff:
  "validateKeyPrefix name = Inr n \<longleftrightarrow> n = name \<and> length name \<le> 245 \<and> set name \<subseteq> set kubeChars"
  by (auto simp: validateKeyPrefix_def maxNameLength_def checkPrefixChars_Inr)

section \<open>Removing duplicates\<close>

text \<open>The loop: the map of the items seen, and the list built so far.\<close>

fun removeDuplicatesLoop :: "string list \<Rightarrow> string list \<Rightarrow> string list \<Rightarrow> string list" where
  "removeDuplicatesLoop allKeys acc [] = acc"
| "removeDuplicatesLoop allKeys acc (item # rest) =
     (if item \<notin> set allKeys then removeDuplicatesLoop (item # allKeys) (acc @ [item]) rest
      else removeDuplicatesLoop allKeys acc rest)"

definition removeDuplicates :: "string list \<Rightarrow> string list" where
  "removeDuplicates strSlice = removeDuplicatesLoop [] [] strSlice"

lemma removeDuplicatesLoop_spec:
  assumes "set allKeys = set acc" "distinct acc"
  shows "set (removeDuplicatesLoop allKeys acc xs) = set acc \<union> set xs
    \<and> distinct (removeDuplicatesLoop allKeys acc xs)"
  using assms by (induction allKeys acc xs rule: removeDuplicatesLoop.induct) auto

lemma removeDuplicatesLoop_prefix:
  "\<exists>ys. removeDuplicatesLoop allKeys acc xs = acc @ ys"
  by (induction allKeys acc xs rule: removeDuplicatesLoop.induct) auto

lemma removeDuplicatesLoop_rev:
  "set allKeys = set acc \<Longrightarrow>
    removeDuplicatesLoop allKeys acc xs = acc @ rev (remdups (rev (filter (\<lambda>x. x \<notin> set acc) xs)))"
proof (induction allKeys acc xs rule: removeDuplicatesLoop.induct)
  case (2 allKeys acc item rest)
  have last: "rev (remdups (ys @ [x])) = x # rev (remdups (filter (\<lambda>y. y \<noteq> x) ys))" for x and ys :: "string list"
    by (induction ys) auto
  show ?case
  proof (cases "item \<in> set allKeys")
    case True
    with 2 show ?thesis by simp
  next
    case False
    have "filter (\<lambda>y. y \<noteq> item) (rev (filter (\<lambda>x. x \<notin> set acc) rest))
        = rev (filter (\<lambda>x. x \<notin> set (acc @ [item])) rest)"
      by (simp add: rev_filter filter_filter conj_commute)
    with 2 False show ?thesis by (simp add: last)
  qed
qed simp

text \<open>
  \<open>removeDuplicates\<close> keeps the first occurrence of every item, in the order of the input: it is
  the library's \<open>remdups\<close> (which keeps the last ones) on the reversed list, reversed again.
\<close>

theorem removeDuplicates_first_occurrences:
  "removeDuplicates xs = rev (remdups (rev xs))"
  by (simp add: removeDuplicates_def removeDuplicatesLoop_rev)

lemma set_removeDuplicates [simp]: "set (removeDuplicates xs) = set xs"
  using removeDuplicatesLoop_spec [of "[]" "[]" xs] by (simp add: removeDuplicates_def)

lemma distinct_removeDuplicates [simp]: "distinct (removeDuplicates xs)"
  using removeDuplicatesLoop_spec [of "[]" "[]" xs] by (simp add: removeDuplicates_def)

end
