(* ===== verification/KeyRegistry.thy ===== *)
theory KeyRegistry
  imports KubeAPI Funcs
begin

text \<open>
  The sealing keys of the controller: \<open>keyregistry.go\<close> (the registry), \<open>keys.go\<close> (reading a key from
  a secret and writing one) and the part of \<open>main.go\<close> that fills the registry at startup and
  decides when to renew the key. The registry is a pointer in the code; here the operations take
  it and return it. Its API client is the argument \<open>api\<close> together with the world.
\<close>

section \<open>State\<close>

record Key =
  key_private :: rsa_private_key
  key_cert :: Certificate
  key_fingerprint :: string
  key_orderingTime :: time

record KeyRegistry =
  kr_namespace :: string
  kr_keyPrefix :: string
  kr_keyLabel :: string
  kr_keysize :: int
  kr_keys :: "(string \<times> Key) list"
  kr_mostRecentKey :: "Key option"

definition SealedSecretsKeyLabel :: string where
  "SealedSecretsKeyLabel = ''sealedsecrets.bitnami.com/sealed-secrets-key''"

definition keySelector :: string where
  "keySelector = SealedSecretsKeyLabel @ ''=active''"

definition NewKeyRegistry :: "string \<Rightarrow> string \<Rightarrow> string \<Rightarrow> int \<Rightarrow> KeyRegistry" where
  "NewKeyRegistry namespace keyPrefix keyLabel keysize =
     \<lparr> kr_namespace = namespace, kr_keyPrefix = keyPrefix, kr_keyLabel = keyLabel, kr_keysize = keysize,
       kr_keys = [], kr_mostRecentKey = None \<rparr>"

section \<open>Registering and reading keys\<close>

definition registerNewKey ::
  "crypto_lib \<Rightarrow> KeyRegistry \<Rightarrow> rsa_private_key \<Rightarrow> Certificate \<Rightarrow> time \<Rightarrow> go_error option \<times> KeyRegistry" where
  "registerNewKey C kr privKey cert orderingTime =
     (case PublicKeyFingerprint C (rsaPublicKey privKey) of
        Inl e \<Rightarrow> (Some e, kr)
      | Inr fingerprint \<Rightarrow>
          (let k = \<lparr> key_private = privKey, key_cert = cert, key_fingerprint = fingerprint,
                     key_orderingTime = orderingTime \<rparr>;
               kr = kr\<lparr>kr_keys := AList.update fingerprint k (kr_keys kr)\<rparr>;
               newer = (case kr_mostRecentKey kr of None \<Rightarrow> True
                        | Some m \<Rightarrow> key_orderingTime m < orderingTime)
           in (None, if newer then kr\<lparr>kr_mostRecentKey := Some k\<rparr> else kr)))"

definition latestPrivateKey :: "KeyRegistry \<Rightarrow> rsa_private_key outcome" where
  "latestPrivateKey kr = (case kr_mostRecentKey kr of None \<Rightarrow> Panic NilDereference
     | Some k \<Rightarrow> Ret (key_private k))"

definition getCert :: "KeyRegistry \<Rightarrow> go_error + Certificate" where
  "getCert kr = (case kr_mostRecentKey kr of None \<Rightarrow> Inl (Errorf ''key registry has no keys'')
     | Some k \<Rightarrow> Inr (key_cert k))"

text \<open>The map of private keys that \<open>attemptUnseal\<close> builds for the decryption.\<close>

definition privateKeys :: "KeyRegistry \<Rightarrow> (string \<times> rsa_private_key) list" where
  "privateKeys kr = map (\<lambda>(k, v). (k, key_private v)) (kr_keys kr)"

definition TLSPrivateKeyKey :: string where "TLSPrivateKeyKey = ''tls.key''"
definition TLSCertKey :: string where "TLSCertKey = ''tls.crt''"

definition readKey :: "kube_lib \<Rightarrow> Secret \<Rightarrow> go_error + rsa_private_key \<times> Certificate list" where
  "readKey L secret =
     (case ParsePrivateKeyPEM L (map_read (sec_Data secret) TLSPrivateKeyKey) of
        Inl e \<Rightarrow> Inl e
      | Inr key \<Rightarrow>
          (case key of
             RSAPrivateKey rsaKey \<Rightarrow>
               (case ParseCertsPEM L (map_read (sec_Data secret) TLSCertKey) of
                  Inl e \<Rightarrow> Inl e
                | Inr certs \<Rightarrow> Inr (rsaKey, certs))
           | OtherPrivateKey _ \<Rightarrow> Inl ErrPrivateKeyNotRSA))"

definition getKeyOrderPriority :: "string \<Rightarrow> Certificate \<Rightarrow> Secret \<Rightarrow> time" where
  "getKeyOrderPriority keyOrderPriority cert secret =
     (if keyOrderPriority = ''CertNotBefore'' then cert_NotBefore cert
      else if keyOrderPriority = ''SecretCreationTimestamp'' then om_CreationTimestamp (sec_Meta secret)
      else cert_NotBefore cert)"

text \<open>
  \<open>registryNewKeyWithSecret\<close> logs an error of \<open>readKey\<close> and goes on with what it returned: a nil
  key and no certificates, so that \<open>certs[0]\<close> panics.
\<close>

definition registryNewKeyWithSecret ::
  "crypto_lib \<Rightarrow> kube_lib \<Rightarrow> Secret \<Rightarrow> string \<Rightarrow> KeyRegistry \<Rightarrow> (go_error option \<times> KeyRegistry) outcome" where
  "registryNewKeyWithSecret C L secret keyOrderPriority kr =
     (case readKey L secret of
        Inl _ \<Rightarrow> Panic IndexOutOfRange
      | Inr (key, certs) \<Rightarrow>
          (case certs of
             [] \<Rightarrow> Panic IndexOutOfRange
           | cert # _ \<Rightarrow> Ret (registerNewKey C kr key cert (getKeyOrderPriority keyOrderPriority cert secret))))"

section \<open>Writing a key\<close>

text \<open>One \<open>key=value\<close> item of the flags: the parts before and after the first equals sign, as far
  as the next one; an item without an equals sign has no second part and the index panics.\<close>

definition pairOf :: "string \<Rightarrow> (string \<times> string) outcome" where
  "pairOf label = (case Split (CHR ''='') label of
     key # value # _ \<Rightarrow> Ret (key, value)
   | _ \<Rightarrow> Panic IndexOutOfRange)"

fun addPairs :: "(string \<Rightarrow> bool) \<Rightarrow> string list \<Rightarrow> (string \<times> string) list \<Rightarrow> (string \<times> string) list outcome" where
  "addPairs allowed [] m = Ret m"
| "addPairs allowed (label # rest) m =
     obind (pairOf label) (\<lambda>(key, value).
       addPairs allowed rest (if allowed key then AList.update key value m else m))"

definition flagItems :: "string \<Rightarrow> string list" where
  "flagItems s = (if s = '''' then [] else removeDuplicates (Split (CHR '','') s))"

definition writeKey ::
  "kube_lib \<Rightarrow> 'w kube_api \<Rightarrow> rsa_private_key \<Rightarrow> Certificate list \<Rightarrow> string \<Rightarrow> string \<Rightarrow> string \<Rightarrow> string
    \<Rightarrow> string \<Rightarrow> time \<Rightarrow> 'w \<Rightarrow> ((go_error + string) \<times> 'w) outcome" where
  "writeKey L api key certs namespace krLabel prefix additionalAnnotations additionalLabels creationTime w =
     (let certbytes = concat (map (\<lambda>cert. EncodeCertPEM L (cert_Raw cert)) certs) in
      obind (addPairs (\<lambda>key. key \<noteq> krLabel) (flagItems additionalLabels) [(krLabel, ''active'')]) (\<lambda>labels.
      obind (addPairs (\<lambda>key. True) (flagItems additionalAnnotations) []) (\<lambda>annotations.
        let secret = \<lparr> sec_Meta = emptyObjectMeta
                         \<lparr> om_Namespace := namespace, om_GenerateName := prefix, om_Labels := Some labels,
                           om_Annotations := Some annotations, om_CreationTimestamp := creationTime \<rparr>,
                       sec_Immutable = None,
                       sec_Data = Some [(TLSPrivateKeyKey, EncodeKeyPEM L key), (TLSCertKey, certbytes)],
                       sec_StringData = None, sec_Type = ''kubernetes.io/tls'' \<rparr>
        in Ret (case SecretsCreate api namespace secret w of
                  (Inl e, w) \<Rightarrow> (Inl e, w)
                | (Inr createdSecret, w) \<Rightarrow> (Inr (om_Name (sec_Meta createdSecret)), w)))))"

text \<open>
  \<open>generateKey\<close>: the new key is registered only after the API server took it. \<open>certNow\<close> and \<open>regNow\<close>
  are the two readings of the clock (in \<open>SignKey\<close> and here).
\<close>

definition generateKey ::
  "crypto_lib \<Rightarrow> kube_lib \<Rightarrow> 'w kube_api \<Rightarrow> time \<Rightarrow> time \<Rightarrow> duration \<Rightarrow> string \<Rightarrow> string \<Rightarrow> string
    \<Rightarrow> KeyRegistry \<Rightarrow> bytes \<Rightarrow> 'w \<Rightarrow> ((go_error + string) \<times> KeyRegistry \<times> bytes \<times> 'w) outcome" where
  "generateKey C L api certNow regNow validFor cn privateKeyAnnotations privateKeyLabels kr rnd w =
     (case GeneratePrivateKeyAndCert C certNow rnd (kr_keysize kr) validFor cn of
        (Inl e, rnd) \<Rightarrow> Ret (Inl e, kr, rnd, w)
      | (Inr (key, cert), rnd) \<Rightarrow>
          obind (writeKey L api key [cert] (kr_namespace kr) (kr_keyLabel kr) (kr_keyPrefix kr)
                   privateKeyAnnotations privateKeyLabels 0 w)
            (\<lambda>(result, w). Ret (case result of
               Inl e \<Rightarrow> (Inl e, kr, rnd, w)
             | Inr generatedName \<Rightarrow>
                 (case registerNewKey C kr key cert regNow of
                    (Some e, kr) \<Rightarrow> (Inl e, kr, rnd, w)
                  | (None, kr) \<Rightarrow> (Inr generatedName, kr, rnd, w)))))"

section \<open>Startup\<close>

text \<open>
  \<open>initKeyRegistry\<close> registers the labelled secrets and the legacy one (named like the prefix), oldest
  first. \<open>sorter\<close> is \<open>sort.Sort(ByCreationTimestamp(items))\<close>: some reordering of the list.
\<close>

fun registerSecrets ::
  "crypto_lib \<Rightarrow> kube_lib \<Rightarrow> string \<Rightarrow> Secret list \<Rightarrow> KeyRegistry \<Rightarrow> (go_error + KeyRegistry) outcome" where
  "registerSecrets C L keyOrderPriority [] kr = Ret (Inr kr)"
| "registerSecrets C L keyOrderPriority (secret # rest) kr =
     obind (registryNewKeyWithSecret C L secret keyOrderPriority kr) (\<lambda>(err, kr).
       case err of Some e \<Rightarrow> Ret (Inl e) | None \<Rightarrow> registerSecrets C L keyOrderPriority rest kr)"

definition initKeyRegistry ::
  "crypto_lib \<Rightarrow> kube_lib \<Rightarrow> 'w kube_api \<Rightarrow> (Secret list \<Rightarrow> Secret list) \<Rightarrow> string \<Rightarrow> string \<Rightarrow> string
    \<Rightarrow> int \<Rightarrow> string \<Rightarrow> 'w \<Rightarrow> ((go_error + KeyRegistry) \<times> 'w) outcome" where
  "initKeyRegistry C L api sorter namespace prefix label keysize keyOrderPriority w =
     (case SecretsList api namespace keySelector w of
        (Inl e, w) \<Rightarrow> Ret (Inl e, w)
      | (Inr items, w) \<Rightarrow>
          (case SecretsGet api namespace prefix w of
             (s, w) \<Rightarrow>
               (case (case s of
                        Inl e \<Rightarrow> if IsNotFound e then Inr items else Inl e
                      | Inr secret \<Rightarrow> Inr (items @ [secret])) of
                  Inl e \<Rightarrow> Ret (Inl e, w)
                | Inr items \<Rightarrow>
                    obind (registerSecrets C L keyOrderPriority (sorter items)
                             (NewKeyRegistry namespace prefix label keysize)) (\<lambda>r. Ret (r, w)))))"

section \<open>Renewal\<close>

datatype renewal = ManualOnly | Scheduled duration duration

definition needsNewKey :: "KeyRegistry \<Rightarrow> time \<Rightarrow> bool outcome" where
  "needsNewKey kr cutoffTime = (if kr_keys kr = [] then Ret True
     else (case kr_mostRecentKey kr of None \<Rightarrow> Panic NilDereference
           | Some k \<Rightarrow> Ret (key_orderingTime k < cutoffTime)))"

definition renewalPlan :: "KeyRegistry \<Rightarrow> duration \<Rightarrow> time \<Rightarrow> renewal outcome" where
  "renewalPlan kr period now = (if period = 0 then Ret ManualOnly
     else (case kr_mostRecentKey kr of None \<Rightarrow> Panic NilDereference
           | Some k \<Rightarrow>
               (let mostRecentKeyAge = saturate64 (now - key_orderingTime k);
                    initialDelay = wrap64 (period - mostRecentKeyAge);
                    initialDelay = (if initialDelay < 0 then 0 else initialDelay)
                in Ret (Scheduled initialDelay period))))"

text \<open>\<open>clock\<close> gives the readings of the clock: certificate, registration, age.\<close>

definition initKeyRenewal ::
  "crypto_lib \<Rightarrow> kube_lib \<Rightarrow> 'w kube_api \<Rightarrow> time \<times> time \<times> time \<Rightarrow> duration \<Rightarrow> duration \<Rightarrow> time \<Rightarrow> string
    \<Rightarrow> string \<Rightarrow> string \<Rightarrow> KeyRegistry \<Rightarrow> bytes \<Rightarrow> 'w
    \<Rightarrow> ((go_error + renewal) \<times> KeyRegistry \<times> bytes \<times> 'w) outcome" where
  "initKeyRenewal C L api clock period validFor cutoffTime cn annotations labels kr rnd w =
     (case clock of (certNow, regNow, ageNow) \<Rightarrow>
      obind (needsNewKey kr cutoffTime) (\<lambda>need.
      obind (if need
             then obind (generateKey C L api certNow regNow validFor cn annotations labels kr rnd w)
                    (\<lambda>(result, state). Ret (case result of Inl e \<Rightarrow> (Some e, state) | Inr _ \<Rightarrow> (None, state)))
             else Ret (None, kr, rnd, w)) (\<lambda>(err, kr, rnd, w).
        case err of
          Some e \<Rightarrow> Ret (Inl e, kr, rnd, w)
        | None \<Rightarrow> obind (renewalPlan kr period ageNow) (\<lambda>plan. Ret (Inr plan, kr, rnd, w)))))"

end
