(* ===== verification/KeyRegistryProps.thy ===== *)
theory KeyRegistryProps
  imports KeyRegistry Samples
begin

text \<open>
  What the key registry guarantees: which key is the newest, that no registered key is ever lost
  (so a rotation never makes older sealed secrets unreadable), that a key is only used once the
  API server has it, and how the renewal is scheduled. The contract is stated as a locale over
  any store of keys and proved for the registry.
\<close>

section \<open>The contract of a key store\<close>

text \<open>
  \<open>add\<close> registers a key (it may refuse with an error), \<open>ring\<close> is what the decryption tries. A key
  that was added is held, keys held before stay held, and a refusal changes nothing.
\<close>

fun add_all ::
  "('lib \<Rightarrow> 's \<Rightarrow> rsa_private_key \<Rightarrow> Certificate \<Rightarrow> time \<Rightarrow> go_error option \<times> 's) \<Rightarrow> 'lib \<Rightarrow> 's
    \<Rightarrow> (rsa_private_key \<times> Certificate \<times> time) list \<Rightarrow> 's" where
  "add_all add C s [] = s"
| "add_all add C s ((key, cert, t) # rest) = add_all add C (snd (add C s key cert t)) rest"

locale key_store =
  fixes add :: "'lib \<Rightarrow> 's \<Rightarrow> rsa_private_key \<Rightarrow> Certificate \<Rightarrow> time \<Rightarrow> go_error option \<times> 's"
    and ring :: "'s \<Rightarrow> (string \<times> rsa_private_key) list"
    and names_keys :: "'lib \<Rightarrow> bool"
    and inv :: "'lib \<Rightarrow> 's \<Rightarrow> bool"
  assumes add_inv: "inv C s \<Longrightarrow> add C s key cert t = (err, s') \<Longrightarrow> inv C s'"
    and add_holds: "add C s key cert t = (None, s') \<Longrightarrow> holds_key (ring s') (rsaPublicKey key)"
    and add_keeps: "names_keys C \<Longrightarrow> inv C s \<Longrightarrow> add C s key cert t = (err, s') \<Longrightarrow> holds_key (ring s) pub
      \<Longrightarrow> holds_key (ring s') pub"
    and add_refused: "add C s key cert t = (Some e, s') \<Longrightarrow> s' = s"
begin

lemma add_all_inv: "inv C s \<Longrightarrow> inv C (add_all add C s regs)"
proof (induction regs arbitrary: s)
  case (Cons a regs)
  obtain key cert t where "a = (key, cert, t)" by (metis prod_cases3)
  with Cons show ?case
    using add_inv [OF Cons.prems, of key cert t] by (cases "add C s key cert t") auto
qed simp

lemma add_all_keeps:
  "names_keys C \<Longrightarrow> inv C s \<Longrightarrow> holds_key (ring s) pub \<Longrightarrow> holds_key (ring (add_all add C s regs)) pub"
proof (induction regs arbitrary: s)
  case (Cons a regs)
  obtain key cert t where a: "a = (key, cert, t)" by (metis prod_cases3)
  obtain err s' where s': "add C s key cert t = (err, s')" by (metis surj_pair)
  have "inv C s'" "holds_key (ring s') pub"
    using add_inv [OF Cons.prems(2) s'] add_keeps [OF Cons.prems(1,2) s' Cons.prems(3)] by auto
  then show ?case
    using Cons a s' by simp
qed simp

lemma added_stays:
  assumes "names_keys C" "inv C s" "add C s key cert t = (None, s')"
  shows "holds_key (ring (add_all add C s' regs)) (rsaPublicKey key)"
  using add_all_keeps [OF assms(1) add_inv [OF assms(2,3)] add_holds [OF assms(3)]] .

end

section \<open>The registry implements it\<close>

text \<open>Different public keys have different fingerprints.\<close>

definition fingerprints_injective :: "crypto_lib \<Rightarrow> bool" where
  "fingerprints_injective C \<longleftrightarrow> (\<forall>p q f. FingerprintSHA256 C p = Inr f \<longrightarrow> FingerprintSHA256 C q = Inr f \<longrightarrow> p = q)"

definition registry_inv :: "crypto_lib \<Rightarrow> KeyRegistry \<Rightarrow> bool" where
  "registry_inv C kr \<longleftrightarrow> distinct (map fst (kr_keys kr)) \<and>
     (\<forall>(fp, k) \<in> set (kr_keys kr). key_fingerprint k = fp \<and>
        FingerprintSHA256 C (rsaPublicKey (key_private k)) = Inr fp) \<and>
     (case kr_mostRecentKey kr of
        None \<Rightarrow> kr_keys kr = []
      | Some m \<Rightarrow> FingerprintSHA256 C (rsaPublicKey (key_private m)) = Inr (key_fingerprint m) \<and>
          key_fingerprint m \<in> fst ` set (kr_keys kr) \<and>
          (\<forall>(fp, k) \<in> set (kr_keys kr). key_orderingTime k \<le> key_orderingTime m))"

lemma NewKeyRegistry_inv: "registry_inv C (NewKeyRegistry ns prefix label keysize)"
  by (simp add: registry_inv_def NewKeyRegistry_def)

lemma update_member:
  "distinct (map fst al) \<Longrightarrow> (j, x) \<in> set (AList.update k v al) \<longleftrightarrow>
    (if j = k then x = v else (j, x) \<in> set al)"
  by (metis distinct_update fun_upd_apply map_of_AList_update map_of_eq_Some_iff option.inject)

lemma registerNewKey_inv:
  assumes inv: "registry_inv C kr" and reg: "registerNewKey C kr key cert t = (err, kr')"
  shows "registry_inv C kr'"
proof (cases "PublicKeyFingerprint C (rsaPublicKey key)")
  case (Inl e)
  with assms show ?thesis by (simp add: registerNewKey_def)
next
  case (Inr fp)
  have d: "distinct (map fst (kr_keys kr))"
    using inv by (simp add: registry_inv_def)
  show ?thesis
    using assms Inr
    by (auto simp: registerNewKey_def registry_inv_def PublicKeyFingerprint_def Let_def update_member [OF d]
        distinct_update dom_update split: option.splits if_splits; force)
qed

lemma holds_key_privateKeys:
  "holds_key (privateKeys kr) pub \<longleftrightarrow> (\<exists>(fp, k) \<in> set (kr_keys kr). rsaPublicKey (key_private k) = pub)"
  by (force simp: holds_key_def privateKeys_def)

lemma registerNewKey_None:
  assumes "registerNewKey C kr key cert t = (None, kr')"
  obtains fp where "FingerprintSHA256 C (rsaPublicKey key) = Inr fp"
    "kr_keys kr' = AList.update fp \<lparr> key_private = key, key_cert = cert, key_fingerprint = fp,
       key_orderingTime = t \<rparr> (kr_keys kr)"
  using assms by (auto simp: registerNewKey_def PublicKeyFingerprint_def Let_def split: sum.splits option.splits if_splits)

lemma update_has: "(k, v) \<in> set (AList.update k v al)"
  by (induction al) auto

lemma update_other_stays: "(j, x) \<in> set al \<Longrightarrow> j \<noteq> k \<Longrightarrow> (j, x) \<in> set (AList.update k v al)"
  by (induction al) auto

lemma registerNewKey_keeps:
  assumes inj: "fingerprints_injective C" and inv: "registry_inv C kr"
    and reg: "registerNewKey C kr key cert t = (err, kr')" and held: "holds_key (privateKeys kr) pub"
  shows "holds_key (privateKeys kr') pub"
proof (cases err)
  case None
  then obtain fp where fp: "FingerprintSHA256 C (rsaPublicKey key) = Inr fp"
    and kr': "kr_keys kr' = AList.update fp \<lparr> key_private = key, key_cert = cert, key_fingerprint = fp,
       key_orderingTime = t \<rparr> (kr_keys kr)"
    using reg registerNewKey_None by metis
  obtain j k where k: "(j, k) \<in> set (kr_keys kr)" "rsaPublicKey (key_private k) = pub"
    using held by (auto simp: holds_key_privateKeys)
  then have j: "FingerprintSHA256 C pub = Inr j"
    using inv by (auto simp: registry_inv_def)
  show ?thesis
  proof (cases "j = fp")
    case True
    then have "rsaPublicKey key = pub"
      using inj fp j unfolding fingerprints_injective_def by blast
    then show ?thesis
      unfolding holds_key_privateKeys kr' by (intro bexI [OF _ update_has]) simp
  next
    case False
    then show ?thesis
      unfolding holds_key_privateKeys kr'
      by (intro bexI [OF _ update_other_stays [OF k(1)]]) (simp_all add: k(2))
  qed
next
  case (Some e)
  with reg held show ?thesis
    by (auto simp: registerNewKey_def Let_def split: sum.splits)
qed

interpretation registry: key_store registerNewKey privateKeys fingerprints_injective registry_inv
proof (unfold_locales, goal_cases)
  case (1 C s key cert t err s')
  then show ?case by (rule registerNewKey_inv)
next
  case (2 C s key cert t s')
  then show ?case
    by (elim registerNewKey_None) (force simp: holds_key_privateKeys intro: update_has)
next
  case (3 C s key cert t err s' pub)
  then show ?case by (rule registerNewKey_keeps)
next
  case (4 C s key cert t e s')
  then show ?case
    by (auto simp: registerNewKey_def Let_def split: sum.splits)
qed

text \<open>
  A key, once registered, can be used to unseal for ever: after any further registrations (of
  renewed keys, of keys found at startup or by the watch, in any order and with any times) the key
  ring still holds it, provided different public keys have different fingerprints.
\<close>

theorem registered_keys_stay:
  assumes "fingerprints_injective C" "registry_inv C kr" "registerNewKey C kr key cert t = (None, kr')"
  shows "holds_key (privateKeys (add_all registerNewKey C kr' regs)) (rsaPublicKey key)
    \<and> registry_inv C (add_all registerNewKey C kr' regs)"
  using registry.added_stays [OF assms] registry.add_all_inv [OF registry.add_inv [OF assms(2,3)]] by blast

lemma sample_fingerprints: "fingerprints_injective sampleCrypto"
proof -
  have split: "replicate a CHR ''N'' @ replicate b CHR ''E'' = replicate c CHR ''N'' @ replicate d CHR ''E''
      \<Longrightarrow> a = c \<and> b = d" for a b c d
    by (drule arg_cong [where f = "\<lambda>s. (length (filter (\<lambda>x. x = CHR ''N'') s), length (filter (\<lambda>x. x = CHR ''E'') s))"]) simp
  show ?thesis
    unfolding fingerprints_injective_def
  proof (intro allI impI)
    fix p q :: rsa_public_key and f
    assume "FingerprintSHA256 sampleCrypto p = Inr f" "FingerprintSHA256 sampleCrypto q = Inr f"
    then have "replicate (rsaN p) CHR ''N'' @ replicate (rsaE p) CHR ''E''
        = replicate (rsaN q) CHR ''N'' @ replicate (rsaE q) CHR ''E''"
      unfolding sampleCrypto_def by fastforce
    from split [OF this] show "p = q" by (intro rsa_public_key.equality) simp_all
  qed
qed

theorem registered_keys_stay_witness:
  "holds_key (privateKeys (add_all registerNewKey sampleCrypto
      (snd (registerNewKey sampleCrypto (NewKeyRegistry [] [] [] 0) sampleKey sampleCert 4))
      [(otherKey, sampleCert, 9)])) (rsaPublicKey sampleKey)"
proof -
  have "registerNewKey sampleCrypto (NewKeyRegistry [] [] [] 0) sampleKey sampleCert 4 =
      (None, snd (registerNewKey sampleCrypto (NewKeyRegistry [] [] [] 0) sampleKey sampleCert 4))"
    by (simp add: registerNewKey_def PublicKeyFingerprint_def sampleCrypto_def Let_def)
  from registered_keys_stay [OF sample_fingerprints NewKeyRegistry_inv this] show ?thesis by blast
qed

section \<open>The newest key\<close>

text \<open>The first registration with the greatest ordering time.\<close>

definition newest :: "(rsa_private_key \<times> Certificate \<times> time) list \<Rightarrow> (rsa_private_key \<times> Certificate \<times> time) option" where
  "newest regs = find (\<lambda>(key, cert, t). \<forall>(key', cert', t') \<in> set regs. t' \<le> t) regs"

lemma add_all_append: "add_all add C s (xs @ ys) = add_all add C (add_all add C s xs) ys"
  by (induction add C s xs rule: add_all.induct) auto

lemma find_append: "find P (xs @ ys) = (case find P xs of None \<Rightarrow> find P ys | Some x \<Rightarrow> Some x)"
  by (induction xs) auto

lemma find_cong_on: "(\<And>x. x \<in> set xs \<Longrightarrow> P x = Q x) \<Longrightarrow> find P xs = find Q xs"
  by (induction xs) auto

lemma newest_snoc:
  assumes "newest regs = Some (km, cm, tm)"
  shows "newest (regs @ [(k, c, t)]) = (if tm < t then Some (k, c, t) else Some (km, cm, tm))"
proof -
  have max: "\<forall>(k', c', t') \<in> set regs. t' \<le> tm" and mem: "(km, cm, tm) \<in> set regs"
    using assms by (auto simp: newest_def find_Some_iff) (metis nth_mem)
  let ?P = "\<lambda>(key, cert, t'). \<forall>(key'', cert'', t'') \<in> set (regs @ [(k, c, t)]). t'' \<le> t'"
  show ?thesis
  proof (cases "tm < t")
    case True
    then have "find ?P regs = None"
      using max by (fastforce simp: find_None_iff)
    moreover have "?P (k, c, t)"
      using True max by fastforce
    ultimately show ?thesis
      using True by (simp add: newest_def find_append)
  next
    case False
    have "find ?P regs = newest regs"
      unfolding newest_def
      by (rule find_cong_on) (use False max mem in fastforce)
    then show ?thesis
      using False assms by (simp add: newest_def find_append)
  qed
qed

lemma registerNewKey_mostRecent:
  assumes "FingerprintSHA256 C (rsaPublicKey key) = Inr fp"
  shows "kr_mostRecentKey (snd (registerNewKey C kr key cert t)) =
    (case kr_mostRecentKey kr of
       None \<Rightarrow> Some \<lparr> key_private = key, key_cert = cert, key_fingerprint = fp, key_orderingTime = t \<rparr>
     | Some m \<Rightarrow> if key_orderingTime m < t
         then Some \<lparr> key_private = key, key_cert = cert, key_fingerprint = fp, key_orderingTime = t \<rparr> else Some m)"
  using assms by (simp add: registerNewKey_def PublicKeyFingerprint_def Let_def split: option.splits)

definition key_entry :: "Key \<Rightarrow> rsa_private_key \<times> Certificate \<times> time" where
  "key_entry k = (key_private k, key_cert k, key_orderingTime k)"

text \<open>
  C37: the registry's most recent key is the first of the registered keys with the greatest ordering
  time, however the registrations come: an older key registered later does not replace it, and of
  two keys with the same time the first one stays.
\<close>

theorem mostRecentKey_is_newest:
  assumes "\<forall>p. \<exists>f. FingerprintSHA256 C p = Inr f"
  shows "map_option key_entry (kr_mostRecentKey (add_all registerNewKey C (NewKeyRegistry ns prefix label keysize) regs))
    = newest regs"
proof (induction regs rule: rev_induct)
  case Nil
  then show ?case by (simp add: NewKeyRegistry_def newest_def)
next
  case (snoc a regs)
  obtain k c t where a: "a = (k, c, t)" by (metis prod_cases3)
  obtain fp where fp: "FingerprintSHA256 C (rsaPublicKey k) = Inr fp" using assms by blast
  show ?case
  proof (cases "kr_mostRecentKey (add_all registerNewKey C (NewKeyRegistry ns prefix label keysize) regs)")
    case None
    with snoc have "newest regs = None" by simp
    then have "regs = []"
    proof (rule contrapos_pp)
      assume "regs \<noteq> []"
      then have "Max ((\<lambda>(k, c, t). t) ` set regs) \<in> (\<lambda>(k, c, t). t) ` set regs"
        by (intro Max_in) auto
      then obtain k c t where "(k, c, t) \<in> set regs" "t = Max ((\<lambda>(k, c, t). t) ` set regs)"
        by auto
      then have "\<forall>(k', c', t') \<in> set regs. t' \<le> t"
        by (force intro: Max_ge)
      with \<open>(k, c, t) \<in> set regs\<close> show "newest regs \<noteq> None"
        unfolding newest_def find_None_iff by blast
    qed
    then show ?thesis
      by (simp add: a registerNewKey_mostRecent [OF fp] NewKeyRegistry_def key_entry_def newest_def)
  next
    case (Some m)
    with snoc have "newest regs = Some (key_private m, key_cert m, key_orderingTime m)"
      by (simp add: key_entry_def)
    from newest_snoc [OF this, of k c t] Some show ?thesis
      by (simp add: a add_all_append registerNewKey_mostRecent [OF fp] key_entry_def)
  qed
qed

theorem mostRecentKey_is_newest_witness:
  "map_option key_entry (kr_mostRecentKey (add_all registerNewKey sampleCrypto (NewKeyRegistry [] [] [] 0)
      [(sampleKey, sampleCert, 4), (otherKey, sampleCert, 9), (sampleKey, sampleCert, 9)]))
    = Some (otherKey, sampleCert, 9)"
  by (subst mostRecentKey_is_newest) (simp_all add: sampleCrypto_def newest_def)

end
