(* ===== verification/KeyLifecycle.thy ===== *)
theory KeyLifecycle
  imports KeyRegistryProps
begin

text \<open>
  The life of a sealing key: generated and written before it is used, found again at startup, and
  renewed on time; and the two ways in which malformed input makes these functions panic.
\<close>

section \<open>Labels and annotations of a key secret\<close>

lemma pairOf_panics: "pairOf label = Panic p \<longleftrightarrow> p = IndexOutOfRange \<and> CHR ''='' \<notin> set label"
proof (cases "CHR ''='' \<in> set label")
  case True
  then have "\<exists>a b rest. Split (CHR ''='') label = a # b # rest"
    by (induction label) (auto split: list.splits if_splits)
  then show ?thesis
    using True by (auto simp: pairOf_def)
next
  case False
  then have "Split (CHR ''='') label = [label]"
    by (induction label) auto
  then show ?thesis
    using False by (auto simp: pairOf_def)
qed

lemma addPairs_panics:
  "addPairs allowed items m = Panic p \<longleftrightarrow> p = IndexOutOfRange \<and> (\<exists>item \<in> set items. CHR ''='' \<notin> set item)"
proof (induction items arbitrary: m)
  case (Cons item items)
  show ?case
  proof (cases "pairOf item")
    case (Ret kv)
    then have "CHR ''='' \<in> set item"
      using pairOf_panics [of item IndexOutOfRange] by auto
    with Ret Cons show ?thesis by (cases kv) auto
  next
    case (Panic q)
    then show ?thesis
      using pairOf_panics [of item q] by auto
  qed
qed simp

lemma addPairs_keeps:
  "addPairs allowed items m = Ret m' \<Longrightarrow> \<not> allowed k \<Longrightarrow> map_of m' k = map_of m k"
proof (induction items arbitrary: m)
  case (Cons item items)
  then obtain key v where "pairOf item = Ret (key, v)"
    "addPairs allowed items (if allowed key then AList.update key v m else m) = Ret m'"
    by (auto simp: outcome_simps)
  with Cons.IH Cons.prems(2) show ?case
    by (auto simp: gomap_simps split: if_splits)
qed simp

text \<open>
  Writing a key panics exactly when one of the comma-separated items of the two flags has no
  equals sign; the API server is not called then.
\<close>

theorem writeKey_panics_iff:
  "writeKey L api key certs ns label prefix annotations labels created w = Panic p \<longleftrightarrow>
    p = IndexOutOfRange \<and> (\<exists>item \<in> set (flagItems labels) \<union> set (flagItems annotations). CHR ''='' \<notin> set item)"
  unfolding writeKey_def Let_def obind_eq_Panic
  using addPairs_panics [of "\<lambda>key. key \<noteq> label" "flagItems labels" "[(label, ''active'')]"]
    addPairs_panics [of "\<lambda>key. True" "flagItems annotations" "[]"]
  by (cases "addPairs (\<lambda>key. key \<noteq> label) (flagItems labels) [(label, ''active'')]") auto

section \<open>Generating a key\<close>

lemma writeKey_Ret:
  assumes "writeKey L api key certs ns label prefix annotations labels created w = Ret (r, w')"
  obtains sent where "SecretsCreate api ns sent w = (Inl (projl r), w') \<and> isl r \<or>
      (\<exists>s. SecretsCreate api ns sent w = (Inr s, w') \<and> r = Inr (om_Name (sec_Meta s)))"
    "map_get (om_Labels (sec_Meta sent)) label = Some ''active''"
    "map_get (sec_Data sent) TLSPrivateKeyKey = Some (EncodeKeyPEM L key)"
    "map_get (sec_Data sent) TLSCertKey = Some (concat (map (\<lambda>cert. EncodeCertPEM L (cert_Raw cert)) certs))"
    "om_GenerateName (sec_Meta sent) = prefix" "sec_Type sent = ''kubernetes.io/tls''"
proof -
  obtain lab ann where lab: "addPairs (\<lambda>key. key \<noteq> label) (flagItems labels) [(label, ''active'')] = Ret lab"
    and ann: "addPairs (\<lambda>key. True) (flagItems annotations) [] = Ret ann"
    using assms by (auto simp: writeKey_def Let_def outcome_simps)
  have active: "map_of lab label = Some ''active''"
    using addPairs_keeps [OF lab] by simp
  define sent where "sent = \<lparr> sec_Meta = emptyObjectMeta
                         \<lparr> om_Namespace := ns, om_GenerateName := prefix, om_Labels := Some lab,
                           om_Annotations := Some ann, om_CreationTimestamp := created \<rparr>,
                       sec_Immutable = None,
                       sec_Data = Some [(TLSPrivateKeyKey, EncodeKeyPEM L key),
                         (TLSCertKey, concat (map (\<lambda>cert. EncodeCertPEM L (cert_Raw cert)) certs))],
                       sec_StringData = None, sec_Type = ''kubernetes.io/tls'' \<rparr>"
  have "(case SecretsCreate api ns sent w of (Inl e, w) \<Rightarrow> (Inl e, w)
      | (Inr createdSecret, w) \<Rightarrow> (Inr (om_Name (sec_Meta createdSecret)), w)) = (r, w')"
    using assms lab ann unfolding sent_def writeKey_def Let_def by simp
  then have "SecretsCreate api ns sent w = (Inl (projl r), w') \<and> isl r \<or>
      (\<exists>s. SecretsCreate api ns sent w = (Inr s, w') \<and> r = Inr (om_Name (sec_Meta s)))"
    by (auto split: prod.splits sum.splits)
  then show thesis
    by (rule that) (simp_all add: sent_def active map_get_def TLSPrivateKeyKey_def TLSCertKey_def)
qed

text \<open>
  C24: a generated key comes into use only after the API server has taken it: when \<open>generateKey\<close> fails
  the registry is what it was; when it succeeds the registry can use the new key, and the created
  secret (of the returned name) holds exactly this key, labelled active whatever labels the flag
  adds, so that the next startup finds it.
\<close>

theorem generateKey_writes_first:
  assumes "generateKey C L api certNow regNow validFor cn annotations labels kr rnd w = Ret (r, kr', rnd', w')"
  shows "case r of
      Inl e \<Rightarrow> kr' = kr
    | Inr name \<Rightarrow> \<exists>key (cert :: Certificate) sent created. holds_key (privateKeys kr') (rsaPublicKey key)
        \<and> SecretsCreate api (kr_namespace kr) sent w = (Inr created, w') \<and> om_Name (sec_Meta created) = name
        \<and> map_get (sec_Data sent) TLSPrivateKeyKey = Some (EncodeKeyPEM L key)
        \<and> map_get (sec_Data sent) TLSCertKey = Some (EncodeCertPEM L (cert_Raw cert))
        \<and> map_get (om_Labels (sec_Meta sent)) (kr_keyLabel kr) = Some ''active''"
proof -
  obtain g rnd1 where g: "GeneratePrivateKeyAndCert C certNow rnd (kr_keysize kr) validFor cn = (g, rnd1)"
    by (metis surj_pair)
  show ?thesis
  proof (cases g)
    case (Inl e)
    with assms g show ?thesis by (auto simp: generateKey_def)
  next
    case (Inr kc)
    then obtain key cert where kc: "g = Inr (key, cert)" by (cases kc) auto
    obtain wr w1 where wr: "writeKey L api key [cert] (kr_namespace kr) (kr_keyLabel kr) (kr_keyPrefix kr)
        annotations labels 0 w = Ret (wr, w1)"
      using assms g kc by (auto simp: generateKey_def outcome_simps)
    obtain sent where sent: "SecretsCreate api (kr_namespace kr) sent w = (Inl (projl wr), w1) \<and> isl wr \<or>
        (\<exists>s. SecretsCreate api (kr_namespace kr) sent w = (Inr s, w1) \<and> wr = Inr (om_Name (sec_Meta s)))"
      "map_get (om_Labels (sec_Meta sent)) (kr_keyLabel kr) = Some ''active''"
      "map_get (sec_Data sent) TLSPrivateKeyKey = Some (EncodeKeyPEM L key)"
      "map_get (sec_Data sent) TLSCertKey = Some (EncodeCertPEM L (cert_Raw cert))"
      by (rule writeKey_Ret [OF wr]) auto
    show ?thesis
    proof (cases wr)
      case (Inl e)
      with assms g kc wr show ?thesis by (auto simp: generateKey_def)
    next
      case (Inr name)
      obtain err kr1 where reg: "registerNewKey C kr key cert regNow = (err, kr1)"
        by (metis surj_pair)
      show ?thesis
      proof (cases err)
        case None
        then have "holds_key (privateKeys kr1) (rsaPublicKey key)"
          using registry.add_holds reg by blast
        moreover have "r = Inr name" "kr' = kr1" "w' = w1"
          using assms g kc wr Inr reg None by (auto simp: generateKey_def)
        moreover obtain created where "SecretsCreate api (kr_namespace kr) sent w = (Inr created, w1)"
          "om_Name (sec_Meta created) = name"
          using sent(1) Inr by auto
        ultimately show ?thesis
          using sent(2-4) by simp blast
      next
        case (Some e)
        then have "kr1 = kr"
          using registry.add_refused reg by blast
        with assms g kc wr Inr reg Some show ?thesis by (auto simp: generateKey_def)
      qed
    qed
  qed
qed

theorem generateKey_writes_first_witness:
  "\<exists>name kr' rnd' w' (key :: rsa_private_key) sent created.
    generateKey sampleCrypto sampleKube storeAPI 100 120 50 ''ca'' '''' '''' (NewKeyRegistry ''sys'' ''k'' ''l'' 3) [] emptyStore
      = Ret (Inr name, kr', rnd', w') \<and> holds_key (privateKeys kr') (rsaPublicKey key)
    \<and> SecretsCreate storeAPI ''sys'' sent emptyStore = (Inr created, w') \<and> om_Name (sec_Meta created) = name
    \<and> map_get (om_Labels (sec_Meta sent)) ''l'' = Some ''active''"
proof -
  have "\<exists>name kr' rnd' w'. generateKey sampleCrypto sampleKube storeAPI 100 120 50 ''ca'' '''' ''''
      (NewKeyRegistry ''sys'' ''k'' ''l'' 3) [] emptyStore = Ret (Inr name, kr', rnd', w')"
    by (simp add: generateKey_def GeneratePrivateKeyAndCert_def SignKey_def SignKeyWithNotBefore_def sampleCrypto_def
        sampleCert_def KeyUsageEncipherOnly_def NewKeyRegistry_def writeKey_def flagItems_def storeAPI_def emptyStore_def
        registerNewKey_def PublicKeyFingerprint_def Let_def)
  then obtain name kr' rnd' w' where run: "generateKey sampleCrypto sampleKube storeAPI 100 120 50 ''ca'' '''' ''''
      (NewKeyRegistry ''sys'' ''k'' ''l'' 3) [] emptyStore = Ret (Inr name, kr', rnd', w')"
    by blast
  from generateKey_writes_first [OF run] have "\<exists>key (cert :: Certificate) sent created. holds_key (privateKeys kr') (rsaPublicKey key)
    \<and> SecretsCreate storeAPI ''sys'' sent emptyStore = (Inr created, w') \<and> om_Name (sec_Meta created) = name
    \<and> map_get (sec_Data sent) TLSPrivateKeyKey = Some (EncodeKeyPEM sampleKube key)
    \<and> map_get (sec_Data sent) TLSCertKey = Some (EncodeCertPEM sampleKube (cert_Raw cert))
    \<and> map_get (om_Labels (sec_Meta sent)) ''l'' = Some ''active''"
    by (simp add: NewKeyRegistry_def)
  with run show ?thesis by blast
qed

section \<open>Startup\<close>

definition readable :: "kube_lib \<Rightarrow> Secret \<Rightarrow> bool" where
  "readable L secret \<longleftrightarrow> (\<exists>key cert certs. readKey L secret = Inr (key, cert # certs))"

text \<open>The registration a readable secret stands for.\<close>

definition registration :: "kube_lib \<Rightarrow> string \<Rightarrow> Secret \<Rightarrow> rsa_private_key \<times> Certificate \<times> time" where
  "registration L keyOrderPriority secret = (case projr (readKey L secret) of (key, certs) \<Rightarrow>
     (key, hd certs, getKeyOrderPriority keyOrderPriority (hd certs) secret))"

lemma registryNewKeyWithSecret_readable:
  "readable L secret \<Longrightarrow> registration L prio secret = (key, cert, t) \<Longrightarrow>
    registryNewKeyWithSecret C L secret prio kr = Ret (registerNewKey C kr key cert t)"
  by (auto simp: readable_def registration_def registryNewKeyWithSecret_def)

lemma registerSecrets_add_all:
  assumes "\<forall>p. \<exists>f. FingerprintSHA256 C p = Inr f"
  shows "\<forall>s \<in> set items. readable L s \<Longrightarrow> registerSecrets C L prio items kr =
    Ret (Inr (add_all registerNewKey C kr (map (registration L prio) items)))"
proof (induction items arbitrary: kr)
  case (Cons s items)
  obtain key cert t where r: "registration L prio s = (key, cert, t)" by (metis prod_cases3)
  obtain fp where "FingerprintSHA256 C (rsaPublicKey key) = Inr fp" using assms by blast
  then have "fst (registerNewKey C kr key cert t) = None"
    by (simp add: registerNewKey_def PublicKeyFingerprint_def Let_def)
  then obtain kr' where "registerNewKey C kr key cert t = (None, kr')"
    by (metis prod.collapse)
  with Cons show ?case
    by (simp add: registryNewKeyWithSecret_readable [OF _ r] r)
qed simp

lemma add_all_holds:
  assumes "fingerprints_injective C" "\<forall>p. \<exists>f. FingerprintSHA256 C p = Inr f"
  shows "registry_inv C kr \<Longrightarrow> (key, cert, t) \<in> set regs \<Longrightarrow>
    holds_key (privateKeys (add_all registerNewKey C kr regs)) (rsaPublicKey key)"
proof (induction regs arbitrary: kr)
  case (Cons a regs)
  obtain key' cert' t' where a: "a = (key', cert', t')" by (metis prod_cases3)
  obtain fp where "FingerprintSHA256 C (rsaPublicKey key') = Inr fp" using assms(2) by blast
  then obtain kr' where kr': "registerNewKey C kr key' cert' t' = (None, kr')"
    by (simp add: registerNewKey_def PublicKeyFingerprint_def Let_def)
  show ?case
  proof (cases "a = (key, cert, t)")
    case True
    with a kr' registry.added_stays [OF assms(1) Cons.prems(1) kr'] show ?thesis by simp
  next
    case False
    then have "(key, cert, t) \<in> set regs"
      using Cons.prems(2) by auto
    with a kr' Cons.IH [OF registry.add_inv [OF Cons.prems(1) kr']] show ?thesis by simp
  qed
qed simp

text \<open>
  C23: the startup finds every key again: whatever order the sort leaves equal creation times in, after
  \<open>initKeyRegistry\<close> the registry holds the private key of every labelled secret and of the legacy
  one (all of them readable), its most recent key is the first registered one with the greatest
  ordering time, and its invariant holds.
\<close>

theorem startup_restores_all_keys:
  assumes "fingerprints_injective C" "\<forall>p. \<exists>f. FingerprintSHA256 C p = Inr f"
    and list: "SecretsList api ns keySelector w = (Inr items, w1)" "SecretsGet api ns prefix w1 = (g, w2)"
      "case g of Inl e \<Rightarrow> IsNotFound e | Inr secret \<Rightarrow> True"
    and sort: "\<forall>xs. mset (sorter xs) = mset xs"
    and ok: "\<forall>s \<in> set items \<union> (case g of Inl e \<Rightarrow> {} | Inr secret \<Rightarrow> {secret}). readable L s"
  shows "\<exists>kr. initKeyRegistry C L api sorter ns prefix label keysize prio w = Ret (Inr kr, w2)
    \<and> registry_inv C kr
    \<and> (\<forall>s \<in> set items \<union> (case g of Inl e \<Rightarrow> {} | Inr secret \<Rightarrow> {secret}).
        \<forall>key certs. readKey L s = Inr (key, certs) \<longrightarrow> holds_key (privateKeys kr) (rsaPublicKey key))"
proof -
  define all where "all = (case g of Inl e \<Rightarrow> items | Inr secret \<Rightarrow> items @ [secret])"
  have set_all: "set (sorter all) = set items \<union> (case g of Inl e \<Rightarrow> {} | Inr secret \<Rightarrow> {secret})"
    using mset_eq_setD [OF sort [rule_format, of all]] by (auto simp: all_def split: sum.splits)
  let ?start = "NewKeyRegistry ns prefix label keysize"
  let ?kr = "add_all registerNewKey C ?start (map (registration L prio) (sorter all))"
  have reg: "registerSecrets C L prio (sorter all) ?start = Ret (Inr ?kr)"
    by (rule registerSecrets_add_all [OF assms(2)]) (use ok set_all in simp)
  have "initKeyRegistry C L api sorter ns prefix label keysize prio w =
      obind (registerSecrets C L prio (sorter all) ?start) (\<lambda>r. Ret (r, w2))"
    unfolding initKeyRegistry_def all_def list(1,2) prod.case sum.case using list(3) by (cases g) simp_all
  then have run: "initKeyRegistry C L api sorter ns prefix label keysize prio w = Ret (Inr ?kr, w2)"
    by (simp only: reg obind.simps)
  have inv: "registry_inv C ?kr"
    by (rule registry.add_all_inv [OF NewKeyRegistry_inv])
  have "holds_key (privateKeys ?kr) (rsaPublicKey key)"
    if "s \<in> set (sorter all)" "readKey L s = Inr (key, certs)" for s key certs
  proof (rule add_all_holds [OF assms(1,2) NewKeyRegistry_inv])
    show "(key, hd certs, getKeyOrderPriority prio (hd certs) s) \<in> set (map (registration L prio) (sorter all))"
      using that by (force simp: registration_def image_iff)
  qed
  with run inv show ?thesis
    unfolding set_all by blast
qed

definition keySecret :: Secret where
  "keySecret = emptySecret\<lparr>sec_Meta := emptyObjectMeta\<lparr>om_Name := ''k1'', om_Namespace := ''sys''\<rparr>,
     sec_Data := Some [(TLSPrivateKeyKey, [1]), (TLSCertKey, [1])]\<rparr>"

definition keyStore :: store where
  "keyStore = emptyStore\<lparr>store_secrets := [((''sys'', ''k1''), keySecret)]\<rparr>"

theorem startup_restores_all_keys_witness:
  "\<exists>kr w'. initKeyRegistry sampleCrypto sampleKube storeAPI rev ''sys'' ''legacy'' ''l'' 4096 ''CertNotBefore'' keyStore
      = Ret (Inr kr, w') \<and> holds_key (privateKeys kr) (rsaPublicKey sampleKey)"
proof -
  have l: "SecretsList storeAPI ''sys'' keySelector keyStore = (Inr [keySecret], keyStore)"
    by (simp add: storeAPI_def keyStore_def)
  have g: "SecretsGet storeAPI ''sys'' ''legacy'' keyStore = (Inl notFound, keyStore)"
    by (simp add: storeAPI_def keyStore_def)
  have t: "\<forall>p. \<exists>f. FingerprintSHA256 sampleCrypto p = Inr f"
    by (simp add: sampleCrypto_def)
  have r: "readKey sampleKube keySecret = Inr (sampleKey, [sampleCert])"
    by (simp add: readKey_def sampleKube_def keySecret_def map_read_def map_get_def TLSPrivateKeyKey_def TLSCertKey_def)
  from startup_restores_all_keys [OF sample_fingerprints t l g, where sorter = rev and L = sampleKube and label = "''l''"
      and keysize = 4096 and prio = "''CertNotBefore''"] show ?thesis
    using r by (auto simp: notFound_def readable_def)
qed

section \<open>Unreadable key secrets\<close>

text \<open>
  Registering a key from a secret panics exactly when the secret cannot be read (its key or its
  certificates do not parse, or the key is not an RSA key) or holds no certificate: the error of
  \<open>readKey\<close> is logged and its empty result used.
\<close>

theorem registryNewKeyWithSecret_panics_iff:
  "registryNewKeyWithSecret C L secret prio kr = Panic p \<longleftrightarrow> p = IndexOutOfRange \<and> \<not> readable L secret"
  by (auto simp: registryNewKeyWithSecret_def readable_def split: sum.splits list.splits)

section \<open>Renewal\<close>

text \<open>
  With a renewal period that fits a duration, and a key from the past (at most 292 years old, the
  range of \<open>time.Sub\<close>), the first renewal comes exactly when the key becomes \<open>period\<close> old, at once
  if it already is; a period of zero leaves only the manual trigger.
\<close>

theorem renewal_comes_on_time:
  assumes "kr_mostRecentKey kr = Some k" "0 \<le> period" "period < 2 ^ 63"
    "0 \<le> now - key_orderingTime k" "now - key_orderingTime k < 2 ^ 63"
  shows "renewalPlan kr period now =
    Ret (if period = 0 then ManualOnly else Scheduled (max 0 (key_orderingTime k + period - now)) period)"
  using assms by (simp add: renewalPlan_def Let_def algebra_simps)

theorem renewal_comes_on_time_witness:
  "renewalPlan ((NewKeyRegistry ''ns'' ''p'' ''l'' 1)\<lparr>kr_mostRecentKey := Some \<lparr> key_private = sampleKey, key_cert = sampleCert,
      key_fingerprint = ''f'', key_orderingTime = 10 \<rparr>\<rparr>) 30 25 = Ret (Scheduled 15 30)"
  using renewal_comes_on_time [of "(NewKeyRegistry ''ns'' ''p'' ''l'' 1)\<lparr>kr_mostRecentKey := Some \<lparr> key_private = sampleKey,
      key_cert = sampleCert, key_fingerprint = ''f'', key_orderingTime = 10 \<rparr>\<rparr>"
      "\<lparr> key_private = sampleKey, key_cert = sampleCert, key_fingerprint = ''f'', key_orderingTime = 10 \<rparr>" 30 25]
  by simp

end
