(* ===== verification/Scope.thy ===== *)
theory Scope
  imports SealedSecretTypes
begin

text \<open>
  Sealing scopes (the first half of \<open>sealedsecret_expansion.go\<close>): the scope as text and as
  annotations, the encryption label that binds a ciphertext to a scope, and the removal of the
  annotations in which tools keep a copy of the object. \<open>SealingScope\<close> is a Go \<open>int\<close>, so values
  other than the three constants exist; the model keeps it an \<open>int\<close> and every default branch.
\<close>

type_synonym SealingScope = int

definition StrictScope :: SealingScope where "StrictScope = 0"
definition NamespaceWideScope :: SealingScope where "NamespaceWideScope = 1"
definition ClusterWideScope :: SealingScope where "ClusterWideScope = 2"
definition DefaultScope :: SealingScope where "DefaultScope = StrictScope"

lemmas scope_defs = StrictScope_def NamespaceWideScope_def ClusterWideScope_def DefaultScope_def

section \<open>Scopes as text\<close>

definition Scope_String :: "SealingScope \<Rightarrow> string" where
  "Scope_String s =
     (if s = StrictScope then ''strict''
      else if s = NamespaceWideScope then ''namespace-wide''
      else if s = ClusterWideScope then ''cluster-wide''
      else ''undefined-'' @ decimal_int s)"

text \<open>\<open>Set\<close> assigns through its receiver; an error leaves the old value.\<close>

definition Scope_Set :: "SealingScope \<Rightarrow> string \<Rightarrow> SealingScope \<times> go_error option" where
  "Scope_Set s v =
     (if v = '''' then (DefaultScope, None)
      else if v = ''strict'' then (StrictScope, None)
      else if v = ''namespace-wide'' then (NamespaceWideScope, None)
      else if v = ''cluster-wide'' then (ClusterWideScope, None)
      else (s, Some (Errorf ''must be one of: strict, namespace-wide, cluster-wide'')))"

lemma Scope_Set_String:
  "s \<in> {StrictScope, NamespaceWideScope, ClusterWideScope} \<Longrightarrow> Scope_Set t (Scope_String s) = (s, None)"
  by (auto simp: Scope_Set_def Scope_String_def scope_defs)

section \<open>Labels\<close>

definition EncryptionLabel :: "string \<Rightarrow> string \<Rightarrow> SealingScope \<Rightarrow> bytes" where
  "EncryptionLabel namespace name scope =
     (let l = (if scope = ClusterWideScope then ''''
               else if scope = NamespaceWideScope then namespace
               else namespace @ ''/'' @ name)
      in string_bytes l)"

definition SecretScope :: "ObjectMeta \<Rightarrow> SealingScope" where
  "SecretScope m =
     (if map_read (om_Annotations m) SealedSecretClusterWideAnnotation = ''true'' then ClusterWideScope
      else if map_read (om_Annotations m) SealedSecretNamespaceWideAnnotation = ''true'' then NamespaceWideScope
      else StrictScope)"

definition labelFor :: "ObjectMeta \<Rightarrow> bytes" where
  "labelFor m = EncryptionLabel (om_Namespace m) (om_Name m) (SecretScope m)"

definition SealedSecret_Scope :: "SealedSecret \<Rightarrow> SealingScope" where
  "SealedSecret_Scope s = SecretScope (tmpl_Meta (spec_Template (ss_Spec s)))"

lemma SecretScope_range: "SecretScope m \<in> {StrictScope, NamespaceWideScope, ClusterWideScope}"
  by (simp add: SecretScope_def)

lemma SecretScope_cong:
  "om_Annotations a = om_Annotations b \<Longrightarrow> SecretScope a = SecretScope b"
  by (simp add: SecretScope_def)

text \<open>
  The labels of different places differ: of two strict labels, of a strict and a namespace-wide
  one, and of anything against the cluster-wide one, as long as namespaces have no slash (which
  the API server guarantees).
\<close>

lemma strict_label_inject:
  assumes "CHR ''/'' \<notin> set ns" "CHR ''/'' \<notin> set ns'"
  shows "EncryptionLabel ns n StrictScope = EncryptionLabel ns' n' StrictScope \<longleftrightarrow> ns = ns' \<and> n = n'"
  using sep_inject [OF assms] by (simp add: EncryptionLabel_def scope_defs)

lemma namespace_label_inject:
  "EncryptionLabel ns n NamespaceWideScope = EncryptionLabel ns' n' NamespaceWideScope \<longleftrightarrow> ns = ns'"
  by (simp add: EncryptionLabel_def scope_defs)

lemma strict_namespace_labels_differ:
  assumes "CHR ''/'' \<notin> set ns'"
  shows "EncryptionLabel ns n StrictScope \<noteq> EncryptionLabel ns' n' NamespaceWideScope"
  using assms by (auto simp: EncryptionLabel_def scope_defs)

lemma cluster_label_empty_iff:
  "EncryptionLabel ns n scope = [] \<longleftrightarrow> scope = ClusterWideScope \<or> scope = NamespaceWideScope \<and> ns = []"
  by (auto simp: EncryptionLabel_def string_bytes_def scope_defs Let_def)

section \<open>Scopes as annotations\<close>

definition UpdateScopeAnnotations :: "string gomap \<Rightarrow> SealingScope \<Rightarrow> string gomap" where
  "UpdateScopeAnnotations anno scope =
     (let anno = (case anno of None \<Rightarrow> [] | Some al \<Rightarrow> al);
          anno = AList.delete SealedSecretNamespaceWideAnnotation anno;
          anno = AList.delete SealedSecretClusterWideAnnotation anno;
          anno = (if scope = NamespaceWideScope
                  then AList.update SealedSecretNamespaceWideAnnotation ''true'' anno else anno);
          anno = (if scope = ClusterWideScope
                  then AList.update SealedSecretClusterWideAnnotation ''true'' anno else anno)
      in Some anno)"

lemma UpdateScopeAnnotations_get:
  "map_get (UpdateScopeAnnotations anno scope) k =
    (if k = SealedSecretNamespaceWideAnnotation then (if scope = NamespaceWideScope then Some ''true'' else None)
     else if k = SealedSecretClusterWideAnnotation then (if scope = ClusterWideScope then Some ''true'' else None)
     else map_get anno k)"
  by (cases anno) (auto simp: UpdateScopeAnnotations_def Let_def gomap_simps scope_defs)

lemma UpdateScopeAnnotations_wf: "map_wf anno \<Longrightarrow> map_wf (UpdateScopeAnnotations anno scope)"
  by (cases anno) (auto simp: UpdateScopeAnnotations_def Let_def distinct_update distinct_delete)

lemma SecretScope_UpdateScopeAnnotations:
  "SecretScope (m\<lparr>om_Annotations := UpdateScopeAnnotations anno scope\<rparr>) =
    (if scope = ClusterWideScope \<or> scope = NamespaceWideScope then scope else StrictScope)"
  by (simp add: SecretScope_def map_read_def UpdateScopeAnnotations_get scope_defs)

text \<open>The annotations that \<open>kubectl\<close> and \<open>kubecfg\<close> leave, with the whole object in clear inside.\<close>

definition lastAppliedKeys :: "string list" where
  "lastAppliedKeys = [''kubectl.kubernetes.io/last-applied-configuration'',
     ''kubecfg.ksonnet.io/last-applied-configuration'']"

definition StripLastAppliedAnnotations :: "string gomap \<Rightarrow> string gomap" where
  "StripLastAppliedAnnotations annotations =
     (case annotations of None \<Rightarrow> None
      | Some al \<Rightarrow> fold map_del lastAppliedKeys (Some al))"

lemma StripLastAppliedAnnotations_get:
  "map_get (StripLastAppliedAnnotations anno) k = (if k \<in> set lastAppliedKeys then None else map_get anno k)"
  by (cases anno) (auto simp: StripLastAppliedAnnotations_def lastAppliedKeys_def gomap_simps)

lemma StripLastAppliedAnnotations_wf: "map_wf anno \<Longrightarrow> map_wf (StripLastAppliedAnnotations anno)"
  by (cases anno) (simp_all add: StripLastAppliedAnnotations_def lastAppliedKeys_def)

lemma scope_annotations_kept:
  "SealedSecretClusterWideAnnotation \<notin> set lastAppliedKeys"
  "SealedSecretNamespaceWideAnnotation \<notin> set lastAppliedKeys"
  by (simp_all add: lastAppliedKeys_def annotation_defs)

lemma SecretScope_Strip:
  "SecretScope (m\<lparr>om_Annotations := StripLastAppliedAnnotations (om_Annotations m)\<rparr>) = SecretScope m"
  by (simp add: SecretScope_def map_read_def StripLastAppliedAnnotations_get scope_annotations_kept)

end
