(* ===== verification/Base64.thy ===== *)
theory Base64
  imports Prelude
begin

text \<open>
  Go's \<open>base64.StdEncoding\<close>: the encoder pads with \<open>=\<close>; the decoder skips carriage returns and
  newlines, wants full groups of four, takes padding in the last group only and does not check
  the unused bits there. The offset that \<open>CorruptInputError\<close> carries is not modelled.
\<close>

definition b64_alphabet :: string where
  "b64_alphabet = ''ABCDEFGHIJKLMNOPQRSTUVWXYZabcdefghijklmnopqrstuvwxyz0123456789+/''"

definition b64_pad :: char where
  "b64_pad = CHR ''=''"

definition b64_char :: "nat \<Rightarrow> char" where
  "b64_char n = b64_alphabet ! (n mod 64)"

fun index_of :: "char \<Rightarrow> string \<Rightarrow> nat \<Rightarrow> nat option" where
  "index_of c [] i = None"
| "index_of c (x # xs) i = (if x = c then Some i else index_of c xs (Suc i))"

definition b64_value :: "char \<Rightarrow> nat option" where
  "b64_value c = index_of c b64_alphabet 0"

text \<open>\<open>val := uint(src[si+0])<<16 | uint(src[si+1])<<8 | uint(src[si+2])\<close>\<close>

definition val24 :: "byte \<Rightarrow> byte \<Rightarrow> byte \<Rightarrow> nat" where
  "val24 a b c = unat a * 65536 + unat b * 256 + unat c"

fun EncodeToString :: "bytes \<Rightarrow> string" where
  "EncodeToString [] = []"
| "EncodeToString [a] = (let n = val24 a 0 0 in
     [b64_char (n div 262144), b64_char (n div 4096), b64_pad, b64_pad])"
| "EncodeToString [a, b] = (let n = val24 a b 0 in
     [b64_char (n div 262144), b64_char (n div 4096), b64_char (n div 64), b64_pad])"
| "EncodeToString (a # b # c # rest) = (let n = val24 a b c in
     [b64_char (n div 262144), b64_char (n div 4096), b64_char (n div 64), b64_char n]
     @ EncodeToString rest)"

definition CorruptInputError :: go_error where
  "CorruptInputError = LibError ''illegal base64 data''"

text \<open>One group of four characters; padded groups are only looked at when they are the last.\<close>

definition group_value :: "nat \<Rightarrow> nat \<Rightarrow> nat \<Rightarrow> nat \<Rightarrow> nat" where
  "group_value p q r s = p * 262144 + q * 4096 + r * 64 + s"

definition group_bytes :: "nat \<Rightarrow> bytes" where
  "group_bytes n = [word_of_nat (n div 65536), word_of_nat (n div 256), word_of_nat n]"

fun decode_groups :: "string \<Rightarrow> bytes option" where
  "decode_groups [] = Some []"
| "decode_groups (c0 # c1 # c2 # c3 # rest) =
     (case (b64_value c0, b64_value c1) of
        (Some p, Some q) \<Rightarrow>
          (case b64_value c2 of
             None \<Rightarrow> (if c2 = b64_pad \<and> c3 = b64_pad \<and> rest = []
                      then Some (take 1 (group_bytes (group_value p q 0 0))) else None)
           | Some r \<Rightarrow>
               (case b64_value c3 of
                  None \<Rightarrow> (if c3 = b64_pad \<and> rest = []
                           then Some (take 2 (group_bytes (group_value p q r 0))) else None)
                | Some s \<Rightarrow> (case decode_groups rest of None \<Rightarrow> None
                     | Some bs \<Rightarrow> Some (group_bytes (group_value p q r s) @ bs))))
      | _ \<Rightarrow> None)"
| "decode_groups _ = None"

definition is_newline :: "char \<Rightarrow> bool" where
  "is_newline c \<longleftrightarrow> c = CHR 0x0A \<or> c = CHR 0x0D"

definition DecodeString :: "string \<Rightarrow> go_error + bytes" where
  "DecodeString s = (case decode_groups (filter (\<lambda>c. \<not> is_newline c) s) of
     None \<Rightarrow> Inl CorruptInputError | Some bs \<Rightarrow> Inr bs)"

section \<open>The round trip\<close>

lemma b64_value_char [simp]: "b64_value (b64_char n) = Some (n mod 64)"
proof -
  have "\<forall>k < 64. index_of (b64_alphabet ! k) b64_alphabet 0 = Some k"
    by code_simp
  then show ?thesis by (simp add: b64_value_def b64_char_def)
qed

lemma b64_char_not_newline [simp]: "\<not> is_newline (b64_char n)"
proof -
  have "\<forall>k < 64. \<not> is_newline (b64_alphabet ! k)"
    by code_simp
  then show ?thesis by (simp add: b64_char_def)
qed

lemma b64_value_pad [simp]: "b64_value b64_pad = None"
  by code_simp

lemma pad_not_newline [simp]: "\<not> is_newline b64_pad"
  by code_simp

lemma mod_mult_div: "m mod (a * b) div a = m div a mod (b :: nat)"
  by (cases "a = 0") (simp_all add: mod_mult2_eq)

lemma sextets:
  "group_value (n div 262144 mod 64) (n div 4096 mod 64) (n div 64 mod 64) (n mod 64) = n mod 16777216"
proof -
  have "n mod 16777216 = 64 * (n div 64 mod 262144) + n mod 64"
    using mod_mult2_eq [of n 64 262144] by simp
  also have "n div 64 mod 262144 = 64 * (n div 64 div 64 mod 4096) + n div 64 mod 64"
    using mod_mult2_eq [of "n div 64" 64 4096] by simp
  also have "n div 64 div 64 mod 4096 = 64 * (n div 64 div 64 div 64 mod 64) + n div 64 div 64 mod 64"
    using mod_mult2_eq [of "n div 64 div 64" 64 64] by simp
  finally show ?thesis
    by (simp add: group_value_def div_mult2_eq [symmetric])
qed

lemma byte_of_nat_mod: "256 dvd k \<Longrightarrow> word_of_nat (x mod k) = (word_of_nat x :: byte)"
  by (simp add: word_of_nat_eq_iff take_bit_eq_mod mod_mod_cancel)

lemma group_bytes_mod: "group_bytes (n mod 16777216) = group_bytes n"
  using mod_mult_div [of n 65536 256] mod_mult_div [of n 256 65536]
  by (simp add: group_bytes_def byte_of_nat_mod)

lemma group_bytes_val24: "group_bytes (val24 a b c) = [a, b, c]"
proof -
  have bc: "unat b < 256" "unat c < 256"
    using unsigned_less [of b] unsigned_less [of c] by simp_all
  have "val24 a b c div 65536 = unat a"
    unfolding val24_def using bc by simp
  moreover have "val24 a b c div 256 = unat a * 256 + unat b"
    unfolding val24_def using bc by simp
  moreover have zero: "(65536 :: byte) = 0" "(256 :: byte) = 0"
    by (rule word_uint_eq_iff [THEN iffD2], simp)+
  have "word_of_nat (val24 a b c) = c" "word_of_nat (unat a * 256 + unat b) = b"
    by (simp_all add: val24_def zero)
  ultimately show ?thesis
    by (simp add: group_bytes_def)
qed

lemma val24_mod: "val24 a 0 0 mod 4096 = 0" "val24 a b 0 mod 64 = 0"
  by (simp_all add: val24_def mod_simps)

lemma decode_full_group:
  "decode_groups (b64_char (n div 262144) # b64_char (n div 4096) # b64_char (n div 64) # b64_char n # rest)
   = (case decode_groups rest of None \<Rightarrow> None | Some bs \<Rightarrow> Some (group_bytes n @ bs))"
  by (cases "decode_groups rest") (simp_all add: sextets group_bytes_mod)

lemma decode_two_byte_group:
  assumes "n mod 64 = 0"
  shows "decode_groups [b64_char (n div 262144), b64_char (n div 4096), b64_char (n div 64), b64_pad]
    = Some (take 2 (group_bytes n))"
  using sextets [of n] assms by (simp add: group_bytes_mod)

lemma decode_one_byte_group:
  assumes "n mod 4096 = 0"
  shows "decode_groups [b64_char (n div 262144), b64_char (n div 4096), b64_pad, b64_pad]
    = Some (take 1 (group_bytes n))"
proof -
  have "n mod 4096 = 64 * (n div 64 mod 64) + n mod 64"
    using mod_mult2_eq [of n 64 64] by simp
  with assms have "n div 64 mod 64 = 0" "n mod 64 = 0" by simp_all
  then show ?thesis
    using sextets [of n] by (simp add: group_bytes_mod)
qed

lemma filter_EncodeToString: "filter (\<lambda>c. \<not> is_newline c) (EncodeToString bs) = EncodeToString bs"
  by (induction bs rule: EncodeToString.induct) (simp_all add: Let_def)

lemma decode_groups_encode: "decode_groups (EncodeToString bs) = Some bs"
  by (induction bs rule: EncodeToString.induct)
    (simp_all add: Let_def decode_full_group decode_two_byte_group decode_one_byte_group
      val24_mod group_bytes_val24 del: decode_groups.simps(2))

lemma DecodeString_EncodeToString [simp]: "DecodeString (EncodeToString bs) = Inr bs"
  by (simp add: DecodeString_def filter_EncodeToString decode_groups_encode)

text \<open>The interface the sealing code relies on: a text encoding of byte strings.\<close>

locale byte_codec =
  fixes encode :: "bytes \<Rightarrow> string" and decode :: "string \<Rightarrow> go_error + bytes"
  assumes decode_encode: "decode (encode b) = Inr b"
begin

lemma encode_inject: "encode a = encode b \<longleftrightarrow> a = b"
  by (metis decode_encode sum.inject(2))

end

interpretation b64: byte_codec EncodeToString DecodeString
  by unfold_locales simp

end
