(* ===== verification/Sealing.thy ===== *)
theory Sealing
  imports External Scope Base64
begin

text \<open>
  Sealing and unsealing of secrets (the second half of \<open>sealedsecret_expansion.go\<close>):
  \<open>NewSealedSecret\<close>, the deprecated \<open>NewSealedSecretV1\<close> and \<open>SealedSecret.Unseal\<close>. The loops over
  the data maps are recursions over the entries; they take the encryption and the text encoding
  as arguments, so that their lemmas are proved once from the two interfaces.
\<close>

section \<open>Sealing\<close>

text \<open>\<open>for key, value := range secret.Data\<close> (and \<open>StringData\<close>) of \<open>NewSealedSecret\<close>.\<close>

fun sealItems ::
  "(bytes \<Rightarrow> bytes \<Rightarrow> (go_error + bytes) \<times> bytes) \<Rightarrow> (bytes \<Rightarrow> string) \<Rightarrow> (string \<times> bytes) list
    \<Rightarrow> (string \<times> string) list \<Rightarrow> bytes \<Rightarrow> (go_error + (string \<times> string) list) \<times> bytes" where
  "sealItems enc encode [] out rnd = (Inr out, rnd)"
| "sealItems enc encode ((key, value) # rest) out rnd =
     (case enc rnd value of
        (Inl e, rnd) \<Rightarrow> (Inl e, rnd)
      | (Inr ciphertext, rnd) \<Rightarrow>
          sealItems enc encode rest (AList.update key (encode ciphertext) out) rnd)"

definition string_items :: "string gomap \<Rightarrow> (string \<times> bytes) list" where
  "string_items m = map (\<lambda>(k, v). (k, string_bytes v)) (map_entries m)"

definition sealTemplate :: "Secret \<Rightarrow> SecretTemplateSpec" where
  "sealTemplate secret =
     (let meta = sec_Meta secret;
          meta = meta\<lparr>om_Annotations := StripLastAppliedAnnotations (om_Annotations meta)\<rparr>;
          meta = meta\<lparr>om_OwnerReferences := []\<rparr>
      in \<lparr> tmpl_Meta = meta, tmpl_Type = sec_Type secret, tmpl_Immutable = sec_Immutable secret,
           tmpl_Data = None \<rparr>)"

definition missingNamespace :: "Secret \<Rightarrow> bool" where
  "missingNamespace secret \<longleftrightarrow>
     SecretScope (sec_Meta secret) \<noteq> ClusterWideScope \<and> om_Namespace (sec_Meta secret) = ''''"

definition NewSealedSecret ::
  "crypto_lib \<Rightarrow> rsa_public_key \<Rightarrow> Secret \<Rightarrow> bytes \<Rightarrow> (go_error + SealedSecret) \<times> bytes" where
  "NewSealedSecret C pubKey secret rnd =
     (if missingNamespace secret then (Inl (Errorf ''secret must declare a namespace''), rnd)
      else let label = labelFor (sec_Meta secret);
               enc = (\<lambda>rnd value. HybridEncrypt C rnd pubKey value label) in
        (case sealItems enc EncodeToString (map_entries (sec_Data secret)) [] rnd of
           (Inl e, rnd) \<Rightarrow> (Inl e, rnd)
         | (Inr out, rnd) \<Rightarrow>
             (case sealItems enc EncodeToString (string_items (sec_StringData secret)) out rnd of
                (Inl e, rnd) \<Rightarrow> (Inl e, rnd)
              | (Inr out, rnd) \<Rightarrow>
                  (Inr \<lparr> ss_TypeMeta = \<lparr> tm_APIVersion = [], tm_Kind = [] \<rparr>,
                         ss_Meta = emptyObjectMeta
                           \<lparr> om_Name := om_Name (sec_Meta secret),
                             om_Namespace := om_Namespace (sec_Meta secret),
                             om_Annotations := UpdateScopeAnnotations None (SecretScope (sec_Meta secret)) \<rparr>,
                         ss_Spec = \<lparr> spec_Template = sealTemplate secret, spec_Data = None,
                                     spec_EncryptedData = Some out \<rparr>,
                         ss_Status = None \<rparr>, rnd))))"

definition NewSealedSecretV1 ::
  "crypto_lib \<Rightarrow> kube_lib \<Rightarrow> rsa_public_key \<Rightarrow> Secret \<Rightarrow> bytes \<Rightarrow> (go_error + SealedSecret) \<times> bytes" where
  "NewSealedSecretV1 C L pubKey secret rnd =
     (if \<not> HasJSONSerializer L then (Inl (Errorf (''binary can'' @ [CHR 0x27] @ ''t serialize JSON'')), rnd)
      else if missingNamespace secret then (Inl (Errorf ''secret must declare a namespace''), rnd)
      else (case EncodeSecret L secret of
              Inl e \<Rightarrow> (Inl e, rnd)
            | Inr plaintext \<Rightarrow>
                (case HybridEncrypt C rnd pubKey plaintext (labelFor (sec_Meta secret)) of
                   (Inl e, rnd) \<Rightarrow> (Inl e, rnd)
                 | (Inr ciphertext, rnd) \<Rightarrow>
                     (Inr (emptySealedSecret
                       \<lparr> ss_Meta := emptyObjectMeta
                           \<lparr> om_Name := om_Name (sec_Meta secret),
                             om_Namespace := om_Namespace (sec_Meta secret),
                             om_Annotations := UpdateScopeAnnotations None (SecretScope (sec_Meta secret)) \<rparr>,
                         ss_Spec := \<lparr> spec_Template = emptyTemplate, spec_Data = Some ciphertext,
                                      spec_EncryptedData = None \<rparr> \<rparr>), rnd))))"

section \<open>Unsealing\<close>

text \<open>
  One round of \<open>for key, value := range s.Spec.EncryptedData\<close>: the secret's data, the template
  data and the errors so far. An undecodable value is skipped, an undecryptable one leaves an
  empty value behind.
\<close>

type_synonym unseal_acc =
  "(string \<times> bytes) list \<times> (string \<times> string) list \<times> (string \<times> go_error) list"

definition unsealItem ::
  "(string \<Rightarrow> go_error + bytes) \<Rightarrow> (bytes \<Rightarrow> go_error + bytes) \<Rightarrow> string \<times> string \<Rightarrow> unseal_acc \<Rightarrow> unseal_acc" where
  "unsealItem decode dec item acc = (case (item, acc) of ((key, value), (secretData, data, errs)) \<Rightarrow>
     (case decode value of
        Inl e \<Rightarrow> (secretData, data, errs @ [(key, e)])
      | Inr valueBytes \<Rightarrow>
          (case dec valueBytes of
             Inl e \<Rightarrow> (AList.update key [] secretData, AList.update key [] data, errs @ [(key, e)])
           | Inr plaintext \<Rightarrow>
               (AList.update key plaintext secretData,
                AList.update key (bytes_string plaintext) data, errs))))"

definition unsealItems ::
  "(string \<Rightarrow> go_error + bytes) \<Rightarrow> (bytes \<Rightarrow> go_error + bytes) \<Rightarrow> (string \<times> string) list \<Rightarrow> unseal_acc \<Rightarrow> unseal_acc" where
  "unsealItems decode dec items acc = fold (unsealItem decode dec) items acc"

text \<open>One round of \<open>for key, value := range s.Spec.Template.Data\<close>.\<close>

definition renderItem ::
  "kube_lib \<Rightarrow> (string \<times> string) list \<Rightarrow> string \<times> string \<Rightarrow> (string \<times> bytes) list \<times> (string \<times> go_error) list
    \<Rightarrow> (string \<times> bytes) list \<times> (string \<times> go_error) list" where
  "renderItem L data item acc = (case (item, acc) of ((key, value), (secretData, errs)) \<Rightarrow>
     (case RenderTemplate L (sprigFuncMap L) key value data of
        TemplateParseError e \<Rightarrow> (secretData, errs @ [(key, e)])
      | TemplateOutput output err \<Rightarrow>
          (AList.update key output secretData,
           (case err of None \<Rightarrow> errs | Some e \<Rightarrow> errs @ [(key, e)]))))"

definition unsealEncryptedData ::
  "crypto_lib \<Rightarrow> kube_lib \<Rightarrow> (string \<times> rsa_private_key) list \<Rightarrow> SealedSecret \<Rightarrow> bytes \<Rightarrow> go_error + Secret" where
  "unsealEncryptedData C L privKeys s label =
     (let tmpl = spec_Template (ss_Spec s);
          acc = unsealItems DecodeString (\<lambda>ct. HybridDecrypt C privKeys ct label)
                  (map_entries (spec_EncryptedData (ss_Spec s))) ([], [], []);
          (secretData, data, errs) = acc;
          (secretData, errs) = fold (renderItem L data) (map_entries (tmpl_Data tmpl)) (secretData, errs)
      in if errs \<noteq> [] then Inl (FormatErrors L errs)
         else Inr \<lparr> sec_Meta = tmpl_Meta tmpl, sec_Immutable = tmpl_Immutable tmpl,
                    sec_Data = Some secretData, sec_StringData = None, sec_Type = tmpl_Type tmpl \<rparr>)"

definition unsealDeprecatedData ::
  "crypto_lib \<Rightarrow> kube_lib \<Rightarrow> (string \<times> rsa_private_key) list \<Rightarrow> SealedSecret \<Rightarrow> bytes \<Rightarrow> bytes \<Rightarrow> go_error + Secret" where
  "unsealDeprecatedData C L privKeys s blob label =
     (if map_entries (spec_EncryptedData (ss_Spec s)) \<noteq> []
      then Inl (Errorf (''cannot use the field '' @ [CHR 0x27] @ ''encryptedData'' @ [CHR 0x27]
             @ '' and the deprecated field '' @ [CHR 0x27] @ ''data'' @ [CHR 0x27] @ '' at the same time''))
      else (case HybridDecrypt C privKeys blob label of
              Inl e \<Rightarrow> Inl e
            | Inr plaintext \<Rightarrow> DecodeSecretInto L plaintext))"

text \<open>The end of \<open>Unseal\<close>: namespace, name and the reference back to the owning SealedSecret.\<close>

definition ownerReference :: "kube_lib \<Rightarrow> SealedSecret \<Rightarrow> OwnerReference" where
  "ownerReference L s = (case GroupVersionKind L (ss_TypeMeta s) of (gv, kind) \<Rightarrow>
     \<lparr> or_APIVersion = gv, or_Kind = kind, or_Name = om_Name (ss_Meta s), or_UID = om_UID (ss_Meta s),
       or_Controller = Some True, or_BlockOwnerDeletion = None \<rparr>)"

definition finishUnseal :: "kube_lib \<Rightarrow> SealedSecret \<Rightarrow> Secret \<Rightarrow> Secret" where
  "finishUnseal L s secret =
     (let meta = (sec_Meta secret)\<lparr>om_Namespace := om_Namespace (ss_Meta s), om_Name := om_Name (ss_Meta s)\<rparr>;
          anno = map_get (om_Annotations (tmpl_Meta (spec_Template (ss_Spec s))))
                   SealedSecretSkipSetOwnerReferencesAnnotation;
          meta = (if anno \<noteq> Some ''true'' then meta\<lparr>om_OwnerReferences := [ownerReference L s]\<rparr> else meta)
      in secret\<lparr>sec_Meta := meta\<rparr>)"

definition Unseal ::
  "crypto_lib \<Rightarrow> kube_lib \<Rightarrow> bool \<Rightarrow> (string \<times> rsa_private_key) list \<Rightarrow> SealedSecret \<Rightarrow> go_error + Secret" where
  "Unseal C L AcceptDeprecatedV1Data privKeys s =
     (let label = labelFor (ss_Meta s);
          result = (case spec_Data (ss_Spec s) of
             None \<Rightarrow> unsealEncryptedData C L privKeys s label
           | Some blob \<Rightarrow>
               (if AcceptDeprecatedV1Data then unsealDeprecatedData C L privKeys s blob label
                else Inl (Errorf (''using deprecated '' @ [CHR 0x27] @ ''data'' @ [CHR 0x27]
                       @ '' field, use '' @ [CHR 0x27] @ ''encryptedData'' @ [CHR 0x27]
                       @ '' or flip the feature flag''))))
      in (case result of Inl e \<Rightarrow> Inl e | Inr secret \<Rightarrow> Inr (finishUnseal L s secret)))"

end
