(* ===== verification/Controller.thy ===== *)
theory Controller
  imports Status KeyRegistry Sealing
begin

text \<open>
  The controller (\<open>controller.go\<close>): unsealing one sealed secret of the cache into a secret of the
  cluster (\<open>unseal\<close>), and the two operations offered over HTTP (\<open>AttemptUnseal\<close>, \<open>Rotate\<close>). The
  controller's struct is split into what never changes (\<open>Controller\<close>, with the packages it calls)
  and what the operations read and write (\<open>ctl_state\<close>: the cluster, the informer's index, the
  events it recorded, the metrics and the key registry).
\<close>

section \<open>State\<close>

record 'w Controller =
  ctl_crypto :: crypto_lib
  ctl_kube :: kube_lib
  ctl_api :: "'w kube_api"
  ctl_acceptV1 :: bool
  ctl_oldGCBehavior :: bool
  ctl_updateStatus :: bool

datatype event = Event string string string string string

text \<open>
  \<open>cs_index\<close> is what \<open>GetIndexer().GetByKey(key)\<close> answers; the objects it holds are shared, so
  \<open>unseal\<close> writes its changes of the sealed secret back. An \<open>Event\<close> has the object's namespace and
  name, type, reason and message.
\<close>

record 'w ctl_state =
  cs_world :: 'w
  cs_index :: "string \<Rightarrow> go_error + any_object option"
  cs_events :: "event list"
  cs_metrics :: metrics
  cs_registry :: KeyRegistry

definition SuccessUnsealed :: string where "SuccessUnsealed = ''Unsealed''"
definition ErrUpdateFailed :: string where "ErrUpdateFailed = ''ErrUpdateFailed''"
definition ErrUnsealFailed :: string where "ErrUnsealFailed = ''ErrUnsealFailed''"

definition recordEvent :: "SealedSecret \<Rightarrow> string \<Rightarrow> string \<Rightarrow> string \<Rightarrow> 'w ctl_state \<Rightarrow> 'w ctl_state" where
  "recordEvent s eventtype reason message st = st\<lparr>cs_events := cs_events st @
     [Event (om_Namespace (ss_Meta s)) (om_Name (ss_Meta s)) eventtype reason message]\<rparr>"

definition incErrors :: "string \<Rightarrow> string \<Rightarrow> 'w ctl_state \<Rightarrow> 'w ctl_state" where
  "incErrors reason ns st = st\<lparr>cs_metrics := countError reason ns (cs_metrics st)\<rparr>"

section \<open>Predicates\<close>

definition isAnnotatedToBeManaged :: "Secret \<Rightarrow> bool" where
  "isAnnotatedToBeManaged secret \<longleftrightarrow>
     map_read (om_Annotations (sec_Meta secret)) SealedSecretManagedAnnotation = ''true''"

definition isAnnotatedToBePatched :: "Secret \<Rightarrow> bool" where
  "isAnnotatedToBePatched secret \<longleftrightarrow>
     map_read (om_Annotations (sec_Meta secret)) SealedSecretPatchAnnotation = ''true''"

definition immutableSuffix :: string where
  "immutableSuffix = ''field is immutable when '' @ [CHR 0x60] @ ''immutable'' @ [CHR 0x60] @ '' is set''"

definition isImmutableError :: "go_error \<Rightarrow> bool" where
  "isImmutableError err \<longleftrightarrow> HasSuffix (err_text err) immutableSuffix"

definition formatImmutableError :: "string \<Rightarrow> string" where
  "formatImmutableError key = ''Error updating '' @ key @ '': the target Secret is immutable. Once a Secret is marked as immutable, it is not possible to revert this change nor to mutate the contents of the data field. You can only delete and recreate the Secret.''"

section \<open>Unsealing with the registry's keys\<close>

definition attemptUnseal :: "'w Controller \<Rightarrow> KeyRegistry \<Rightarrow> SealedSecret \<Rightarrow> go_error + Secret" where
  "attemptUnseal c kr ss = Unseal (ctl_crypto c) (ctl_kube c) (ctl_acceptV1 c) (privateKeys kr) ss"

section \<open>Writing the secret\<close>

text \<open>Making an existing secret (a copy of it) what the new one says: patched or replaced.\<close>

definition patchSecret :: "Secret \<Rightarrow> Secret \<Rightarrow> Secret outcome" where
  "patchSecret secret newSecret =
     obind (map_put_all (sec_Data newSecret)
              (case sec_Data secret of None \<Rightarrow> Some [] | Some d \<Rightarrow> Some d)) (\<lambda>data.
     obind (map_put_all (om_Labels (sec_Meta newSecret))
              (case om_Labels (sec_Meta secret) of None \<Rightarrow> Some [] | Some l \<Rightarrow> Some l)) (\<lambda>labels.
     obind (map_put_all (om_Annotations (sec_Meta newSecret)) (om_Annotations (sec_Meta secret))) (\<lambda>annotations.
       let meta = (sec_Meta secret)\<lparr>om_Labels := labels, om_Annotations := annotations\<rparr>;
           secret = secret\<lparr>sec_Data := data, sec_Meta := meta\<rparr>
       in Ret (if isAnnotatedToBeManaged secret
               then secret\<lparr>sec_Meta := meta\<lparr>om_OwnerReferences := om_OwnerReferences (sec_Meta newSecret)\<rparr>\<rparr>
               else secret))))"

definition replaceSecret :: "Secret \<Rightarrow> Secret \<Rightarrow> Secret" where
  "replaceSecret secret newSecret =
     secret\<lparr>sec_Data := sec_Data newSecret,
       sec_Meta := (sec_Meta secret)
         \<lparr>om_Annotations := om_Annotations (sec_Meta newSecret),
          om_Labels := om_Labels (sec_Meta newSecret),
          om_OwnerReferences := om_OwnerReferences (sec_Meta newSecret)\<rparr>\<rparr>"

definition mergeSecret :: "Secret \<Rightarrow> Secret \<Rightarrow> Secret outcome" where
  "mergeSecret secret newSecret =
     obind (if isAnnotatedToBePatched secret then patchSecret secret newSecret
            else Ret (replaceSecret secret newSecret))
       (\<lambda>secret. Ret (secret\<lparr>sec_Type := sec_Type newSecret\<rparr>))"

definition notManaged :: "kube_lib \<Rightarrow> SealedSecret \<Rightarrow> Secret \<Rightarrow> bool" where
  "notManaged L ssecret secret \<longleftrightarrow> \<not> IsControlledBy L (sec_Meta secret) (ss_Meta ssecret) \<and>
     \<not> isAnnotatedToBeManaged secret \<and> \<not> isAnnotatedToBePatched secret"

definition unmanagedMessage :: "Secret \<Rightarrow> string" where
  "unmanagedMessage secret =
     ''Resource '' @ quoted (om_Name (sec_Meta secret)) @ '' already exists and is not managed by SealedSecret''"

text \<open>The target secret as the API server has it, created if it is not there.\<close>

definition getOrCreate ::
  "'w kube_api \<Rightarrow> string \<Rightarrow> Secret \<Rightarrow> 'w \<Rightarrow> (go_error + Secret) \<times> 'w" where
  "getOrCreate api ns newSecret w =
     (case SecretsGet api ns (om_Name (sec_Meta newSecret)) w of
        (Inl e, w) \<Rightarrow> if IsNotFound e then SecretsCreate api ns newSecret w else (Inl e, w)
      | (Inr secret, w) \<Rightarrow> (Inr secret, w))"

text \<open>The body of \<open>unseal\<close> from the unsealing on: the error it returns, and the new state.\<close>

definition unsealObject ::
  "'w Controller \<Rightarrow> string \<Rightarrow> SealedSecret \<Rightarrow> 'w ctl_state \<Rightarrow> (go_error option \<times> 'w ctl_state) outcome" where
  "unsealObject c key ssecret st =
     (let ns = om_Namespace (ss_Meta ssecret) in
      case attemptUnseal c (cs_registry st) ssecret of
        Inl err \<Rightarrow>
          Ret (Some err, incErrors ''unseal'' ns
            (recordEvent ssecret ''Warning'' ErrUnsealFailed (''Failed to unseal: '' @ err_text err) st))
      | Inr newSecret \<Rightarrow>
          (case getOrCreate (ctl_api c) ns newSecret (cs_world st) of
             (Inl err, w) \<Rightarrow>
               Ret (Some err, incErrors ''update'' ns
                 (recordEvent ssecret ''Warning'' ErrUpdateFailed (err_text err) (st\<lparr>cs_world := w\<rparr>)))
           | (Inr secret, w) \<Rightarrow>
               (let st = st\<lparr>cs_world := w\<rparr> in
                if notManaged (ctl_kube c) ssecret secret
                then let msg = unmanagedMessage secret in
                  Ret (Some (Errorf (''failed update: '' @ msg)), incErrors ''unmanaged'' ns
                    (recordEvent ssecret ''Warning'' ErrUpdateFailed msg st))
                else obind (mergeSecret secret newSecret) (\<lambda>updated.
                  let success = recordEvent ssecret ''Normal'' SuccessUnsealed ''SealedSecret unsealed successfully'' in
                  if \<not> SemanticDeepEqual (ctl_kube c) secret updated
                  then (case SecretsUpdate (ctl_api c) ns updated w of
                          (Inl err, w) \<Rightarrow>
                            Ret (Some err, incErrors ''update'' ns
                              (recordEvent ssecret ''Warning'' ErrUpdateFailed
                                (if isImmutableError err then formatImmutableError key else err_text err)
                                (st\<lparr>cs_world := w\<rparr>)))
                        | (Inr _, w) \<Rightarrow> Ret (None, success (st\<lparr>cs_world := w\<rparr>)))
                  else Ret (None, success st)))))"

text \<open>The deferred function: the status is updated with the error about to be returned.\<close>

definition reportStatus ::
  "'w Controller \<Rightarrow> time \<Rightarrow> string \<Rightarrow> SealedSecret \<Rightarrow> go_error option \<Rightarrow> 'w ctl_state \<Rightarrow> 'w ctl_state" where
  "reportStatus c now key ssecret unsealErr st =
     (case updateSealedSecretStatus (ctl_api c) (ctl_updateStatus c) now ssecret unsealErr (cs_world st) of
        (err, ssecret, w) \<Rightarrow>
          (let st = st\<lparr>cs_world := w, cs_index := (cs_index st)(key := Inr (Some (SealedSecretObj ssecret)))\<rparr> in
           case err of
             Some e \<Rightarrow> incErrors ''status'' (om_Namespace (ss_Meta ssecret)) st
           | None \<Rightarrow> st\<lparr>cs_metrics := ObserveCondition ssecret (cs_metrics st)\<rparr>))"

text \<open>A sealed secret that is gone: with the old behaviour its secret is deleted.\<close>

definition unsealGone ::
  "'w Controller \<Rightarrow> string \<Rightarrow> 'w ctl_state \<Rightarrow> go_error option \<times> 'w ctl_state" where
  "unsealGone c key st =
     (if ctl_oldGCBehavior c
      then (case SplitMetaNamespaceKey (ctl_kube c) key of
              Inl e \<Rightarrow> (Some e, st)
            | Inr (ns, name) \<Rightarrow>
                (case SecretsDelete (ctl_api c) ns name (cs_world st) of
                   (Some e, w) \<Rightarrow> (if IsNotFound e then None else Some e, st\<lparr>cs_world := w\<rparr>)
                 | (None, w) \<Rightarrow> (None, st\<lparr>cs_world := w\<rparr>)))
      else (None, st))"

definition unseal ::
  "'w Controller \<Rightarrow> time \<Rightarrow> string \<Rightarrow> 'w ctl_state \<Rightarrow> (go_error option \<times> 'w ctl_state) outcome" where
  "unseal c now key st =
     (let st = st\<lparr>cs_metrics := countRequest (cs_metrics st)\<rparr> in
      case cs_index st key of
        Inl err \<Rightarrow> Ret (Some err, incErrors ''fetch'' '''' st)
      | Inr None \<Rightarrow> Ret (unsealGone c key st)
      | Inr (Some obj) \<Rightarrow>
          (case convertSealedSecret (ctl_kube c) obj of
             Inl err \<Rightarrow> Ret (Some err, st)
           | Inr ssecret \<Rightarrow>
               obind (unsealObject c key ssecret st) (\<lambda>(err, st).
                 Ret (err, reportStatus c now key ssecret err st))))"

section \<open>The operations offered over HTTP\<close>

definition isMultiDocumentYAML :: "kube_lib \<Rightarrow> bytes \<Rightarrow> bool" where
  "isMultiDocumentYAML L src = (case YamlDecode L src of (_, rest) \<Rightarrow>
     (case YamlDecode L rest of (err, _) \<Rightarrow> err = None))"

definition EnsureNotMultiDoc :: "kube_lib \<Rightarrow> bytes \<Rightarrow> go_error option" where
  "EnsureNotMultiDoc L src = (if isMultiDocumentYAML L src
     then Some (Errorf ''Multistream YAML not supported yet (see https://github.com/bitnami-labs/sealed-secrets/issues/114)'')
     else None)"

definition unexpectedType :: "kube_lib \<Rightarrow> any_object \<Rightarrow> go_error" where
  "unexpectedType L obj = Errorf (''unexpected resource type: '' @ KindOf L obj)"

definition AttemptUnseal :: "'w Controller \<Rightarrow> KeyRegistry \<Rightarrow> bytes \<Rightarrow> go_error + bool" where
  "AttemptUnseal c kr content =
     (case EnsureNotMultiDoc (ctl_kube c) content of
        Some e \<Rightarrow> Inl e
      | None \<Rightarrow>
          (case DecodeObject (ctl_kube c) content of
             Inl e \<Rightarrow> Inl e
           | Inr obj \<Rightarrow>
               (case obj of
                  SealedSecretObj s \<Rightarrow> (case attemptUnseal c kr s of Inl _ \<Rightarrow> Inr False | Inr _ \<Rightarrow> Inr True)
                | _ \<Rightarrow> Inl (unexpectedType (ctl_kube c) obj))))"

text \<open>The template's metadata is made the object's own, if it is not already.\<close>

definition alignTemplate :: "SealedSecret \<Rightarrow> SealedSecret" where
  "alignTemplate s =
     (if \<not> meta_deep_equal (ss_Meta s) (tmpl_Meta (spec_Template (ss_Spec s)))
      then s\<lparr>ss_Spec := (ss_Spec s)\<lparr>spec_Template := (spec_Template (ss_Spec s))\<lparr>tmpl_Meta := ss_Meta s\<rparr>\<rparr>\<rparr>
      else s)"

definition Rotate ::
  "'w Controller \<Rightarrow> KeyRegistry \<Rightarrow> bytes \<Rightarrow> bytes \<Rightarrow> ((go_error + bytes) \<times> bytes) outcome" where
  "Rotate c kr content rnd =
     (case DecodeObject (ctl_kube c) content of
        Inl e \<Rightarrow> Ret (Inl e, rnd)
      | Inr obj \<Rightarrow>
          (case obj of
             SealedSecretObj s \<Rightarrow>
               (case attemptUnseal c kr (alignTemplate s) of
                  Inl err \<Rightarrow> Ret (Inl (Errorf (''error decrypting secret. '' @ err_text err)), rnd)
                | Inr secret \<Rightarrow>
                    obind (latestPrivateKey kr) (\<lambda>latestPrivKey.
                      case NewSealedSecret (ctl_crypto c) (rsaPublicKey latestPrivKey) secret rnd of
                        (Inl err, rnd) \<Rightarrow> Ret (Inl (Errorf (''error creating new sealed secret. '' @ err_text err)), rnd)
                      | (Inr resealedSecret, rnd) \<Rightarrow>
                          Ret (case MarshalSealedSecret (ctl_kube c) resealedSecret of
                                 Inl err \<Rightarrow> (Inl (Errorf (''error marshalling new secret to json. '' @ err_text err)), rnd)
                               | Inr data \<Rightarrow> (Inr data, rnd))))
           | _ \<Rightarrow> Ret (Inl (unexpectedType (ctl_kube c) obj), rnd)))"

end
