(* ===== verification/Server.thy ===== *)
theory Server
  imports Controller
begin

text \<open>
  The HTTP server of the controller (\<open>server.go\<close>): the four handlers, on the response writer of
  \<open>net/http\<close> as the code uses it (headers are sent with the status, the first status wins, a write
  sends 200). The request is the result of reading its body; rate limiting and instrumentation
  wrap the handlers from outside (\<open>HttpServer\<close>).
\<close>

section \<open>The response writer\<close>

record response =
  rs_header :: "(string \<times> string) list"
  rs_sent :: "(nat \<times> (string \<times> string) list) option"
  rs_body :: bytes

definition newResponse :: response where
  "newResponse = \<lparr> rs_header = [], rs_sent = None, rs_body = [] \<rparr>"

definition SetHeader :: "string \<Rightarrow> string \<Rightarrow> response \<Rightarrow> response" where
  "SetHeader k v r = r\<lparr>rs_header := AList.update k v (rs_header r)\<rparr>"

definition WriteHeader :: "nat \<Rightarrow> response \<Rightarrow> response" where
  "WriteHeader code r = (case rs_sent r of None \<Rightarrow> r\<lparr>rs_sent := Some (code, rs_header r)\<rparr> | Some _ \<Rightarrow> r)"

definition WriteBody :: "bytes \<Rightarrow> response \<Rightarrow> response" where
  "WriteBody b r = (let r = WriteHeader 200 r in r\<lparr>rs_body := rs_body r @ b\<rparr>)"

text \<open>\<open>http.Error\<close>, and the end of a handler, which sends 200 if nothing was sent.\<close>

definition httpError :: "string \<Rightarrow> nat \<Rightarrow> response \<Rightarrow> response" where
  "httpError message code r =
     WriteBody (string_bytes (message @ [CHR 0x0A]))
       (WriteHeader code (SetHeader ''X-Content-Type-Options'' ''nosniff''
         (SetHeader ''Content-Type'' ''text/plain; charset=utf-8'' r)))"

definition finishResponse :: "response \<Rightarrow> response" where
  "finishResponse r = WriteHeader 200 r"

definition status :: "response \<Rightarrow> nat" where
  "status r = (case rs_sent r of None \<Rightarrow> 200 | Some (code, _) \<Rightarrow> code)"

definition sentHeader :: "response \<Rightarrow> string \<Rightarrow> string option" where
  "sentHeader r k = (case rs_sent r of None \<Rightarrow> None | Some (_, h) \<Rightarrow> map_of h k)"

section \<open>The handlers\<close>

definition handleHealthz :: "response \<Rightarrow> response" where
  "handleHealthz w =
     WriteBody (string_bytes (''ok'' @ [CHR 0x0A])) (SetHeader ''Content-Type'' ''text/plain; charset=utf-8'' w)"

definition handleVerify :: "(bytes \<Rightarrow> go_error + bool) \<Rightarrow> go_error + bytes \<Rightarrow> response \<Rightarrow> response" where
  "handleVerify sc body w =
     (case body of
        Inl _ \<Rightarrow> WriteHeader 400 w
      | Inr content \<Rightarrow>
          (case sc content of
             Inl _ \<Rightarrow> WriteHeader 500 w
           | Inr valid \<Rightarrow> if valid then WriteHeader 200 w else WriteHeader 409 w))"

definition handleRotate ::
  "(bytes \<Rightarrow> bytes \<Rightarrow> ((go_error + bytes) \<times> bytes) outcome) \<Rightarrow> go_error + bytes \<Rightarrow> bytes \<Rightarrow> response
    \<Rightarrow> (response \<times> bytes) outcome" where
  "handleRotate sr body rnd w =
     (case body of
        Inl _ \<Rightarrow> Ret (WriteHeader 400 w, rnd)
      | Inr content \<Rightarrow>
          obind (sr content rnd) (\<lambda>(result, rnd).
            Ret (case result of
                   Inl _ \<Rightarrow> (WriteHeader 500 w, rnd)
                 | Inr newSecret \<Rightarrow>
                     (let w = WriteHeader 200 w;
                          w = SetHeader ''Content-Type'' ''application/json'' w
                      in (WriteBody newSecret w, rnd)))))"

definition handleCert :: "kube_lib \<Rightarrow> (go_error + Certificate list) \<Rightarrow> response \<Rightarrow> response" where
  "handleCert L certs w =
     (case certs of
        Inl _ \<Rightarrow> httpError ''cannot get certificate'' 500 w
      | Inr certs \<Rightarrow>
          fold (\<lambda>cert w. WriteBody (EncodeCertPEM L (cert_Raw cert)) w) certs
            (SetHeader ''Content-Type'' ''application/x-pem-file'' w))"

text \<open>The certificate provider that \<open>Main\<close> passes to the server.\<close>

definition certProvider :: "KeyRegistry \<Rightarrow> go_error + Certificate list" where
  "certProvider kr = (case getCert kr of Inl e \<Rightarrow> Inl e | Inr cert \<Rightarrow> Inr [cert])"

text \<open>The routes; None stands for the multiplexer's own 404.\<close>

definition serve ::
  "'w Controller \<Rightarrow> KeyRegistry \<Rightarrow> string \<Rightarrow> go_error + bytes \<Rightarrow> bytes \<Rightarrow> (response option \<times> bytes) outcome" where
  "serve c kr path body rnd =
     (if path = ''/healthz'' then Ret (Some (finishResponse (handleHealthz newResponse)), rnd)
      else if path = ''/v1/verify''
      then Ret (Some (finishResponse (handleVerify (AttemptUnseal c kr) body newResponse)), rnd)
      else if path = ''/v1/rotate''
      then obind (handleRotate (Rotate c kr) body rnd newResponse)
             (\<lambda>(w, rnd). Ret (Some (finishResponse w), rnd))
      else if path = ''/v1/cert.pem''
      then Ret (Some (finishResponse (handleCert (ctl_kube c) (certProvider kr) newResponse)), rnd)
      else Ret (None, rnd))"

end
