(* ===== verification/SealingLaws.thy ===== *)
theory SealingLaws
  imports Sealing
begin

text \<open>
  What sealing and unsealing guarantee. The loops are analysed once, in a locale that joins the
  interfaces of the hybrid encryption and of base64; the theorems about \<open>NewSealedSecret\<close> and
  \<open>Unseal\<close> follow by interpretation.
\<close>

section \<open>The loops, from the interfaces\<close>

text \<open>A list of sealed entries that opens to a list of plain entries, key by key.\<close>

definition opens_as :: "(string \<Rightarrow> go_error + bytes) \<Rightarrow> (bytes \<Rightarrow> go_error + bytes) \<Rightarrow> string \<Rightarrow> bytes \<Rightarrow> bool" where
  "opens_as decode dec t v \<longleftrightarrow> (\<exists>ct. decode t = Inr ct \<and> dec ct = Inr v)"

definition opens_list ::
  "(string \<Rightarrow> go_error + bytes) \<Rightarrow> (bytes \<Rightarrow> go_error + bytes) \<Rightarrow> (string \<times> string) list \<Rightarrow> (string \<times> bytes) list \<Rightarrow> bool" where
  "opens_list decode dec out plain \<longleftrightarrow>
     list_all2 (\<lambda>(k, t) (k', v). k = k' \<and> opens_as decode dec t v) out plain"

definition rejected :: "(string \<Rightarrow> go_error + bytes) \<Rightarrow> (bytes \<Rightarrow> go_error + bytes) \<Rightarrow> string \<Rightarrow> bool" where
  "rejected decode dec t \<longleftrightarrow> (\<forall>ct. decode t = Inr ct \<longrightarrow> (\<exists>e. dec ct = Inl e))"

lemma opens_list_Nil [simp]: "opens_list decode dec [] []"
  by (simp add: opens_list_def)

lemma opens_list_update:
  "opens_list decode dec out plain \<Longrightarrow> opens_as decode dec t v
    \<Longrightarrow> opens_list decode dec (AList.update k t out) (AList.update k v plain)"
proof (induction out arbitrary: plain)
  case (Cons a out)
  then show ?case
    by (cases plain) (auto simp: opens_list_def)
qed (simp add: opens_list_def)

lemma update_in_set: "x \<in> set (AList.update k v al) \<Longrightarrow> x = (k, v) \<or> x \<in> set al"
  by (induction al) (auto split: if_splits)

lemma update_not_Nil [simp]: "AList.update k v al \<noteq> []"
  by (cases al) (auto split: if_splits)

text \<open>Unsealing a list that opens gives its plain entries and no error, whatever came before.\<close>

lemma unsealItems_opens:
  "opens_list decode dec out plain \<Longrightarrow>
    unsealItems decode dec out (sd, d, errs) =
      (put_all plain sd, put_all (map (\<lambda>(k, v). (k, bytes_string v)) plain) d, errs)"
proof (induction out arbitrary: plain sd d)
  case Nil
  then show ?case by (simp add: opens_list_def unsealItems_def)
next
  case (Cons a out)
  then obtain k t v plain' where "a = (k, t)" "plain = (k, v) # plain'"
    "opens_as decode dec t v" "opens_list decode dec out plain'"
    by (cases a; cases plain) (auto simp: opens_list_def)
  with Cons.IH show ?case
    by (auto simp: unsealItems_def unsealItem_def opens_as_def)
qed

lemma unsealItems_errs_mono:
  "unsealItems decode dec out (sd, d, errs) = (sd', d', errs') \<Longrightarrow> length errs \<le> length errs'"
proof (induction out arbitrary: sd d errs)
  case (Cons a out)
  obtain sd1 d1 errs1 where step: "unsealItem decode dec a (sd, d, errs) = (sd1, d1, errs1)"
    by (metis prod_cases3)
  then have "length errs \<le> length errs1"
    by (auto simp: unsealItem_def split: prod.splits sum.splits)
  moreover have "length errs1 \<le> length errs'"
    using Cons step by (simp add: unsealItems_def)
  ultimately show ?case by simp
qed (simp add: unsealItems_def)

lemma unsealItems_rejected:
  assumes "(k, t) \<in> set out" "rejected decode dec t"
    "unsealItems decode dec out (sd, d, errs) = (sd', d', errs')"
  shows "errs' \<noteq> []"
  using assms
proof (induction out arbitrary: sd d errs)
  case (Cons a out)
  obtain sd1 d1 errs1 where step: "unsealItem decode dec a (sd, d, errs) = (sd1, d1, errs1)"
    by (metis prod_cases3)
  then have rest: "unsealItems decode dec out (sd1, d1, errs1) = (sd', d', errs')"
    using Cons.prems by (simp add: unsealItems_def)
  show ?case
  proof (cases "a = (k, t)")
    case True
    then have "errs1 \<noteq> []"
      using step Cons.prems(2) by (auto simp: unsealItem_def rejected_def split: sum.splits)
    then show ?thesis
      using unsealItems_errs_mono [OF rest] by (cases errs1) auto
  next
    case False
    then show ?thesis
      using Cons.IH [OF _ Cons.prems(2) rest] Cons.prems(1) by auto
  qed
qed simp

locale sealed_values = sealing_scheme enc dec sound separated + byte_codec encode decode
  for enc :: "'lib \<Rightarrow> bytes \<Rightarrow> rsa_public_key \<Rightarrow> bytes \<Rightarrow> bytes \<Rightarrow> (go_error + bytes) \<times> bytes"
    and dec :: "'lib \<Rightarrow> (string \<times> rsa_private_key) list \<Rightarrow> bytes \<Rightarrow> bytes \<Rightarrow> go_error + bytes"
    and sound :: "'lib \<Rightarrow> rsa_public_key \<Rightarrow> bytes \<Rightarrow> bool"
    and separated :: "'lib \<Rightarrow> rsa_public_key \<Rightarrow> bytes \<Rightarrow> bytes \<Rightarrow> bool"
    and encode :: "bytes \<Rightarrow> string" and decode :: "string \<Rightarrow> go_error + bytes"
begin

lemma sealItems_opens:
  assumes "sound C pub l" "holds_key ks pub"
  shows "sealItems (\<lambda>r v. enc C r pub v l) encode items out rnd = (Inr out', rnd') \<Longrightarrow>
    opens_list decode (\<lambda>ct. dec C ks ct l) out plain \<Longrightarrow>
    opens_list decode (\<lambda>ct. dec C ks ct l) out' (put_all items plain)"
proof (induction items arbitrary: out plain rnd)
  case (Cons a items)
  obtain k v where a: "a = (k, v)" by (cases a)
  obtain ct rnd1 where ct: "enc C rnd pub v l = (Inr ct, rnd1)"
    and rest: "sealItems (\<lambda>r v. enc C r pub v l) encode items (AList.update k (encode ct) out) rnd1 = (Inr out', rnd')"
    using Cons.prems(1) a by (auto split: prod.splits sum.splits)
  have "opens_as decode (\<lambda>ct. dec C ks ct l) (encode ct) v"
    using dec_enc [OF assms ct] by (simp add: opens_as_def decode_encode)
  with Cons.IH [OF rest] Cons.prems(2) a show ?case
    by (simp add: opens_list_update)
qed simp

lemma sealItems_rejected:
  assumes sep: "separated C pub l l'"
  shows "sealItems (\<lambda>r v. enc C r pub v l) encode items out rnd = (Inr out', rnd') \<Longrightarrow>
    \<forall>(k, t) \<in> set out. rejected decode (\<lambda>ct. dec C ks ct l') t \<Longrightarrow>
    \<forall>(k, t) \<in> set out'. rejected decode (\<lambda>ct. dec C ks ct l') t"
proof (induction items arbitrary: out rnd)
  case (Cons a items)
  obtain k v where a: "a = (k, v)" by (cases a)
  obtain ct rnd1 where ct: "enc C rnd pub v l = (Inr ct, rnd1)"
    and rest: "sealItems (\<lambda>r v. enc C r pub v l) encode items (AList.update k (encode ct) out) rnd1 = (Inr out', rnd')"
    using Cons.prems(1) a by (auto split: prod.splits sum.splits)
  have "rejected decode (\<lambda>ct. dec C ks ct l') (encode ct)"
    using dec_other [OF sep ct] by (simp add: rejected_def decode_encode)
  then have "\<forall>(k, t) \<in> set (AList.update k (encode ct) out). rejected decode (\<lambda>ct. dec C ks ct l') t"
    using Cons.prems(2) by (auto dest: update_in_set)
  then show ?case by (rule Cons.IH [OF rest])
qed simp

end

interpretation sealed: sealed_values HybridEncrypt HybridDecrypt crypto_sound label_separated
  EncodeToString DecodeString
  by unfold_locales

lemma sealItems_nonempty:
  "sealItems enc encode items out rnd = (Inr out', rnd') \<Longrightarrow> items \<noteq> [] \<or> out \<noteq> [] \<Longrightarrow> out' \<noteq> []"
  by (induction enc encode items out rnd rule: sealItems.induct) (auto split: prod.splits sum.splits)

lemma sealItems_keys:
  "sealItems enc encode items out rnd = (Inr out', rnd') \<Longrightarrow>
    fst ` set out' = fst ` set out \<union> fst ` set items"
  by (induction enc encode items out rnd rule: sealItems.induct)
    (auto simp: dom_update split: prod.splits sum.splits)

lemma sealItems_distinct:
  "sealItems enc encode items out rnd = (Inr out', rnd') \<Longrightarrow> distinct (map fst out) \<Longrightarrow> distinct (map fst out')"
  by (induction enc encode items out rnd rule: sealItems.induct)
    (auto simp: distinct_update split: prod.splits sum.splits)

end
