(* ===== verification/SealingProps.thy ===== *)
theory SealingProps
  imports SealingLaws Samples
begin

text \<open>
  The theorems about sealing and unsealing: what is sealed comes back, and only in a place the
  scope allows; a failed value fails the whole secret; the sealed object leaks nothing in clear.
\<close>

section \<open>Shape of a sealed secret\<close>

text \<open>The entries a secret stands for: \<open>StringData\<close> written over \<open>Data\<close>.\<close>

definition plainEntries :: "Secret \<Rightarrow> (string \<times> bytes) list" where
  "plainEntries secret =
     put_all (string_items (sec_StringData secret)) (put_all (map_entries (sec_Data secret)) [])"

definition plainValue :: "Secret \<Rightarrow> string \<Rightarrow> bytes option" where
  "plainValue secret k = (case map_get (sec_StringData secret) k of Some v \<Rightarrow> Some (string_bytes v)
     | None \<Rightarrow> map_get (sec_Data secret) k)"

definition secret_wf :: "Secret \<Rightarrow> bool" where
  "secret_wf secret \<longleftrightarrow> map_wf (sec_Data secret) \<and> map_wf (sec_StringData secret)"

lemma map_of_string_items:
  "map_of (string_items m) k = map_option string_bytes (map_get m k)"
proof -
  have "map_of (map (\<lambda>(k, v). (k, string_bytes v)) al) k = map_option string_bytes (map_of al k)" for al
    by (induction al) auto
  then show ?thesis by (simp add: string_items_def map_get_def)
qed

lemma keys_string_items: "map fst (string_items m) = map fst (map_entries m)"
  by (simp add: string_items_def case_prod_unfold comp_def)

lemma plainEntries_value:
  assumes "secret_wf secret"
  shows "map_of (plainEntries secret) k = plainValue secret k"
  using assms
  by (simp add: plainEntries_def plainValue_def secret_wf_def map_wf_def map_of_put_all
      keys_string_items map_of_string_items map_get_def split: option.splits)

lemma distinct_plainEntries: "distinct (map fst (plainEntries secret))"
  by (simp add: plainEntries_def)

lemma put_all_Nil_value: "distinct (map fst src) \<Longrightarrow> map_of (put_all src []) k = map_of src k"
  by (simp add: map_of_put_all split: option.splits)

lemma NewSealedSecret_Inr:
  assumes "NewSealedSecret C pub secret rnd = (Inr s, rnd')"
  obtains out1 out2 rnd1 where
    "\<not> missingNamespace secret"
    "sealItems (\<lambda>r v. HybridEncrypt C r pub v (labelFor (sec_Meta secret))) EncodeToString
       (map_entries (sec_Data secret)) [] rnd = (Inr out1, rnd1)"
    "sealItems (\<lambda>r v. HybridEncrypt C r pub v (labelFor (sec_Meta secret))) EncodeToString
       (string_items (sec_StringData secret)) out1 rnd1 = (Inr out2, rnd')"
    "ss_Spec s = \<lparr> spec_Template = sealTemplate secret, spec_Data = None, spec_EncryptedData = Some out2 \<rparr>"
    "ss_Meta s = emptyObjectMeta\<lparr>om_Name := om_Name (sec_Meta secret),
       om_Namespace := om_Namespace (sec_Meta secret),
       om_Annotations := UpdateScopeAnnotations None (SecretScope (sec_Meta secret))\<rparr>"
  using assms
  by (auto simp: NewSealedSecret_def Let_def split: if_splits sum.splits prod.splits)

lemma SecretScope_sealed_annotations:
  "SecretScope (m\<lparr>om_Annotations := UpdateScopeAnnotations anno (SecretScope m')\<rparr>) = SecretScope m'"
  using SecretScope_range [of m'] by (auto simp: SecretScope_UpdateScopeAnnotations scope_defs)

lemma sealed_scope:
  assumes "NewSealedSecret C pub secret rnd = (Inr s, rnd')"
  shows "SecretScope (ss_Meta s) = SecretScope (sec_Meta secret)"
  by (rule NewSealedSecret_Inr [OF assms]) (simp add: SecretScope_sealed_annotations)

lemma sealed_label:
  assumes "NewSealedSecret C pub secret rnd = (Inr s, rnd')"
  shows "labelFor (ss_Meta s) = labelFor (sec_Meta secret)"
  by (rule NewSealedSecret_Inr [OF assms])
    (simp add: labelFor_def SecretScope_sealed_annotations)

lemma sealTemplate_scope: "SecretScope (tmpl_Meta (sealTemplate secret)) = SecretScope (sec_Meta secret)"
  by (simp add: sealTemplate_def Let_def SecretScope_def map_read_def StripLastAppliedAnnotations_get
      scope_annotations_kept)

lemma sealed_template_scope:
  assumes "NewSealedSecret C pub secret rnd = (Inr s, rnd')"
  shows "SealedSecret_Scope s = SecretScope (sec_Meta secret)"
  by (rule NewSealedSecret_Inr [OF assms]) (simp add: SealedSecret_Scope_def sealTemplate_scope)

section \<open>What is sealed comes back\<close>

lemma sealed_opens:
  assumes "crypto_sound C pub (labelFor (sec_Meta secret))" "holds_key ks pub"
    "NewSealedSecret C pub secret rnd = (Inr s, rnd')"
  shows "opens_list DecodeString (\<lambda>ct. HybridDecrypt C ks ct (labelFor (sec_Meta secret)))
    (map_entries (spec_EncryptedData (ss_Spec s))) (plainEntries secret)"
proof -
  obtain out1 rnd1 out2 where one: "sealItems (\<lambda>r v. HybridEncrypt C r pub v (labelFor (sec_Meta secret)))
      EncodeToString (map_entries (sec_Data secret)) [] rnd = (Inr out1, rnd1)"
    and two: "sealItems (\<lambda>r v. HybridEncrypt C r pub v (labelFor (sec_Meta secret)))
      EncodeToString (string_items (sec_StringData secret)) out1 rnd1 = (Inr out2, rnd')"
    and s: "ss_Spec s = \<lparr> spec_Template = sealTemplate secret, spec_Data = None, spec_EncryptedData = Some out2 \<rparr>"
    by (rule NewSealedSecret_Inr [OF assms(3)])
  note sealed.sealItems_opens [OF assms(1,2)]
  from this [OF two this [OF one opens_list_Nil]] show ?thesis
    by (simp add: s plainEntries_def)
qed

text \<open>Unsealing in any place with the same label, with any later metadata of the SealedSecret.\<close>

lemma Unseal_sealed:
  assumes "crypto_sound C pub (labelFor (sec_Meta secret))" "holds_key ks pub"
    "NewSealedSecret C pub secret rnd = (Inr s, rnd')"
    and s': "ss_Spec s' = ss_Spec s" "labelFor (ss_Meta s') = labelFor (sec_Meta secret)"
  shows "Unseal C L v1 ks s' = Inr (finishUnseal L s'
    \<lparr> sec_Meta = tmpl_Meta (sealTemplate secret), sec_Immutable = sec_Immutable secret,
      sec_Data = Some (put_all (plainEntries secret) []), sec_StringData = None,
      sec_Type = sec_Type secret \<rparr>)"
proof (rule NewSealedSecret_Inr [OF assms(3)])
  fix out
  assume spec: "ss_Spec s = \<lparr> spec_Template = sealTemplate secret, spec_Data = None, spec_EncryptedData = Some out \<rparr>"
  show ?thesis
    using unsealItems_opens [OF sealed_opens [OF assms(1-3)], of "[]" "[]" "[]"]
    by (simp add: Unseal_def unsealEncryptedData_def Let_def s' spec sealTemplate_def)
qed

text \<open>The places a scope allows, and a sealed secret moved to another place.\<close>

definition scope_allows :: "SealingScope \<Rightarrow> string \<Rightarrow> string \<Rightarrow> string \<Rightarrow> string \<Rightarrow> bool" where
  "scope_allows scope ns n ns' n' \<longleftrightarrow>
     scope = ClusterWideScope \<or> (scope = NamespaceWideScope \<and> ns = ns') \<or> (ns = ns' \<and> n = n')"

definition relocate :: "SealedSecret \<Rightarrow> string \<Rightarrow> string \<Rightarrow> SealedSecret" where
  "relocate s ns n = s\<lparr>ss_Meta := (ss_Meta s)\<lparr>om_Namespace := ns, om_Name := n\<rparr>\<rparr>"

lemma relocate_simps [simp]:
  "ss_Spec (relocate s ns n) = ss_Spec s" "om_Namespace (ss_Meta (relocate s ns n)) = ns"
  "om_Name (ss_Meta (relocate s ns n)) = n"
  by (simp_all add: relocate_def)

lemma labelFor_relocate: "labelFor (ss_Meta (relocate s ns n)) = EncryptionLabel ns n (SecretScope (ss_Meta s))"
  by (simp add: relocate_def labelFor_def SecretScope_def)

lemma labels_equal_iff:
  assumes "CHR ''/'' \<notin> set ns" "CHR ''/'' \<notin> set ns'"
    "sc \<in> {StrictScope, NamespaceWideScope, ClusterWideScope}"
  shows "EncryptionLabel ns n sc = EncryptionLabel ns' n' sc \<longleftrightarrow> scope_allows sc ns n ns' n'"
proof -
  consider "sc = StrictScope" | "sc = NamespaceWideScope" | "sc = ClusterWideScope"
    using assms(3) by blast
  then show ?thesis
  proof cases
    case 1
    then show ?thesis
      using strict_label_inject [OF assms(1,2), of n n'] by (auto simp: scope_allows_def scope_defs)
  next
    case 2
    then show ?thesis
      using namespace_label_inject [of ns n ns' n'] by (auto simp: scope_allows_def scope_defs)
  next
    case 3
    then show ?thesis by (simp add: scope_allows_def EncryptionLabel_def scope_defs)
  qed
qed

lemma labels_equal_if_allowed:
  assumes "sc \<in> {StrictScope, NamespaceWideScope, ClusterWideScope}" "scope_allows sc ns n ns' n'"
  shows "EncryptionLabel ns n sc = EncryptionLabel ns' n' sc"
  using assms by (auto simp: scope_allows_def EncryptionLabel_def scope_defs)

lemma finishUnseal_simps [simp]:
  "sec_Data (finishUnseal L s secret) = sec_Data secret" "sec_Type (finishUnseal L s secret) = sec_Type secret"
  "sec_Immutable (finishUnseal L s secret) = sec_Immutable secret"
  "sec_StringData (finishUnseal L s secret) = sec_StringData secret"
  "om_Name (sec_Meta (finishUnseal L s secret)) = om_Name (ss_Meta s)"
  "om_Namespace (sec_Meta (finishUnseal L s secret)) = om_Namespace (ss_Meta s)"
  "om_Labels (sec_Meta (finishUnseal L s secret)) = om_Labels (sec_Meta secret)"
  "om_Annotations (sec_Meta (finishUnseal L s secret)) = om_Annotations (sec_Meta secret)"
  by (simp_all add: finishUnseal_def Let_def)

text \<open>
  C1: a secret sealed by \<open>NewSealedSecret\<close> unseals, with any key ring that holds the private key,
  in every place its scope allows: every key of \<open>Data\<close> and \<open>StringData\<close> has its plain value again
  (\<open>StringData\<close> wins), the type and the immutable flag are the original ones, and the result is
  named after the place.
\<close>

theorem unseal_where_scope_allows:
  assumes "secret_wf secret" "crypto_sound C pub (labelFor (sec_Meta secret))" "holds_key ks pub"
    "NewSealedSecret C pub secret rnd = (Inr s, rnd')"
    "scope_allows (SecretScope (sec_Meta secret)) (om_Namespace (sec_Meta secret)) (om_Name (sec_Meta secret)) ns n"
  shows "\<exists>secret'. Unseal C L v1 ks (relocate s ns n) = Inr secret'
    \<and> (\<forall>k. map_get (sec_Data secret') k = plainValue secret k)
    \<and> sec_Type secret' = sec_Type secret \<and> sec_Immutable secret' = sec_Immutable secret
    \<and> om_Namespace (sec_Meta secret') = ns \<and> om_Name (sec_Meta secret') = n"
proof -
  have "labelFor (ss_Meta (relocate s ns n)) = labelFor (sec_Meta secret)"
    using labels_equal_if_allowed [OF SecretScope_range assms(5)] sealed_scope [OF assms(4)]
    unfolding labelFor_relocate by (simp add: labelFor_def)
  from Unseal_sealed [OF assms(2-4) relocate_simps(1) this, of L v1] show ?thesis
    by (simp add: map_get_def put_all_Nil_value distinct_plainEntries plainEntries_value [OF assms(1)])
qed

text \<open>The sample secret, sealed.\<close>

definition sampleSealed :: SealedSecret where
  "sampleSealed = projr (fst (NewSealedSecret sampleCrypto (rsaPublicKey sampleKey) sampleSecret sampleRandom))"

lemma sample_seals:
  "NewSealedSecret sampleCrypto (rsaPublicKey sampleKey) sampleSecret sampleRandom =
    (Inr sampleSealed, drop 64 sampleRandom)"
  by (simp add: sampleSealed_def NewSealedSecret_def missingNamespace_def sampleSecret_def emptySecret_def
      string_items_def sample_HybridEncrypt Let_def sampleRandom_def)

lemma sample_scope: "SecretScope (sec_Meta sampleSecret) = StrictScope"
  by code_simp

lemma sample_label: "labelFor (sec_Meta sampleSecret) = string_bytes ''prod/db''"
  by code_simp

lemma sample_sound: "crypto_sound sampleCrypto (rsaPublicKey sampleKey) (labelFor (sec_Meta sampleSecret))"
  by (simp add: sample_label sample_crypto_sound sampleKey_def)

theorem unseal_where_scope_allows_witness:
  "\<exists>secret'. Unseal sampleCrypto sampleKube True sampleRing (relocate sampleSealed ''prod'' ''db'') = Inr secret'
    \<and> map_get (sec_Data secret') ''pass'' = Some (string_bytes ''x'')
    \<and> map_get (sec_Data secret') ''user'' = Some [1, 2] \<and> om_Name (sec_Meta secret') = ''db''"
proof -
  have wf: "secret_wf sampleSecret" by code_simp
  have "scope_allows (SecretScope (sec_Meta sampleSecret)) (om_Namespace (sec_Meta sampleSecret))
      (om_Name (sec_Meta sampleSecret)) ''prod'' ''db''" by code_simp
  from unseal_where_scope_allows [OF wf sample_sound sample_holds_key sample_seals this, of sampleKube True]
  obtain secret' where secret': "Unseal sampleCrypto sampleKube True sampleRing
      (relocate sampleSealed ''prod'' ''db'') = Inr secret'"
    and v: "\<forall>k. map_get (sec_Data secret') k = plainValue sampleSecret k"
    and n: "om_Name (sec_Meta secret') = ''db''" by blast
  have "plainValue sampleSecret ''pass'' = Some (string_bytes ''x'')" by code_simp
  moreover have "plainValue sampleSecret ''user'' = Some [1, 2]" by code_simp
  ultimately show ?thesis using secret' v n by simp
qed

section \<open>A sealed secret opens nowhere else\<close>

lemma sealed_entries_rejected:
  assumes "label_separated C pub (labelFor (sec_Meta secret)) l'"
    "NewSealedSecret C pub secret rnd = (Inr s, rnd')"
    "(k, t) \<in> set (map_entries (spec_EncryptedData (ss_Spec s)))"
  shows "rejected DecodeString (\<lambda>ct. HybridDecrypt C ks ct l') t"
proof -
  obtain out1 rnd1 out2 where one: "sealItems (\<lambda>r v. HybridEncrypt C r pub v (labelFor (sec_Meta secret)))
      EncodeToString (map_entries (sec_Data secret)) [] rnd = (Inr out1, rnd1)"
    and two: "sealItems (\<lambda>r v. HybridEncrypt C r pub v (labelFor (sec_Meta secret)))
      EncodeToString (string_items (sec_StringData secret)) out1 rnd1 = (Inr out2, rnd')"
    and s: "ss_Spec s = \<lparr> spec_Template = sealTemplate secret, spec_Data = None, spec_EncryptedData = Some out2 \<rparr>"
    by (rule NewSealedSecret_Inr [OF assms(2)])
  note rej = sealed.sealItems_rejected [OF assms(1)]
  have "\<forall>(k, t) \<in> set out2. rejected DecodeString (\<lambda>ct. HybridDecrypt C ks ct l') t"
    by (rule rej [OF two rej [OF one]]) simp
  with assms(3) show ?thesis by (auto simp: s)
qed

lemma sealed_has_entries:
  assumes "NewSealedSecret C pub secret rnd = (Inr s, rnd')"
    "map_entries (sec_Data secret) \<noteq> [] \<or> map_entries (sec_StringData secret) \<noteq> []"
  shows "map_entries (spec_EncryptedData (ss_Spec s)) \<noteq> []"
proof (rule NewSealedSecret_Inr [OF assms(1)])
  fix out1 out2 rnd1
  assume one: "sealItems (\<lambda>r v. HybridEncrypt C r pub v (labelFor (sec_Meta secret))) EncodeToString
       (map_entries (sec_Data secret)) [] rnd = (Inr out1, rnd1)"
    and two: "sealItems (\<lambda>r v. HybridEncrypt C r pub v (labelFor (sec_Meta secret))) EncodeToString
       (string_items (sec_StringData secret)) out1 rnd1 = (Inr out2, rnd')"
    and s: "ss_Spec s = \<lparr> spec_Template = sealTemplate secret, spec_Data = None, spec_EncryptedData = Some out2 \<rparr>"
  have "string_items (sec_StringData secret) \<noteq> [] \<or> out1 \<noteq> []"
    using assms(2) sealItems_nonempty [OF one] by (auto simp: string_items_def)
  from sealItems_nonempty [OF two this] show ?thesis by (simp add: s)
qed

lemma render_errs_mono:
  "fold (renderItem L data) items (sd, errs) = (sd', errs') \<Longrightarrow> errs \<noteq> [] \<Longrightarrow> errs' \<noteq> []"
proof (induction items arbitrary: sd errs)
  case (Cons a items)
  obtain sd1 errs1 where "renderItem L data a (sd, errs) = (sd1, errs1)"
    by (metis surj_pair)
  moreover from this have "errs1 \<noteq> []"
    using Cons.prems(2) by (auto simp: renderItem_def split: prod.splits template_result.splits option.splits)
  ultimately show ?case
    using Cons by simp
qed simp

text \<open>One rejected value is enough to fail the whole secret, whatever the templates do.\<close>

lemma Unseal_rejected:
  assumes "(k, t) \<in> set (map_entries (spec_EncryptedData (ss_Spec s)))" "spec_Data (ss_Spec s) = None"
    "rejected DecodeString (\<lambda>ct. HybridDecrypt C ks ct (labelFor (ss_Meta s))) t"
  shows "isl (Unseal C L v1 ks s)"
proof -
  obtain sd d errs where u: "unsealItems DecodeString (\<lambda>ct. HybridDecrypt C ks ct (labelFor (ss_Meta s)))
      (map_entries (spec_EncryptedData (ss_Spec s))) ([], [], []) = (sd, d, errs)"
    by (metis prod_cases3)
  have "errs \<noteq> []"
    using unsealItems_rejected [OF assms(1,3) u] .
  then show ?thesis
    using render_errs_mono [of L d "map_entries (tmpl_Data (spec_Template (ss_Spec s)))" sd errs]
    by (auto simp: Unseal_def unsealEncryptedData_def Let_def u assms(2) split: prod.splits)
qed

lemma sealed_refused:
  assumes "NewSealedSecret C pub secret rnd = (Inr s, rnd')"
    "map_entries (sec_Data secret) \<noteq> [] \<or> map_entries (sec_StringData secret) \<noteq> []"
    "label_separated C pub (labelFor (sec_Meta secret)) (labelFor (ss_Meta s'))"
    "ss_Spec s' = ss_Spec s"
  shows "isl (Unseal C L v1 ks s')"
proof -
  obtain k t where kt: "(k, t) \<in> set (map_entries (spec_EncryptedData (ss_Spec s)))"
    using sealed_has_entries [OF assms(1,2)]
    by (cases "map_entries (spec_EncryptedData (ss_Spec s))") auto
  have "spec_Data (ss_Spec s) = None"
    by (rule NewSealedSecret_Inr [OF assms(1)]) simp
  then show ?thesis
    using Unseal_rejected [OF _ _ sealed_entries_rejected [OF assms(3,1) kt]] kt assms(4) by metis
qed

text \<open>
  C6: no key ring opens a sealed secret with data in it in a place its scope does not allow:
  another namespace or name for a strict secret, another namespace for a namespace-wide one.
  \<open>Unseal\<close> returns an error there. OAEP is assumed to bind the label, for the two labels involved.
\<close>

theorem unseal_refused_elsewhere:
  assumes "NewSealedSecret C pub secret rnd = (Inr s, rnd')"
    "map_entries (sec_Data secret) \<noteq> [] \<or> map_entries (sec_StringData secret) \<noteq> []"
    "oaep_fits C pub (labelFor (sec_Meta secret))"
    "oaep_label_bound C (labelFor (sec_Meta secret)) (labelFor (ss_Meta (relocate s ns n)))"
    "CHR ''/'' \<notin> set (om_Namespace (sec_Meta secret))" "CHR ''/'' \<notin> set ns"
    "\<not> scope_allows (SecretScope (sec_Meta secret)) (om_Namespace (sec_Meta secret)) (om_Name (sec_Meta secret)) ns n"
  shows "\<exists>e. Unseal C L v1 ks (relocate s ns n) = Inl e"
proof -
  have "labelFor (ss_Meta (relocate s ns n)) = EncryptionLabel ns n (SecretScope (sec_Meta secret))"
    by (simp only: labelFor_relocate sealed_scope [OF assms(1)])
  then have "labelFor (sec_Meta secret) \<noteq> labelFor (ss_Meta (relocate s ns n))"
    using labels_equal_iff [OF assms(5,6) SecretScope_range, where n = "om_Name (sec_Meta secret)" and n' = n] assms(7)
    by (simp add: labelFor_def)
  with assms have "label_separated C pub (labelFor (sec_Meta secret)) (labelFor (ss_Meta (relocate s ns n)))"
    by (simp add: label_separated_def)
  from sealed_refused [OF assms(1,2) this relocate_simps(1)] show ?thesis
    by (auto simp: isl_def)
qed

theorem unseal_refused_elsewhere_witness:
  "\<exists>e. Unseal sampleCrypto sampleKube True sampleRing (relocate sampleSealed ''test'' ''db'') = Inl e"
proof (rule unseal_refused_elsewhere [OF sample_seals])
  show "oaep_fits sampleCrypto (rsaPublicKey sampleKey) (labelFor (sec_Meta sampleSecret))"
    using sample_sound by (simp add: crypto_sound_def)
  show "\<not> scope_allows (SecretScope (sec_Meta sampleSecret)) (om_Namespace (sec_Meta sampleSecret))
      (om_Name (sec_Meta sampleSecret)) ''test'' ''db''" by code_simp
qed (simp_all add: sample_oaep_label_bound sampleSecret_def)

text \<open>
  C8: a user who edits the annotations of a sealed secret to claim a wider scope gains nothing:
  with any metadata whose label is not the one it was sealed under (in particular a cluster-wide
  or namespace-wide annotation added to a strict secret) \<open>Unseal\<close> returns an error.
\<close>

theorem scope_cannot_be_widened:
  assumes "NewSealedSecret C pub secret rnd = (Inr s, rnd')"
    "map_entries (sec_Data secret) \<noteq> [] \<or> map_entries (sec_StringData secret) \<noteq> []"
    "SecretScope (sec_Meta secret) = StrictScope" "CHR ''/'' \<notin> set (om_Namespace (ss_Meta s'))"
    "ss_Spec s' = ss_Spec s" "SecretScope (ss_Meta s') \<noteq> StrictScope"
    "oaep_fits C pub (labelFor (sec_Meta secret))"
    "oaep_label_bound C (labelFor (sec_Meta secret)) (labelFor (ss_Meta s'))"
  shows "\<exists>e. Unseal C L v1 ks s' = Inl e"
proof -
  have "SecretScope (ss_Meta s') \<in> {NamespaceWideScope, ClusterWideScope}"
    using SecretScope_range [of "ss_Meta s'"] assms(6) by blast
  then have "labelFor (ss_Meta s') \<noteq> labelFor (sec_Meta secret)"
    using assms(3,4) strict_namespace_labels_differ [OF assms(4), of "om_Namespace (sec_Meta secret)"
        "om_Name (sec_Meta secret)" "om_Name (ss_Meta s')"]
    by (auto simp: labelFor_def EncryptionLabel_def string_bytes_def scope_defs)
  with assms have "label_separated C pub (labelFor (sec_Meta secret)) (labelFor (ss_Meta s'))"
    by (simp add: label_separated_def)
  from sealed_refused [OF assms(1,2) this assms(5)] show ?thesis
    by (auto simp: isl_def)
qed

theorem scope_cannot_be_widened_witness:
  "\<exists>e. Unseal sampleCrypto sampleKube True sampleRing
     (sampleSealed\<lparr>ss_Meta := (ss_Meta sampleSealed)
        \<lparr>om_Annotations := Some [(SealedSecretClusterWideAnnotation, ''true'')]\<rparr>\<rparr>) = Inl e"
proof (rule scope_cannot_be_widened [OF sample_seals])
  show "oaep_fits sampleCrypto (rsaPublicKey sampleKey) (labelFor (sec_Meta sampleSecret))"
    using sample_sound by (simp add: crypto_sound_def)
  have "om_Namespace (ss_Meta sampleSealed) = ''prod''"
    by (rule NewSealedSecret_Inr [OF sample_seals]) (simp add: sampleSecret_def)
  then show "CHR ''/'' \<notin> set (om_Namespace (ss_Meta (sampleSealed\<lparr>ss_Meta := (ss_Meta sampleSealed)
        \<lparr>om_Annotations := Some [(SealedSecretClusterWideAnnotation, ''true'')]\<rparr>\<rparr>)))"
    by simp
qed (simp_all add: sample_oaep_label_bound sample_scope sampleSecret_def SecretScope_def map_read_def
    map_get_def scope_defs emptyObjectMeta_def)

section \<open>All or nothing\<close>

lemma unsealItems_no_errs:
  assumes "unsealItems decode dec out (sd, d, errs) = (sd', d', [])"
  shows "\<exists>plain. opens_list decode dec out plain"
  using assms
proof (induction out arbitrary: sd d errs)
  case Nil
  have "opens_list decode dec [] []" by simp
  then show ?case ..
next
  case (Cons a out)
  obtain k t where a: "a = (k, t)" by (cases a)
  obtain sd1 d1 errs1 where step: "unsealItem decode dec a (sd, d, errs) = (sd1, d1, errs1)"
    by (metis prod_cases3)
  then have rest: "unsealItems decode dec out (sd1, d1, errs1) = (sd', d', [])"
    using Cons.prems by (simp add: unsealItems_def)
  then obtain plain where plain: "opens_list decode dec out plain"
    using Cons.IH by blast
  have "errs1 = []"
    using unsealItems_errs_mono [OF rest] by simp
  then have "\<exists>v. opens_as decode dec t v"
    using step a by (auto simp: unsealItem_def opens_as_def split: sum.splits)
  then obtain v where "opens_as decode dec t v" ..
  with plain a have "opens_list decode dec (a # out) ((k, v) # plain)"
    by (simp add: opens_list_def)
  then show ?case ..
qed

lemma opens_list_keys: "opens_list decode dec out plain \<Longrightarrow> map fst out = map fst plain"
  unfolding opens_list_def
  by (induction out plain rule: list_all2_induct) (auto simp: case_prod_unfold)

lemma opens_list_member:
  "opens_list decode dec out plain \<Longrightarrow> (k, t) \<in> set out \<Longrightarrow>
    \<exists>v. (k, v) \<in> set plain \<and> opens_as decode dec t v"
  unfolding opens_list_def
  by (induction out plain rule: list_all2_induct) (auto simp: case_prod_unfold)

lemma render_other_keys:
  "fold (renderItem L data) items (sd, errs) = (sd', errs') \<Longrightarrow> k \<notin> fst ` set items \<Longrightarrow>
    map_of sd' k = map_of sd k"
proof (induction items arbitrary: sd errs)
  case (Cons a items)
  obtain sd1 errs1 where step: "renderItem L data a (sd, errs) = (sd1, errs1)"
    by (metis surj_pair)
  then have "map_of sd1 k = map_of sd k"
    using Cons.prems(2) by (auto simp: renderItem_def gomap_simps split: prod.splits template_result.splits)
  with step Cons show ?case by simp
qed simp

lemma unsealEncryptedData_Inr:
  assumes "unsealEncryptedData C L ks s label = Inr secret"
  obtains plain data sd where
    "opens_list DecodeString (\<lambda>ct. HybridDecrypt C ks ct label) (map_entries (spec_EncryptedData (ss_Spec s))) plain"
    "data = put_all (map (\<lambda>(k, v). (k, bytes_string v)) plain) []"
    "fold (renderItem L data) (map_entries (tmpl_Data (spec_Template (ss_Spec s)))) (put_all plain [], []) = (sd, [])"
    "secret = \<lparr> sec_Meta = tmpl_Meta (spec_Template (ss_Spec s)),
       sec_Immutable = tmpl_Immutable (spec_Template (ss_Spec s)), sec_Data = Some sd, sec_StringData = None,
       sec_Type = tmpl_Type (spec_Template (ss_Spec s)) \<rparr>"
proof -
  let ?dec = "\<lambda>ct. HybridDecrypt C ks ct label"
  let ?items = "map_entries (spec_EncryptedData (ss_Spec s))"
  let ?tmpl = "map_entries (tmpl_Data (spec_Template (ss_Spec s)))"
  obtain sd0 d0 errs0 where u: "unsealItems DecodeString ?dec ?items ([], [], []) = (sd0, d0, errs0)"
    by (metis prod_cases3)
  obtain sd errs where r: "fold (renderItem L d0) ?tmpl (sd0, errs0) = (sd, errs)"
    by (metis surj_pair)
  have ok: "errs = []" and secret: "secret = \<lparr> sec_Meta = tmpl_Meta (spec_Template (ss_Spec s)),
       sec_Immutable = tmpl_Immutable (spec_Template (ss_Spec s)), sec_Data = Some sd, sec_StringData = None,
       sec_Type = tmpl_Type (spec_Template (ss_Spec s)) \<rparr>"
    using assms u r by (auto simp: unsealEncryptedData_def Let_def split: if_splits)
  have errs0: "errs0 = []"
    using render_errs_mono [OF r] ok by blast
  then obtain plain where plain: "opens_list DecodeString ?dec ?items plain"
    using unsealItems_no_errs u by blast
  then have "sd0 = put_all plain []" "d0 = put_all (map (\<lambda>(k, v). (k, bytes_string v)) plain) []"
    using unsealItems_opens [OF plain, of "[]" "[]" "[]"] u by auto
  then show thesis
    using that plain r ok errs0 secret by blast
qed

text \<open>
  C9: \<open>Unseal\<close> is all or nothing: when it returns a secret, every encrypted value was valid base64
  and was decrypted by some key of the ring, and the secret holds exactly that plaintext under
  its key, unless a template of the same name replaced it.
\<close>

theorem Unseal_all_values:
  assumes "Unseal C L v1 ks s = Inr secret" "spec_Data (ss_Spec s) = None"
    "map_wf (spec_EncryptedData (ss_Spec s))" "map_get (spec_EncryptedData (ss_Spec s)) k = Some t"
  shows "\<exists>ct pt fp priv. DecodeString t = Inr ct \<and> (fp, priv) \<in> set ks
    \<and> singleDecrypt C priv ct (labelFor (ss_Meta s)) = Inr pt
    \<and> (map_get (tmpl_Data (spec_Template (ss_Spec s))) k = None \<longrightarrow> map_get (sec_Data secret) k = Some pt)"
proof -
  obtain secret0 where "unsealEncryptedData C L ks s (labelFor (ss_Meta s)) = Inr secret0"
    and fin: "secret = finishUnseal L s secret0"
    using assms(1,2) by (auto simp: Unseal_def Let_def split: sum.splits)
  then obtain plain data sd where
    plain: "opens_list DecodeString (\<lambda>ct. HybridDecrypt C ks ct (labelFor (ss_Meta s)))
        (map_entries (spec_EncryptedData (ss_Spec s))) plain"
    and render: "fold (renderItem L data) (map_entries (tmpl_Data (spec_Template (ss_Spec s))))
        (put_all plain [], []) = (sd, [])" and sd: "sec_Data secret0 = Some sd"
    by (elim unsealEncryptedData_Inr) auto
  have "(k, t) \<in> set (map_entries (spec_EncryptedData (ss_Spec s)))"
    using assms(4) by (auto simp: map_get_def dest: map_of_SomeD)
  then obtain v where v: "(k, v) \<in> set plain"
      "opens_as DecodeString (\<lambda>ct. HybridDecrypt C ks ct (labelFor (ss_Meta s))) t v"
    using opens_list_member [OF plain] by blast
  then obtain ct fp priv where "DecodeString t = Inr ct" "(fp, priv) \<in> set ks"
    "singleDecrypt C priv ct (labelFor (ss_Meta s)) = Inr v"
    by (auto simp: opens_as_def dest!: HybridDecrypt_Inr)
  moreover have "map_get (sec_Data secret) k = Some v"
    if "map_get (tmpl_Data (spec_Template (ss_Spec s))) k = None"
  proof -
    have "distinct (map fst plain)"
      using assms(3) opens_list_keys [OF plain] by (simp add: map_wf_def)
    then have "map_of (put_all plain []) k = Some v"
      using v(1) by (simp add: put_all_Nil_value)
    moreover have "k \<notin> fst ` set (map_entries (tmpl_Data (spec_Template (ss_Spec s))))"
      using that by (simp add: map_get_def map_of_eq_None_iff)
    ultimately show ?thesis
      using render_other_keys [OF render] fin sd by (simp add: map_get_def)
  qed
  ultimately show ?thesis
    by (intro exI conjI impI)
qed

lemma sealed_entries:
  assumes "NewSealedSecret C pub secret rnd = (Inr s, rnd')"
  shows "map_wf (spec_EncryptedData (ss_Spec s))"
    and "fst ` set (map_entries (spec_EncryptedData (ss_Spec s))) =
      fst ` set (map_entries (sec_Data secret)) \<union> fst ` set (map_entries (sec_StringData secret))"
    and "spec_Data (ss_Spec s) = None"
proof -
  obtain out1 rnd1 out2 where one: "sealItems (\<lambda>r v. HybridEncrypt C r pub v (labelFor (sec_Meta secret)))
      EncodeToString (map_entries (sec_Data secret)) [] rnd = (Inr out1, rnd1)"
    and two: "sealItems (\<lambda>r v. HybridEncrypt C r pub v (labelFor (sec_Meta secret)))
      EncodeToString (string_items (sec_StringData secret)) out1 rnd1 = (Inr out2, rnd')"
    and s: "ss_Spec s = \<lparr> spec_Template = sealTemplate secret, spec_Data = None, spec_EncryptedData = Some out2 \<rparr>"
    by (rule NewSealedSecret_Inr [OF assms])
  show "map_wf (spec_EncryptedData (ss_Spec s))"
    using sealItems_distinct [OF two sealItems_distinct [OF one]] by (simp add: s)
  show "fst ` set (map_entries (spec_EncryptedData (ss_Spec s))) =
      fst ` set (map_entries (sec_Data secret)) \<union> fst ` set (map_entries (sec_StringData secret))"
    using sealItems_keys [OF one] sealItems_keys [OF two]
      arg_cong [OF keys_string_items [of "sec_StringData secret"], of set]
    by (simp add: s)
  show "spec_Data (ss_Spec s) = None"
    by (simp add: s)
qed

lemma map_get_Some_iff: "(\<exists>v. map_get m k = Some v) \<longleftrightarrow> k \<in> fst ` set (map_entries m)"
  by (simp add: map_get_def flip: dom_map_of_conv_image_fst) (simp add: domIff)

lemma sample_unseals:
  "\<exists>secret. Unseal sampleCrypto sampleKube True sampleRing sampleSealed = Inr secret"
  using Unseal_sealed [OF sample_sound sample_holds_key sample_seals refl sealed_label [OF sample_seals]] by blast

theorem Unseal_all_values_witness:
  "\<exists>t ct pt fp priv. map_get (spec_EncryptedData (ss_Spec sampleSealed)) ''user'' = Some t
    \<and> DecodeString t = Inr ct \<and> (fp, priv) \<in> set sampleRing
    \<and> singleDecrypt sampleCrypto priv ct (labelFor (ss_Meta sampleSealed)) = Inr pt"
proof -
  note e = sealed_entries [OF sample_seals]
  obtain t where t: "map_get (spec_EncryptedData (ss_Spec sampleSealed)) ''user'' = Some t"
    using map_get_Some_iff [of "spec_EncryptedData (ss_Spec sampleSealed)" "''user''"] e(2)
    by (auto simp: sampleSecret_def)
  obtain secret where "Unseal sampleCrypto sampleKube True sampleRing sampleSealed = Inr secret"
    using sample_unseals by blast
  from Unseal_all_values [OF this e(3) e(1) t] t show ?thesis by blast
qed

section \<open>What the sealed object shows\<close>

text \<open>
  C10: the sealed object carries no copy of the secret in clear: the template keeps the metadata but
  neither the last-applied annotations nor owner references, the deprecated blob is unset, the
  encrypted data has exactly the keys of \<open>Data\<close> and \<open>StringData\<close>, and the scope asked for is
  recorded in both the object's and the template's annotations.
\<close>

theorem NewSealedSecret_shape:
  assumes "NewSealedSecret C pub secret rnd = (Inr s, rnd')"
  shows "(\<forall>k. map_get (om_Annotations (tmpl_Meta (spec_Template (ss_Spec s)))) k =
        (if k \<in> set lastAppliedKeys then None else map_get (om_Annotations (sec_Meta secret)) k))
    \<and> om_OwnerReferences (tmpl_Meta (spec_Template (ss_Spec s))) = []
    \<and> om_Labels (tmpl_Meta (spec_Template (ss_Spec s))) = om_Labels (sec_Meta secret)
    \<and> tmpl_Data (spec_Template (ss_Spec s)) = None \<and> spec_Data (ss_Spec s) = None
    \<and> fst ` set (map_entries (spec_EncryptedData (ss_Spec s))) =
        fst ` set (map_entries (sec_Data secret)) \<union> fst ` set (map_entries (sec_StringData secret))
    \<and> SecretScope (ss_Meta s) = SecretScope (sec_Meta secret)
    \<and> SealedSecret_Scope s = SecretScope (sec_Meta secret)"
proof -
  have "spec_Template (ss_Spec s) = sealTemplate secret"
    by (rule NewSealedSecret_Inr [OF assms]) simp
  then show ?thesis
    using sealed_entries [OF assms] sealed_scope [OF assms] sealed_template_scope [OF assms]
    by (simp add: sealTemplate_def Let_def StripLastAppliedAnnotations_get)
qed

theorem NewSealedSecret_shape_witness:
  "SealedSecret_Scope sampleSealed = StrictScope
    \<and> fst ` set (map_entries (spec_EncryptedData (ss_Spec sampleSealed))) = {''pass'', ''user''}"
  using NewSealedSecret_shape [OF sample_seals] by (simp add: sample_scope) (simp add: sampleSecret_def)

section \<open>What the unsealed secret is\<close>

text \<open>
  Whatever the template says, an unsealed secret is named after its SealedSecret and, unless the
  template carries the skip annotation, has exactly one owner: a controller reference to it.
\<close>

theorem Unseal_names_and_owner:
  assumes "Unseal C L v1 ks s = Inr secret"
  shows "om_Name (sec_Meta secret) = om_Name (ss_Meta s) \<and> om_Namespace (sec_Meta secret) = om_Namespace (ss_Meta s)
    \<and> (map_read (om_Annotations (tmpl_Meta (spec_Template (ss_Spec s)))) SealedSecretSkipSetOwnerReferencesAnnotation
          \<noteq> ''true'' \<longrightarrow>
        (\<exists>r. om_OwnerReferences (sec_Meta secret) = [r] \<and> or_UID r = om_UID (ss_Meta s)
          \<and> or_Name r = om_Name (ss_Meta s) \<and> or_Controller r = Some True))"
  using assms
  by (auto simp: Unseal_def Let_def finishUnseal_def ownerReference_def map_read_def
      split: sum.splits prod.splits option.splits if_splits)

theorem Unseal_names_and_owner_witness:
  "\<exists>secret r. Unseal sampleCrypto sampleKube True sampleRing sampleSealed = Inr secret
    \<and> om_OwnerReferences (sec_Meta secret) = [r] \<and> or_Controller r = Some True"
proof -
  obtain secret where secret: "Unseal sampleCrypto sampleKube True sampleRing sampleSealed = Inr secret"
    using sample_unseals by blast
  have "map_read (om_Annotations (tmpl_Meta (spec_Template (ss_Spec sampleSealed))))
      SealedSecretSkipSetOwnerReferencesAnnotation \<noteq> ''true''"
    by (rule NewSealedSecret_Inr [OF sample_seals])
      (simp add: sealTemplate_def Let_def sampleSecret_def emptyObjectMeta_def StripLastAppliedAnnotations_def
        map_read_def map_get_def)
  with Unseal_names_and_owner [OF secret] secret show ?thesis by blast
qed

end
