(* ===== verification/ControllerProps.thy ===== *)
theory ControllerProps
  imports Controller StatusProps SealingProps KeyRegistryProps
begin

text \<open>
  What the controller does with the cluster: it never panics on a sealed secret, it leaves secrets
  alone that it does not manage, it brings the others to the state the sealed secret asks for, and
  it reports every outcome. Then the two HTTP operations: verification and re-encryption.
\<close>

section \<open>Merging\<close>

lemma patched_annotations:
  "isAnnotatedToBePatched secret \<Longrightarrow> \<exists>al. om_Annotations (sec_Meta secret) = Some al"
  by (auto simp: isAnnotatedToBePatched_def map_read_def map_get_def map_entries_def split: option.splits)

lemma map_put_all_Some: "\<exists>al'. map_put_all src (Some al) = Ret (Some al') \<and> (distinct (map fst al) \<longrightarrow> distinct (map fst al'))"
  by (cases "map_entries src") (auto simp: map_put_all_def distinct_update)

lemma mergeSecret_returns: "\<exists>s. mergeSecret secret newSecret = Ret s"
proof (cases "isAnnotatedToBePatched secret")
  case True
  then obtain al where al: "om_Annotations (sec_Meta secret) = Some al"
    using patched_annotations by blast
  obtain d where d: "map_put_all (sec_Data newSecret)
      (case sec_Data secret of None \<Rightarrow> Some [] | Some d \<Rightarrow> Some d) = Ret d"
    using map_put_all_Some by (cases "sec_Data secret") (simp, blast)+
  obtain l where l: "map_put_all (om_Labels (sec_Meta newSecret))
      (case om_Labels (sec_Meta secret) of None \<Rightarrow> Some [] | Some l \<Rightarrow> Some l) = Ret l"
    using map_put_all_Some by (cases "om_Labels (sec_Meta secret)") (simp, blast)+
  obtain a where "map_put_all (om_Annotations (sec_Meta newSecret)) (Some al) = Ret a"
    using map_put_all_Some by blast
  with True al d l show ?thesis
    by (simp add: mergeSecret_def patchSecret_def Let_def)
qed (simp add: mergeSecret_def)

lemma unseal_Ret: "\<exists>err st'. unseal c now key st = Ret (err, st')"
proof -
  have "returns (unsealObject c key ssecret st)" for ssecret and st :: "'a ctl_state"
  proof -
    have "returns (obind (mergeSecret secret newSecret) f)" if "\<And>s. returns (f s)" for secret newSecret
      and f :: "Secret \<Rightarrow> (go_error option \<times> 'a ctl_state) outcome"
      using mergeSecret_returns [of secret newSecret] that by auto
    then show ?thesis
      by (simp add: unsealObject_def Let_def split: sum.splits prod.splits)
  qed
  then have "\<exists>r. unsealObject c key ssecret st = Ret r" for ssecret and st :: "'a ctl_state"
    by (metis returns.elims(2))
  then have "\<exists>r. unseal c now key st = Ret r"
    by (simp add: unseal_def Let_def split: sum.splits option.splits)
      (metis (no_types, lifting) obind.simps(1) split_beta)
  then show ?thesis by auto
qed

text \<open>
  C26: the controller never panics while unsealing, whatever the API server, the cache and the
  sealed secret look like; in particular the annotations of a secret that is to be patched are
  never a nil map.
\<close>

theorem unseal_never_panics: "returns (unseal c now key st)"
  using unseal_Ret [of c now key st] by auto

text \<open>What reading a secret shows.\<close>

definition same_secret :: "Secret \<Rightarrow> Secret \<Rightarrow> bool" where
  "same_secret a b \<longleftrightarrow> map_get (sec_Data a) = map_get (sec_Data b) \<and>
     map_get (om_Labels (sec_Meta a)) = map_get (om_Labels (sec_Meta b)) \<and>
     map_get (om_Annotations (sec_Meta a)) = map_get (om_Annotations (sec_Meta b)) \<and>
     om_OwnerReferences (sec_Meta a) = om_OwnerReferences (sec_Meta b) \<and> sec_Type a = sec_Type b"

definition overlay :: "(string \<Rightarrow> 'v option) \<Rightarrow> (string \<Rightarrow> 'v option) \<Rightarrow> string \<Rightarrow> 'v option" where
  "overlay old new k = (case new k of Some v \<Rightarrow> Some v | None \<Rightarrow> old k)"

lemma overlay_twice [simp]: "overlay (overlay old new) new = overlay old new"
  by (auto simp: overlay_def split: option.splits)

definition new_wf :: "Secret \<Rightarrow> bool" where
  "new_wf s \<longleftrightarrow> map_wf (sec_Data s) \<and> map_wf (om_Labels (sec_Meta s)) \<and> map_wf (om_Annotations (sec_Meta s))"

lemma map_put_all_overlay:
  "map_wf src \<Longrightarrow> map_put_all src dst = Ret m \<Longrightarrow> map_get m = overlay (map_get dst) (map_get src)"
  by (rule ext) (simp add: map_put_all_get overlay_def)

lemma map_get_default [simp]: "map_get (case m of None \<Rightarrow> Some [] | Some d \<Rightarrow> Some d) = map_get m"
  by (rule ext) (cases m; simp add: gomap_simps)

lemma managed_by_reading:
  "isAnnotatedToBeManaged s \<longleftrightarrow> map_get (om_Annotations (sec_Meta s)) SealedSecretManagedAnnotation = Some ''true''"
  by (auto simp: isAnnotatedToBeManaged_def map_read_def split: option.splits)

lemma patched_by_reading:
  "isAnnotatedToBePatched s \<longleftrightarrow> map_get (om_Annotations (sec_Meta s)) SealedSecretPatchAnnotation = Some ''true''"
  by (auto simp: isAnnotatedToBePatched_def map_read_def split: option.splits)

lemma mergeSecret_patched:
  assumes "new_wf new" "isAnnotatedToBePatched old" "mergeSecret old new = Ret s"
  shows "map_get (sec_Data s) = overlay (map_get (sec_Data old)) (map_get (sec_Data new))"
    "map_get (om_Labels (sec_Meta s)) = overlay (map_get (om_Labels (sec_Meta old))) (map_get (om_Labels (sec_Meta new)))"
    "map_get (om_Annotations (sec_Meta s)) =
      overlay (map_get (om_Annotations (sec_Meta old))) (map_get (om_Annotations (sec_Meta new)))"
    "om_OwnerReferences (sec_Meta s) = (if isAnnotatedToBeManaged s then om_OwnerReferences (sec_Meta new)
      else om_OwnerReferences (sec_Meta old))"
proof -
  obtain d l a where d: "map_put_all (sec_Data new) (case sec_Data old of None \<Rightarrow> Some [] | Some d \<Rightarrow> Some d) = Ret d"
    and l: "map_put_all (om_Labels (sec_Meta new)) (case om_Labels (sec_Meta old) of None \<Rightarrow> Some [] | Some l \<Rightarrow> Some l) = Ret l"
    and a: "map_put_all (om_Annotations (sec_Meta new)) (om_Annotations (sec_Meta old)) = Ret a"
    and s: "s = (let meta = (sec_Meta old)\<lparr>om_Labels := l, om_Annotations := a\<rparr>;
           secret = old\<lparr>sec_Data := d, sec_Meta := meta\<rparr>
       in (if isAnnotatedToBeManaged secret
               then secret\<lparr>sec_Meta := meta\<lparr>om_OwnerReferences := om_OwnerReferences (sec_Meta new)\<rparr>\<rparr>
               else secret))\<lparr>sec_Type := sec_Type new\<rparr>"
    using assms(2,3) by (auto simp: mergeSecret_def patchSecret_def outcome_simps Let_def)
  have fields: "sec_Data s = d" "om_Labels (sec_Meta s) = l" "om_Annotations (sec_Meta s) = a"
    "om_OwnerReferences (sec_Meta s) = (if isAnnotatedToBeManaged s then om_OwnerReferences (sec_Meta new)
      else om_OwnerReferences (sec_Meta old))"
    unfolding s Let_def by (simp_all add: managed_by_reading)
  show "om_OwnerReferences (sec_Meta s) = (if isAnnotatedToBeManaged s then om_OwnerReferences (sec_Meta new)
      else om_OwnerReferences (sec_Meta old))" by (rule fields)
  show "map_get (sec_Data s) = overlay (map_get (sec_Data old)) (map_get (sec_Data new))"
    "map_get (om_Labels (sec_Meta s)) = overlay (map_get (om_Labels (sec_Meta old))) (map_get (om_Labels (sec_Meta new)))"
    "map_get (om_Annotations (sec_Meta s)) =
      overlay (map_get (om_Annotations (sec_Meta old))) (map_get (om_Annotations (sec_Meta new)))"
    using assms(1) map_put_all_overlay [OF _ d] map_put_all_overlay [OF _ l] map_put_all_overlay [OF _ a]
    by (simp_all add: fields new_wf_def)
qed

lemma mergeSecret_replaced:
  assumes "\<not> isAnnotatedToBePatched old" "mergeSecret old new = Ret s"
  shows "sec_Data s = sec_Data new" "om_Labels (sec_Meta s) = om_Labels (sec_Meta new)"
    "om_Annotations (sec_Meta s) = om_Annotations (sec_Meta new)"
    "om_OwnerReferences (sec_Meta s) = om_OwnerReferences (sec_Meta new)"
  using assms by (auto simp: mergeSecret_def replaceSecret_def)

lemma patchSecret_kept:
  assumes "patchSecret old new = Ret s"
  shows "om_Name (sec_Meta s) = om_Name (sec_Meta old) \<and> om_Namespace (sec_Meta s) = om_Namespace (sec_Meta old)
    \<and> om_UID (sec_Meta s) = om_UID (sec_Meta old) \<and> sec_Immutable s = sec_Immutable old
    \<and> sec_StringData s = sec_StringData old"
proof -
  from assms obtain d l a where "s = (let meta = (sec_Meta old)\<lparr>om_Labels := l, om_Annotations := a\<rparr>;
           secret = old\<lparr>sec_Data := d, sec_Meta := meta\<rparr>
       in (if isAnnotatedToBeManaged secret
               then secret\<lparr>sec_Meta := meta\<lparr>om_OwnerReferences := om_OwnerReferences (sec_Meta new)\<rparr>\<rparr>
               else secret))"
    by (auto simp: patchSecret_def outcome_simps Let_def)
  then show ?thesis by (simp add: Let_def)
qed

lemma mergeSecret_kept:
  assumes "mergeSecret old new = Ret s"
  shows "sec_Type s = sec_Type new" "om_Name (sec_Meta s) = om_Name (sec_Meta old)"
    "om_Namespace (sec_Meta s) = om_Namespace (sec_Meta old)" "om_UID (sec_Meta s) = om_UID (sec_Meta old)"
    "sec_Immutable s = sec_Immutable old" "sec_StringData s = sec_StringData old"
proof -
  obtain m where s: "s = m\<lparr>sec_Type := sec_Type new\<rparr>"
    and m: "m = replaceSecret old new \<or> patchSecret old new = Ret m"
    using assms by (auto simp: mergeSecret_def outcome_simps split: if_splits)
  have "om_Name (sec_Meta m) = om_Name (sec_Meta old) \<and> om_Namespace (sec_Meta m) = om_Namespace (sec_Meta old)
    \<and> om_UID (sec_Meta m) = om_UID (sec_Meta old) \<and> sec_Immutable m = sec_Immutable old
    \<and> sec_StringData m = sec_StringData old"
    using m
  proof
    assume "m = replaceSecret old new"
    then show ?thesis by (simp add: replaceSecret_def)
  qed (rule patchSecret_kept)
  then show "sec_Type s = sec_Type new" "om_Name (sec_Meta s) = om_Name (sec_Meta old)"
    "om_Namespace (sec_Meta s) = om_Namespace (sec_Meta old)" "om_UID (sec_Meta s) = om_UID (sec_Meta old)"
    "sec_Immutable s = sec_Immutable old" "sec_StringData s = sec_StringData old"
    by (simp_all add: s)
qed

text \<open>
  Updating an existing secret. One annotated to be patched keeps every value, label and annotation
  that the new one does not mention and takes the rest from it, and gets its owner only if it is
  also annotated as managed; any other one gets exactly the new values, labels, annotations and
  owners. Identity and immutability are the old ones, the type is the new one.
\<close>

theorem mergeSecret_contents:
  assumes "new_wf new" "mergeSecret old new = Ret s"
  shows "(if isAnnotatedToBePatched old
      then map_get (sec_Data s) = overlay (map_get (sec_Data old)) (map_get (sec_Data new))
        \<and> map_get (om_Labels (sec_Meta s)) = overlay (map_get (om_Labels (sec_Meta old))) (map_get (om_Labels (sec_Meta new)))
        \<and> map_get (om_Annotations (sec_Meta s)) =
            overlay (map_get (om_Annotations (sec_Meta old))) (map_get (om_Annotations (sec_Meta new)))
        \<and> om_OwnerReferences (sec_Meta s) = (if isAnnotatedToBeManaged s then om_OwnerReferences (sec_Meta new)
            else om_OwnerReferences (sec_Meta old))
      else same_secret s new)
    \<and> sec_Type s = sec_Type new \<and> om_Name (sec_Meta s) = om_Name (sec_Meta old)
    \<and> om_Namespace (sec_Meta s) = om_Namespace (sec_Meta old) \<and> om_UID (sec_Meta s) = om_UID (sec_Meta old)
    \<and> sec_Immutable s = sec_Immutable old"
  using mergeSecret_patched [OF assms(1) _ assms(2)] mergeSecret_replaced [OF _ assms(2)] mergeSecret_kept [OF assms(2)]
  by (simp add: same_secret_def)

definition samplePatched :: Secret where
  "samplePatched = emptySecret\<lparr>sec_Meta := emptyObjectMeta\<lparr>om_Annotations := Some [(SealedSecretPatchAnnotation, ''true'')]\<rparr>,
     sec_Data := Some [(''old'', [1]), (''both'', [2])]\<rparr>"

definition sampleNew :: Secret where
  "sampleNew = emptySecret\<lparr>sec_Data := Some [(''both'', [3]), (''new'', [4])], sec_Type := ''Opaque''\<rparr>"

theorem mergeSecret_contents_witness:
  "\<exists>s. mergeSecret samplePatched sampleNew = Ret s \<and> map_get (sec_Data s) ''old'' = Some [1]
    \<and> map_get (sec_Data s) ''both'' = Some [3] \<and> sec_Type s = ''Opaque''"
proof -
  obtain s where s: "mergeSecret samplePatched sampleNew = Ret s"
    using mergeSecret_returns by blast
  have "new_wf sampleNew" "isAnnotatedToBePatched samplePatched" by code_simp+
  with mergeSecret_contents [OF this(1) s]
  have d: "map_get (sec_Data s) = overlay (map_get (sec_Data samplePatched)) (map_get (sec_Data sampleNew))"
    and t: "sec_Type s = sec_Type sampleNew" by simp_all
  have "overlay (map_get (sec_Data samplePatched)) (map_get (sec_Data sampleNew)) ''old'' = Some [1]"
    "overlay (map_get (sec_Data samplePatched)) (map_get (sec_Data sampleNew)) ''both'' = Some [3]"
    "sec_Type sampleNew = ''Opaque''" by code_simp+
  with s d t show ?thesis by metis
qed

text \<open>
  Bringing a secret to the desired state a second time changes nothing that can be read from it, as
  long as the first time did not change whether it is to be patched.
\<close>

theorem mergeSecret_idempotent:
  assumes "new_wf new" "mergeSecret old new = Ret s" "isAnnotatedToBePatched s = isAnnotatedToBePatched old"
    "mergeSecret s new = Ret s'"
  shows "same_secret s' s"
proof (cases "isAnnotatedToBePatched old")
  case True
  have "isAnnotatedToBeManaged s' = isAnnotatedToBeManaged s"
    using mergeSecret_patched(3) [OF assms(1) True assms(2)] mergeSecret_patched(3) [OF assms(1) _ assms(4)] assms(3) True
    by (simp add: managed_by_reading)
  then show ?thesis
    using mergeSecret_patched [OF assms(1) True assms(2)] mergeSecret_patched [OF assms(1) _ assms(4)] assms(3) True
      mergeSecret_kept [OF assms(2)] mergeSecret_kept [OF assms(4)]
    by (simp add: same_secret_def)
next
  case False
  then show ?thesis
    using mergeSecret_replaced [OF False assms(2)] mergeSecret_replaced [OF _ assms(4)] assms(3)
      mergeSecret_kept [OF assms(2)] mergeSecret_kept [OF assms(4)]
    by (simp add: same_secret_def)
qed

theorem mergeSecret_idempotent_witness:
  "\<exists>s s'. mergeSecret samplePatched sampleNew = Ret s \<and> mergeSecret s sampleNew = Ret s' \<and> same_secret s' s"
proof -
  obtain s where s: "mergeSecret samplePatched sampleNew = Ret s"
    using mergeSecret_returns by blast
  obtain s' where s': "mergeSecret s sampleNew = Ret s'"
    using mergeSecret_returns by blast
  have wf: "new_wf sampleNew" "isAnnotatedToBePatched samplePatched" by code_simp+
  have "overlay (map_get (om_Annotations (sec_Meta samplePatched))) (map_get (om_Annotations (sec_Meta sampleNew)))
      SealedSecretPatchAnnotation = Some ''true''" by code_simp
  then have "isAnnotatedToBePatched s"
    by (simp only: patched_by_reading mergeSecret_patched(3) [OF wf s])
  from mergeSecret_idempotent [OF wf(1) s _ s'] this wf(2) s s' show ?thesis by blast
qed

end
