(* ===== verification/UnsealProps.thy ===== *)
theory UnsealProps
  imports ControllerProps
begin

text \<open>
  The effect of one call of \<open>unseal\<close> on the cluster: what it writes when it succeeds, what it leaves
  alone when the secret is not its own, and what it reports.
\<close>

section \<open>The successful run\<close>

lemma recordEvent_simps [simp]:
  "cs_world (recordEvent s t r m st) = cs_world st" "cs_index (recordEvent s t r m st) = cs_index st"
  "cs_metrics (recordEvent s t r m st) = cs_metrics st" "cs_registry (recordEvent s t r m st) = cs_registry st"
  "cs_events (recordEvent s t r m st) =
    cs_events st @ [Event (om_Namespace (ss_Meta s)) (om_Name (ss_Meta s)) t r m]"
  by (simp_all add: recordEvent_def)

lemma incErrors_simps [simp]:
  "cs_world (incErrors r ns st) = cs_world st" "cs_index (incErrors r ns st) = cs_index st"
  "cs_events (incErrors r ns st) = cs_events st" "cs_registry (incErrors r ns st) = cs_registry st"
  by (simp_all add: incErrors_def)

lemma reportStatus_simps [simp]:
  "cs_events (reportStatus c now key s err st) = cs_events st"
  "cs_registry (reportStatus c now key s err st) = cs_registry st"
  by (auto simp: reportStatus_def Let_def split: prod.splits option.splits)

lemma reportStatus_world:
  "cs_world (reportStatus c now key s err st) =
    snd (snd (updateSealedSecretStatus (ctl_api c) (ctl_updateStatus c) now s err (cs_world st)))"
  by (auto simp: reportStatus_def Let_def split: prod.splits option.splits)

lemma updateSealedSecretStatus_view:
  assumes "tracks_secrets api view"
  shows "view (snd (snd (updateSealedSecretStatus api u now s err w))) = view w"
  using secrets_UpdateStatus [OF assms]
  by (auto simp: updateSealedSecretStatus_def Let_def split: prod.splits sum.splits)

lemma unseal_object:
  assumes "cs_index st key = Inr (Some (SealedSecretObj s))"
    "unsealObject c key (defaultTypeMeta s) (st\<lparr>cs_metrics := countRequest (cs_metrics st)\<rparr>) = Ret (err, st1)"
  shows "unseal c now key st = Ret (err, reportStatus c now key (defaultTypeMeta s) err st1)"
  using assms by (simp add: unseal_def convertSealedSecret_def)

lemma unsealObject_None:
  assumes "unsealObject c key ss st = Ret (None, st')"
  obtains newSecret secret w1 updated where
    "attemptUnseal c (cs_registry st) ss = Inr newSecret"
    "getOrCreate (ctl_api c) (om_Namespace (ss_Meta ss)) newSecret (cs_world st) = (Inr secret, w1)"
    "\<not> notManaged (ctl_kube c) ss secret" "mergeSecret secret newSecret = Ret updated"
    "SemanticDeepEqual (ctl_kube c) secret updated \<and> cs_world st' = w1 \<or>
     (\<exists>s w2. SecretsUpdate (ctl_api c) (om_Namespace (ss_Meta ss)) updated w1 = (Inr s, w2) \<and> cs_world st' = w2)"
proof -
  obtain newSecret where new: "attemptUnseal c (cs_registry st) ss = Inr newSecret"
    using assms by (cases "attemptUnseal c (cs_registry st) ss") (auto simp: unsealObject_def Let_def)
  obtain r w1 where r: "getOrCreate (ctl_api c) (om_Namespace (ss_Meta ss)) newSecret (cs_world st) = (r, w1)"
    by (metis surj_pair)
  obtain secret where secret: "r = Inr secret"
    using assms new r by (cases r) (auto simp: unsealObject_def Let_def)
  have managed: "\<not> notManaged (ctl_kube c) ss secret"
    using assms new r secret by (auto simp: unsealObject_def Let_def split: if_splits)
  obtain updated where updated: "mergeSecret secret newSecret = Ret updated"
    using mergeSecret_returns by blast
  obtain u w2 where u: "SecretsUpdate (ctl_api c) (om_Namespace (ss_Meta ss)) updated w1 = (u, w2)"
    by (metis surj_pair)
  have "SemanticDeepEqual (ctl_kube c) secret updated \<and> cs_world st' = w1 \<or>
     (\<exists>s w2. SecretsUpdate (ctl_api c) (om_Namespace (ss_Meta ss)) updated w1 = (Inr s, w2) \<and> cs_world st' = w2)"
    using assms new r secret managed updated u
    by (cases "SemanticDeepEqual (ctl_kube c) secret updated"; cases u) (auto simp: unsealObject_def Let_def)
  with new r secret managed updated show thesis
    using that by blast
qed

lemma Unseal_data_wf:
  assumes "Unseal C L v1 ks s = Inr secret" "spec_Data (ss_Spec s) = None"
  shows "map_wf (sec_Data secret)" "sec_StringData secret = None" "sec_Type secret = tmpl_Type (spec_Template (ss_Spec s))"
    "om_Name (sec_Meta secret) = om_Name (ss_Meta s)"
    "om_Labels (sec_Meta secret) = om_Labels (tmpl_Meta (spec_Template (ss_Spec s)))"
    "om_Annotations (sec_Meta secret) = om_Annotations (tmpl_Meta (spec_Template (ss_Spec s)))"
    "sec_Immutable secret = tmpl_Immutable (spec_Template (ss_Spec s))"
proof -
  obtain secret0 where u: "unsealEncryptedData C L ks s (labelFor (ss_Meta s)) = Inr secret0"
    and fin: "secret = finishUnseal L s secret0"
    using assms by (auto simp: Unseal_def Let_def split: sum.splits)
  have keys: "distinct (map fst sd') \<and> True"
    if "fold (renderItem L data) items (sd, errs) = (sd', errs')" "distinct (map fst sd)" for data items sd errs sd' errs'
    using that
  proof (induction items arbitrary: sd errs)
    case (Cons a items)
    obtain sd1 errs1 where step: "renderItem L data a (sd, errs) = (sd1, errs1)"
      by (metis surj_pair)
    then have "distinct (map fst sd1)"
      using Cons.prems(2) by (auto simp: renderItem_def distinct_update split: prod.splits template_result.splits)
    with step Cons show ?case by simp
  qed simp
  show "map_wf (sec_Data secret)"
    using u fin by (elim unsealEncryptedData_Inr) (use keys in force)
  show "sec_StringData secret = None" "sec_Type secret = tmpl_Type (spec_Template (ss_Spec s))"
    "om_Name (sec_Meta secret) = om_Name (ss_Meta s)"
    "om_Labels (sec_Meta secret) = om_Labels (tmpl_Meta (spec_Template (ss_Spec s)))"
    "om_Annotations (sec_Meta secret) = om_Annotations (tmpl_Meta (spec_Template (ss_Spec s)))"
    "sec_Immutable secret = tmpl_Immutable (spec_Template (ss_Spec s))"
    using u fin by (auto elim: unsealEncryptedData_Inr)
qed

text \<open>The secret that is found or made, and the cluster after it.\<close>

lemma getOrCreate_view:
  assumes api: "tracks_secrets api view" and "om_Name (sec_Meta newSecret) \<noteq> ''''"
    "getOrCreate api ns newSecret w = (Inr secret, w')"
  shows "om_Name (sec_Meta secret) = om_Name (sec_Meta newSecret)"
    "view w' (ns, om_Name (sec_Meta newSecret)) = Some secret"
    "\<forall>k. k \<noteq> (ns, om_Name (sec_Meta newSecret)) \<longrightarrow> view w' k = view w k"
    "view w (ns, om_Name (sec_Meta newSecret)) = Some secret \<or> stored newSecret secret"
    "sec_StringData secret = None"
proof -
  obtain r w1 where get: "SecretsGet api ns (om_Name (sec_Meta newSecret)) w = (r, w1)"
    by (metis surj_pair)
  note g = secrets_Get [OF api get]
  consider "r = Inr secret" "w' = w1" | "SecretsCreate api ns newSecret w1 = (Inr secret, w')"
    using assms(3) get by (cases r) (auto simp: getOrCreate_def split: if_splits)
  then have "om_Name (sec_Meta secret) = om_Name (sec_Meta newSecret)
    \<and> view w' (ns, om_Name (sec_Meta newSecret)) = Some secret
    \<and> (\<forall>k. k \<noteq> (ns, om_Name (sec_Meta newSecret)) \<longrightarrow> view w' k = view w k)
    \<and> (view w (ns, om_Name (sec_Meta newSecret)) = Some secret \<or> stored newSecret secret)
    \<and> sec_StringData secret = None"
  proof cases
    case 1
    with g show ?thesis by simp
  next
    case 2
    note c = secrets_Create [OF api 2]
    then have "sec_StringData secret = None" by (simp add: stored_def)
    with c g(1) assms(2) show ?thesis by simp
  qed
  then show "om_Name (sec_Meta secret) = om_Name (sec_Meta newSecret)"
    "view w' (ns, om_Name (sec_Meta newSecret)) = Some secret"
    "\<forall>k. k \<noteq> (ns, om_Name (sec_Meta newSecret)) \<longrightarrow> view w' k = view w k"
    "view w (ns, om_Name (sec_Meta newSecret)) = Some secret \<or> stored newSecret secret"
    "sec_StringData secret = None"
    by blast+
qed

text \<open>\<open>Semantic.DeepEqual\<close> tells apart secrets that read differently.\<close>

definition semantic_equality :: "kube_lib \<Rightarrow> bool" where
  "semantic_equality L \<longleftrightarrow> (\<forall>a b. SemanticDeepEqual L a b \<longrightarrow> same_secret a b)"

lemma stored_data:
  "stored sent s \<Longrightarrow> sec_StringData sent = None \<Longrightarrow> map_get (sec_Data s) = map_get (sec_Data sent)"
  by (simp add: stored_def)

lemma overlay_same [simp]: "overlay f f = f"
  by (rule ext) (simp add: overlay_def split: option.splits)

lemma overlay_Some: "new k = Some v \<Longrightarrow> overlay old new k = Some v"
  by (simp add: overlay_def)

lemma merged_data:
  assumes "new_wf new" "mergeSecret old new = Ret s"
  shows "map_get (sec_Data s) = (if isAnnotatedToBePatched old
    then overlay (map_get (sec_Data old)) (map_get (sec_Data new)) else map_get (sec_Data new))"
  using mergeSecret_patched(1) [OF assms(1) _ assms(2)] mergeSecret_replaced(1) [OF _ assms(2)] by simp

text \<open>Whether the merged secret had to be written or not, the cluster holds it in the end.\<close>

lemma written_view:
  assumes api: "tracks_secrets api view" and eq: "semantic_equality L" and merge: "mergeSecret secret new = Ret updated"
    and there: "view w1 (ns, om_Name (sec_Meta secret)) = Some secret" "sec_StringData secret = None"
    and fin: "SemanticDeepEqual L secret updated \<and> w2 = w1 \<or> (\<exists>s. SecretsUpdate api ns updated w1 = (Inr s, w2))"
  shows "\<exists>x. view w2 (ns, om_Name (sec_Meta secret)) = Some x \<and> map_get (sec_Data x) = map_get (sec_Data updated)
    \<and> (\<forall>k. k \<noteq> (ns, om_Name (sec_Meta secret)) \<longrightarrow> view w2 k = view w1 k)"
  using fin
proof
  assume "SemanticDeepEqual L secret updated \<and> w2 = w1"
  then show ?thesis
    using there eq by (auto simp: semantic_equality_def same_secret_def)
next
  assume "\<exists>s. SecretsUpdate api ns updated w1 = (Inr s, w2)"
  then obtain x where "SecretsUpdate api ns updated w1 = (Inr x, w2)" ..
  from secrets_Update [OF api this] show ?thesis
    using there(2) mergeSecret_kept [OF merge] by (auto simp: stored_def)
qed

lemma unseal_establishes:
  assumes api: "tracks_secrets (ctl_api c) view" and eq: "semantic_equality (ctl_kube c)"
    and obj: "cs_index st key = Inr (Some (SealedSecretObj s))" "spec_Data (ss_Spec s) = None"
    and named: "om_Name (ss_Meta s) \<noteq> ''''"
    and wf: "map_wf (om_Labels (tmpl_Meta (spec_Template (ss_Spec s))))"
      "map_wf (om_Annotations (tmpl_Meta (spec_Template (ss_Spec s))))"
    and run: "unseal c now key st = Ret (None, st')"
  shows "\<exists>newSecret secret. attemptUnseal c (cs_registry st) (defaultTypeMeta s) = Inr newSecret
    \<and> view (cs_world st') (om_Namespace (ss_Meta s), om_Name (ss_Meta s)) = Some secret
    \<and> (\<forall>k v. map_get (sec_Data newSecret) k = Some v \<longrightarrow> map_get (sec_Data secret) k = Some v)
    \<and> ((\<exists>old. view (cs_world st) (om_Namespace (ss_Meta s), om_Name (ss_Meta s)) = Some old
          \<and> isAnnotatedToBePatched old) \<or> map_get (sec_Data secret) = map_get (sec_Data newSecret))
    \<and> (\<forall>k. k \<noteq> (om_Namespace (ss_Meta s), om_Name (ss_Meta s)) \<longrightarrow> view (cs_world st') k = view (cs_world st) k)"
proof -
  let ?ss = "defaultTypeMeta s" and ?ns = "om_Namespace (ss_Meta s)" and ?n = "om_Name (ss_Meta s)"
  let ?st = "st\<lparr>cs_metrics := countRequest (cs_metrics st)\<rparr>"
  obtain err st1 where u: "unsealObject c key ?ss ?st = Ret (err, st1)"
    and st': "err = None" "st' = reportStatus c now key ?ss err st1"
    using run obj(1) by (auto simp: unseal_def convertSealedSecret_def outcome_simps split: prod.splits)
  obtain newSecret secret w1 updated where new: "attemptUnseal c (cs_registry st) ?ss = Inr newSecret"
    and get: "getOrCreate (ctl_api c) ?ns newSecret (cs_world st) = (Inr secret, w1)"
    and merge: "mergeSecret secret newSecret = Ret updated"
    and fin: "SemanticDeepEqual (ctl_kube c) secret updated \<and> cs_world st1 = w1 \<or>
      (\<exists>s w2. SecretsUpdate (ctl_api c) ?ns updated w1 = (Inr s, w2) \<and> cs_world st1 = w2)"
    by (rule unsealObject_None [OF u [unfolded st'(1)]]) simp
  have n: "Unseal (ctl_crypto c) (ctl_kube c) (ctl_acceptV1 c) (privateKeys (cs_registry st)) ?ss = Inr newSecret"
    using new by (simp add: attemptUnseal_def)
  note nf = Unseal_data_wf [OF n]
  have name: "om_Name (sec_Meta newSecret) = ?n" and nwf: "new_wf newSecret" and sd: "sec_StringData newSecret = None"
    using nf obj(2) wf by (simp_all add: new_wf_def)
  note g = getOrCreate_view [OF api _ get, unfolded name, OF named]
  have world: "view (cs_world st') = view (cs_world st1)"
    unfolding st'(2) reportStatus_world by (rule updateSealedSecretStatus_view [OF api])
  have "SemanticDeepEqual (ctl_kube c) secret updated \<and> cs_world st1 = w1 \<or>
      (\<exists>s. SecretsUpdate (ctl_api c) ?ns updated w1 = (Inr s, cs_world st1))"
    using fin by blast
  from written_view [OF api eq merge _ g(5) this, unfolded g(1)] g(2,3) world
  obtain x where x: "view (cs_world st') (?ns, ?n) = Some x" "map_get (sec_Data x) = map_get (sec_Data updated)"
    "\<forall>k. k \<noteq> (?ns, ?n) \<longrightarrow> view (cs_world st') k = view (cs_world st) k"
    by auto
  have created: "map_get (sec_Data secret) = map_get (sec_Data newSecret)"
    if "view (cs_world st) (?ns, ?n) \<noteq> Some secret"
    using g(4) that sd by (auto simp: stored_def)
  note data = merged_data [OF nwf merge]
  have "\<forall>k v. map_get (sec_Data newSecret) k = Some v \<longrightarrow> map_get (sec_Data x) k = Some v"
    using x(2) data by (simp add: overlay_Some)
  moreover have "(\<exists>old. view (cs_world st) (?ns, ?n) = Some old \<and> isAnnotatedToBePatched old)
      \<or> map_get (sec_Data x) = map_get (sec_Data newSecret)"
    using x(2) data created by (cases "view (cs_world st) (?ns, ?n) = Some secret") (auto split: if_splits)
  ultimately show ?thesis
    using new x(1,3) by blast
qed

text \<open>
  C11: when \<open>unseal\<close> reports success, the cluster holds the secret the sealed secret stands for: under
  its namespace and name, with every unsealed value, and with no other value unless the secret was
  there before and is annotated to be patched. No other secret is touched. The API server is
  taken to have no other writer during the call.
\<close>

theorem unseal_establishes_secret:
  assumes api: "tracks_secrets (ctl_api c) view" and eq: "semantic_equality (ctl_kube c)"
    and obj: "cs_index st key = Inr (Some (SealedSecretObj s))" "spec_Data (ss_Spec s) = None"
    and named: "om_Name (ss_Meta s) \<noteq> ''''"
    and wf: "map_wf (om_Labels (tmpl_Meta (spec_Template (ss_Spec s))))"
      "map_wf (om_Annotations (tmpl_Meta (spec_Template (ss_Spec s))))"
    and run: "unseal c now key st = Ret (None, st')"
  shows "\<exists>newSecret secret. attemptUnseal c (cs_registry st) (defaultTypeMeta s) = Inr newSecret
    \<and> view (cs_world st') (om_Namespace (ss_Meta s), om_Name (ss_Meta s)) = Some secret
    \<and> (\<forall>k v. map_get (sec_Data newSecret) k = Some v \<longrightarrow> map_get (sec_Data secret) k = Some v)
    \<and> ((\<exists>old. view (cs_world st) (om_Namespace (ss_Meta s), om_Name (ss_Meta s)) = Some old
          \<and> isAnnotatedToBePatched old) \<or> map_get (sec_Data secret) = map_get (sec_Data newSecret))
    \<and> (\<forall>k. k \<noteq> (om_Namespace (ss_Meta s), om_Name (ss_Meta s)) \<longrightarrow> view (cs_world st') k = view (cs_world st) k)"
  by (rule unseal_establishes [OF assms])

section \<open>A run on the samples\<close>

definition sampleRegistry :: KeyRegistry where
  "sampleRegistry = snd (registerNewKey sampleCrypto (NewKeyRegistry ''kube-system'' ''sealed-secrets-key''
     SealedSecretsKeyLabel 4096) sampleKey sampleCert 4)"

definition sampleController :: "store Controller" where
  "sampleController = \<lparr> ctl_crypto = sampleCrypto, ctl_kube = sampleKube, ctl_api = storeAPI,
     ctl_acceptV1 = True, ctl_oldGCBehavior = False, ctl_updateStatus = True \<rparr>"

definition sampleIndex :: "string \<Rightarrow> go_error + any_object option" where
  "sampleIndex key = (if key = ''prod/db'' then Inr (Some (SealedSecretObj sampleSealed)) else Inr None)"

definition stateOf :: "store \<Rightarrow> store ctl_state" where
  "stateOf w = \<lparr> cs_world = w, cs_index = sampleIndex, cs_events = [], cs_metrics = noMetrics,
     cs_registry = sampleRegistry \<rparr>"

lemma sampleController_simps [simp]:
  "ctl_crypto sampleController = sampleCrypto" "ctl_kube sampleController = sampleKube"
  "ctl_api sampleController = storeAPI" "ctl_updateStatus sampleController" "ctl_acceptV1 sampleController"
  "\<not> ctl_oldGCBehavior sampleController"
  by (simp_all add: sampleController_def)

lemma sampleRegistry_keys: "holds_key (privateKeys sampleRegistry) (rsaPublicKey sampleKey)"
  by (simp add: sampleRegistry_def registerNewKey_def PublicKeyFingerprint_def sampleCrypto_def NewKeyRegistry_def
      privateKeys_def holds_key_def Let_def)

lemma sample_meta: "om_Name (ss_Meta sampleSealed) = ''db''" "om_Namespace (ss_Meta sampleSealed) = ''prod''"
  "om_UID (ss_Meta sampleSealed) = ''''"
  by (rule NewSealedSecret_Inr [OF sample_seals], simp add: sampleSecret_def emptyObjectMeta_def)+

lemma sample_spec: "spec_Data (ss_Spec sampleSealed) = None"
  "tmpl_Meta (spec_Template (ss_Spec sampleSealed)) = sec_Meta sampleSecret"
  by (rule NewSealedSecret_Inr [OF sample_seals],
      simp add: sealTemplate_def sampleSecret_def emptyObjectMeta_def StripLastAppliedAnnotations_def)+

lemma sample_IsControlledBy:
  "IsControlledBy sampleKube m owner = (case filter (\<lambda>r. or_Controller r = Some True) (om_OwnerReferences m) of
     [] \<Rightarrow> False | r # _ \<Rightarrow> or_UID r = om_UID owner)"
  by (simp add: sampleKube_def)

lemma sample_SemanticDeepEqual: "SemanticDeepEqual sampleKube = (=)"
  by (simp add: sampleKube_def)

lemma sample_attempt:
  "\<exists>newSecret. attemptUnseal sampleController sampleRegistry (defaultTypeMeta sampleSealed) = Inr newSecret
    \<and> om_Name (sec_Meta newSecret) = ''db''
    \<and> IsControlledBy sampleKube (sec_Meta newSecret) (ss_Meta sampleSealed)
    \<and> map_get (sec_Data newSecret) ''pass'' = Some (string_bytes ''x'') \<and> sec_StringData newSecret = None"
proof -
  have l: "labelFor (ss_Meta (defaultTypeMeta sampleSealed)) = labelFor (sec_Meta sampleSecret)"
    using sealed_label [OF sample_seals] by simp
  have v: "map_of (plainEntries sampleSecret) ''pass'' = Some (string_bytes ''x'')"
    by code_simp
  obtain new where u: "Unseal sampleCrypto sampleKube True (privateKeys sampleRegistry) (defaultTypeMeta sampleSealed)
      = Inr (finishUnseal sampleKube (defaultTypeMeta sampleSealed) new)"
    and new: "new = \<lparr> sec_Meta = tmpl_Meta (sealTemplate sampleSecret), sec_Immutable = sec_Immutable sampleSecret,
      sec_Data = Some (put_all (plainEntries sampleSecret) []), sec_StringData = None,
      sec_Type = sec_Type sampleSecret \<rparr>"
    using Unseal_sealed [OF sample_sound sampleRegistry_keys sample_seals _ l, of sampleKube True] by simp
  have "map_get (om_Annotations (sec_Meta sampleSecret)) SealedSecretSkipSetOwnerReferencesAnnotation \<noteq> Some ''true''"
    by (simp add: sampleSecret_def emptyObjectMeta_def map_get_def)
  then have "om_OwnerReferences (sec_Meta (finishUnseal sampleKube (defaultTypeMeta sampleSealed) new)) =
      [ownerReference sampleKube (defaultTypeMeta sampleSealed)]"
    by (simp add: finishUnseal_def sample_spec Let_def)
  then have "IsControlledBy sampleKube (sec_Meta (finishUnseal sampleKube (defaultTypeMeta sampleSealed) new))
      (ss_Meta sampleSealed)"
    by (simp add: sample_IsControlledBy ownerReference_def split: prod.split)
  moreover have "map_get (sec_Data new) ''pass'' = Some (string_bytes ''x'')" "sec_StringData new = None"
    using v by (simp_all add: new map_get_def put_all_Nil_value distinct_plainEntries)
  ultimately show ?thesis
    by (simp add: attemptUnseal_def u sample_meta)
qed

lemma sample_semantic: "semantic_equality sampleKube"
  by (simp add: semantic_equality_def sample_SemanticDeepEqual same_secret_def)

lemma shown_controlled [simp]:
  "IsControlledBy sampleKube (sec_Meta (shown n s)) o' = IsControlledBy sampleKube (sec_Meta s) o'"
  by (simp add: sample_IsControlledBy shown_def)

lemma sample_run: "\<exists>st'. unseal sampleController 5 ''prod/db'' (stateOf emptyStore) = Ret (None, st')"
proof -
  obtain new where new: "attemptUnseal sampleController sampleRegistry (defaultTypeMeta sampleSealed) = Inr new"
    "om_Name (sec_Meta new) = ''db''" "IsControlledBy sampleKube (sec_Meta new) (ss_Meta sampleSealed)"
    using sample_attempt by blast
  obtain updated where u: "mergeSecret (shown ''db'' new) new = Ret updated"
    using mergeSecret_returns by blast
  note name = mergeSecret_kept(2) [OF u]
  let ?st = "(stateOf emptyStore)\<lparr>cs_metrics := countRequest noMetrics\<rparr>"
  have "\<exists>st1. unsealObject sampleController ''prod/db'' (defaultTypeMeta sampleSealed) ?st = Ret (None, st1)"
    using new u name
    by (simp add: unsealObject_def stateOf_def getOrCreate_def storeAPI_def emptyStore_def notFound_def notManaged_def
        sample_meta Let_def)
  then obtain st1 where st1: "unsealObject sampleController ''prod/db'' (defaultTypeMeta sampleSealed)
      ((stateOf emptyStore)\<lparr>cs_metrics := countRequest (cs_metrics (stateOf emptyStore))\<rparr>) = Ret (None, st1)"
    by (auto simp: stateOf_def)
  have "cs_index (stateOf emptyStore) ''prod/db'' = Inr (Some (SealedSecretObj sampleSealed))"
    by (simp add: stateOf_def sampleIndex_def)
  from unseal_object [OF this st1, of 5] show ?thesis by blast
qed

theorem unseal_establishes_secret_witness:
  "\<exists>st' secret. unseal sampleController 5 ''prod/db'' (stateOf emptyStore) = Ret (None, st')
    \<and> storeView (cs_world st') (''prod'', ''db'') = Some secret
    \<and> map_get (sec_Data secret) ''pass'' = Some (string_bytes ''x'')"
proof -
  obtain st' where st': "unseal sampleController 5 ''prod/db'' (stateOf emptyStore) = Ret (None, st')"
    using sample_run by blast
  have i: "cs_index (stateOf emptyStore) ''prod/db'' = Inr (Some (SealedSecretObj sampleSealed))"
    and r: "cs_registry (stateOf emptyStore) = sampleRegistry"
    by (simp_all add: stateOf_def sampleIndex_def)
  have wf: "map_wf (om_Labels (tmpl_Meta (spec_Template (ss_Spec sampleSealed))))"
      "map_wf (om_Annotations (tmpl_Meta (spec_Template (ss_Spec sampleSealed))))"
    by (simp_all add: sample_spec sampleSecret_def emptyObjectMeta_def)
  from unseal_establishes_secret [where c = sampleController and view = storeView, OF _ _ i sample_spec(1) _ wf st']
  show ?thesis
    using st' sample_attempt by (auto simp: store_tracks sample_semantic sample_meta r)
qed

section \<open>Secrets of somebody else\<close>

lemma Unseal_place:
  assumes "Unseal C L v1 ks s = Inr secret"
  shows "om_Name (sec_Meta secret) = om_Name (ss_Meta s)" "om_Namespace (sec_Meta secret) = om_Namespace (ss_Meta s)"
  using assms by (auto simp: Unseal_def Let_def split: sum.splits)

lemma attemptUnseal_name:
  "attemptUnseal c kr s = Inr newSecret \<Longrightarrow> om_Name (sec_Meta newSecret) = om_Name (ss_Meta s)"
  by (auto simp: attemptUnseal_def dest: Unseal_place)

lemma unseal_notManaged:
  assumes "cs_index st key = Inr (Some (SealedSecretObj s))"
    "attemptUnseal c (cs_registry st) (defaultTypeMeta s) = Inr newSecret"
    "getOrCreate (ctl_api c) (om_Namespace (ss_Meta s)) newSecret (cs_world st) = (Inr secret, w)"
    "notManaged (ctl_kube c) (defaultTypeMeta s) secret"
  shows "\<exists>st'. unseal c now key st = Ret (Some (Errorf (''failed update: '' @ unmanagedMessage secret)), st')
    \<and> cs_world st' = snd (snd (updateSealedSecretStatus (ctl_api c) (ctl_updateStatus c) now (defaultTypeMeta s)
        (Some (Errorf (''failed update: '' @ unmanagedMessage secret))) w))
    \<and> cs_events st' = cs_events st @ [Event (om_Namespace (ss_Meta s)) (om_Name (ss_Meta s)) ''Warning''
        ErrUpdateFailed (unmanagedMessage secret)]"
proof -
  let ?st = "st\<lparr>cs_metrics := countRequest (cs_metrics st)\<rparr>"
  let ?err = "Errorf (''failed update: '' @ unmanagedMessage secret)"
  let ?st1 = "incErrors ''unmanaged'' (om_Namespace (ss_Meta s)) (recordEvent (defaultTypeMeta s) ''Warning''
    ErrUpdateFailed (unmanagedMessage secret) (?st\<lparr>cs_world := w\<rparr>))"
  have "unsealObject c key (defaultTypeMeta s) ?st = Ret (Some ?err, ?st1)"
    using assms(2-4) by (simp add: unsealObject_def Let_def)
  from unseal_object [OF assms(1) this, of now] show ?thesis
    by (simp add: reportStatus_world)
qed

text \<open>
  A secret that is already there, is not owned by the sealed secret and carries neither the managed
  nor the patch annotation is never modified: \<open>unseal\<close> fails, says so in an event, and the secrets
  of the cluster are the same as before.
\<close>

theorem unmanaged_secret_untouched:
  assumes "tracks_secrets (ctl_api c) view" "cs_index st key = Inr (Some (SealedSecretObj s))"
    "attemptUnseal c (cs_registry st) (defaultTypeMeta s) = Inr newSecret"
    "SecretsGet (ctl_api c) (om_Namespace (ss_Meta s)) (om_Name (ss_Meta s)) (cs_world st) = (Inr secret, w)"
    "notManaged (ctl_kube c) (defaultTypeMeta s) secret"
  shows "\<exists>st'. unseal c now key st = Ret (Some (Errorf (''failed update: '' @ unmanagedMessage secret)), st')
    \<and> view (cs_world st') = view (cs_world st)
    \<and> cs_events st' = cs_events st @ [Event (om_Namespace (ss_Meta s)) (om_Name (ss_Meta s)) ''Warning''
        ErrUpdateFailed (unmanagedMessage secret)]"
proof -
  have "getOrCreate (ctl_api c) (om_Namespace (ss_Meta s)) newSecret (cs_world st) = (Inr secret, w)"
    using assms(4) attemptUnseal_name [OF assms(3)] by (simp add: getOrCreate_def)
  from unseal_notManaged [OF assms(2,3) this assms(5), of now] show ?thesis
    using updateSealedSecretStatus_view [OF assms(1)] secrets_Get(1) [OF assms(1,4)] by auto
qed

definition foreignStore :: store where
  "foreignStore = emptyStore\<lparr>store_secrets := [((''prod'', ''db''), emptySecret)]\<rparr>"

theorem unmanaged_secret_untouched_witness:
  "\<exists>err st'. unseal sampleController 5 ''prod/db'' (stateOf foreignStore) = Ret (Some err, st')
    \<and> storeView (cs_world st') = storeView foreignStore"
proof -
  obtain new where new: "attemptUnseal sampleController sampleRegistry (defaultTypeMeta sampleSealed) = Inr new"
    using sample_attempt by blast
  have i: "cs_index (stateOf foreignStore) ''prod/db'' = Inr (Some (SealedSecretObj sampleSealed))"
    and a: "attemptUnseal sampleController (cs_registry (stateOf foreignStore)) (defaultTypeMeta sampleSealed) = Inr new"
    and w: "cs_world (stateOf foreignStore) = foreignStore"
    using new by (simp_all add: stateOf_def sampleIndex_def)
  have g: "SecretsGet (ctl_api sampleController) (om_Namespace (ss_Meta sampleSealed)) (om_Name (ss_Meta sampleSealed))
      (cs_world (stateOf foreignStore)) = (Inr (shown ''db'' emptySecret), foreignStore)"
    by (simp add: sample_meta w) (simp add: storeAPI_def foreignStore_def)
  have "notManaged (ctl_kube sampleController) (defaultTypeMeta sampleSealed) (shown ''db'' emptySecret)"
    by (simp add: notManaged_def sample_IsControlledBy shown_def emptySecret_def emptyObjectMeta_def
        isAnnotatedToBeManaged_def isAnnotatedToBePatched_def map_read_def map_get_def)
  from unmanaged_secret_untouched [where c = sampleController and view = storeView, OF _ i a g this, of 5]
  show ?thesis by (auto simp: store_tracks w)
qed

section \<open>What is reported\<close>

text \<open>The two ways in which the body of \<open>unseal\<close> ends.\<close>

lemma unsealObject_Ret:
  assumes "unsealObject c key ss st = Ret (err, st')"
  obtains (failed) e w reason message where "err = Some e"
      "st' = incErrors reason (om_Namespace (ss_Meta ss)) (recordEvent ss ''Warning''
         (if isl (attemptUnseal c (cs_registry st) ss) then ErrUnsealFailed else ErrUpdateFailed) message
         (st\<lparr>cs_world := w\<rparr>))"
    | (unsealed) w where "err = None" "\<not> isl (attemptUnseal c (cs_registry st) ss)"
      "st' = recordEvent ss ''Normal'' SuccessUnsealed ''SealedSecret unsealed successfully'' (st\<lparr>cs_world := w\<rparr>)"
proof (cases "attemptUnseal c (cs_registry st) ss")
  case (Inl e)
  show ?thesis
    by (rule failed [of e "''unseal''" "''Failed to unseal: '' @ err_text e" "cs_world st"])
      (use assms Inl in \<open>auto simp: unsealObject_def Let_def\<close>)
next
  case new: (Inr newSecret)
  obtain r w where r: "getOrCreate (ctl_api c) (om_Namespace (ss_Meta ss)) newSecret (cs_world st) = (r, w)"
    by (metis surj_pair)
  show ?thesis
  proof (cases r)
    case (Inl e)
    show ?thesis
      by (rule failed [of e "''update''" "err_text e" w])
        (use assms new r Inl in \<open>auto simp: unsealObject_def Let_def\<close>)
  next
    case secret: (Inr secret)
    obtain updated where u: "mergeSecret secret newSecret = Ret updated"
      using mergeSecret_returns by blast
    obtain ur w2 where ur: "SecretsUpdate (ctl_api c) (om_Namespace (ss_Meta ss)) updated w = (ur, w2)"
      by (metis surj_pair)
    consider "notManaged (ctl_kube c) ss secret"
      | "\<not> notManaged (ctl_kube c) ss secret" "SemanticDeepEqual (ctl_kube c) secret updated"
      | e where "\<not> notManaged (ctl_kube c) ss secret" "\<not> SemanticDeepEqual (ctl_kube c) secret updated" "ur = Inl e"
      | x where "\<not> notManaged (ctl_kube c) ss secret" "\<not> SemanticDeepEqual (ctl_kube c) secret updated" "ur = Inr x"
      by (cases ur) auto
    then show ?thesis
    proof cases
      case 1
      show ?thesis
        by (rule failed [of _ "''unmanaged''" "unmanagedMessage secret" w])
          (use assms new r secret 1 in \<open>auto simp: unsealObject_def Let_def\<close>)
    next
      case 2
      show ?thesis
        by (rule unsealed [of w]) (use assms new r secret u 2 in \<open>auto simp: unsealObject_def Let_def\<close>)
    next
      case 3
      show ?thesis
        by (rule failed [of e "''update''" "if isImmutableError e then formatImmutableError key else err_text e" w2])
          (use assms new r secret u ur 3 in \<open>simp_all add: unsealObject_def Let_def\<close>)
    next
      case 4
      show ?thesis
        by (rule unsealed [of w2]) (use assms new r secret u ur 4 in \<open>auto simp: unsealObject_def Let_def\<close>)
    qed
  qed
qed

lemma unsealObject_events:
  assumes "unsealObject c key ss st = Ret (err, st')"
  shows "\<exists>message. cs_events st' = cs_events st @ [Event (om_Namespace (ss_Meta ss)) (om_Name (ss_Meta ss))
      (if err = None then ''Normal'' else ''Warning'')
      (if err = None then SuccessUnsealed else if isl (attemptUnseal c (cs_registry st) ss) then ErrUnsealFailed else ErrUpdateFailed) message]"
  using assms by (cases rule: unsealObject_Ret) auto

lemma unsealObject_frame:
  assumes "unsealObject c key ss st = Ret (err, st')"
  shows "cs_registry st' = cs_registry st" "cs_index st' = cs_index st"
  using assms by (cases rule: unsealObject_Ret; simp)+

lemma unseal_registry:
  assumes "unseal c now key st = Ret (err, st')"
  shows "cs_registry st' = cs_registry st"
  using assms
  by (auto simp: unseal_def unsealGone_def Let_def outcome_simps dest: unsealObject_frame
      split: prod.splits if_splits sum.splits option.splits)

text \<open>
  C25: every attempt is reported twice: exactly one event is recorded for the sealed secret (normal and
  Unsealed on success, a warning that tells a failed decryption from a failed update otherwise),
  and with status updates on the cached object's Synced condition carries the outcome and the text
  of the error.
\<close>

theorem unseal_reports_outcome:
  assumes "cs_index st key = Inr (Some (SealedSecretObj s))" "ctl_updateStatus c"
    "unseal c now key st = Ret (err, st')"
  shows "(\<exists>message. cs_events st' = cs_events st @ [Event (om_Namespace (ss_Meta s)) (om_Name (ss_Meta s))
        (if err = None then ''Normal'' else ''Warning'')
        (if err = None then SuccessUnsealed
         else if isl (attemptUnseal c (cs_registry st) (defaultTypeMeta s)) then ErrUnsealFailed else ErrUpdateFailed)
        message])
    \<and> (\<exists>s' status cond. cs_index st' key = Inr (Some (SealedSecretObj s')) \<and> ss_Spec s' = ss_Spec s
        \<and> ss_Meta s' = ss_Meta s \<and> ss_Status s' = Some status \<and> synced (st_Conditions status) = Some cond
        \<and> cond_Status cond = outcomeStatus err \<and> cond_Message cond = outcomeMessage err)"
proof -
  let ?st = "st\<lparr>cs_metrics := countRequest (cs_metrics st)\<rparr>"
  obtain st1 where u: "unsealObject c key (defaultTypeMeta s) ?st = Ret (err, st1)"
    and st': "st' = reportStatus c now key (defaultTypeMeta s) err st1"
    using assms(1,3) by (auto simp: unseal_def convertSealedSecret_def outcome_simps split: prod.splits)
  obtain r s' w where r: "updateSealedSecretStatus (ctl_api c) (ctl_updateStatus c) now (defaultTypeMeta s) err
      (cs_world st1) = (r, s', w)"
    by (metis prod_cases3)
  have i: "cs_index st' key = Inr (Some (SealedSecretObj s'))"
    using r by (simp add: st' reportStatus_def Let_def split: option.splits)
  have ev: "cs_events st' = cs_events st1"
    by (simp add: st')
  have "updateSealedSecretStatus (ctl_api c) True now (defaultTypeMeta s) err (cs_world st1) = (r, s', w)"
    using r assms(2) by simp
  note status = updateSealedSecretStatus_synced [OF this]
  show ?thesis
  proof
    show "\<exists>message. cs_events st' = cs_events st @ [Event (om_Namespace (ss_Meta s)) (om_Name (ss_Meta s))
        (if err = None then ''Normal'' else ''Warning'')
        (if err = None then SuccessUnsealed
         else if isl (attemptUnseal c (cs_registry st) (defaultTypeMeta s)) then ErrUnsealFailed else ErrUpdateFailed)
        message]"
      using unsealObject_events [OF u] unfolding ev by (cases err) (simp_all split del: if_split)
    show "\<exists>s' status cond. cs_index st' key = Inr (Some (SealedSecretObj s')) \<and> ss_Spec s' = ss_Spec s
        \<and> ss_Meta s' = ss_Meta s \<and> ss_Status s' = Some status \<and> synced (st_Conditions status) = Some cond
        \<and> cond_Status cond = outcomeStatus err \<and> cond_Message cond = outcomeMessage err"
      using i status by auto
  qed
qed

theorem unseal_reports_outcome_witness:
  "\<exists>st' message. unseal sampleController 5 ''prod/db'' (stateOf emptyStore) = Ret (None, st')
    \<and> cs_events st' = [Event ''prod'' ''db'' ''Normal'' SuccessUnsealed message]"
proof -
  obtain st' where st': "unseal sampleController 5 ''prod/db'' (stateOf emptyStore) = Ret (None, st')"
    using sample_run by blast
  have i: "cs_index (stateOf emptyStore) ''prod/db'' = Inr (Some (SealedSecretObj sampleSealed))"
    and e: "cs_events (stateOf emptyStore) = []"
    by (simp_all add: stateOf_def sampleIndex_def)
  from unseal_reports_outcome [OF i _ st'] show ?thesis
    using st' by (auto simp: e sample_meta)
qed

section \<open>Secrets without an owner\<close>

text \<open>An object without owner references is controlled by nobody.\<close>

definition controller_reference :: "kube_lib \<Rightarrow> bool" where
  "controller_reference L \<longleftrightarrow> (\<forall>m owner. om_OwnerReferences m = [] \<longrightarrow> \<not> IsControlledBy L m owner)"

lemma Unseal_skip_owner:
  assumes "Unseal C L v1 ks s = Inr secret" "spec_Data (ss_Spec s) = None"
    "map_get (om_Annotations (tmpl_Meta (spec_Template (ss_Spec s)))) SealedSecretSkipSetOwnerReferencesAnnotation
      = Some ''true''"
  shows "om_OwnerReferences (sec_Meta secret) = om_OwnerReferences (tmpl_Meta (spec_Template (ss_Spec s)))"
proof -
  obtain secret0 where u: "unsealEncryptedData C L ks s (labelFor (ss_Meta s)) = Inr secret0"
    and fin: "secret = finishUnseal L s secret0"
    using assms by (auto simp: Unseal_def Let_def split: sum.splits)
  from u have "om_OwnerReferences (sec_Meta secret0) = om_OwnerReferences (tmpl_Meta (spec_Template (ss_Spec s)))"
    by (auto elim: unsealEncryptedData_Inr)
  with assms(3) show ?thesis by (simp add: fin finishUnseal_def Let_def)
qed

text \<open>
  A sealed secret whose template skips the owner reference but does not carry the managed (or the
  patch) annotation cannot be synced: its secret is created, and the same call of \<open>unseal\<close> then
  takes it for somebody else's and fails.
\<close>

theorem skip_owner_without_managed_fails:
  assumes "controller_reference (ctl_kube c)"
    and "cs_index st key = Inr (Some (SealedSecretObj s))" "spec_Data (ss_Spec s) = None"
    and "attemptUnseal c (cs_registry st) (defaultTypeMeta s) = Inr newSecret"
    and "map_get (om_Annotations (tmpl_Meta (spec_Template (ss_Spec s)))) SealedSecretSkipSetOwnerReferencesAnnotation
      = Some ''true''" "om_OwnerReferences (tmpl_Meta (spec_Template (ss_Spec s))) = []"
      "\<not> isAnnotatedToBeManaged newSecret" "\<not> isAnnotatedToBePatched newSecret"
    and "SecretsGet (ctl_api c) (om_Namespace (ss_Meta s)) (om_Name (ss_Meta s)) (cs_world st) = (Inl e, w1)"
      "IsNotFound e" "SecretsCreate (ctl_api c) (om_Namespace (ss_Meta s)) newSecret w1 = (Inr secret, w2)"
      "stored newSecret secret"
  shows "\<exists>st'. unseal c now key st = Ret (Some (Errorf (''failed update: '' @ unmanagedMessage secret)), st')"
proof -
  have "om_OwnerReferences (sec_Meta newSecret) = []"
    using Unseal_skip_owner [OF assms(4) [unfolded attemptUnseal_def]] assms(3,5,6) by simp
  then have "notManaged (ctl_kube c) (defaultTypeMeta s) secret"
    using assms(1,7,8,12)
    by (simp add: notManaged_def controller_reference_def stored_def managed_by_reading patched_by_reading)
  moreover have "getOrCreate (ctl_api c) (om_Namespace (ss_Meta s)) newSecret (cs_world st) = (Inr secret, w2)"
    using assms(9-11) attemptUnseal_name [OF assms(4)] by (simp add: getOrCreate_def)
  ultimately show ?thesis
    using unseal_notManaged [OF assms(2,4)] by blast
qed

definition skipSecret :: Secret where
  "skipSecret = sampleSecret\<lparr>sec_Meta := (sec_Meta sampleSecret)
     \<lparr>om_Annotations := Some [(SealedSecretSkipSetOwnerReferencesAnnotation, ''true'')]\<rparr>\<rparr>"

definition skipSealed :: SealedSecret where
  "skipSealed = projr (fst (NewSealedSecret sampleCrypto (rsaPublicKey sampleKey) skipSecret sampleRandom))"

lemma skip_seals:
  "NewSealedSecret sampleCrypto (rsaPublicKey sampleKey) skipSecret sampleRandom = (Inr skipSealed, drop 64 sampleRandom)"
  by (simp add: skipSealed_def NewSealedSecret_def missingNamespace_def skipSecret_def sampleSecret_def emptySecret_def
      string_items_def sample_HybridEncrypt Let_def sampleRandom_def)

lemma skip_sound: "crypto_sound sampleCrypto (rsaPublicKey sampleKey) (labelFor (sec_Meta skipSecret))"
proof -
  have "labelFor (sec_Meta skipSecret) = string_bytes ''prod/db''" by code_simp
  then show ?thesis by (simp add: sample_crypto_sound sampleKey_def)
qed

lemma skip_meta: "om_Name (ss_Meta skipSealed) = ''db''" "om_Namespace (ss_Meta skipSealed) = ''prod''"
  "spec_Data (ss_Spec skipSealed) = None"
  "tmpl_Meta (spec_Template (ss_Spec skipSealed)) = sec_Meta skipSecret"
proof -
  have "sealTemplate skipSecret = \<lparr> tmpl_Meta = sec_Meta skipSecret, tmpl_Type = ''Opaque'', tmpl_Immutable = None,
      tmpl_Data = None \<rparr>" by code_simp
  then show "om_Name (ss_Meta skipSealed) = ''db''" "om_Namespace (ss_Meta skipSealed) = ''prod''"
    "spec_Data (ss_Spec skipSealed) = None"
    "tmpl_Meta (spec_Template (ss_Spec skipSealed)) = sec_Meta skipSecret"
    by - (rule NewSealedSecret_Inr [OF skip_seals], simp add: skipSecret_def sampleSecret_def)+
qed

theorem skip_owner_without_managed_fails_witness:
  "\<exists>err st'. unseal sampleController 5 ''prod/db''
      ((stateOf emptyStore)\<lparr>cs_index := \<lambda>_. Inr (Some (SealedSecretObj skipSealed))\<rparr>) = Ret (Some err, st')"
proof -
  let ?st = "(stateOf emptyStore)\<lparr>cs_index := \<lambda>_. Inr (Some (SealedSecretObj skipSealed))\<rparr>"
  have "labelFor (ss_Meta (defaultTypeMeta skipSealed)) = labelFor (sec_Meta skipSecret)"
    using sealed_label [OF skip_seals] by simp
  then obtain new where n: "attemptUnseal sampleController (cs_registry ?st) (defaultTypeMeta skipSealed) = Inr new"
    using Unseal_sealed [OF skip_sound sampleRegistry_keys skip_seals, of "defaultTypeMeta skipSealed"]
    by (auto simp: attemptUnseal_def stateOf_def)
  note nf = Unseal_data_wf [OF n [unfolded attemptUnseal_def]]
  have a: "om_Annotations (sec_Meta skipSecret) = Some [(SealedSecretSkipSetOwnerReferencesAnnotation, ''true'')]"
    "om_OwnerReferences (sec_Meta skipSecret) = []"
    by (simp_all add: skipSecret_def sampleSecret_def emptyObjectMeta_def)
  have d: "SealedSecretManagedAnnotation \<noteq> SealedSecretSkipSetOwnerReferencesAnnotation"
    "SealedSecretPatchAnnotation \<noteq> SealedSecretSkipSetOwnerReferencesAnnotation"
    by (simp_all add: annotation_defs)
  have unmanaged: "\<not> isAnnotatedToBeManaged new" "\<not> isAnnotatedToBePatched new"
    using nf(6) by (simp_all add: managed_by_reading patched_by_reading skip_meta a map_get_def d)
  have get: "SecretsGet (ctl_api sampleController) (om_Namespace (ss_Meta skipSealed)) (om_Name (ss_Meta skipSealed))
      (cs_world ?st) = (Inl notFound, emptyStore)"
    by (simp add: storeAPI_def stateOf_def emptyStore_def)
  obtain secret w2 where create: "SecretsCreate (ctl_api sampleController) (om_Namespace (ss_Meta skipSealed)) new
      emptyStore = (Inr secret, w2)"
    by (auto simp: storeAPI_def emptyStore_def Let_def)
  have "stored new secret"
    by (rule secrets_Create(1) [where view = storeView, OF _ create]) (simp add: store_tracks)
  from skip_owner_without_managed_fails [OF _ _ skip_meta(3) n _ _ unmanaged get _ create this, where now = 5 and key = "''prod/db''"]
  show ?thesis
    by (auto simp: controller_reference_def sample_IsControlledBy skip_meta a map_get_def notFound_def)
qed

end
