(* ===== verification/RotateProps.thy ===== *)
theory RotateProps
  imports UnsealProps
begin

text \<open>
  Re-encryption (\<open>Rotate\<close>): the new sealed secret opens to the same secret in the same place, with
  the scope of the old one, and is sealed for the latest key.
\<close>

section \<open>Aligning the template\<close>

lemma map_deep_equal_get:
  assumes "map_deep_equal a b" "map_wf a" "map_wf b"
  shows "map_get a = map_get b"
proof (cases a)
  case None
  with assms(1) show ?thesis by (cases b) (auto simp: map_deep_equal_def)
next
  case (Some al)
  with assms obtain bl where "b = Some bl" "entries_equal al bl" "distinct (map fst al)" "distinct (map fst bl)"
    by (cases b) (auto simp: map_deep_equal_def)
  with Some entries_equal_iff show ?thesis by (auto simp: map_get_def fun_eq_iff)
qed

lemma SecretScope_reading:
  "map_get (om_Annotations a) = map_get (om_Annotations b) \<Longrightarrow> SecretScope a = SecretScope b"
  by (simp add: SecretScope_def map_read_def)

lemma alignTemplate_scope:
  assumes "map_wf (om_Annotations (ss_Meta s))" "map_wf (om_Annotations (tmpl_Meta (spec_Template (ss_Spec s))))"
  shows "SecretScope (tmpl_Meta (spec_Template (ss_Spec (alignTemplate s)))) = SecretScope (ss_Meta s)"
proof (cases "meta_deep_equal (ss_Meta s) (tmpl_Meta (spec_Template (ss_Spec s)))")
  case True
  then have "map_get (om_Annotations (ss_Meta s)) = map_get (om_Annotations (tmpl_Meta (spec_Template (ss_Spec s))))"
    by (intro map_deep_equal_get [OF _ assms]) (simp add: meta_deep_equal_def)
  from SecretScope_reading [OF this [symmetric]] True show ?thesis by (simp add: alignTemplate_def)
qed (simp add: alignTemplate_def)

lemma alignTemplate_simps [simp]:
  "ss_Meta (alignTemplate s) = ss_Meta s" "ss_TypeMeta (alignTemplate s) = ss_TypeMeta s"
  "spec_Data (ss_Spec (alignTemplate s)) = spec_Data (ss_Spec s)"
  "spec_EncryptedData (ss_Spec (alignTemplate s)) = spec_EncryptedData (ss_Spec s)"
  "tmpl_Data (spec_Template (ss_Spec (alignTemplate s))) = tmpl_Data (spec_Template (ss_Spec s))"
  "tmpl_Type (spec_Template (ss_Spec (alignTemplate s))) = tmpl_Type (spec_Template (ss_Spec s))"
  "tmpl_Immutable (spec_Template (ss_Spec (alignTemplate s))) = tmpl_Immutable (spec_Template (ss_Spec s))"
  by (simp_all add: alignTemplate_def)

text \<open>The metadata of the template have no say in the values.\<close>

lemma Unseal_alignTemplate:
  assumes "Unseal C L v1 ks (alignTemplate s) = Inr old" "spec_Data (ss_Spec s) = None"
  shows "\<exists>orig. Unseal C L v1 ks s = Inr orig \<and> sec_Data old = sec_Data orig \<and> sec_Type old = sec_Type orig
    \<and> sec_Immutable old = sec_Immutable orig"
proof -
  obtain old0 where old0: "unsealEncryptedData C L ks (alignTemplate s) (labelFor (ss_Meta s)) = Inr old0"
    and old: "old = finishUnseal L (alignTemplate s) old0"
    using assms by (auto simp: Unseal_def Let_def split: sum.splits)
  then have u: "unsealEncryptedData C L ks s (labelFor (ss_Meta s)) =
      Inr (old0\<lparr>sec_Meta := tmpl_Meta (spec_Template (ss_Spec s))\<rparr>)"
    by (auto simp: unsealEncryptedData_def Let_def split: if_splits prod.splits)
  have "Unseal C L v1 ks s = Inr (finishUnseal L s (old0\<lparr>sec_Meta := tmpl_Meta (spec_Template (ss_Spec s))\<rparr>))"
    using assms(2) u by (simp add: Unseal_def Let_def)
  then show ?thesis by (simp add: old)
qed

lemma Unseal_annotations:
  assumes "Unseal C L v1 ks s = Inr secret" "spec_Data (ss_Spec s) = None"
  shows "SecretScope (sec_Meta secret) = SecretScope (tmpl_Meta (spec_Template (ss_Spec s)))"
  using Unseal_data_wf(6) [OF assms] by (simp add: SecretScope_def)

section \<open>Re-encryption keeps the secret\<close>

lemma latest_key_held:
  assumes "registry_inv C kr" "fingerprints_injective C" "kr_mostRecentKey kr = Some m"
  shows "holds_key (privateKeys kr) (rsaPublicKey (key_private m))"
proof -
  from assms obtain k where k: "(key_fingerprint m, k) \<in> set (kr_keys kr)"
    "FingerprintSHA256 C (rsaPublicKey (key_private m)) = Inr (key_fingerprint m)"
    by (auto simp: registry_inv_def)
  then have "FingerprintSHA256 C (rsaPublicKey (key_private k)) = Inr (key_fingerprint m)"
    using assms(1) by (auto simp: registry_inv_def)
  then have "rsaPublicKey (key_private k) = rsaPublicKey (key_private m)"
    using assms(2) k(2) unfolding fingerprints_injective_def by blast
  with k(1) show ?thesis by (auto simp: holds_key_privateKeys)
qed

lemma Rotate_Inr:
  assumes "Rotate c kr content rnd = Ret (Inr data, rnd')"
  obtains s old m s' where "DecodeObject (ctl_kube c) content = Inr (SealedSecretObj s)"
    "attemptUnseal c kr (alignTemplate s) = Inr old" "kr_mostRecentKey kr = Some m"
    "NewSealedSecret (ctl_crypto c) (rsaPublicKey (key_private m)) old rnd = (Inr s', rnd')"
    "MarshalSealedSecret (ctl_kube c) s' = Inr data"
  using assms
  by (auto simp: Rotate_def latestPrivateKey_def outcome_simps split: sum.splits any_object.splits option.splits prod.splits)

lemma plainEntries_unsealed:
  assumes "map_wf (sec_Data old)" "sec_StringData old = None"
  shows "map_of (put_all (plainEntries old) []) = map_get (sec_Data old)"
proof -
  have "secret_wf old"
    using assms by (simp add: secret_wf_def)
  then show ?thesis
    by (simp add: fun_eq_iff put_all_Nil_value distinct_plainEntries plainEntries_value plainValue_def assms(2) map_get_def)
qed

text \<open>
  A sealed secret that was made of another by re-encryption for the key \<open>m\<close>: every ring with that key, also one
  with no other key, opens it to a secret like the one the old object unsealed to.
\<close>

definition resealed :: "'w Controller \<Rightarrow> Key \<Rightarrow> SealedSecret \<Rightarrow> Secret \<Rightarrow> SealedSecret \<Rightarrow> bool" where
  "resealed c m s orig s' \<longleftrightarrow> SecretScope (ss_Meta s') = SecretScope (ss_Meta s) \<and>
     (\<forall>ks. holds_key ks (rsaPublicKey (key_private m)) \<longrightarrow>
       (\<exists>new. Unseal (ctl_crypto c) (ctl_kube c) (ctl_acceptV1 c) ks s' = Inr new
         \<and> map_get (sec_Data new) = map_get (sec_Data orig) \<and> sec_Type new = sec_Type orig
         \<and> sec_Immutable new = sec_Immutable orig \<and> om_Name (sec_Meta new) = om_Name (ss_Meta s)
         \<and> om_Namespace (sec_Meta new) = om_Namespace (ss_Meta s)))"

lemma Rotate_reseals:
  assumes run: "Rotate c kr content rnd = Ret (Inr data, rnd')"
    and s: "DecodeObject (ctl_kube c) content = Inr (SealedSecretObj s)" "spec_Data (ss_Spec s) = None"
    and wf: "map_wf (om_Annotations (ss_Meta s))" "map_wf (om_Annotations (tmpl_Meta (spec_Template (ss_Spec s))))"
    and kr: "kr_mostRecentKey kr = Some m"
    and sound: "crypto_sound (ctl_crypto c) (rsaPublicKey (key_private m)) (labelFor (ss_Meta s))"
  shows "\<exists>orig s'. attemptUnseal c kr s = Inr orig \<and> MarshalSealedSecret (ctl_kube c) s' = Inr data
    \<and> resealed c m s orig s'"
proof -
  obtain old s' where u: "attemptUnseal c kr (alignTemplate s) = Inr old"
    and seal: "NewSealedSecret (ctl_crypto c) (rsaPublicKey (key_private m)) old rnd = (Inr s', rnd')"
    and data: "MarshalSealedSecret (ctl_kube c) s' = Inr data"
    using Rotate_Inr [OF run] s(1) kr by (metis any_object.inject(1) old.sum.inject(2) option.inject)
  note U = u [unfolded attemptUnseal_def]
  have none: "spec_Data (ss_Spec (alignTemplate s)) = None"
    using s(2) by simp
  note f = Unseal_data_wf [OF U none] and place = Unseal_place [OF U]
  obtain orig where orig: "attemptUnseal c kr s = Inr orig" "sec_Data old = sec_Data orig" "sec_Type old = sec_Type orig"
    "sec_Immutable old = sec_Immutable orig"
    using Unseal_alignTemplate [OF U s(2)] by (auto simp: attemptUnseal_def)
  have scope: "SecretScope (sec_Meta old) = SecretScope (ss_Meta s)"
    using Unseal_annotations [OF U none] alignTemplate_scope [OF wf] by simp
  then have label: "labelFor (sec_Meta old) = labelFor (ss_Meta s)"
    using place by (simp add: labelFor_def)
  have names: "om_Name (ss_Meta s') = om_Name (ss_Meta s)" "om_Namespace (ss_Meta s') = om_Namespace (ss_Meta s)"
    by (rule NewSealedSecret_Inr [OF seal], use place in simp)+
  have "\<exists>new. Unseal (ctl_crypto c) (ctl_kube c) (ctl_acceptV1 c) ks s' = Inr new
         \<and> map_get (sec_Data new) = map_get (sec_Data orig) \<and> sec_Type new = sec_Type orig
         \<and> sec_Immutable new = sec_Immutable orig \<and> om_Name (sec_Meta new) = om_Name (ss_Meta s)
         \<and> om_Namespace (sec_Meta new) = om_Namespace (ss_Meta s)"
    if held: "holds_key ks (rsaPublicKey (key_private m))" for ks
  proof -
    obtain new where new: "Unseal (ctl_crypto c) (ctl_kube c) (ctl_acceptV1 c) ks s' = Inr new"
      "sec_Data new = Some (put_all (plainEntries old) [])" "sec_Type new = sec_Type old" "sec_Immutable new = sec_Immutable old"
      "om_Name (sec_Meta new) = om_Name (ss_Meta s')" "om_Namespace (sec_Meta new) = om_Namespace (ss_Meta s')"
      using Unseal_sealed [OF _ held seal refl sealed_label [OF seal],
          of "ctl_kube c" "ctl_acceptV1 c", unfolded label, OF sound] by simp
    have "map_get (sec_Data new) = map_get (sec_Data old)"
      using plainEntries_unsealed [OF f(1,2)] by (simp add: new(2) map_get_def fun_eq_iff)
    then have "map_get (sec_Data new) = map_get (sec_Data orig)" "sec_Type new = sec_Type orig"
      "sec_Immutable new = sec_Immutable orig" "om_Name (sec_Meta new) = om_Name (ss_Meta s)"
      "om_Namespace (sec_Meta new) = om_Namespace (ss_Meta s)"
      using new(3-6) orig(2-4) names by simp_all
    with new(1) show ?thesis
      by blast
  qed
  moreover have "SecretScope (ss_Meta s') = SecretScope (ss_Meta s)"
    using sealed_scope [OF seal] scope by simp
  ultimately have "resealed c m s orig s'"
    unfolding resealed_def by blast
  with orig(1) data show ?thesis
    by blast
qed

text \<open>
  C13: a re-encrypted sealed secret is as good as the old one: both unseal, with the controller's keys,
  to secrets with the same values, type, immutability, namespace and name; the scope stays that of
  the old object, whatever its template said; and the values are sealed for the latest key, which
  opens them without any older one.
\<close>

theorem rotation_preserves_secret:
  assumes run: "Rotate c kr content rnd = Ret (Inr data, rnd')"
    and s: "DecodeObject (ctl_kube c) content = Inr (SealedSecretObj s)" "spec_Data (ss_Spec s) = None"
    and wf: "map_wf (om_Annotations (ss_Meta s))" "map_wf (om_Annotations (tmpl_Meta (spec_Template (ss_Spec s))))"
    and kr: "registry_inv (ctl_crypto c) kr" "fingerprints_injective (ctl_crypto c)" "kr_mostRecentKey kr = Some m"
    and sound: "crypto_sound (ctl_crypto c) (rsaPublicKey (key_private m)) (labelFor (ss_Meta s))"
  shows "\<exists>orig s' new. attemptUnseal c kr s = Inr orig \<and> MarshalSealedSecret (ctl_kube c) s' = Inr data
    \<and> attemptUnseal c kr s' = Inr new \<and> map_get (sec_Data new) = map_get (sec_Data orig)
    \<and> sec_Type new = sec_Type orig \<and> sec_Immutable new = sec_Immutable orig
    \<and> om_Name (sec_Meta new) = om_Name (ss_Meta s) \<and> om_Namespace (sec_Meta new) = om_Namespace (ss_Meta s)
    \<and> SecretScope (ss_Meta s') = SecretScope (ss_Meta s) \<and> resealed c m s orig s'"
proof -
  obtain orig s' where "attemptUnseal c kr s = Inr orig" "MarshalSealedSecret (ctl_kube c) s' = Inr data"
    and new: "resealed c m s orig s'"
    using Rotate_reseals [OF run s wf kr(3) sound] by blast
  moreover from new latest_key_held [OF kr]
  obtain new where "attemptUnseal c kr s' = Inr new" "map_get (sec_Data new) = map_get (sec_Data orig)"
    "sec_Type new = sec_Type orig" "sec_Immutable new = sec_Immutable orig" "om_Name (sec_Meta new) = om_Name (ss_Meta s)"
    "om_Namespace (sec_Meta new) = om_Namespace (ss_Meta s)" "SecretScope (ss_Meta s') = SecretScope (ss_Meta s)"
    unfolding resealed_def attemptUnseal_def by blast
  ultimately show ?thesis
    by blast
qed

section \<open>A run on the samples\<close>

lemma Unseal_alignTemplate_conv:
  assumes "Unseal C L v1 ks s = Inr orig" "spec_Data (ss_Spec s) = None"
  shows "\<exists>old. Unseal C L v1 ks (alignTemplate s) = Inr old"
proof -
  obtain orig0 where "unsealEncryptedData C L ks s (labelFor (ss_Meta s)) = Inr orig0"
    using assms by (auto simp: Unseal_def Let_def split: sum.splits)
  then have "\<exists>old0. unsealEncryptedData C L ks (alignTemplate s) (labelFor (ss_Meta s)) = Inr old0"
    by (auto simp: unsealEncryptedData_def Let_def split: if_splits prod.splits)
  with assms(2) show ?thesis by (auto simp: Unseal_def Let_def)
qed

lemma sample_sealItems:
  "32 * length items \<le> length rnd \<Longrightarrow>
    \<exists>out'. sealItems (\<lambda>r v. HybridEncrypt sampleCrypto r pub v l) EncodeToString items out rnd =
      (Inr out', drop (32 * length items) rnd)"
proof (induction items arbitrary: out rnd)
  case (Cons a items)
  obtain k v where a: "a = (k, v)" by (cases a)
  have "32 \<le> length rnd" "32 * length items \<le> length (drop 32 rnd)"
    using Cons.prems by auto
  with Cons.IH [of "drop 32 rnd"] show ?case
    by (simp add: a sample_HybridEncrypt add.commute)
qed simp

lemma sample_NewSealedSecret:
  assumes "\<not> missingNamespace secret" "sec_StringData secret = None"
    "32 * length (map_entries (sec_Data secret)) \<le> length rnd"
  shows "\<exists>s rnd'. NewSealedSecret sampleCrypto pub secret rnd = (Inr s, rnd')"
proof -
  obtain out where "sealItems (\<lambda>r v. HybridEncrypt sampleCrypto r pub v (labelFor (sec_Meta secret))) EncodeToString
      (map_entries (sec_Data secret)) [] rnd = (Inr out, drop (32 * length (map_entries (sec_Data secret))) rnd)"
    using sample_sealItems [OF assms(3)] by blast
  with assms(1,2) show ?thesis
    by (simp add: NewSealedSecret_def string_items_def)
qed

definition rotateController :: "store Controller" where
  "rotateController = sampleController\<lparr>ctl_kube := sampleKube\<lparr>DecodeObject := \<lambda>b. Inr (SealedSecretObj sampleSealed)\<rparr>\<rparr>"

lemma rotate_kube: "MarshalSealedSecret (ctl_kube rotateController) s = Inr [1]"
  "DecodeObject (ctl_kube rotateController) b = Inr (SealedSecretObj sampleSealed)"
  "ctl_crypto rotateController = sampleCrypto"
  by (simp_all add: rotateController_def sampleKube_def sampleController_def)

lemma sampleRegistry_facts:
  "registry_inv sampleCrypto sampleRegistry"
  "\<exists>m. kr_mostRecentKey sampleRegistry = Some m \<and> key_private m = sampleKey"
proof -
  show "registry_inv sampleCrypto sampleRegistry"
    unfolding sampleRegistry_def by (rule registerNewKey_inv [OF NewKeyRegistry_inv surjective_pairing])
  show "\<exists>m. kr_mostRecentKey sampleRegistry = Some m \<and> key_private m = sampleKey"
    by (simp add: sampleRegistry_def registerNewKey_def PublicKeyFingerprint_def sampleCrypto_def NewKeyRegistry_def Let_def)
qed

lemma sample_reseals:
  assumes "ctl_crypto c = sampleCrypto"
  shows "\<exists>old s rnd'. attemptUnseal c sampleRegistry (alignTemplate sampleSealed) = Inr old
    \<and> NewSealedSecret sampleCrypto (rsaPublicKey sampleKey) old sampleRandom = (Inr s, rnd')"
proof -
  obtain orig where orig: "attemptUnseal c sampleRegistry sampleSealed = Inr orig"
      "sec_Data orig = Some (put_all (plainEntries sampleSecret) [])"
    using Unseal_sealed [OF sample_sound sampleRegistry_keys sample_seals refl sealed_label [OF sample_seals]]
    by (simp add: attemptUnseal_def assms)
  obtain old where old: "attemptUnseal c sampleRegistry (alignTemplate sampleSealed) = Inr old"
    using Unseal_alignTemplate_conv [OF _ sample_spec(1)] orig(1) unfolding attemptUnseal_def by blast
  have d: "sec_Data old = sec_Data orig"
    using Unseal_alignTemplate [OF old [unfolded attemptUnseal_def] sample_spec(1)] orig(1)
    by (auto simp: attemptUnseal_def)
  have "length (put_all (plainEntries sampleSecret) []) = 2" by code_simp
  then have n: "32 * length (map_entries (sec_Data old)) \<le> length sampleRandom"
    by (simp add: d orig(2) sampleRandom_def)
  have "spec_Data (ss_Spec (alignTemplate sampleSealed)) = None"
    by (simp add: sample_spec)
  note f = Unseal_data_wf [OF old [unfolded attemptUnseal_def] this]
  have "om_Namespace (sec_Meta old) = ''prod''"
    using Unseal_place(2) [OF old [unfolded attemptUnseal_def]] by (simp add: sample_meta)
  then have "\<not> missingNamespace old"
    by (simp add: missingNamespace_def)
  from sample_NewSealedSecret [OF this f(2) n, of "rsaPublicKey sampleKey"] old show ?thesis
    by blast
qed

lemma sampleSealed_wf:
  "map_wf (om_Annotations (ss_Meta sampleSealed))"
  "map_wf (om_Annotations (tmpl_Meta (spec_Template (ss_Spec sampleSealed))))"
  by (rule NewSealedSecret_Inr [OF sample_seals], simp add: UpdateScopeAnnotations_wf)
    (simp add: sample_spec sampleSecret_def emptyObjectMeta_def)

lemma sample_rotate: "\<exists>rnd'. Rotate rotateController sampleRegistry [] sampleRandom = Ret (Inr [1], rnd')"
  using sample_reseals [OF rotate_kube(3)] sampleRegistry_facts(2)
  by (auto simp: Rotate_def rotate_kube latestPrivateKey_def)

theorem rotation_preserves_secret_witness:
  "\<exists>rnd' orig new s'. Rotate rotateController sampleRegistry [] sampleRandom = Ret (Inr [1], rnd')
    \<and> attemptUnseal rotateController sampleRegistry sampleSealed = Inr orig
    \<and> attemptUnseal rotateController sampleRegistry s' = Inr new
    \<and> map_get (sec_Data new) = map_get (sec_Data orig) \<and> SecretScope (ss_Meta s') = SecretScope (ss_Meta sampleSealed)"
proof -
  obtain rnd' where run: "Rotate rotateController sampleRegistry [] sampleRandom = Ret (Inr [1], rnd')"
    using sample_rotate by blast
  obtain m where m: "kr_mostRecentKey sampleRegistry = Some m" "key_private m = sampleKey"
    using sampleRegistry_facts(2) by blast
  have "crypto_sound (ctl_crypto rotateController) (rsaPublicKey (key_private m)) (labelFor (ss_Meta sampleSealed))"
    using sample_sound sealed_label [OF sample_seals] by (simp add: m rotate_kube)
  from rotation_preserves_secret [OF run rotate_kube(2) sample_spec(1) sampleSealed_wf _ _ m(1) this] run show ?thesis
    by (auto simp: rotate_kube sampleRegistry_facts(1) sample_fingerprints)
qed

section \<open>When it fails\<close>

text \<open>
  Re-encryption answers every request with data or an error, except in one state the start-up
  rules out: a registry without any key makes it panic after a (keyless) unsealing succeeded.
\<close>

lemma Rotate_panics_iff:
  "Rotate c kr content rnd = Panic p \<longleftrightarrow>
    p = NilDereference \<and> kr_mostRecentKey kr = None \<and>
    (\<exists>s secret. DecodeObject (ctl_kube c) content = Inr (SealedSecretObj s) \<and>
      attemptUnseal c kr (alignTemplate s) = Inr secret)"
  by (auto simp: Rotate_def latestPrivateKey_def outcome_simps split: sum.splits any_object.splits option.splits prod.splits)

end
