(* ===== verification/ServerProps.thy ===== *)
theory ServerProps
  imports Server RotateProps
begin

text \<open>What the endpoints answer, and what they do not give away.\<close>

lemmas response_defs = newResponse_def SetHeader_def WriteHeader_def WriteBody_def httpError_def finishResponse_def
  status_def sentHeader_def

section \<open>Verification\<close>

text \<open>
  The verify endpoint tells only whether a sealed secret can be unsealed: the body of every answer
  is empty and no header is set; the status is 200 exactly for a single document that decodes to
  a sealed secret which unseals with the controller's keys, 409 exactly for one that does not, and
  an error status for anything else.
\<close>

theorem verify_tells_only_validity:
  assumes "serve c kr ''/v1/verify'' body rnd = Ret (Some r, rnd')"
  shows "rs_body r = [] \<and> rs_header r = []
    \<and> (status r = 200 \<longleftrightarrow> (\<exists>content s secret. body = Inr content \<and> EnsureNotMultiDoc (ctl_kube c) content = None
        \<and> DecodeObject (ctl_kube c) content = Inr (SealedSecretObj s) \<and> attemptUnseal c kr s = Inr secret))
    \<and> (status r = 409 \<longleftrightarrow> (\<exists>content s e. body = Inr content \<and> EnsureNotMultiDoc (ctl_kube c) content = None
        \<and> DecodeObject (ctl_kube c) content = Inr (SealedSecretObj s) \<and> attemptUnseal c kr s = Inl e))
    \<and> status r \<in> {200, 400, 409, 500}"
  using assms
  by (auto simp: serve_def handleVerify_def AttemptUnseal_def response_defs
      split: sum.splits option.splits any_object.splits if_splits)

theorem verify_tells_only_validity_witness:
  "\<exists>r. serve rotateController sampleRegistry ''/v1/verify'' (Inr []) [] = Ret (Some r, []) \<and> status r = 200 \<and> rs_body r = []"
proof -
  obtain r where r: "serve rotateController sampleRegistry ''/v1/verify'' (Inr []) [] = Ret (Some r, [])"
    by (simp add: serve_def)
  obtain orig where o: "attemptUnseal rotateController sampleRegistry sampleSealed = Inr orig"
    using Unseal_sealed [OF sample_sound sampleRegistry_keys sample_seals refl sealed_label [OF sample_seals]]
    by (simp add: attemptUnseal_def rotate_kube)
  have "EnsureNotMultiDoc (ctl_kube rotateController) [] = None"
    by (simp add: EnsureNotMultiDoc_def isMultiDocumentYAML_def rotateController_def sampleKube_def)
  with verify_tells_only_validity [OF r] o r show ?thesis
    by (auto simp: rotate_kube)
qed

section \<open>Re-encryption\<close>

text \<open>
  The answer of a successful re-encryption carries the new object but not the content type the
  handler sets: the header is set after the status was written.
\<close>

theorem rotate_content_type_not_sent:
  assumes "handleRotate sr (Inr content) rnd newResponse = Ret (w, rnd')" "sr content rnd = Ret (Inr newSecret, rnd')"
  shows "status (finishResponse w) = 200 \<and> rs_body (finishResponse w) = newSecret
    \<and> sentHeader (finishResponse w) ''Content-Type'' = None
    \<and> map_of (rs_header w) ''Content-Type'' = Some ''application/json''"
  using assms by (auto simp: handleRotate_def response_defs Let_def)

theorem rotate_content_type_not_sent_witness:
  "\<exists>w rnd'. handleRotate (Rotate rotateController sampleRegistry) (Inr []) sampleRandom newResponse = Ret (w, rnd')
    \<and> rs_body (finishResponse w) = [1] \<and> sentHeader (finishResponse w) ''Content-Type'' = None"
proof -
  obtain rnd' where r: "Rotate rotateController sampleRegistry [] sampleRandom = Ret (Inr [1], rnd')"
    using sample_rotate by blast
  then obtain w where w: "handleRotate (Rotate rotateController sampleRegistry) (Inr []) sampleRandom newResponse = Ret (w, rnd')"
    by (simp add: handleRotate_def Let_def)
  from rotate_content_type_not_sent [OF w r] w show ?thesis by blast
qed

section \<open>The certificate\<close>

text \<open>
  The certificate endpoint serves the certificate of the most recent key, as PEM with its content
  type, or an error page when there is no key.
\<close>

theorem cert_endpoint_serves_latest:
  "\<exists>r. serve c kr ''/v1/cert.pem'' body rnd = Ret (Some r, rnd) \<and>
    (case kr_mostRecentKey kr of
       Some m \<Rightarrow> status r = 200 \<and> rs_body r = EncodeCertPEM (ctl_kube c) (cert_Raw (key_cert m))
         \<and> sentHeader r ''Content-Type'' = Some ''application/x-pem-file''
     | None \<Rightarrow> status r = 500)"
  by (auto simp: serve_def handleCert_def certProvider_def getCert_def response_defs Let_def split: option.splits)

end
