(* ===== verification/Schedule.thy ===== *)
theory Schedule
  imports Funcs
begin

text \<open>
  \<open>ScheduleJobWithTrigger\<close> of \<open>pkg/controller/funcs.go\<close>: two goroutines and an unbuffered channel.
  The worker receives and runs the job; the timer sleeps and sends; every call of the returned
  trigger function is a sender that blocks until the worker receives. Time is a natural number of
  nanoseconds, and the steps of the goroutines interleave freely with its passing (a sleeping
  goroutine may wake late, never early). The ghost fields count what has happened.
\<close>

datatype worker_pc = Receiving | RunningJob

datatype timer_pc = SleepingUntil nat | Sending

record sched =
  sc_worker :: worker_pc
  sc_timer :: timer_pc
  sc_now :: nat
  sc_callers :: nat
  sc_started :: nat
  sc_finished :: nat
  sc_timed :: nat
  sc_calls :: nat

definition sched_init :: "nat \<Rightarrow> sched" where
  "sched_init initialDelay = \<lparr> sc_worker = Receiving, sc_timer = SleepingUntil initialDelay, sc_now = 0,
     sc_callers = 0, sc_started = 0, sc_finished = 0, sc_timed = 0, sc_calls = 0 \<rparr>"

inductive sched_step :: "nat \<Rightarrow> sched \<Rightarrow> sched \<Rightarrow> bool" for period :: nat where
  pass_time: "sched_step period s (s\<lparr>sc_now := Suc (sc_now s)\<rparr>)"
| wake: "sc_timer s = SleepingUntil t \<Longrightarrow> t \<le> sc_now s \<Longrightarrow> sched_step period s (s\<lparr>sc_timer := Sending\<rparr>)"
| timed: "sc_timer s = Sending \<Longrightarrow> sc_worker s = Receiving \<Longrightarrow>
    sched_step period s (s\<lparr>sc_worker := RunningJob, sc_timer := SleepingUntil (sc_now s + period),
      sc_started := Suc (sc_started s), sc_timed := Suc (sc_timed s)\<rparr>)"
| call: "sched_step period s (s\<lparr>sc_callers := Suc (sc_callers s), sc_calls := Suc (sc_calls s)\<rparr>)"
| triggered: "sc_callers s = Suc n \<Longrightarrow> sc_worker s = Receiving \<Longrightarrow>
    sched_step period s (s\<lparr>sc_worker := RunningJob, sc_callers := n, sc_started := Suc (sc_started s)\<rparr>)"
| job_done: "sc_worker s = RunningJob \<Longrightarrow>
    sched_step period s (s\<lparr>sc_worker := Receiving, sc_finished := Suc (sc_finished s)\<rparr>)"

inductive sched_reach :: "nat \<Rightarrow> nat \<Rightarrow> sched \<Rightarrow> bool" for initialDelay period :: nat where
  start: "sched_reach initialDelay period (sched_init initialDelay)"
| step: "sched_reach initialDelay period s \<Longrightarrow> sched_step period s t \<Longrightarrow> sched_reach initialDelay period t"

inductive_cases sched_stepE: "sched_step period s t"

text \<open>How the program counters, the clock and the counters agree.\<close>

definition sched_inv :: "nat \<Rightarrow> nat \<Rightarrow> sched \<Rightarrow> bool" where
  "sched_inv initialDelay period s \<longleftrightarrow>
     sc_started s = sc_finished s + (if sc_worker s = RunningJob then 1 else 0) \<and>
     sc_started s + sc_callers s = sc_timed s + sc_calls s \<and>
     (case sc_timer s of
        SleepingUntil t \<Rightarrow> initialDelay + sc_timed s * period \<le> t
      | Sending \<Rightarrow> initialDelay + sc_timed s * period \<le> sc_now s) \<and>
     (0 < sc_timed s \<longrightarrow> initialDelay + (sc_timed s - 1) * period \<le> sc_now s)"

lemma sched_inv_init: "sched_inv initialDelay period (sched_init initialDelay)"
  by (simp add: sched_inv_def sched_init_def)

lemma sched_step_inv:
  assumes "sched_step period s t" "sched_inv initialDelay period s"
  shows "sched_inv initialDelay period t"
  using assms
  by (cases rule: sched_step.cases) (auto simp: sched_inv_def split: timer_pc.splits)

lemma sched_reach_inv: "sched_reach initialDelay period s \<Longrightarrow> sched_inv initialDelay period s"
  by (induction rule: sched_reach.induct) (auto intro: sched_inv_init sched_step_inv)

text \<open>
  In every interleaving, at most one job runs at a time, every job was started by the timer or
  by one of the trigger calls, and the timer has started at most one job per period after the
  initial delay.
\<close>

theorem schedule_runs_one_job_at_a_time:
  assumes "sched_reach initialDelay period s"
  shows "sc_started s \<le> sc_finished s + 1 \<and> sc_started s \<le> sc_timed s + sc_calls s
    \<and> (0 < sc_timed s \<longrightarrow> initialDelay + (sc_timed s - 1) * period \<le> sc_now s)"
  using sched_reach_inv [OF assms] by (auto simp: sched_inv_def split: if_splits)

theorem schedule_runs_one_job_at_a_time_witness:
  "\<exists>s. sched_reach 0 5 s \<and> sc_started s = 1 \<and> sc_started s \<le> sc_finished s + 1"
proof -
  let ?a = "(sched_init 0)\<lparr>sc_timer := Sending\<rparr>"
  let ?b = "?a\<lparr>sc_worker := RunningJob, sc_timer := SleepingUntil (sc_now ?a + 5),
      sc_started := Suc (sc_started ?a), sc_timed := Suc (sc_timed ?a)\<rparr>"
  have "sched_reach 0 5 ?a"
    by (rule sched_reach.step [OF sched_reach.start], rule sched_step.wake) (simp_all add: sched_init_def)
  then have r: "sched_reach 0 5 ?b"
    by (rule sched_reach.step) (rule sched_step.timed, simp_all add: sched_init_def)
  with schedule_runs_one_job_at_a_time [OF r] show ?thesis
    by (intro exI [of _ ?b]) (simp add: sched_init_def)
qed

text \<open>
  A call of the trigger function is never lost: as long as callers are blocked, the worker can
  serve one of them, at once when it is receiving and after the running job otherwise.
\<close>

theorem trigger_is_served:
  assumes "0 < sc_callers s"
  shows "\<exists>t. (sched_step period)\<^sup>*\<^sup>* s t \<and> sc_callers t < sc_callers s \<and> sc_started t = sc_started s + 1
    \<and> sc_worker t = RunningJob"
proof -
  obtain n where n: "sc_callers s = Suc n"
    using assms by (cases "sc_callers s") auto
  let ?r = "if sc_worker s = RunningJob
    then s\<lparr>sc_worker := Receiving, sc_finished := Suc (sc_finished s)\<rparr> else s"
  let ?t = "?r\<lparr>sc_worker := RunningJob, sc_callers := n, sc_started := Suc (sc_started ?r)\<rparr>"
  have "(sched_step period)\<^sup>*\<^sup>* s ?r"
    by (auto intro: sched_step.job_done)
  moreover have "sched_step period ?r ?t"
    by (rule sched_step.triggered) (use n in \<open>auto intro: worker_pc.exhaust\<close>)
  ultimately have "(sched_step period)\<^sup>*\<^sup>* s ?t"
    by (rule rtranclp.rtrancl_into_rtrancl)
  then show ?thesis
    using n by (intro exI [of _ ?t]) auto
qed

theorem trigger_is_served_witness:
  "\<exists>t. (sched_step 5)\<^sup>*\<^sup>* ((sched_init 0)\<lparr>sc_callers := 1, sc_worker := RunningJob\<rparr>) t \<and> sc_callers t < 1
    \<and> sc_started t = 1"
  using trigger_is_served [of "(sched_init 0)\<lparr>sc_callers := 1, sc_worker := RunningJob\<rparr>" 5]
  by (auto simp: sched_init_def)

end
