(* ===== verification/CryptoProps.thy ===== *)
theory CryptoProps
  imports Samples
begin

text \<open>
  What the hybrid encryption promises its callers: which key rings open a ciphertext, and that a
  ciphertext cut short inside its frame is refused.
\<close>

text \<open>
  C7: a ciphertext opens to its plaintext with every key ring that holds the private key of the public
  key it was made for, wherever in the ring it stands, and is refused by every other ring, with
  the one error of \<open>HybridDecrypt\<close>; how often the ring is asked or in which order it is visited
  makes no difference.
\<close>

theorem ciphertext_opens_iff_ring_holds_key:
  assumes "crypto_sound C pub label" "HybridEncrypt C rnd pub pt label = (Inr ct, rnd')"
  shows "HybridDecrypt C privKeys ct label =
    (if holds_key privKeys pub then Inr pt else Inl (Errorf ''no key could decrypt secret''))"
proof (cases "holds_key privKeys pub")
  case True
  with assms show ?thesis by (simp add: HybridDecrypt_HybridEncrypt)
next
  case False
  then have "\<forall>(fp, priv) \<in> set privKeys. isl (singleDecrypt C priv ct label)"
    using singleDecrypt_other_key [OF assms] by (auto simp: holds_key_def)
  with False show ?thesis by (simp add: HybridDecrypt_Inl)
qed

theorem ciphertext_opens_iff_ring_holds_key_witness:
  "HybridDecrypt sampleCrypto [(''a'', otherKey), (''b'', sampleKey)]
      (projr (fst (HybridEncrypt sampleCrypto sampleRandom (rsaPublicKey sampleKey) [7] [1]))) [1] = Inr [7]
    \<and> HybridDecrypt sampleCrypto [(''a'', otherKey)]
      (projr (fst (HybridEncrypt sampleCrypto sampleRandom (rsaPublicKey sampleKey) [7] [1]))) [1]
      = Inl (Errorf ''no key could decrypt secret'')"
proof -
  have sound: "crypto_sound sampleCrypto (rsaPublicKey sampleKey) [1]" by (rule sample_crypto_sound) (simp add: sampleKey_def)
  obtain ct r where ct: "HybridEncrypt sampleCrypto sampleRandom (rsaPublicKey sampleKey) [7] [1] = (Inr ct, r)"
    by (simp add: sample_HybridEncrypt sampleRandom_def)
  have "holds_key [(''a'', otherKey), (''b'', sampleKey)] (rsaPublicKey sampleKey)"
    "\<not> holds_key [(''a'', otherKey)] (rsaPublicKey sampleKey)"
    by (simp_all add: holds_key_def sampleKey_def otherKey_def)
  then show ?thesis
    by (simp only: ct fst_conv sum.sel ciphertext_opens_iff_ring_holds_key [OF sound ct] if_True if_False simp_thms)
qed

section \<open>Lengths\<close>

lemma Uint16_take: "2 \<le> n \<Longrightarrow> 2 \<le> length ct \<Longrightarrow> Uint16 (take n ct) = Uint16 ct"
  by (simp add: Uint16_def)

text \<open>
  C39: the two length bytes name the length of the RSA part exactly when it fits 16 bits; the code
  truncates a longer one without an error. When it fits, no part of the ciphertext that ends
  inside the length or the RSA part opens with any ring under any label.
\<close>

theorem length_field_bounds:
  assumes "HybridEncrypt C rnd pub pt label = (Inr ct, rnd')"
  shows "\<exists>rsaCt. take (length rsaCt) (drop 2 ct) = rsaCt
    \<and> fst (EncryptOAEP C (drop sessionKeyBytes rnd) pub (take sessionKeyBytes rnd) label) = Inr rsaCt
    \<and> (unat (Uint16 ct) = length rsaCt \<longleftrightarrow> length rsaCt < 65536)
    \<and> (length rsaCt < 65536 \<longrightarrow> (\<forall>n < 2 + length rsaCt. \<forall>privKeys label'.
        HybridDecrypt C privKeys (take n ct) label' = Inl (Errorf ''no key could decrypt secret'')))"
proof -
  obtain rsaCt where enc: "EncryptOAEP C (drop sessionKeyBytes rnd) pub (take sessionKeyBytes rnd) label = (Inr rsaCt, rnd')"
    and ct: "ct = frame rsaCt (GCMSeal C (take sessionKeyBytes rnd) zeroNonce pt)"
    using assms by (rule HybridEncrypt_Inr)
  have field: "unat (Uint16 ct) = length rsaCt \<longleftrightarrow> length rsaCt < 65536"
    using mod_less_divisor [of 65536 "length rsaCt"] by (auto simp: ct frame_Uint16)
  have short: "singleDecrypt C priv (take n ct) label' = Inl ErrTooShort"
    if "length rsaCt < 65536" "n < 2 + length rsaCt" for n priv label'
  proof (rule singleDecrypt_short)
    show "length (take n ct) < 2 \<or> length (take n ct) < unat (Uint16 (take n ct)) + 2"
      using that field by (cases "n < 2") (simp_all add: Uint16_take ct)
  qed
  have "\<forall>n < 2 + length rsaCt. \<forall>privKeys label'.
      HybridDecrypt C privKeys (take n ct) label' = Inl (Errorf ''no key could decrypt secret'')"
    if "length rsaCt < 65536"
    using short [OF that] by (auto simp: HybridDecrypt_Inl)
  with field enc show ?thesis
    by (intro exI [of _ rsaCt]) (simp add: ct frame_cut)
qed

theorem length_field_bounds_witness:
  "\<exists>ct r rsaCt. HybridEncrypt sampleCrypto sampleRandom (rsaPublicKey sampleKey) [7] [1] = (Inr ct, r)
    \<and> take (length rsaCt) (drop 2 ct) = rsaCt \<and> (unat (Uint16 ct) = length rsaCt \<longleftrightarrow> length rsaCt < 65536)"
proof -
  obtain ct r where ct: "HybridEncrypt sampleCrypto sampleRandom (rsaPublicKey sampleKey) [7] [1] = (Inr ct, r)"
    by (simp add: sample_HybridEncrypt sampleRandom_def)
  from length_field_bounds [OF ct] ct show ?thesis by metis
qed

end
