(* ===== verification/Client.thy ===== *)
theory Client
  imports Sealing
begin

text \<open>
  The client side of \<open>kubeseal\<close> (\<open>pkg/kubeseal/kubeseal.go\<close>): its outside world, reading keys,
  certificates and streams of documents, and printing. The outside world is a record of the calls
  the code makes, on a state \<open>'e\<close>: files, HTTP, the cluster through client-go.
\<close>

section \<open>The outside world\<close>

text \<open>A reader is what reading it to the end gives.\<close>

type_synonym reader = "go_error + bytes"

record 'e cli_env =
  OsOpen :: "string \<Rightarrow> 'e \<Rightarrow> (go_error + reader) \<times> 'e"
  OsReadFile :: "string \<Rightarrow> 'e \<Rightarrow> (go_error + bytes) \<times> 'e"
  \<comment> \<open>status code, status text and body\<close>
  HttpGet :: "string \<Rightarrow> 'e \<Rightarrow> (go_error + nat \<times> string \<times> reader) \<times> 'e"
  ClientConfig :: "'e \<Rightarrow> go_error option \<times> 'e"
  NewForConfig :: "'e \<Rightarrow> go_error option \<times> 'e"
  \<comment> \<open>the namespace of the client configuration, and whether it was set explicitly\<close>
  ConfigNamespace :: "'e \<Rightarrow> (string \<times> bool \<times> go_error option) \<times> 'e"
  \<comment> \<open>the names of a service's ports\<close>
  ServicesGet :: "string \<Rightarrow> string \<Rightarrow> 'e \<Rightarrow> (go_error + string list) \<times> 'e"
  ProxyGet :: "string \<Rightarrow> string \<Rightarrow> string \<Rightarrow> string \<Rightarrow> 'e \<Rightarrow> (go_error + reader) \<times> 'e"
  \<comment> \<open>a POST through the API server's service proxy: \<open>res.Error()\<close> and \<open>res.Raw()\<close>\<close>
  ProxyPost :: "string \<Rightarrow> string \<Rightarrow> string \<Rightarrow> bytes \<Rightarrow> 'e \<Rightarrow> (go_error option \<times> (go_error + bytes)) \<times> 'e"
  \<comment> \<open>a file opened for reading and writing\<close>
  FileOpen :: "string \<Rightarrow> 'e \<Rightarrow> (go_error + reader) \<times> 'e"
  FileTruncate :: "string \<Rightarrow> 'e \<Rightarrow> go_error option \<times> 'e"
  FileSeek :: "string \<Rightarrow> 'e \<Rightarrow> go_error option \<times> 'e"
  FileCopy :: "string \<Rightarrow> bytes \<Rightarrow> 'e \<Rightarrow> go_error option \<times> 'e"
  FileClose :: "string \<Rightarrow> 'e \<Rightarrow> go_error option \<times> 'e"
  \<comment> \<open>reading the standard input to its end\<close>
  StdinRead :: "'e \<Rightarrow> reader \<times> 'e"
  \<comment> \<open>\<open>renameio\<close>: a temporary file for a path, and putting its contents in the path's place\<close>
  TempFile :: "string \<Rightarrow> 'e \<Rightarrow> go_error option \<times> 'e"
  CloseAtomicallyReplace :: "string \<Rightarrow> bytes \<Rightarrow> 'e \<Rightarrow> 'e"

text \<open>Functions of the libraries on values.\<close>

record cli_lib =
  \<comment> \<open>the date of an expired certificate, as the message shows it\<close>
  FormatDate :: "time \<Rightarrow> string"
  \<comment> \<open>\<open>url.Parse\<close>: the scheme\<close>
  UrlParse :: "string \<Rightarrow> go_error + string"
  JoinSchemeNamePort :: "string \<Rightarrow> string \<Rightarrow> string \<Rightarrow> string"
  HasSerializer :: "string \<Rightarrow> bool"
  EncodeObject :: "string \<Rightarrow> any_object \<Rightarrow> go_error + bytes"
  DecodeSealedSecretInto :: "bytes \<Rightarrow> go_error + SealedSecret"
  \<comment> \<open>a \<open>v1.List\<close>: the raw items\<close>
  DecodeListInto :: "bytes \<Rightarrow> go_error + bytes list"
  ShowPrivateKeyType :: "private_key \<Rightarrow> string"

section \<open>The certificate\<close>

definition ParseKey :: "kube_lib \<Rightarrow> cli_lib \<Rightarrow> time \<Rightarrow> reader \<Rightarrow> go_error + rsa_public_key" where
  "ParseKey L X now r =
     (case r of
        Inl e \<Rightarrow> Inl e
      | Inr data \<Rightarrow>
          (case ParseCertsPEM L data of
             Inl e \<Rightarrow> Inl e
           | Inr certs \<Rightarrow>
               (case certs of
                  [] \<Rightarrow> Inl (Errorf ''failed to read any certificates'')
                | cert # _ \<Rightarrow>
                    (case cert_PublicKey cert of
                       OtherPublicKey text \<Rightarrow> Inl (Errorf (''expected RSA public key but found '' @ text))
                     | RSAPublicKey key \<Rightarrow>
                         (if cert_NotAfter cert < now
                          then Inl (Errorf (''failed to encrypt using an expired certificate on '' @ FormatDate X (cert_NotAfter cert)))
                          else Inr key)))))"

definition isFilename :: "cli_lib \<Rightarrow> string \<Rightarrow> go_error + bool" where
  "isFilename X name =
     (case UrlParse X name of
        Inl e \<Rightarrow> Inl e
      | Inr scheme \<Rightarrow>
          (let s = ToLower scheme in
           if length s = 1 \<and> 97 \<le> (of_char (s ! 0) :: nat) \<and> (of_char (s ! 0) :: nat) \<le> 122 then Inr True
           else Inr (scheme = '''')))"

definition getServicePortName ::
  "'e cli_env \<Rightarrow> string \<Rightarrow> string \<Rightarrow> 'e \<Rightarrow> ((go_error + string) \<times> 'e) outcome" where
  "getServicePortName E namespace serviceName e =
     (case ServicesGet E namespace serviceName e of
        (Inl err, e) \<Rightarrow> Ret (Inl (Errorf (''cannot get sealed secret service: '' @ err_text err @ ''.'' @ [CHR 0x0A]
           @ ''Please, use the flag --controller-name and --controller-namespace to set up the name and namespace of the sealed secrets controller'')), e)
      | (Inr ports, e) \<Rightarrow> (case ports of [] \<Rightarrow> Panic IndexOutOfRange | p # _ \<Rightarrow> Ret (Inr p, e)))"

definition openCertURI :: "'e cli_env \<Rightarrow> string \<Rightarrow> 'e \<Rightarrow> (go_error + reader) \<times> 'e" where
  "openCertURI E uri e =
     (case HttpGet E uri e of
        (Inl err, e) \<Rightarrow> (Inl err, e)
      | (Inr (code, statusText, body), e) \<Rightarrow>
          (if code \<noteq> 200 then (Inl (Errorf (''cannot fetch '' @ quoted uri @ '': '' @ statusText)), e)
           else (Inr body, e)))"

definition openCertLocal :: "'e cli_env \<Rightarrow> cli_lib \<Rightarrow> string \<Rightarrow> 'e \<Rightarrow> (go_error + reader) \<times> 'e" where
  "openCertLocal E X filenameOrURI e =
     (case isFilename X filenameOrURI of
        Inl err \<Rightarrow> (Inl err, e)
      | Inr ok \<Rightarrow> if ok then OsOpen E filenameOrURI e else openCertURI E filenameOrURI e)"

definition openCertCluster ::
  "'e cli_env \<Rightarrow> string \<Rightarrow> string \<Rightarrow> 'e \<Rightarrow> ((go_error + reader) \<times> 'e) outcome" where
  "openCertCluster E namespace name e =
     obind (getServicePortName E namespace name e) (\<lambda>(r, e). Ret (case r of
       Inl err \<Rightarrow> (Inl err, e)
     | Inr portName \<Rightarrow>
         (case ProxyGet E namespace name portName ''/v1/cert.pem'' e of
            (Inl err, e) \<Rightarrow> (Inl (Errorf (''cannot fetch certificate: '' @ err_text err)), e)
          | (Inr cert, e) \<Rightarrow> (Inr cert, e))))"

definition OpenCert ::
  "'e cli_env \<Rightarrow> cli_lib \<Rightarrow> string \<Rightarrow> string \<Rightarrow> string \<Rightarrow> 'e \<Rightarrow> ((go_error + reader) \<times> 'e) outcome" where
  "OpenCert E X controllerNs controllerName certURL e =
     (if certURL \<noteq> '''' then Ret (openCertLocal E X certURL e)
      else (case ClientConfig E e of
              (Some err, e) \<Rightarrow> Ret (Inl err, e)
            | (None, e) \<Rightarrow>
                (case NewForConfig E e of
                   (Some err, e) \<Rightarrow> Ret (Inl err, e)
                 | (None, e) \<Rightarrow> openCertCluster E controllerNs controllerName e)))"

section \<open>Streams of documents\<close>

text \<open>The error of one \<open>Decode\<close>: none, \<open>io.EOF\<close> itself, an error that wraps it, any other.\<close>

datatype decode_error = DecodeOK | DecodeEOF | DecodeWrapsEOF go_error | DecodeFailed go_error

fun decodeErr :: "decode_error \<Rightarrow> go_error option" where
  "decodeErr DecodeOK = None"
| "decodeErr DecodeEOF = None"
| "decodeErr (DecodeWrapsEOF e) = Some e"
| "decodeErr (DecodeFailed e) = Some e"

text \<open>\<open>errors.Is(err, io.EOF)\<close>.\<close>

fun isEOF :: "decode_error \<Rightarrow> bool" where
  "isEOF DecodeEOF = True"
| "isEOF (DecodeWrapsEOF e) = True"
| "isEOF _ = False"

text \<open>
  The loop of \<open>readSecrets\<close> and \<open>readSealedSecrets\<close>. A decoded object is None when it is (deeply) equal
  to the zero object: such a one is skipped, even with an error, unless the input is at its end; any
  other object with an error ends the loop with it. Nothing makes the decoder advance, so the loop
  need not end.
\<close>

partial_function (option) readDocs ::
  "('d \<Rightarrow> 'a option \<times> decode_error \<times> 'd) \<Rightarrow> 'd \<Rightarrow> 'a list \<Rightarrow> (go_error + 'a list) option" where
  "readDocs decode d secrets =
     (case decode d of (sec, err, d) \<Rightarrow>
        (case sec of
           None \<Rightarrow> if isEOF err then Some (Inr secrets) else readDocs decode d secrets
         | Some sec \<Rightarrow>
             (case decodeErr err of
                Some e \<Rightarrow> Some (Inl e)
              | None \<Rightarrow> readDocs decode d (secrets @ [sec]))))"

text \<open>
  The YAML (or JSON) decoders: \<open>yaml_open\<close> starts one on a reader, the other two decode the next object.
\<close>

record 'd yaml_lib =
  yaml_open :: "reader \<Rightarrow> 'd"
  yaml_secret :: "'d \<Rightarrow> Secret option \<times> decode_error \<times> 'd"
  yaml_sealed :: "'d \<Rightarrow> SealedSecret option \<times> decode_error \<times> 'd"

definition readSecrets :: "'d yaml_lib \<Rightarrow> reader \<Rightarrow> (go_error + Secret list) option" where
  "readSecrets Y r = readDocs (yaml_secret Y) (yaml_open Y r) []"

definition readSealedSecrets :: "'d yaml_lib \<Rightarrow> reader \<Rightarrow> (go_error + SealedSecret list) option" where
  "readSealedSecrets Y r = readDocs (yaml_sealed Y) (yaml_open Y r) []"

section \<open>Printing\<close>

definition ContentTypeJSON :: string where "ContentTypeJSON = ''application/json''"
definition ContentTypeYAML :: string where "ContentTypeYAML = ''application/yaml''"

definition prettyEncoder :: "cli_lib \<Rightarrow> string \<Rightarrow> go_error + (any_object \<Rightarrow> go_error + bytes)" where
  "prettyEncoder X mediaType =
     (if \<not> HasSerializer X mediaType
      then Inl (Errorf (''binary can'' @ [CHR 0x27] @ ''t serialize '' @ mediaType))
      else Inr (EncodeObject X mediaType))"

text \<open>The error, and what has been written to the output by then.\<close>

definition resourceOutput :: "cli_lib \<Rightarrow> string \<Rightarrow> any_object \<Rightarrow> bytes \<Rightarrow> go_error option \<times> bytes" where
  "resourceOutput X outputFormat obj out =
     (let f = ToLower outputFormat in
      if f \<noteq> ''json'' \<and> f \<noteq> '''' \<and> f \<noteq> ''yaml''
      then (Some (Errorf (''unsupported output format: '' @ outputFormat)), out)
      else let contentType = (if f = ''yaml'' then ContentTypeYAML else ContentTypeJSON);
               out = (if f = ''yaml'' then out @ string_bytes (''---'' @ [CHR 0x0A]) else out) in
        (case prettyEncoder X contentType of
           Inl e \<Rightarrow> (Some e, out)
         | Inr prettyEnc \<Rightarrow>
             (case prettyEnc obj of
                Inl e \<Rightarrow> (Some e, out)
              | Inr buf \<Rightarrow>
                  (None, out @ buf @ (if contentType = ContentTypeJSON then string_bytes [CHR 0x0A] else [])))))"

definition sealedSecretOutput :: "cli_lib \<Rightarrow> string \<Rightarrow> SealedSecret \<Rightarrow> bytes \<Rightarrow> go_error option \<times> bytes" where
  "sealedSecretOutput X outputFormat ssecret out = resourceOutput X outputFormat (SealedSecretObj ssecret) out"

definition decodeSealedSecret :: "cli_lib \<Rightarrow> bytes \<Rightarrow> go_error + SealedSecret" where
  "decodeSealedSecret X b = DecodeSealedSecretInto X b"

end
