(* ===== verification/Kubeseal.thy ===== *)
theory Kubeseal
  imports Client
begin

text \<open>
  The operations of \<open>kubeseal\<close>: sealing a stream of secrets, merging into an existing file, sealing
  one item, validation and re-encryption through the controller, and unsealing with private keys
  from files. A loop over documents may not end (None), and a few operations may panic.
\<close>

section \<open>Sealing\<close>

text \<open>
  One secret of the input, up to the call of \<open>NewSealedSecret\<close>: overrides, scope, namespace, and the
  removal of what the API server wrote.
\<close>

definition overridden :: "string \<Rightarrow> string \<Rightarrow> Secret \<Rightarrow> Secret" where
  "overridden overrideName overrideNamespace secret =
     (let meta = sec_Meta secret;
          meta = (if overrideName \<noteq> '''' then meta\<lparr>om_Name := overrideName\<rparr> else meta);
          meta = (if overrideNamespace \<noteq> '''' then meta\<lparr>om_Namespace := overrideNamespace\<rparr> else meta)
      in secret\<lparr>sec_Meta := meta\<rparr>)"

definition scoped :: "SealingScope \<Rightarrow> Secret \<Rightarrow> Secret" where
  "scoped scope secret =
     (if scope \<noteq> DefaultScope
      then secret\<lparr>sec_Meta := (sec_Meta secret)\<lparr>om_Annotations := UpdateScopeAnnotations (om_Annotations (sec_Meta secret)) scope\<rparr>\<rparr>
      else secret)"

definition stripServerSide :: "ObjectMeta \<Rightarrow> ObjectMeta" where
  "stripServerSide meta = meta\<lparr>om_SelfLink := '''', om_UID := '''', om_ResourceVersion := '''', om_Generation := 0,
     om_CreationTimestamp := 0, om_DeletionTimestamp := None, om_DeletionGracePeriodSeconds := None\<rparr>"

definition namespaced :: "string \<Rightarrow> bool \<Rightarrow> Secret \<Rightarrow> go_error + Secret" where
  "namespaced ns namespaceSet secret =
     (if SecretScope (sec_Meta secret) \<noteq> ClusterWideScope
      then (if namespaceSet \<and> om_Namespace (sec_Meta secret) \<noteq> '''' \<and> om_Namespace (sec_Meta secret) \<noteq> ns
            then Inl (Errorf (''namespace mismatch: input secret is in namespace '' @ quoted (om_Namespace (sec_Meta secret))
                       @ '' but '' @ quoted ns @ '' was specified''))
            else if om_Namespace (sec_Meta secret) = ''''
            then Inr (secret\<lparr>sec_Meta := (sec_Meta secret)\<lparr>om_Namespace := ns\<rparr>\<rparr>) else Inr secret)
      else Inr secret)"

definition prepareSecret ::
  "SealingScope \<Rightarrow> bool \<Rightarrow> string \<Rightarrow> string \<Rightarrow> string \<Rightarrow> bool \<Rightarrow> Secret \<Rightarrow> go_error + Secret" where
  "prepareSecret scope allowEmptyData overrideName overrideNamespace ns namespaceSet secret =
     (if map_entries (sec_Data secret) = [] \<and> map_entries (sec_StringData secret) = [] \<and> \<not> allowEmptyData
      then Inl (Errorf ''secret.data is empty in input Secret, assuming this is an error and aborting. To work with empty data, --allow-empty-data can be used'')
      else let secret = overridden overrideName '''' secret in
        if om_Name (sec_Meta secret) = '''' then Inl (Errorf ''missing metadata.name in input Secret'')
        else let secret = scoped scope (overridden '''' overrideNamespace secret) in
          (case namespaced ns namespaceSet secret of
             Inl e \<Rightarrow> Inl e
           | Inr secret \<Rightarrow> Inr (secret\<lparr>sec_Meta := stripServerSide (sec_Meta secret)\<rparr>)))"

text \<open>
  The loop over the secrets. The namespace of the client configuration is asked for once per secret
  that needs it; asking does not change it. The result is the error, the output and the rest of
  the randomness: what was printed before an error stays printed.
\<close>

fun sealLoop ::
  "crypto_lib \<Rightarrow> cli_lib \<Rightarrow> string \<Rightarrow> rsa_public_key \<Rightarrow> SealingScope \<Rightarrow> bool \<Rightarrow> string \<Rightarrow> string \<Rightarrow> string \<Rightarrow> bool
    \<Rightarrow> Secret list \<Rightarrow> bytes \<Rightarrow> bytes \<Rightarrow> go_error option \<times> bytes \<times> bytes" where
  "sealLoop C X fmt pubKey scope allowEmptyData oName oNs ns nsSet [] out rnd = (None, out, rnd)"
| "sealLoop C X fmt pubKey scope allowEmptyData oName oNs ns nsSet (secret # rest) out rnd =
     (case prepareSecret scope allowEmptyData oName oNs ns nsSet secret of
        Inl e \<Rightarrow> (Some e, out, rnd)
      | Inr secret \<Rightarrow>
          (case NewSealedSecret C pubKey secret rnd of
             (Inl e, rnd) \<Rightarrow> (Some e, out, rnd)
           | (Inr ssecret, rnd) \<Rightarrow>
               (case sealedSecretOutput X fmt ssecret out of
                  (Some e, out) \<Rightarrow> (Some e, out, rnd)
                | (None, out) \<Rightarrow> sealLoop C X fmt pubKey scope allowEmptyData oName oNs ns nsSet rest out rnd)))"

definition Seal ::
  "crypto_lib \<Rightarrow> cli_lib \<Rightarrow> 'd yaml_lib \<Rightarrow> string \<times> bool \<Rightarrow> string \<Rightarrow> reader \<Rightarrow> bytes \<Rightarrow> rsa_public_key \<Rightarrow> SealingScope
    \<Rightarrow> bool \<Rightarrow> string \<Rightarrow> string \<Rightarrow> bytes \<Rightarrow> (go_error option \<times> bytes \<times> bytes) option" where
  "Seal C X Y config outputFormat input out pubKey scope allowEmptyData overrideName overrideNamespace rnd =
     (case readSecrets Y input of
        None \<Rightarrow> None
      | Some (Inl e) \<Rightarrow> Some (Some e, out, rnd)
      | Some (Inr secrets) \<Rightarrow>
          (if secrets = []
           then Some (Some (Errorf ''no secrets found. Ensure the input is valid and UTF-8 encoded''), out, rnd)
           else Some (sealLoop C X outputFormat pubKey scope allowEmptyData overrideName overrideNamespace
                        (fst config) (snd config) secrets out rnd)))"

section \<open>Merging into a file\<close>

text \<open>The four loops that copy the update's entries over the original's; each may hit a nil map.\<close>

definition mergeSealed :: "SealedSecret \<Rightarrow> SealedSecret \<Rightarrow> SealedSecret outcome" where
  "mergeSealed orig update =
     (let ou = spec_Template (ss_Spec orig); up = spec_Template (ss_Spec update) in
      obind (map_put_all (spec_EncryptedData (ss_Spec update)) (spec_EncryptedData (ss_Spec orig))) (\<lambda>enc.
      obind (map_put_all (om_Annotations (tmpl_Meta up)) (om_Annotations (tmpl_Meta ou))) (\<lambda>annotations.
      obind (map_put_all (om_Labels (tmpl_Meta up)) (om_Labels (tmpl_Meta ou))) (\<lambda>labels.
      obind (map_put_all (tmpl_Data up) (tmpl_Data ou)) (\<lambda>data.
        Ret (orig\<lparr>ss_Spec := (ss_Spec orig)
          \<lparr>spec_EncryptedData := enc,
           spec_Template := ou\<lparr>tmpl_Meta := (tmpl_Meta ou)\<lparr>om_Annotations := annotations, om_Labels := labels\<rparr>,
                               tmpl_Data := data\<rparr>\<rparr>\<rparr>))))))"

text \<open>Writing the rendered object back. The deferred second \<open>Close\<close> on the error paths is dropped.\<close>

definition rewriteFile :: "'e cli_env \<Rightarrow> string \<Rightarrow> bytes \<Rightarrow> 'e \<Rightarrow> go_error option \<times> 'e" where
  "rewriteFile E filename out e =
     (case FileTruncate E filename e of
        (Some err, e) \<Rightarrow> (Some err, e)
      | (None, e) \<Rightarrow>
          (case FileSeek E filename e of
             (Some err, e) \<Rightarrow> (Some err, e)
           | (None, e) \<Rightarrow>
               (case FileCopy E filename out e of
                  (Some err, e) \<Rightarrow> (Some err, e)
                | (None, e) \<Rightarrow> FileClose E filename e)))"

definition SealMergingInto ::
  "crypto_lib \<Rightarrow> cli_lib \<Rightarrow> 'd yaml_lib \<Rightarrow> 'e cli_env \<Rightarrow> string \<times> bool \<Rightarrow> string \<Rightarrow> reader \<Rightarrow> string \<Rightarrow> rsa_public_key
    \<Rightarrow> SealingScope \<Rightarrow> bool \<Rightarrow> bytes \<Rightarrow> 'e \<Rightarrow> (go_error option \<times> bytes \<times> 'e) outcome option" where
  "SealMergingInto C X Y E config outputFormat input filename pubKey scope allowEmptyData rnd e =
     (case FileOpen E filename e of
        (Inl err, e) \<Rightarrow> Some (Ret (Some err, rnd, e))
      | (Inr (Inl err), e) \<Rightarrow> Some (Ret (Some err, rnd, e))
      | (Inr (Inr b), e) \<Rightarrow>
          (case decodeSealedSecret X b of
             Inl err \<Rightarrow> Some (Ret (Some err, rnd, e))
           | Inr orig \<Rightarrow>
               (case Seal C X Y config outputFormat input [] pubKey scope allowEmptyData
                       (om_Name (ss_Meta orig)) (om_Namespace (ss_Meta orig)) rnd of
                  None \<Rightarrow> None
                | Some (Some err, buf, rnd) \<Rightarrow> Some (Ret (Some err, rnd, e))
                | Some (None, buf, rnd) \<Rightarrow>
                    (case decodeSealedSecret X buf of
                       Inl err \<Rightarrow> Some (Ret (Some err, rnd, e))
                     | Inr update \<Rightarrow>
                         Some (obind (mergeSealed orig update) (\<lambda>merged.
                           (case sealedSecretOutput X outputFormat merged [] of
                              (Some err, out) \<Rightarrow> Ret (Some err, rnd, e)
                            | (None, out) \<Rightarrow>
                                Ret (case rewriteFile E filename out e of (err, e) \<Rightarrow> (err, rnd, e)))))))))"

section \<open>Sealing one item\<close>

definition EncryptSecretItem ::
  "crypto_lib \<Rightarrow> bytes \<Rightarrow> string \<Rightarrow> string \<Rightarrow> bytes \<Rightarrow> SealingScope \<Rightarrow> rsa_public_key \<Rightarrow> bytes
    \<Rightarrow> go_error option \<times> bytes \<times> bytes" where
  "EncryptSecretItem C w secretName ns data scope pubKey rnd =
     (let label = EncryptionLabel ns secretName scope in
      case HybridEncrypt C rnd pubKey data label of
        (Inl e, rnd) \<Rightarrow> (Some e, w, rnd)
      | (Inr out, rnd) \<Rightarrow> (None, w @ string_bytes (EncodeToString out), rnd))"

definition ParseFromFile :: "string \<Rightarrow> string \<times> string" where
  "ParseFromFile s = (case SplitN2 (CHR ''='') s of
     [c] \<Rightarrow> ('''', c) | c0 # c1 # _ \<Rightarrow> (c0, c1) | [] \<Rightarrow> ('''', ''''))"

section \<open>Through the controller\<close>

definition isConflict :: "go_error \<Rightarrow> bool" where
  "isConflict err = (case err of StatusError code reason msg \<Rightarrow> code = 409 | _ \<Rightarrow> False)"

text \<open>The beginning of both operations: a client and the name of the service's port.\<close>

definition controllerService ::
  "'e cli_env \<Rightarrow> cli_lib \<Rightarrow> string \<Rightarrow> string \<Rightarrow> 'e \<Rightarrow> ((go_error + string) \<times> 'e) outcome" where
  "controllerService E X controllerNs controllerName e =
     (case ClientConfig E e of
        (Some err, e) \<Rightarrow> Ret (Inl err, e)
      | (None, e) \<Rightarrow>
          (case NewForConfig E e of
             (Some err, e) \<Rightarrow> Ret (Inl err, e)
           | (None, e) \<Rightarrow>
               obind (getServicePortName E controllerNs controllerName e) (\<lambda>(r, e). Ret (case r of
                 Inl err \<Rightarrow> (Inl err, e)
               | Inr portName \<Rightarrow> (Inr (JoinSchemeNamePort X ''http'' controllerName portName), e)))))"

fun validateLoop ::
  "'e cli_env \<Rightarrow> kube_lib \<Rightarrow> string \<Rightarrow> string \<Rightarrow> SealedSecret list \<Rightarrow> 'e \<Rightarrow> go_error option \<times> 'e" where
  "validateLoop E L ns service [] e = (None, e)"
| "validateLoop E L ns service (secret # rest) e =
     (case MarshalSealedSecret L secret of
        Inl err \<Rightarrow> (Some (Errorf (''error while marshalling sealed secret: '' @ err_text err)), e)
      | Inr content \<Rightarrow>
          (case ProxyPost E ns service ''/v1/verify'' content e of
             ((Some err, raw), e) \<Rightarrow>
               (Some (if isConflict err
                      then Errorf (''unable to decrypt sealed secret: '' @ om_Name (ss_Meta secret))
                      else Errorf (''cannot validate sealed secret: '' @ err_text err)), e)
           | ((None, raw), e) \<Rightarrow> validateLoop E L ns service rest e))"

definition ValidateSealedSecret ::
  "'e cli_env \<Rightarrow> kube_lib \<Rightarrow> cli_lib \<Rightarrow> 'd yaml_lib \<Rightarrow> string \<Rightarrow> string \<Rightarrow> reader \<Rightarrow> 'e \<Rightarrow> (go_error option \<times> 'e) outcome option" where
  "ValidateSealedSecret E L X Y controllerNs controllerName input e =
     (case controllerService E X controllerNs controllerName e of
        Panic p \<Rightarrow> Some (Panic p)
      | Ret (Inl err, e) \<Rightarrow> Some (Ret (Some err, e))
      | Ret (Inr service, e) \<Rightarrow>
          (case readSealedSecrets Y input of
             None \<Rightarrow> None
           | Some (Inl _) \<Rightarrow> Some (Ret (Some (Errorf ''unable to decrypt sealed secret''), e))
           | Some (Inr secrets) \<Rightarrow> Some (Ret (validateLoop E L controllerNs service secrets e))))"

definition stripRotated :: "SealedSecret \<Rightarrow> SealedSecret" where
  "stripRotated s = s\<lparr>ss_Meta := (ss_Meta s)\<lparr>om_CreationTimestamp := 0, om_DeletionTimestamp := None, om_Generation := 0\<rparr>\<rparr>"

fun reencryptLoop ::
  "'e cli_env \<Rightarrow> kube_lib \<Rightarrow> cli_lib \<Rightarrow> string \<Rightarrow> string \<Rightarrow> string \<Rightarrow> SealedSecret list \<Rightarrow> bytes \<Rightarrow> 'e
    \<Rightarrow> go_error option \<times> bytes \<times> 'e" where
  "reencryptLoop E L X fmt ns service [] out e = (None, out, e)"
| "reencryptLoop E L X fmt ns service (secret # rest) out e =
     (case MarshalSealedSecret L secret of
        Inl err \<Rightarrow> (Some err, out, e)
      | Inr content \<Rightarrow>
          (case ProxyPost E ns service ''/v1/rotate'' content e of
             ((Some err, raw), e) \<Rightarrow>
               (Some (if isConflict err then Errorf ''unable to rotate secret''
                      else Errorf (''cannot re-encrypt secret: '' @ err_text err)), out, e)
           | ((None, Inl err), e) \<Rightarrow> (Some err, out, e)
           | ((None, Inr body), e) \<Rightarrow>
               (case UnmarshalSealedSecret L body of
                  Inl err \<Rightarrow> (Some err, out, e)
                | Inr ssecret \<Rightarrow>
                    (case sealedSecretOutput X fmt (stripRotated ssecret) out of
                       (Some err, out) \<Rightarrow> (Some err, out, e)
                     | (None, out) \<Rightarrow> reencryptLoop E L X fmt ns service rest out e))))"

definition ReEncryptSealedSecret ::
  "'e cli_env \<Rightarrow> kube_lib \<Rightarrow> cli_lib \<Rightarrow> 'd yaml_lib \<Rightarrow> string \<Rightarrow> string \<Rightarrow> string \<Rightarrow> reader \<Rightarrow> bytes \<Rightarrow> 'e
    \<Rightarrow> (go_error option \<times> bytes \<times> 'e) outcome option" where
  "ReEncryptSealedSecret E L X Y controllerNs controllerName outputFormat input out e =
     (case controllerService E X controllerNs controllerName e of
        Panic p \<Rightarrow> Some (Panic p)
      | Ret (Inl err, e) \<Rightarrow> Some (Ret (Some err, out, e))
      | Ret (Inr service, e) \<Rightarrow>
          (case readSealedSecrets Y input of
             None \<Rightarrow> None
           | Some (Inl err) \<Rightarrow> Some (Ret (Some err, out, e))
           | Some (Inr secrets) \<Rightarrow> Some (Ret (reencryptLoop E L X outputFormat controllerNs service secrets out e))))"

section \<open>Unsealing with private keys\<close>

definition parsePrivKey :: "kube_lib \<Rightarrow> cli_lib \<Rightarrow> bytes \<Rightarrow> go_error + rsa_private_key" where
  "parsePrivKey L X b =
     (case ParsePrivateKeyPEM L b of
        Inl e \<Rightarrow> Inl e
      | Inr key \<Rightarrow>
          (case key of
             RSAPrivateKey rsaKey \<Rightarrow> Inr rsaKey
           | OtherPrivateKey _ \<Rightarrow> Inl (Errorf (''unexpected private key type '' @ ShowPrivateKeyType X key))))"

text \<open>The secrets of the items of a \<open>v1.List\<close>, one after the other.\<close>

fun readItems :: "'d yaml_lib \<Rightarrow> bytes list \<Rightarrow> Secret list \<Rightarrow> (go_error + Secret list) option" where
  "readItems Y [] secrets = Some (Inr secrets)"
| "readItems Y (raw # rest) secrets =
     (case readSecrets Y (Inr raw) of
        None \<Rightarrow> None
      | Some (Inl e) \<Rightarrow> Some (Inl e)
      | Some (Inr s) \<Rightarrow> readItems Y rest (secrets @ s))"

fun secretKeys :: "kube_lib \<Rightarrow> cli_lib \<Rightarrow> Secret list \<Rightarrow> rsa_private_key list \<Rightarrow> go_error + rsa_private_key list" where
  "secretKeys L X [] keys = Inr keys"
| "secretKeys L X (s # rest) keys =
     (case map_get (sec_Data s) ''tls.key'' of
        None \<Rightarrow> Inl (Errorf (''secret must contain a '' @ [CHR 0x27] @ ''tls.data'' @ [CHR 0x27] @ '' key''))
      | Some tlsKey \<Rightarrow>
          (case parsePrivKey L X tlsKey of
             Inl e \<Rightarrow> Inl e
           | Inr pk \<Rightarrow> secretKeys L X rest (keys @ [pk])))"

definition readPrivKeysFromFile ::
  "kube_lib \<Rightarrow> cli_lib \<Rightarrow> 'd yaml_lib \<Rightarrow> 'e cli_env \<Rightarrow> string \<Rightarrow> 'e \<Rightarrow> ((go_error + rsa_private_key list) \<times> 'e) option" where
  "readPrivKeysFromFile L X Y E filename e =
     (case OsReadFile E filename e of
        (Inl err, e) \<Rightarrow> Some (Inl err, e)
      | (Inr b, e) \<Rightarrow>
          (case parsePrivKey L X b of
             Inr res \<Rightarrow> Some (Inr [res], e)
           | Inl _ \<Rightarrow>
               (case (case DecodeListInto X b of Inr items \<Rightarrow> readItems Y items [] | Inl _ \<Rightarrow> readSecrets Y (Inr b)) of
                  None \<Rightarrow> None
                | Some (Inl err) \<Rightarrow> Some (Inl err, e)
                | Some (Inr secrets) \<Rightarrow> Some (secretKeys L X secrets [], e))))"

definition readPrivKey ::
  "kube_lib \<Rightarrow> cli_lib \<Rightarrow> 'd yaml_lib \<Rightarrow> 'e cli_env \<Rightarrow> string \<Rightarrow> 'e \<Rightarrow> ((go_error + rsa_private_key) \<times> 'e) outcome option" where
  "readPrivKey L X Y E filename e =
     (case readPrivKeysFromFile L X Y E filename e of
        None \<Rightarrow> None
      | Some (Inl err, e) \<Rightarrow> Some (Ret (Inl err, e))
      | Some (Inr pks, e) \<Rightarrow> Some (case pks of [] \<Rightarrow> Panic IndexOutOfRange | pk # _ \<Rightarrow> Ret (Inr pk, e)))"

fun addFingerprints ::
  "crypto_lib \<Rightarrow> rsa_private_key list \<Rightarrow> (string \<times> rsa_private_key) list \<Rightarrow> go_error + (string \<times> rsa_private_key) list" where
  "addFingerprints C [] res = Inr res"
| "addFingerprints C (pk # rest) res =
     (case PublicKeyFingerprint C (rsaPublicKey pk) of
        Inl e \<Rightarrow> Inl e
      | Inr fingerprint \<Rightarrow> addFingerprints C rest (AList.update fingerprint pk res))"

fun readPrivKeys ::
  "crypto_lib \<Rightarrow> kube_lib \<Rightarrow> cli_lib \<Rightarrow> 'd yaml_lib \<Rightarrow> 'e cli_env \<Rightarrow> string list \<Rightarrow> (string \<times> rsa_private_key) list \<Rightarrow> 'e
    \<Rightarrow> ((go_error + (string \<times> rsa_private_key) list) \<times> 'e) option" where
  "readPrivKeys C L X Y E [] res e = Some (Inr res, e)"
| "readPrivKeys C L X Y E (filename # rest) res e =
     (case readPrivKeysFromFile L X Y E filename e of
        None \<Rightarrow> None
      | Some (Inl err, e) \<Rightarrow> Some (Inl err, e)
      | Some (Inr pks, e) \<Rightarrow>
          (case addFingerprints C pks res of
             Inl err \<Rightarrow> Some (Inl err, e)
           | Inr res \<Rightarrow> readPrivKeys C L X Y E rest res e))"

definition UnsealSealedSecret ::
  "crypto_lib \<Rightarrow> kube_lib \<Rightarrow> cli_lib \<Rightarrow> 'd yaml_lib \<Rightarrow> 'e cli_env \<Rightarrow> bool \<Rightarrow> bytes \<Rightarrow> reader \<Rightarrow> string list \<Rightarrow> string \<Rightarrow> 'e
    \<Rightarrow> (go_error option \<times> bytes \<times> 'e) option" where
  "UnsealSealedSecret C L X Y E acceptV1 w input privKeysFilenames outputFormat e =
     (case readPrivKeys C L X Y E privKeysFilenames [] e of
        None \<Rightarrow> None
      | Some (Inl err, e) \<Rightarrow> Some (Some err, w, e)
      | Some (Inr privKeys, e) \<Rightarrow>
          Some (case input of
                  Inl err \<Rightarrow> (Some err, w, e)
                | Inr b \<Rightarrow>
                    (case decodeSealedSecret X b of
                       Inl err \<Rightarrow> (Some err, w, e)
                     | Inr ss \<Rightarrow>
                         (case Unseal C L acceptV1 privKeys ss of
                            Inl err \<Rightarrow> (Some err, w, e)
                          | Inr sec \<Rightarrow>
                              (case resourceOutput X outputFormat (SecretObj sec) w of (err, w) \<Rightarrow> (err, w, e))))))"

end
