(* ===== verification/Flags.thy ===== *)
theory Flags
  imports GoStrings "HOL-Library.List_Lexorder" "HOL-Library.Char_ord"
begin

text \<open>
  Command line flags and their environment variables (\<open>pkg/flagenv\<close>, \<open>pkg/pflagenv\<close>). A flag is a
  name and the method \<open>Set\<close> of its value, which parses a text and writes the variable the flag is
  bound to, a field of a struct \<open>'f\<close>. The parsers of the two flag packages are parameters.
\<close>

section \<open>Flags\<close>

record 'f flag =
  flag_Name :: string
  flag_Set :: "string \<Rightarrow> 'f \<Rightarrow> go_error option \<times> 'f"

text \<open>
  How the values of the non-string kinds parse: \<open>Set\<close> of a value of each kind, given the text and
  the old value. The value may change even when there is an error.
\<close>

record pflag_lib =
  SetBool :: "string \<Rightarrow> bool \<Rightarrow> go_error option \<times> bool"
  SetInt :: "string \<Rightarrow> int \<Rightarrow> go_error option \<times> int"
  SetDuration :: "string \<Rightarrow> duration \<Rightarrow> go_error option \<times> duration"
  SetFloat32 :: "string \<Rightarrow> string \<Rightarrow> go_error option \<times> string"
  SetStringSlice :: "string \<Rightarrow> string list \<Rightarrow> go_error option \<times> string list"

text \<open>A flag bound to a field, given how to read and write the field.\<close>

definition boundFlag ::
  "string \<Rightarrow> (string \<Rightarrow> 'v \<Rightarrow> go_error option \<times> 'v) \<Rightarrow> ('f \<Rightarrow> 'v) \<Rightarrow> ('v \<Rightarrow> 'f \<Rightarrow> 'f) \<Rightarrow> 'f flag" where
  "boundFlag name parse get_field put_field = \<lparr> flag_Name = name,
     flag_Set = (\<lambda>s f. case parse s (get_field f) of (err, v) \<Rightarrow> (err, put_field v f)) \<rparr>"

definition SetString :: "string \<Rightarrow> string \<Rightarrow> go_error option \<times> string" where
  "SetString s old = (None, s)"

lemma boundFlag_simps [simp]:
  "flag_Name (boundFlag name parse get_field put_field) = name"
  "flag_Set (boundFlag name parse get_field put_field) s f =
    (case parse s (get_field f) of (err, v) \<Rightarrow> (err, put_field v f))"
  by (simp_all add: boundFlag_def)

section \<open>From the environment\<close>

definition envName :: "string \<Rightarrow> string \<Rightarrow> string" where
  "envName prefix name =
     (let cleanPrefix = TrimSuffix prefix ''_''
      in cleanPrefix @ ''_'' @ ReplaceAll (CHR ''-'') (CHR ''_'') (ToUpper name))"

text \<open>
  \<open>SetFlagsFromEnv\<close> of the two packages: \<open>actual\<close> are the names of the flags set so far, \<open>VisitAll\<close>
  visits all flags in the order of their names. The error of \<open>Set\<close> is dropped.
\<close>

definition VisitAll :: "'f flag list \<Rightarrow> 'f flag list" where
  "VisitAll flags = sort_key flag_Name flags"

definition flagenv_SetFlagsFromEnv ::
  "string \<Rightarrow> (string \<Rightarrow> string option) \<Rightarrow> string list \<Rightarrow> 'f flag list \<Rightarrow> 'f \<Rightarrow> 'f" where
  "flagenv_SetFlagsFromEnv prefix env actual flags f =
     fold (\<lambda>fl f. if flag_Name fl \<in> set actual then f
                  else (case env (envName prefix (flag_Name fl)) of
                          None \<Rightarrow> f | Some e \<Rightarrow> snd (flag_Set fl e f))) (VisitAll flags) f"

definition pflagenv_SetFlagsFromEnv ::
  "string \<Rightarrow> (string \<Rightarrow> string option) \<Rightarrow> string list \<Rightarrow> 'f flag list \<Rightarrow> 'f \<Rightarrow> 'f" where
  "pflagenv_SetFlagsFromEnv prefix env actual flags f =
     fold (\<lambda>fl f. if flag_Name fl \<in> set actual then f
                  else (case env (envName prefix (flag_Name fl)) of
                          None \<Rightarrow> f | Some e \<Rightarrow> snd (flag_Set fl e f))) (VisitAll flags) f"

section \<open>From the command line\<close>

text \<open>
  The effect of \<open>Parse\<close> on arguments already split into names and values: each is set in turn, an
  unknown name or a rejected value ends it.
\<close>

fun applyArgs :: "'f flag list \<Rightarrow> (string \<times> string) list \<Rightarrow> 'f \<Rightarrow> go_error + 'f" where
  "applyArgs flags [] f = Inr f"
| "applyArgs flags ((name, value) # args) f =
     (case find (\<lambda>fl. flag_Name fl = name) flags of
        None \<Rightarrow> Inl (Errorf (''unknown flag: --'' @ name))
      | Some fl \<Rightarrow>
          (case flag_Set fl value f of
             (Some e, f) \<Rightarrow> Inl e
           | (None, f) \<Rightarrow> applyArgs flags args f))"

section \<open>Precedence\<close>

text \<open>
  A field written by one flag only: what the flag stores depends on the text alone, and no other
  flag of the set writes the field.
\<close>

locale flag_field =
  fixes flags :: "'f flag list" and own :: "'f flag" and get_field :: "'f \<Rightarrow> 'v" and parsed :: "string \<Rightarrow> 'v"
  assumes own_in: "own \<in> set flags"
    and names_distinct: "distinct (map flag_Name flags)"
    and own_sets: "get_field (snd (flag_Set own s f)) = parsed s"
    and others_keep: "fl \<in> set flags \<Longrightarrow> fl \<noteq> own \<Longrightarrow> get_field (snd (flag_Set fl s f)) = get_field f"
begin

lemma name_own: "fl \<in> set flags \<Longrightarrow> flag_Name fl = flag_Name own \<Longrightarrow> fl = own"
  using own_in names_distinct by (auto simp: distinct_map inj_on_def)

lemma env_value:
  "get_field (pflagenv_SetFlagsFromEnv prefix env [] flags f) =
    (case env (envName prefix (flag_Name own)) of None \<Rightarrow> get_field f | Some e \<Rightarrow> parsed e)"
proof -
  let ?step = "\<lambda>fl f. case env (envName prefix (flag_Name fl)) of None \<Rightarrow> f | Some e \<Rightarrow> snd (flag_Set fl e f)"
  have keep: "get_field (fold ?step fls f) = get_field f" if "set fls \<subseteq> set flags - {own}" for fls f
    using that
  proof (induction fls arbitrary: f)
    case (Cons a fls)
    then have "get_field (?step a f) = get_field f"
      by (auto simp: others_keep split: option.splits)
    with Cons show ?case by simp
  qed simp
  have "own \<in> set (VisitAll flags)" using own_in by (simp add: VisitAll_def)
  then obtain pre post where parts: "VisitAll flags = pre @ own # post" "own \<notin> set pre"
    by (meson split_list_first)
  have "distinct (VisitAll flags)" "set (VisitAll flags) = set flags"
    using names_distinct by (simp_all add: distinct_map VisitAll_def)
  then have "set pre \<subseteq> set flags - {own}" "set post \<subseteq> set flags - {own}"
    using parts by auto
  note k = this [THEN keep]
  have "get_field (pflagenv_SetFlagsFromEnv prefix env [] flags f) = get_field (?step own (fold ?step pre f))"
    using k(2) by (simp add: pflagenv_SetFlagsFromEnv_def parts(1))
  also have "\<dots> = (case env (envName prefix (flag_Name own)) of None \<Rightarrow> get_field f | Some e \<Rightarrow> parsed e)"
    using k(1) by (simp add: own_sets split: option.splits)
  finally show ?thesis .
qed

text \<open>The last occurrence of the flag on the command line, if any, is what the field holds.\<close>

lemma args_value:
  "applyArgs flags args f = Inr f' \<Longrightarrow>
    get_field f' = (case map_of (rev args) (flag_Name own) of None \<Rightarrow> get_field f | Some s \<Rightarrow> parsed s)"
proof (induction args arbitrary: f)
  case (Cons a args)
  obtain name v where a: "a = (name, v)" by (cases a)
  with Cons.prems obtain fl f1 where fl: "find (\<lambda>fl. flag_Name fl = name) flags = Some fl"
    and set: "flag_Set fl v f = (None, f1)" and rest: "applyArgs flags args f1 = Inr f'"
    by (auto split: option.splits prod.splits)
  have mem: "fl \<in> set flags" "flag_Name fl = name"
    using fl by (auto simp: find_Some_iff)
  have f1: "f1 = snd (flag_Set fl v f)" using set by simp
  show ?case
  proof (cases "name = flag_Name own")
    case True
    then have "fl = own" using mem name_own by simp
    then have "get_field f1 = parsed v" by (simp add: f1 own_sets)
    with Cons.IH [OF rest] True show ?thesis by (simp add: a map_add_def split: option.splits)
  next
    case False
    then have "fl \<noteq> own" using mem by auto
    then have "get_field f1 = get_field f" using mem(1) by (simp add: f1 others_keep)
    with Cons.IH [OF rest] False show ?thesis by (simp add: a map_add_def split: option.splits)
  qed
qed simp

text \<open>The command line wins over the environment, and the environment over the default.\<close>

lemma precedence:
  assumes "applyArgs flags args (pflagenv_SetFlagsFromEnv prefix env [] flags f) = Inr f'"
  shows "get_field f' = (case map_of (rev args) (flag_Name own) of Some s \<Rightarrow> parsed s
    | None \<Rightarrow> (case env (envName prefix (flag_Name own)) of Some e \<Rightarrow> parsed e | None \<Rightarrow> get_field f))"
  using args_value [OF assms] by (simp add: env_value split: option.splits)

end

end
