(* ===== verification/KubesealMain.thy ===== *)
theory KubesealMain
  imports Kubeseal Flags
begin

text \<open>
  The command \<open>kubeseal\<close> (\<open>cmd/kubeseal/main.go\<close>): its flags, the choice of the operation, the
  input and the output file. The output file is written through a temporary file that takes its
  place only when the run succeeds. Warnings on the standard error are not modelled.
\<close>

section \<open>Flags\<close>

record cliFlags =
  cf_certURL :: string
  cf_controllerNs :: string
  cf_controllerName :: string
  cf_outputFormat :: string
  cf_outputFileName :: string
  cf_inputFileName :: string
  cf_kubeconfig :: string
  cf_dumpCert :: bool
  cf_allowEmptyData :: bool
  cf_validateSecret :: bool
  cf_mergeInto :: string
  cf_raw :: bool
  cf_secretName :: string
  cf_fromFile :: "string list"
  cf_sealingScope :: SealingScope
  cf_reEncrypt :: bool
  cf_unseal :: bool
  cf_privKeys :: "string list"
  cf_help :: bool

definition flagEnvPrefix :: string where "flagEnvPrefix = ''SEALED_SECRETS''"

text \<open>The defaults that \<open>bindFlags\<close> stores, and the flags it binds.\<close>

definition defaultCliFlags :: cliFlags where
  "defaultCliFlags = \<lparr> cf_certURL = '''', cf_controllerNs = ''kube-system'',
     cf_controllerName = ''sealed-secrets-controller'', cf_outputFormat = ''json'', cf_outputFileName = '''',
     cf_inputFileName = '''', cf_kubeconfig = '''', cf_dumpCert = False, cf_allowEmptyData = False,
     cf_validateSecret = False, cf_mergeInto = '''', cf_raw = False, cf_secretName = '''', cf_fromFile = [],
     cf_sealingScope = DefaultScope, cf_reEncrypt = False, cf_unseal = False, cf_privKeys = [], cf_help = False \<rparr>"

definition SetScope :: "string \<Rightarrow> SealingScope \<Rightarrow> go_error option \<times> SealingScope" where
  "SetScope s old = (case Scope_Set old s of (scope, err) \<Rightarrow> (err, scope))"

definition bindFlags :: "pflag_lib \<Rightarrow> cliFlags flag list" where
  "bindFlags P =
    [boundFlag ''cert'' SetString cf_certURL (\<lambda>v f. f\<lparr>cf_certURL := v\<rparr>),
     boundFlag ''controller-namespace'' SetString cf_controllerNs (\<lambda>v f. f\<lparr>cf_controllerNs := v\<rparr>),
     boundFlag ''controller-name'' SetString cf_controllerName (\<lambda>v f. f\<lparr>cf_controllerName := v\<rparr>),
     boundFlag ''format'' SetString cf_outputFormat (\<lambda>v f. f\<lparr>cf_outputFormat := v\<rparr>),
     boundFlag ''sealed-secret-file'' SetString cf_outputFileName (\<lambda>v f. f\<lparr>cf_outputFileName := v\<rparr>),
     boundFlag ''secret-file'' SetString cf_inputFileName (\<lambda>v f. f\<lparr>cf_inputFileName := v\<rparr>),
     boundFlag ''fetch-cert'' (SetBool P) cf_dumpCert (\<lambda>v f. f\<lparr>cf_dumpCert := v\<rparr>),
     boundFlag ''allow-empty-data'' (SetBool P) cf_allowEmptyData (\<lambda>v f. f\<lparr>cf_allowEmptyData := v\<rparr>),
     boundFlag ''validate'' (SetBool P) cf_validateSecret (\<lambda>v f. f\<lparr>cf_validateSecret := v\<rparr>),
     boundFlag ''merge-into'' SetString cf_mergeInto (\<lambda>v f. f\<lparr>cf_mergeInto := v\<rparr>),
     boundFlag ''raw'' (SetBool P) cf_raw (\<lambda>v f. f\<lparr>cf_raw := v\<rparr>),
     boundFlag ''name'' SetString cf_secretName (\<lambda>v f. f\<lparr>cf_secretName := v\<rparr>),
     boundFlag ''from-file'' (SetStringSlice P) cf_fromFile (\<lambda>v f. f\<lparr>cf_fromFile := v\<rparr>),
     boundFlag ''kubeconfig'' SetString cf_kubeconfig (\<lambda>v f. f\<lparr>cf_kubeconfig := v\<rparr>),
     boundFlag ''scope'' SetScope cf_sealingScope (\<lambda>v f. f\<lparr>cf_sealingScope := v\<rparr>),
     boundFlag ''rotate'' (SetBool P) cf_reEncrypt (\<lambda>v f. f\<lparr>cf_reEncrypt := v\<rparr>),
     boundFlag ''re-encrypt'' (SetBool P) cf_reEncrypt (\<lambda>v f. f\<lparr>cf_reEncrypt := v\<rparr>),
     boundFlag ''recovery-unseal'' (SetBool P) cf_unseal (\<lambda>v f. f\<lparr>cf_unseal := v\<rparr>),
     boundFlag ''recovery-private-key'' (SetStringSlice P) cf_privKeys (\<lambda>v f. f\<lparr>cf_privKeys := v\<rparr>),
     boundFlag ''help'' (SetBool P) cf_help (\<lambda>v f. f\<lparr>cf_help := v\<rparr>)]"

section \<open>The operation\<close>

text \<open>\<open>filepath.Ext\<close>: from the last dot of the last element of the path on.\<close>

definition filepathExt :: "string \<Rightarrow> string" where
  "filepathExt path =
     (let ext = takeWhile (\<lambda>c. c \<noteq> CHR ''.'' \<and> c \<noteq> CHR ''/'') (rev path)
      in case drop (length ext) (rev path) of
           [] \<Rightarrow> []
         | c # _ \<Rightarrow> if c = CHR ''.'' then CHR ''.'' # rev ext else [])"

text \<open>The packages the command calls.\<close>

record ('d, 'e) cli_packages =
  pk_crypto :: crypto_lib
  pk_kube :: kube_lib
  pk_cli :: cli_lib
  pk_yaml :: "'d yaml_lib"
  pk_env :: "'e cli_env"

text \<open>The item to encrypt in raw mode: the one file of \<open>--from-file\<close>, or the standard input.\<close>

definition rawData :: "'e cli_env \<Rightarrow> string list \<Rightarrow> 'e \<Rightarrow> (go_error + bytes) \<times> 'e" where
  "rawData E fromFile e =
     (case fromFile of
        [] \<Rightarrow> StdinRead E e
      | [item] \<Rightarrow> OsReadFile E (snd (ParseFromFile item)) e
      | _ \<Rightarrow> (Inl (Errorf ''must provide only one --from-file when encrypting a single item with --raw''), e))"

text \<open>The namespace an item is encrypted for; a cluster-wide one has none.\<close>

definition rawNamespace :: "'e cli_env \<Rightarrow> cliFlags \<Rightarrow> 'e \<Rightarrow> (go_error + string) \<times> 'e" where
  "rawNamespace E flags e =
     (if cf_sealingScope flags < ClusterWideScope
      then (case ConfigNamespace E e of
              ((ns, _, Some err), e) \<Rightarrow> (Inl err, e)
            | ((ns, _, None), e) \<Rightarrow>
                (if ns = ''''
                 then (Inl (Errorf (''must provide the --namespace flag with --raw and --scope ''
                         @ Scope_String (cf_sealingScope flags))), e)
                 else if cf_secretName flags = '''' \<and> cf_sealingScope flags < NamespaceWideScope
                 then (Inl (Errorf (''must provide the --name flag with --raw and --scope ''
                         @ Scope_String (cf_sealingScope flags))), e)
                 else (Inr ns, e)))
      else (Inr '''', e))"

definition runRaw ::
  "crypto_lib \<Rightarrow> 'e cli_env \<Rightarrow> cliFlags \<Rightarrow> rsa_public_key \<Rightarrow> bytes \<Rightarrow> bytes \<Rightarrow> 'e \<Rightarrow> go_error option \<times> bytes \<times> 'e" where
  "runRaw C E flags pubKey w rnd e =
     (case rawNamespace E flags e of
        (Inl err, e) \<Rightarrow> (Some err, w, e)
      | (Inr ns, e) \<Rightarrow>
          (case rawData E (cf_fromFile flags) e of
             (Inl err, e) \<Rightarrow> (Some err, w, e)
           | (Inr data, e) \<Rightarrow>
               (case EncryptSecretItem C w (cf_secretName flags) ns data (cf_sealingScope flags) pubKey rnd of
                  (err, w, rnd) \<Rightarrow> (err, w, e))))"

text \<open>With the key at hand: merging, raw mode, or sealing the input.\<close>

definition runSealing ::
  "('d, 'e) cli_packages \<Rightarrow> cliFlags \<Rightarrow> ('e \<Rightarrow> reader \<times> 'e) \<Rightarrow> rsa_public_key \<Rightarrow> bytes \<Rightarrow> bytes \<Rightarrow> 'e
    \<Rightarrow> (go_error option \<times> bytes \<times> 'e) outcome option" where
  "runSealing K flags input pubKey w rnd e =
     (if cf_mergeInto flags \<noteq> ''''
      then (case ConfigNamespace (pk_env K) e of ((ns, nsSet, _), e) \<Rightarrow>
              (case input e of (r, e) \<Rightarrow>
                 map_option (\<lambda>m. obind m (\<lambda>(err, _, e). Ret (err, w, e)))
                   (SealMergingInto (pk_crypto K) (pk_cli K) (pk_yaml K) (pk_env K) (ns, nsSet) (cf_outputFormat flags) r
                      (cf_mergeInto flags) pubKey (cf_sealingScope flags) (cf_allowEmptyData flags) rnd e)))
      else if cf_raw flags then Some (Ret (runRaw (pk_crypto K) (pk_env K) flags pubKey w rnd e))
      else (case ConfigNamespace (pk_env K) e of ((ns, nsSet, _), e) \<Rightarrow>
              (case input e of (r, e) \<Rightarrow>
                 map_option (\<lambda>(err, w, _). Ret (err, w, e))
                   (Seal (pk_crypto K) (pk_cli K) (pk_yaml K) (ns, nsSet) (cf_outputFormat flags) r w pubKey
                      (cf_sealingScope flags) (cf_allowEmptyData flags) (cf_secretName flags) '''' rnd))))"

text \<open>The rest of \<open>runCLI\<close> once the files are open: what is written goes to \<open>w\<close>.\<close>

definition runOperation ::
  "('d, 'e) cli_packages \<Rightarrow> bool \<Rightarrow> time \<Rightarrow> cliFlags \<Rightarrow> ('e \<Rightarrow> reader \<times> 'e) \<Rightarrow> bytes \<Rightarrow> bytes \<Rightarrow> 'e
    \<Rightarrow> (go_error option \<times> bytes \<times> 'e) outcome option" where
  "runOperation K acceptV1 now flags input w rnd e =
     (if cf_unseal flags
      then (case input e of (r, e) \<Rightarrow>
              map_option Ret (UnsealSealedSecret (pk_crypto K) (pk_kube K) (pk_cli K) (pk_yaml K) (pk_env K) acceptV1 w r
                (cf_privKeys flags) (cf_outputFormat flags) e))
      else if cf_validateSecret flags
      then (case input e of (r, e) \<Rightarrow>
              map_option (\<lambda>m. obind m (\<lambda>(err, e). Ret (err, w, e)))
                (ValidateSealedSecret (pk_env K) (pk_kube K) (pk_cli K) (pk_yaml K) (cf_controllerNs flags)
                   (cf_controllerName flags) r e))
      else if cf_reEncrypt flags
      then (case input e of (r, e) \<Rightarrow>
              ReEncryptSealedSecret (pk_env K) (pk_kube K) (pk_cli K) (pk_yaml K) (cf_controllerNs flags)
                (cf_controllerName flags) (cf_outputFormat flags) r w e)
      else (case OpenCert (pk_env K) (pk_cli K) (cf_controllerNs flags) (cf_controllerName flags) (cf_certURL flags) e of
              Panic p \<Rightarrow> Some (Panic p)
            | Ret (Inl err, e) \<Rightarrow> Some (Ret (Some err, w, e))
            | Ret (Inr f, e) \<Rightarrow>
                (if cf_dumpCert flags
                 then Some (Ret (case f of Inl err \<Rightarrow> (Some err, w, e) | Inr b \<Rightarrow> (None, w @ b, e)))
                 else (case ParseKey (pk_kube K) (pk_cli K) now f of
                         Inl err \<Rightarrow> Some (Ret (Some err, w, e))
                       | Inr pubKey \<Rightarrow> runSealing K flags input pubKey w rnd e))))"

section \<open>Files around the operation\<close>

text \<open>Re-encryption with an input file only works in place; the extension of the output file decides the format.\<close>

definition outputFlags :: "cliFlags \<Rightarrow> cliFlags" where
  "outputFlags flags =
     (let flags = (if cf_reEncrypt flags \<and> cf_outputFileName flags = '''' \<and> cf_inputFileName flags \<noteq> ''''
                   then flags\<lparr>cf_outputFileName := cf_inputFileName flags\<rparr> else flags)
      in if cf_outputFileName flags \<noteq> '''' \<and> filepathExt (cf_outputFileName flags) \<in> {''.yaml'', ''.yml''}
         then flags\<lparr>cf_outputFormat := ''yaml''\<rparr> else flags)"

text \<open>The input: a file, opened first, or the standard input, read when it is needed.\<close>

definition openInput :: "'e cli_env \<Rightarrow> cliFlags \<Rightarrow> 'e \<Rightarrow> (go_error + ('e \<Rightarrow> reader \<times> 'e)) \<times> 'e" where
  "openInput E flags e =
     (if cf_inputFileName flags \<noteq> ''''
      then (case OsOpen E (cf_inputFileName flags) e of
              (Inl _, e) \<Rightarrow> (Inl (Errorf ''Could not read file specified with --secret-file''), e)
            | (Inr r, e) \<Rightarrow> (Inr (\<lambda>e. (r, e)), e))
      else (Inr (StdinRead E), e))"

definition runCLI ::
  "('d, 'e) cli_packages \<Rightarrow> bool \<Rightarrow> time \<Rightarrow> cliFlags \<Rightarrow> bytes \<Rightarrow> bytes \<Rightarrow> 'e
    \<Rightarrow> (go_error option \<times> bytes \<times> 'e) outcome option" where
  "runCLI K acceptV1 now flags w rnd e =
     (if cf_help flags then Some (Ret (None, w, e))
      else if cf_fromFile flags \<noteq> [] \<and> \<not> cf_raw flags
      then Some (Ret (Some (Errorf ''--from-file requires --raw''), w, e))
      else (case openInput (pk_env K) flags e of
              (Inl err, e) \<Rightarrow> Some (Ret (Some err, w, e))
            | (Inr input, e) \<Rightarrow>
                (let flags = outputFlags flags in
                 if cf_outputFileName flags = '''' then runOperation K acceptV1 now flags input w rnd e
                 else (case TempFile (pk_env K) (cf_outputFileName flags) e of
                         (Some err, e) \<Rightarrow> Some (Ret (Some err, w, e))
                       | (None, e) \<Rightarrow>
                           map_option (\<lambda>m. obind m (\<lambda>(err, f, e). Ret (err, w,
                               if err = None then CloseAtomicallyReplace (pk_env K) (cf_outputFileName flags) f e else e)))
                             (runOperation K acceptV1 now flags input [] rnd e)))))"

section \<open>The command\<close>

text \<open>
  The flags of the command: \<open>--version\<close> and those of \<open>bindFlags\<close>. The flags of kubectl and klog (such
  as \<open>--namespace\<close>) are bound to the client configuration, which answers through the environment.
\<close>

definition commandFlags :: "pflag_lib \<Rightarrow> (bool \<times> cliFlags) flag list" where
  "commandFlags P =
     boundFlag ''version'' (SetBool P) fst (\<lambda>v (_, f). (v, f)) #
     map (\<lambda>fl. \<lparr> flag_Name = flag_Name fl,
       flag_Set = (\<lambda>s (pv, f). case flag_Set fl s f of (err, f) \<Rightarrow> (err, (pv, f))) \<rparr>) (bindFlags P)"

definition parsedFlags ::
  "pflag_lib \<Rightarrow> (string \<Rightarrow> string option) \<Rightarrow> (string \<times> string) list \<Rightarrow> go_error + bool \<times> cliFlags" where
  "parsedFlags P env args = applyArgs (commandFlags P) args
     (pflagenv_SetFlagsFromEnv flagEnvPrefix env [] (commandFlags P) (False, defaultCliFlags))"

text \<open>
  \<open>mainE\<close>: the flags from their defaults, the environment and the arguments (split by the flag package),
  then the version or the run.
\<close>

definition kubeseal_mainE ::
  "('d, 'e) cli_packages \<Rightarrow> pflag_lib \<Rightarrow> string \<Rightarrow> (string \<Rightarrow> string option) \<Rightarrow> bool \<Rightarrow> time
    \<Rightarrow> (string \<times> string) list \<Rightarrow> bytes \<Rightarrow> bytes \<Rightarrow> 'e \<Rightarrow> (go_error option \<times> bytes \<times> 'e) outcome option" where
  "kubeseal_mainE K P version env acceptV1 now args w rnd e =
     (case parsedFlags P env args of
        Inl err \<Rightarrow> Some (Ret (Some err, w, e))
      | Inr (printVersion, flags) \<Rightarrow>
          (if printVersion
           then Some (Ret (None, w @ string_bytes (''kubeseal version: '' @ version @ [CHR 0x0A]), e))
           else runCLI K acceptV1 now flags w rnd e))"

text \<open>\<open>main\<close>: the error on the standard error and the exit status, what was printed, and the environment.\<close>

definition kubeseal_main ::
  "('d, 'e) cli_packages \<Rightarrow> pflag_lib \<Rightarrow> string \<Rightarrow> (string \<Rightarrow> string option) \<Rightarrow> bool \<Rightarrow> time
    \<Rightarrow> (string \<times> string) list \<Rightarrow> bytes \<Rightarrow> 'e \<Rightarrow> ((string \<times> int) \<times> bytes \<times> 'e) outcome option" where
  "kubeseal_main K P version env acceptV1 now args rnd e =
     map_option (\<lambda>m. obind m (\<lambda>(err, w, e). Ret (case err of
         None \<Rightarrow> ('''', 0)
       | Some err \<Rightarrow> (''error: '' @ err_text err @ [CHR 0x0A], 1), w, e)))
       (kubeseal_mainE K P version env acceptV1 now args [] rnd e)"

end
