(* ===== verification/ClientProps.thy ===== *)
theory ClientProps
  imports Kubeseal SealingProps
begin

text \<open>
  The client: when its loops over documents end, and what it seals for which place.
\<close>

section \<open>Streams\<close>

text \<open>A decoder that consumes its input: every object but the end of the input makes it shorter.\<close>

definition progresses :: "('d \<Rightarrow> 'a option \<times> decode_error \<times> 'd) \<Rightarrow> ('d \<Rightarrow> nat) \<Rightarrow> bool" where
  "progresses decode size_of \<longleftrightarrow>
     (\<forall>d x err d'. decode d = (x, err, d') \<longrightarrow> (x = None \<and> isEOF err) \<or> size_of d' < size_of d)"

lemma readDocs_progress:
  assumes "progresses decode size_of"
  shows "\<exists>r. readDocs decode d acc = Some r"
proof (induction "size_of d" arbitrary: d acc rule: less_induct)
  case less
  obtain x err d' where dec: "decode d = (x, err, d')" by (metis prod_cases3)
  consider "x = None \<and> isEOF err" | "size_of d' < size_of d"
    using assms dec unfolding progresses_def by blast
  then show ?case
  proof cases
    case 1
    then show ?thesis by (simp add: readDocs.simps dec)
  next
    case 2
    note ih = less [OF this]
    show ?thesis
      using ih by (cases x; cases "decodeErr err"; cases "isEOF err") (simp_all add: readDocs.simps [of decode d acc] dec)
  qed
qed

lemma readDocs_stuck:
  assumes stuck: "decode d = (None, err, d)" "\<not> isEOF err"
  shows "readDocs decode d acc = None"
proof (rule ccontr)
  assume "readDocs decode d acc \<noteq> None"
  then obtain r where r: "readDocs decode d acc = Some r" by auto
  have "decode = decode \<longrightarrow> d = d \<longrightarrow> False"
  proof (rule readDocs.raw_induct [where P = "\<lambda>f x a y. f = decode \<longrightarrow> x = d \<longrightarrow> False", OF _ r])
    fix rd f x a y
    assume ih: "\<And>f x a y. rd f x a = Some y \<Longrightarrow> f = decode \<longrightarrow> x = d \<longrightarrow> False"
      and body: "(case f x of (sec, err, d) \<Rightarrow>
        (case sec of
           None \<Rightarrow> if isEOF err then Some (Inr a) else rd f d a
         | Some sec \<Rightarrow> (case decodeErr err of Some e \<Rightarrow> Some (Inl e) | None \<Rightarrow> rd f d (a @ [sec])))) = Some y"
    show "f = decode \<longrightarrow> x = d \<longrightarrow> False" using body stuck ih [of decode d a y] by auto
  qed
  then show False by simp
qed

text \<open>
  C36: reading a stream of documents ends whenever the decoder consumes its input, and never returns
  when the decoder keeps failing at the same place with nothing decoded: such an error is neither
  reported nor the end of the loop.
\<close>

theorem readSecrets_ends_iff_decoder_moves:
  "(progresses (yaml_secret Y) size_of \<longrightarrow> (\<exists>r. readSecrets Y input = Some r)) \<and>
   (yaml_secret Y (yaml_open Y input) = (None, DecodeFailed e, yaml_open Y input) \<longrightarrow> readSecrets Y input = None)"
  using readDocs_progress [of "yaml_secret Y" size_of] readDocs_stuck [of "yaml_secret Y" "yaml_open Y input" "DecodeFailed e"]
  by (auto simp: readSecrets_def)

text \<open>A decoder over given documents.\<close>

fun listDecode :: "('a option \<times> decode_error) list \<Rightarrow> 'a option \<times> decode_error \<times> ('a option \<times> decode_error) list" where
  "listDecode [] = (None, DecodeEOF, [])"
| "listDecode ((x, err) # rest) = (x, err, rest)"

lemma listDecode_progresses: "progresses listDecode length"
  unfolding progresses_def
proof (intro allI impI)
  fix d :: "('a option \<times> decode_error) list" and x err d'
  assume "listDecode d = (x, err, d')"
  then show "(x = None \<and> isEOF err) \<or> length d' < length d"
    by (cases d rule: listDecode.cases) auto
qed

definition sampleYaml :: "(Secret option \<times> decode_error) list \<Rightarrow> (Secret option \<times> decode_error) list yaml_lib" where
  "sampleYaml docs = \<lparr> yaml_open = (\<lambda>r. if r = Inr [] then [] else docs), yaml_secret = listDecode,
     yaml_sealed = (\<lambda>d. (None, DecodeEOF, [])) \<rparr>"

theorem readSecrets_ends_iff_decoder_moves_witness:
  "\<exists>r. readSecrets (sampleYaml [(None, DecodeFailed ErrTooShort), (Some sampleSecret, DecodeOK)]) (Inr [1]) = Some r"
proof -
  have "progresses (yaml_secret (sampleYaml [(None, DecodeFailed ErrTooShort), (Some sampleSecret, DecodeOK)])) length"
    using listDecode_progresses by (simp add: sampleYaml_def)
  with readSecrets_ends_iff_decoder_moves [of "sampleYaml [(None, DecodeFailed ErrTooShort), (Some sampleSecret, DecodeOK)]"
      length "Inr [1]"] show ?thesis by blast
qed

text \<open>What is read: the non-empty objects in order; an undecodable document that left nothing behind is skipped.\<close>

lemma readDocs_listDecode:
  "\<forall>(x, err) \<in> set docs. (x = None \<longrightarrow> \<not> isEOF err) \<and> (x \<noteq> None \<longrightarrow> decodeErr err = None) \<Longrightarrow>
    readDocs listDecode docs acc = Some (Inr (acc @ List.map_filter fst docs))"
proof (induction docs arbitrary: acc)
  case Nil
  then show ?case by (simp add: readDocs.simps map_filter_simps)
next
  case (Cons a docs)
  obtain x err where a: "a = (x, err)" by (cases a)
  with Cons show ?case
    by (cases x) (auto simp: readDocs.simps [of listDecode "(_, _) # docs"] map_filter_simps)
qed

section \<open>What is sealed\<close>

text \<open>
  What \<open>kubeseal\<close> seals for an input secret: the name and namespace are the overrides or the
  input's own (or the configured namespace), the scope is the flag's unless that is the default,
  in which case it is the one the input's annotations ask for; the values, the type and the other
  annotations are the input's, and every field the API server sets is cleared.
\<close>

theorem prepareSecret_result:
  assumes "prepareSecret scope allowEmpty oName oNs ns nsSet secret = Inr s"
  shows "om_Name (sec_Meta s) = (if oName \<noteq> '''' then oName else om_Name (sec_Meta secret)) \<and> om_Name (sec_Meta s) \<noteq> ''''
    \<and> SecretScope (sec_Meta s) = (if scope = ClusterWideScope \<or> scope = NamespaceWideScope then scope
        else if scope = DefaultScope then SecretScope (sec_Meta secret) else StrictScope)
    \<and> (SecretScope (sec_Meta s) \<noteq> ClusterWideScope \<longrightarrow> nsSet \<longrightarrow> om_Namespace (sec_Meta s) = ns)
    \<and> (let given = (if oNs \<noteq> '''' then oNs else om_Namespace (sec_Meta secret)) in
        om_Namespace (sec_Meta s) = (if given = '''' \<and> SecretScope (sec_Meta s) \<noteq> ClusterWideScope then ns else given))
    \<and> sec_Data s = sec_Data secret \<and> sec_StringData s = sec_StringData secret \<and> sec_Type s = sec_Type secret
    \<and> om_Labels (sec_Meta s) = om_Labels (sec_Meta secret)
    \<and> (\<forall>k. k \<noteq> SealedSecretNamespaceWideAnnotation \<longrightarrow> k \<noteq> SealedSecretClusterWideAnnotation \<longrightarrow>
        map_get (om_Annotations (sec_Meta s)) k = map_get (om_Annotations (sec_Meta secret)) k)
    \<and> om_UID (sec_Meta s) = '''' \<and> om_ResourceVersion (sec_Meta s) = '''' \<and> om_CreationTimestamp (sec_Meta s) = 0"
proof -
  let ?o = "overridden '''' oNs (overridden oName '''' secret)"
  obtain s1 where s1: "namespaced ns nsSet (scoped scope ?o) = Inr s1"
    and s: "s = s1\<lparr>sec_Meta := stripServerSide (sec_Meta s1)\<rparr>" and name: "om_Name (sec_Meta (overridden oName '''' secret)) \<noteq> ''''"
    using assms by (auto simp: prepareSecret_def Let_def split: if_splits sum.splits)
  have o1: "om_Name (sec_Meta ?o) = (if oName \<noteq> '''' then oName else om_Name (sec_Meta secret))"
    "om_Namespace (sec_Meta ?o) = (if oNs \<noteq> '''' then oNs else om_Namespace (sec_Meta secret))"
    "om_Annotations (sec_Meta ?o) = om_Annotations (sec_Meta secret)" "om_Labels (sec_Meta ?o) = om_Labels (sec_Meta secret)"
    "sec_Data ?o = sec_Data secret" "sec_StringData ?o = sec_StringData secret" "sec_Type ?o = sec_Type secret"
    by (simp_all add: overridden_def Let_def)
  have sc: "SecretScope (sec_Meta (scoped scope ?o)) = (if scope = ClusterWideScope \<or> scope = NamespaceWideScope then scope
        else if scope = DefaultScope then SecretScope (sec_Meta secret) else StrictScope)"
    by (cases "scope = DefaultScope")
      (auto simp: scoped_def SecretScope_UpdateScopeAnnotations scope_defs intro: SecretScope_cong simp: o1(3) [symmetric])
  have keep: "om_Name (sec_Meta (scoped scope ?o)) = om_Name (sec_Meta ?o)" "om_Namespace (sec_Meta (scoped scope ?o)) = om_Namespace (sec_Meta ?o)"
    "om_Labels (sec_Meta (scoped scope ?o)) = om_Labels (sec_Meta ?o)" "sec_Data (scoped scope ?o) = sec_Data ?o"
    "sec_StringData (scoped scope ?o) = sec_StringData ?o" "sec_Type (scoped scope ?o) = sec_Type ?o"
    by (simp_all add: scoped_def)
  have anno: "map_get (om_Annotations (sec_Meta (scoped scope ?o))) k = map_get (om_Annotations (sec_Meta secret)) k"
    if "k \<noteq> SealedSecretNamespaceWideAnnotation" "k \<noteq> SealedSecretClusterWideAnnotation" for k
    using that by (simp add: scoped_def UpdateScopeAnnotations_get o1(3))
  have n: "s1 = (if SecretScope (sec_Meta (scoped scope ?o)) \<noteq> ClusterWideScope \<and> om_Namespace (sec_Meta ?o) = ''''
      then (scoped scope ?o)\<lparr>sec_Meta := (sec_Meta (scoped scope ?o))\<lparr>om_Namespace := ns\<rparr>\<rparr> else scoped scope ?o)"
    "SecretScope (sec_Meta (scoped scope ?o)) \<noteq> ClusterWideScope \<longrightarrow> nsSet \<longrightarrow>
      om_Namespace (sec_Meta ?o) = '''' \<or> om_Namespace (sec_Meta ?o) = ns"
    using s1 by (auto simp: namespaced_def keep split: if_splits)
  have s1f: "om_Annotations (sec_Meta s1) = om_Annotations (sec_Meta (scoped scope ?o))"
    "SecretScope (sec_Meta s1) = SecretScope (sec_Meta (scoped scope ?o))"
    by (auto simp: n(1) intro: SecretScope_cong)
  have strip: "SecretScope (stripServerSide (sec_Meta s1)) = SecretScope (sec_Meta s1)"
    by (rule SecretScope_cong) (simp add: stripServerSide_def)
  have fields: "om_Name (sec_Meta s) = om_Name (sec_Meta s1)" "om_Namespace (sec_Meta s) = om_Namespace (sec_Meta s1)"
    "om_Annotations (sec_Meta s) = om_Annotations (sec_Meta s1)" "om_Labels (sec_Meta s) = om_Labels (sec_Meta s1)"
    "om_UID (sec_Meta s) = ''''" "om_ResourceVersion (sec_Meta s) = ''''" "om_CreationTimestamp (sec_Meta s) = 0"
    "sec_Data s = sec_Data s1" "sec_StringData s = sec_StringData s1" "sec_Type s = sec_Type s1"
    by (simp_all add: s stripServerSide_def)
  have s1g: "om_Name (sec_Meta s1) = om_Name (sec_Meta ?o)" "om_Labels (sec_Meta s1) = om_Labels (sec_Meta ?o)"
    "sec_Data s1 = sec_Data ?o" "sec_StringData s1 = sec_StringData ?o" "sec_Type s1 = sec_Type ?o"
    "om_Namespace (sec_Meta s1) = (if SecretScope (sec_Meta (scoped scope ?o)) \<noteq> ClusterWideScope
      \<and> om_Namespace (sec_Meta ?o) = '''' then ns else om_Namespace (sec_Meta ?o))"
    by (simp_all add: n(1) keep)
  have scope: "SecretScope (sec_Meta s) = SecretScope (sec_Meta (scoped scope ?o))"
    by (simp add: s strip s1f(2))
  show ?thesis
    unfolding scope fields s1g s1f Let_def sc [symmetric]
    using n(2) name anno o1 by (auto simp: overridden_def Let_def sc)
qed

theorem prepareSecret_result_witness:
  "\<exists>s. prepareSecret NamespaceWideScope False ''other'' '''' ''ns'' False sampleSecret = Inr s
    \<and> om_Name (sec_Meta s) = ''other'' \<and> SecretScope (sec_Meta s) = NamespaceWideScope"
proof -
  have "\<exists>s. prepareSecret NamespaceWideScope False ''other'' '''' ''ns'' False sampleSecret = Inr s"
    by (simp add: prepareSecret_def overridden_def scoped_def namespaced_def Let_def sampleSecret_def)
  then obtain s where s: "prepareSecret NamespaceWideScope False ''other'' '''' ''ns'' False sampleSecret = Inr s" ..
  from prepareSecret_result [OF s] s show ?thesis by auto
qed

end
