(* ===== verification/CliProps.thy ===== *)
theory CliProps
  imports KubesealMain ClientProps
begin

text \<open>
  Whole runs of \<open>kubeseal\<close>: what they may do to files.
\<close>

section \<open>Calls that leave files alone\<close>

text \<open>
  A view of the files of the environment (temporary files aside): only truncating and writing an
  open file and the atomic replacement of a path change it, and the latter changes that path at most.
\<close>

definition file_env :: "'e cli_env \<Rightarrow> ('e \<Rightarrow> string \<Rightarrow> bytes option) \<Rightarrow> bool" where
  "file_env E files \<longleftrightarrow>
     (\<forall>e n. files (snd (OsOpen E n e)) = files e) \<and> (\<forall>e n. files (snd (OsReadFile E n e)) = files e) \<and>
     (\<forall>e u. files (snd (HttpGet E u e)) = files e) \<and> (\<forall>e. files (snd (ClientConfig E e)) = files e) \<and>
     (\<forall>e. files (snd (NewForConfig E e)) = files e) \<and> (\<forall>e. files (snd (ConfigNamespace E e)) = files e) \<and>
     (\<forall>e ns n. files (snd (ServicesGet E ns n e)) = files e) \<and>
     (\<forall>e ns n p u. files (snd (ProxyGet E ns n p u e)) = files e) \<and>
     (\<forall>e ns n u b. files (snd (ProxyPost E ns n u b e)) = files e) \<and>
     (\<forall>e n. files (snd (FileOpen E n e)) = files e) \<and> (\<forall>e. files (snd (StdinRead E e)) = files e) \<and>
     (\<forall>e n. files (snd (TempFile E n e)) = files e) \<and>
     (\<forall>e n b k. k \<noteq> n \<longrightarrow> files (CloseAtomicallyReplace E n b e) k = files e k)"

lemma file_envD:
  assumes "file_env E files"
  shows "OsOpen E n e = (r1, e1) \<Longrightarrow> files e1 = files e" "OsReadFile E n e = (r2, e1) \<Longrightarrow> files e1 = files e"
    "HttpGet E n e = (r3, e1) \<Longrightarrow> files e1 = files e" "ClientConfig E e = (r4, e1) \<Longrightarrow> files e1 = files e"
    "NewForConfig E e = (r5, e1) \<Longrightarrow> files e1 = files e" "ConfigNamespace E e = (r6, e1) \<Longrightarrow> files e1 = files e"
    "ServicesGet E ns n e = (r7, e1) \<Longrightarrow> files e1 = files e" "ProxyGet E ns n p u e = (r8, e1) \<Longrightarrow> files e1 = files e"
    "ProxyPost E ns n u b e = (r9, e1) \<Longrightarrow> files e1 = files e" "FileOpen E n e = (r10, e1) \<Longrightarrow> files e1 = files e"
    "StdinRead E e = (r11, e1) \<Longrightarrow> files e1 = files e" "TempFile E n e = (r12, e1) \<Longrightarrow> files e1 = files e"
    "k \<noteq> n \<Longrightarrow> files (CloseAtomicallyReplace E n b e) k = files e k"
  using assms unfolding file_env_def by (metis snd_conv)+

named_theorems frames "operations of the client that leave files alone"

lemma getServicePortName_files [frames]:
  assumes "file_env E files" "getServicePortName E ns n e = Ret (r, e')"
  shows "files e' = files e"
  using assms(2) by (auto simp: getServicePortName_def split: prod.splits sum.splits list.splits
      dest!: file_envD [OF assms(1)])

lemma openCertLocal_files [frames]:
  assumes "file_env E files" "openCertLocal E X u e = (r, e')"
  shows "files e' = files e"
  using assms(2) by (auto simp: openCertLocal_def openCertURI_def split: prod.splits sum.splits if_splits
      dest!: file_envD [OF assms(1)])

lemma openCertCluster_files [frames]:
  assumes "file_env E files" "openCertCluster E ns n e = Ret (r, e')"
  shows "files e' = files e"
proof -
  obtain r1 e1 where 1: "getServicePortName E ns n e = Ret (r1, e1)"
    and 2: "(case r1 of Inl err \<Rightarrow> (Inl err, e1)
      | Inr portName \<Rightarrow> (case ProxyGet E ns n portName ''/v1/cert.pem'' e1 of
          (Inl err, e) \<Rightarrow> (Inl (Errorf (''cannot fetch certificate: '' @ err_text err)), e)
        | (Inr cert, e) \<Rightarrow> (Inr cert, e))) = (r, e')"
    using assms(2) by (auto simp: openCertCluster_def outcome_simps)
  have "files e' = files e1"
    using 2 by (auto split: sum.splits prod.splits dest!: file_envD [OF assms(1)])
  with getServicePortName_files [OF assms(1) 1] show ?thesis by simp
qed

lemma OpenCert_files [frames]:
  assumes "file_env E files" "OpenCert E X ns n u e = Ret (r, e')"
  shows "files e' = files e"
  using assms(2) openCertLocal_files [OF assms(1)] openCertCluster_files [OF assms(1)]
  by (auto simp: OpenCert_def split: if_splits prod.splits option.splits dest!: file_envD [OF assms(1)])

lemma controllerService_files [frames]:
  assumes "file_env E files" "controllerService E X ns n e = Ret (r, e')"
  shows "files e' = files e"
  using assms(2) getServicePortName_files [OF assms(1)]
  by (auto simp: controllerService_def outcome_simps split: prod.splits option.splits sum.splits
      dest!: file_envD [OF assms(1)]) (metis sum.exhaust)

lemma validateLoop_files [frames]:
  "file_env E files \<Longrightarrow> validateLoop E L ns service ss e = (r, e') \<Longrightarrow> files e' = files e"
  by (induction E L ns service ss e rule: validateLoop.induct)
    (auto split: sum.splits prod.splits option.splits dest: file_envD(9))

lemma ValidateSealedSecret_files [frames]:
  assumes "file_env E files" "ValidateSealedSecret E L X Y ns n input e = Some (Ret (r, e'))"
  shows "files e' = files e"
  using assms(2) controllerService_files [OF assms(1)] validateLoop_files [OF assms(1)]
  by (fastforce simp: ValidateSealedSecret_def split: outcome.splits prod.splits sum.splits option.splits)

lemma reencryptLoop_files [frames]:
  "file_env E files \<Longrightarrow> reencryptLoop E L X fmt ns service ss out e = (r, out', e') \<Longrightarrow> files e' = files e"
  by (induction E L X fmt ns service ss out e rule: reencryptLoop.induct)
    (auto split: sum.splits prod.splits option.splits dest: file_envD(9))

lemma ReEncryptSealedSecret_files [frames]:
  assumes "file_env E files" "ReEncryptSealedSecret E L X Y ns n fmt input out e = Some (Ret (r, out', e'))"
  shows "files e' = files e"
  using assms(2) controllerService_files [OF assms(1)] reencryptLoop_files [OF assms(1)]
  by (fastforce simp: ReEncryptSealedSecret_def split: outcome.splits prod.splits sum.splits option.splits)

lemma readPrivKeysFromFile_files [frames]:
  assumes "file_env E files" "readPrivKeysFromFile L X Y E n e = Some (r, e')"
  shows "files e' = files e"
  using assms(2) by (auto simp: readPrivKeysFromFile_def split: prod.splits sum.splits option.splits
      dest!: file_envD(2) [OF assms(1)])

lemma readPrivKeys_files [frames]:
  "file_env E files \<Longrightarrow> readPrivKeys C L X Y E names res e = Some (r, e') \<Longrightarrow> files e' = files e"
  by (induction C L X Y E names res e rule: readPrivKeys.induct)
    (auto split: sum.splits prod.splits option.splits dest: readPrivKeysFromFile_files)

lemma UnsealSealedSecret_files [frames]:
  assumes "file_env E files" "UnsealSealedSecret C L X Y E v1 w input names fmt e = Some (r, w', e')"
  shows "files e' = files e"
  using assms(2) by (auto simp: UnsealSealedSecret_def split: option.splits prod.splits sum.splits
      dest!: readPrivKeys_files [OF assms(1)])

lemma runRaw_files [frames]:
  assumes "file_env E files" "runRaw C E flags pub w rnd e = (r, w', e')"
  shows "files e' = files e"
  using assms(2) by (auto simp: runRaw_def rawNamespace_def rawData_def split: prod.splits sum.splits if_splits
      option.splits list.splits dest!: file_envD [OF assms(1)])


lemma runSealing_files [frames]:
  assumes "file_env (pk_env K) files" "cf_mergeInto flags = ''''" and input: "\<forall>e. files (snd (input e)) = files e"
    and run: "runSealing K flags input pub w rnd e = Some (Ret (r, w', e'))"
  shows "files e' = files e"
proof -
  have input': "\<And>e r e'. input e = (r, e') \<Longrightarrow> files e' = files e" using input by (metis snd_conv)
  show ?thesis
    using assms(2) run by (auto simp: runSealing_def split: if_splits prod.splits
        dest!: file_envD [OF assms(1)] input' runRaw_files [OF assms(1)])
qed

lemma runOperation_files [frames]:
  assumes "file_env (pk_env K) files" "cf_mergeInto flags = ''''" and input: "\<forall>e. files (snd (input e)) = files e"
    and run: "runOperation K v1 now flags input w rnd e = Some (Ret (r, w', e'))"
  shows "files e' = files e"
proof -
  have input': "\<And>e r e'. input e = (r, e') \<Longrightarrow> files e' = files e" using input by (metis snd_conv)
  note ops = UnsealSealedSecret_files [OF assms(1)] ValidateSealedSecret_files [OF assms(1)]
    ReEncryptSealedSecret_files [OF assms(1)] OpenCert_files [OF assms(1)] runSealing_files [OF assms(1,2) input]
  consider "cf_unseal flags" | "\<not> cf_unseal flags" "cf_validateSecret flags"
    | "\<not> cf_unseal flags" "\<not> cf_validateSecret flags" "cf_reEncrypt flags"
    | "\<not> cf_unseal flags" "\<not> cf_validateSecret flags" "\<not> cf_reEncrypt flags" by blast
  then show ?thesis
  proof cases
    case 1
    then show ?thesis using run by (auto simp: runOperation_def split: prod.splits dest!: input' ops(1))
  next
    case 2
    then show ?thesis using run
      by (auto simp: runOperation_def outcome_simps split: prod.splits dest!: input' ops(2))
  next
    case 3
    then show ?thesis using run by (auto simp: runOperation_def split: prod.splits dest!: input' ops(3))
  next
    case 4
    then show ?thesis using run
      by (auto simp: runOperation_def split: outcome.splits prod.splits sum.splits if_splits dest!: ops(4,5))
  qed
qed

section \<open>The output file\<close>

lemma openInput_files:
  assumes "file_env E files" "openInput E flags e = (Inr input, e1)"
  shows "files e1 = files e" "\<forall>e. files (snd (input e)) = files e"
proof -
  have "\<forall>e. files (snd (StdinRead E e)) = files e" using assms(1) by (simp add: file_env_def)
  then show "files e1 = files e" "\<forall>e. files (snd (input e)) = files e"
    using assms(2) by (auto simp: openInput_def split: if_splits prod.splits sum.splits dest!: file_envD [OF assms(1)])
qed

text \<open>A run of the operation the flags choose.\<close>

lemma runCLI_leaves_files:
  assumes env: "file_env (pk_env K) files" and merge: "cf_mergeInto flags = ''''"
    and run: "runCLI K v1 now flags w rnd e = Some (Ret (err, w', e'))"
  shows "(err \<noteq> None \<longrightarrow> files e' = files e)
    \<and> (\<forall>name. name \<noteq> cf_outputFileName (outputFlags flags) \<longrightarrow> files e' name = files e name)
    \<and> (cf_outputFileName (outputFlags flags) \<noteq> '''' \<longrightarrow> w' = w)"
proof -
  consider (quick) "e' = e" "w' = w" | (input) e1 m where "openInput (pk_env K) flags e = (Inl m, e1)" "e' = e1" "w' = w"
    | (go) input e1 where "openInput (pk_env K) flags e = (Inr input, e1)"
      "(let flags = outputFlags flags in
        if cf_outputFileName flags = '''' then runOperation K v1 now flags input w rnd e1
        else (case TempFile (pk_env K) (cf_outputFileName flags) e1 of
                (Some err, e) \<Rightarrow> Some (Ret (Some err, w, e))
              | (None, e) \<Rightarrow> map_option (\<lambda>m. obind m (\<lambda>(err, f, e). Ret (err, w,
                  if err = None then CloseAtomicallyReplace (pk_env K) (cf_outputFileName flags) f e else e)))
                    (runOperation K v1 now flags input [] rnd e))) = Some (Ret (err, w', e'))"
    using run by (auto simp: runCLI_def split: if_splits prod.splits sum.splits)
  then show ?thesis
  proof cases
    case quick
    then show ?thesis by simp
  next
    case input
    then have "files e' = files e"
      by (auto simp: openInput_def split: if_splits prod.splits sum.splits dest!: file_envD [OF env])
    with input show ?thesis by simp
  next
    case go
    note files1 = openInput_files [OF env go(1)]
    have m: "cf_mergeInto (outputFlags flags) = ''''"
      using merge by (simp add: outputFlags_def Let_def)
    note op = runOperation_files [OF env m files1(2)]
    show ?thesis
    proof (cases "cf_outputFileName (outputFlags flags) = ''''")
      case True
      then have "runOperation K v1 now (outputFlags flags) input w rnd e1 = Some (Ret (err, w', e'))"
        using go(2) by (simp add: Let_def)
      with op files1(1) True show ?thesis by simp
    next
      case False
      then consider (tmp) e2 m where "TempFile (pk_env K) (cf_outputFileName (outputFlags flags)) e1 = (Some m, e2)" "e' = e2" "w' = w"
        | (written) e2 f e3 where "TempFile (pk_env K) (cf_outputFileName (outputFlags flags)) e1 = (None, e2)"
          "runOperation K v1 now (outputFlags flags) input [] rnd e2 = Some (Ret (err, f, e3))" "w' = w"
          "e' = (if err = None then CloseAtomicallyReplace (pk_env K) (cf_outputFileName (outputFlags flags)) f e3 else e3)"
        using go(2) by (auto simp: Let_def outcome_simps split: prod.splits option.splits)
      then show ?thesis
      proof cases
        case tmp
        with files1(1) file_envD(12) [OF env tmp(1)] show ?thesis by simp
      next
        case written
        have "files e3 = files e"
          using op [OF written(2)] file_envD(12) [OF env written(1)] files1(1) by simp
        with written(3,4) file_envD(13) [OF env] show ?thesis by (cases err) auto
      qed
    qed
  qed
qed



text \<open>An environment that consists of its files, and simple packages around it.\<close>

definition sampleEnv :: "(string \<Rightarrow> bytes option) cli_env" where
  "sampleEnv = \<lparr>
     OsOpen = (\<lambda>n e. (case e n of None \<Rightarrow> Inl (LibError ''no such file'') | Some b \<Rightarrow> Inr (Inr b), e)),
     OsReadFile = (\<lambda>n e. (case e n of None \<Rightarrow> Inl (LibError ''no such file'') | Some b \<Rightarrow> Inr b, e)),
     HttpGet = (\<lambda>u e. (Inl (LibError ''offline''), e)),
     ClientConfig = (\<lambda>e. (None, e)), NewForConfig = (\<lambda>e. (None, e)),
     ConfigNamespace = (\<lambda>e. ((''default'', False, None), e)),
     ServicesGet = (\<lambda>ns n e. (Inr [''http''], e)),
     ProxyGet = (\<lambda>ns n p u e. (Inl (LibError ''offline''), e)),
     ProxyPost = (\<lambda>ns n u b e. ((Some (LibError ''offline''), Inl (LibError ''offline'')), e)),
     FileOpen = (\<lambda>n e. (case e n of None \<Rightarrow> Inl (LibError ''no such file'') | Some b \<Rightarrow> Inr (Inr b), e)),
     FileTruncate = (\<lambda>n e. (None, e(n \<mapsto> []))), FileSeek = (\<lambda>n e. (None, e)),
     FileCopy = (\<lambda>n b e. (None, e(n \<mapsto> b))), FileClose = (\<lambda>n e. (None, e)),
     StdinRead = (\<lambda>e. (Inr [], e)), TempFile = (\<lambda>n e. (None, e)),
     CloseAtomicallyReplace = (\<lambda>n b e. e(n \<mapsto> b)) \<rparr>"

definition sampleCli :: cli_lib where
  "sampleCli = \<lparr> FormatDate = (\<lambda>t. ''May 1, 2024''), UrlParse = (\<lambda>s. Inr ''''),
     JoinSchemeNamePort = (\<lambda>s n p. s @ '':'' @ n @ '':'' @ p), HasSerializer = (\<lambda>m. True),
     EncodeObject = (\<lambda>m obj. Inr [1]), DecodeSealedSecretInto = (\<lambda>b. Inl (LibError ''no object'')),
     DecodeListInto = (\<lambda>b. Inl (LibError ''no list'')), ShowPrivateKeyType = (\<lambda>k. ''key'') \<rparr>"

definition samplePackages :: "((Secret option \<times> decode_error) list, string \<Rightarrow> bytes option) cli_packages" where
  "samplePackages = \<lparr> pk_crypto = sampleCrypto, pk_kube = sampleKube, pk_cli = sampleCli,
     pk_yaml = sampleYaml [], pk_env = sampleEnv \<rparr>"

definition fetchFlags :: cliFlags where
  "fetchFlags = defaultCliFlags\<lparr>cf_certURL := ''c.pem'', cf_dumpCert := True, cf_outputFileName := ''out.pem''\<rparr>"

lemma sample_file_env: "file_env (pk_env samplePackages) (\<lambda>e. e)"
  by (simp add: samplePackages_def file_env_def sampleEnv_def)

definition samplePflags :: pflag_lib where
  "samplePflags = \<lparr> SetBool = (\<lambda>s old. (None, s = ''true'')), SetInt = (\<lambda>s old. (None, old)),
     SetDuration = (\<lambda>s old. (None, old)), SetFloat32 = (\<lambda>s old. (None, s)),
     SetStringSlice = (\<lambda>s old. (None, old @ Split (CHR '','') s)) \<rparr>"

lemma sample_fetch:
  "runCLI samplePackages True 0 fetchFlags [] [] e = Some (Ret (case e ''c.pem'' of
      None \<Rightarrow> (Some (LibError ''no such file''), [], e) | Some b \<Rightarrow> (None, [], e(''out.pem'' \<mapsto> b))))"
  by (simp add: runCLI_def samplePackages_def fetchFlags_def defaultCliFlags_def outputFlags_def openInput_def
      filepathExt_def sampleEnv_def sampleCli_def runOperation_def OpenCert_def openCertLocal_def isFilename_def
      ToLower_def Let_def split: option.splits)

lemma sample_parsed:
  "parsedFlags samplePflags (\<lambda>_. None) [(''cert'', ''c.pem''), (''fetch-cert'', ''true''), (''sealed-secret-file'', ''out.pem'')]
    = Inr (False, fetchFlags)"
  by code_simp


section \<open>Where a flag's value comes from\<close>

lemmas command_flags = commandFlags_def bindFlags_def

lemma commandFlags_distinct: "distinct (map flag_Name (commandFlags P))"
  by (simp add: command_flags)

definition stringFlag :: "string \<Rightarrow> (cliFlags \<Rightarrow> string) \<Rightarrow> (string \<Rightarrow> cliFlags \<Rightarrow> cliFlags) \<Rightarrow> (bool \<times> cliFlags) flag" where
  "stringFlag name get_field put_field = \<lparr> flag_Name = name,
     flag_Set = (\<lambda>s (pv, f). case flag_Set (boundFlag name SetString get_field put_field) s f of (err, f) \<Rightarrow> (err, (pv, f))) \<rparr>"

interpretation controller_name: flag_field "commandFlags P"
  "stringFlag ''controller-name'' cf_controllerName (\<lambda>v f. f\<lparr>cf_controllerName := v\<rparr>)"
  "\<lambda>(pv, f). cf_controllerName f" "\<lambda>s. s"
proof unfold_locales
  show "stringFlag ''controller-name'' cf_controllerName (\<lambda>v f. f\<lparr>cf_controllerName := v\<rparr>) \<in> set (commandFlags P)"
    by (simp add: command_flags stringFlag_def)
  show "distinct (map flag_Name (commandFlags P))" by (rule commandFlags_distinct)
qed (auto simp: command_flags stringFlag_def SetString_def split: prod.splits)


interpretation controller_ns: flag_field "commandFlags P"
  "stringFlag ''controller-namespace'' cf_controllerNs (\<lambda>v f. f\<lparr>cf_controllerNs := v\<rparr>)"
  "\<lambda>(pv, f). cf_controllerNs f" "\<lambda>s. s"
proof unfold_locales
  show "stringFlag ''controller-namespace'' cf_controllerNs (\<lambda>v f. f\<lparr>cf_controllerNs := v\<rparr>) \<in> set (commandFlags P)"
    by (simp add: command_flags stringFlag_def)
  show "distinct (map flag_Name (commandFlags P))" by (rule commandFlags_distinct)
qed (auto simp: command_flags stringFlag_def SetString_def split: prod.splits)

interpretation cert_flag: flag_field "commandFlags P"
  "stringFlag ''cert'' cf_certURL (\<lambda>v f. f\<lparr>cf_certURL := v\<rparr>)"
  "\<lambda>(pv, f). cf_certURL f" "\<lambda>s. s"
proof unfold_locales
  show "stringFlag ''cert'' cf_certURL (\<lambda>v f. f\<lparr>cf_certURL := v\<rparr>) \<in> set (commandFlags P)"
    by (simp add: command_flags stringFlag_def)
  show "distinct (map flag_Name (commandFlags P))" by (rule commandFlags_distinct)
qed (auto simp: command_flags stringFlag_def SetString_def split: prod.splits)

lemma stringFlag_Name [simp]: "flag_Name (stringFlag name get_field put_field) = name"
  by (simp add: stringFlag_def)

lemma flag_variables:
  "envName flagEnvPrefix ''controller-name'' = ''SEALED_SECRETS_CONTROLLER_NAME''"
  "envName flagEnvPrefix ''controller-namespace'' = ''SEALED_SECRETS_CONTROLLER_NAMESPACE''"
  "envName flagEnvPrefix ''cert'' = ''SEALED_SECRETS_CERT''"
  by code_simp+



end
