(* ===== verification/MergeProps.thy ===== *)
theory MergeProps
  imports Kubeseal SealingProps ControllerProps
begin

text \<open>
  Adding items to sealed secrets that exist already: \<open>kubeseal --merge-into\<close> and the raw mode.
\<close>

section \<open>Merging\<close>

lemma map_put_all_entries:
  "map_put_all src dst = Ret m \<Longrightarrow> map_entries m = put_all (map_entries src) (map_entries dst)"
  by (auto simp: map_put_all_def map_entries_def split: list.splits option.splits)

lemma opens_list_put_all:
  "opens_list decode dec out plain \<Longrightarrow> opens_list decode dec upd uplain \<Longrightarrow>
    opens_list decode dec (put_all upd out) (put_all uplain plain)"
proof (induction upd arbitrary: uplain out plain)
  case (Cons a upd)
  obtain k t where a: "a = (k, t)" by (cases a)
  with Cons.prems(2) obtain v rest where u: "uplain = (k, v) # rest" "opens_as decode dec t v" "opens_list decode dec upd rest"
    by (cases uplain) (auto simp: opens_list_def)
  then show ?case
    using Cons.IH [OF opens_list_update [OF Cons.prems(1) u(2)] u(3)] by (simp add: a)
qed (simp add: opens_list_def)

lemma mergeSealed_Ret:
  assumes "mergeSealed orig update = Ret m"
  obtains "map_put_all (spec_EncryptedData (ss_Spec update)) (spec_EncryptedData (ss_Spec orig))
      = Ret (spec_EncryptedData (ss_Spec m))"
    "map_put_all (om_Annotations (tmpl_Meta (spec_Template (ss_Spec update))))
      (om_Annotations (tmpl_Meta (spec_Template (ss_Spec orig)))) = Ret (om_Annotations (tmpl_Meta (spec_Template (ss_Spec m))))"
    "map_put_all (om_Labels (tmpl_Meta (spec_Template (ss_Spec update))))
      (om_Labels (tmpl_Meta (spec_Template (ss_Spec orig)))) = Ret (om_Labels (tmpl_Meta (spec_Template (ss_Spec m))))"
    "map_put_all (tmpl_Data (spec_Template (ss_Spec update))) (tmpl_Data (spec_Template (ss_Spec orig)))
      = Ret (tmpl_Data (spec_Template (ss_Spec m)))"
    "ss_Meta m = ss_Meta orig" "spec_Data (ss_Spec m) = spec_Data (ss_Spec orig)"
    "tmpl_Type (spec_Template (ss_Spec m)) = tmpl_Type (spec_Template (ss_Spec orig))"
    "tmpl_Immutable (spec_Template (ss_Spec m)) = tmpl_Immutable (spec_Template (ss_Spec orig))"
  using assms by (auto simp: mergeSealed_def Let_def outcome_simps)

text \<open>Unsealing without templates, given what the entries open to.\<close>

lemma Unseal_plain:
  assumes "spec_Data (ss_Spec s) = None" "map_entries (tmpl_Data (spec_Template (ss_Spec s))) = []"
    "opens_list DecodeString (\<lambda>ct. HybridDecrypt C ks ct (labelFor (ss_Meta s)))
      (map_entries (spec_EncryptedData (ss_Spec s))) plain"
  shows "Unseal C L v1 ks s = Inr (finishUnseal L s
    \<lparr> sec_Meta = tmpl_Meta (spec_Template (ss_Spec s)), sec_Immutable = tmpl_Immutable (spec_Template (ss_Spec s)),
      sec_Data = Some (put_all plain []), sec_StringData = None, sec_Type = tmpl_Type (spec_Template (ss_Spec s)) \<rparr>)"
  using unsealItems_opens [OF assms(3), of "[]" "[]" "[]"] assms(1,2)
  by (simp add: Unseal_def unsealEncryptedData_def Let_def)

lemma Unseal_plain_entries:
  assumes "Unseal C L v1 ks s = Inr secret" "spec_Data (ss_Spec s) = None"
    "map_entries (tmpl_Data (spec_Template (ss_Spec s))) = []"
  obtains plain where "opens_list DecodeString (\<lambda>ct. HybridDecrypt C ks ct (labelFor (ss_Meta s)))
      (map_entries (spec_EncryptedData (ss_Spec s))) plain" "sec_Data secret = Some (put_all plain [])"
proof -
  obtain secret0 where "unsealEncryptedData C L ks s (labelFor (ss_Meta s)) = Inr secret0"
    and fin: "secret = finishUnseal L s secret0"
    using assms(1,2) by (auto simp: Unseal_def Let_def split: sum.splits)
  then show thesis
    using that assms(3) by (elim unsealEncryptedData_Inr) auto
qed

lemma sealed_no_templates:
  assumes "NewSealedSecret C pub secret rnd = (Inr s, rnd')"
  shows "tmpl_Data (spec_Template (ss_Spec s)) = None"
  by (rule NewSealedSecret_Inr [OF assms]) (simp add: sealTemplate_def Let_def)

lemma opens_list_distinct:
  assumes "opens_list decode dec out plain" "distinct (map fst out)"
  shows "distinct (map fst plain)"
  using assms opens_list_keys [OF assms(1)] by simp

lemma merged_unseals:
  assumes merge: "mergeSealed orig update = Ret m"
    and orig: "Unseal C L v1 ks orig = Inr old" "spec_Data (ss_Spec orig) = None"
      "map_entries (tmpl_Data (spec_Template (ss_Spec orig))) = []" "map_wf (spec_EncryptedData (ss_Spec orig))"
    and update: "NewSealedSecret C pub secret rnd = (Inr update, rnd')" "secret_wf secret"
    and sound: "crypto_sound C pub (labelFor (sec_Meta secret))" "holds_key ks pub"
    and label: "labelFor (ss_Meta orig) = labelFor (sec_Meta secret)"
  shows "\<exists>new. Unseal C L v1 ks m = Inr new
    \<and> map_get (sec_Data new) = overlay (map_get (sec_Data old)) (plainValue secret)
    \<and> sec_Type new = tmpl_Type (spec_Template (ss_Spec orig))
    \<and> om_Name (sec_Meta new) = om_Name (ss_Meta orig) \<and> om_Namespace (sec_Meta new) = om_Namespace (ss_Meta orig)"
proof (rule mergeSealed_Ret [OF merge])
  assume enc: "map_put_all (spec_EncryptedData (ss_Spec update)) (spec_EncryptedData (ss_Spec orig))
      = Ret (spec_EncryptedData (ss_Spec m))"
    and tmpl: "map_put_all (tmpl_Data (spec_Template (ss_Spec update))) (tmpl_Data (spec_Template (ss_Spec orig)))
      = Ret (tmpl_Data (spec_Template (ss_Spec m)))"
    and meta: "ss_Meta m = ss_Meta orig" "spec_Data (ss_Spec m) = spec_Data (ss_Spec orig)"
      "tmpl_Type (spec_Template (ss_Spec m)) = tmpl_Type (spec_Template (ss_Spec orig))"
  let ?dec = "\<lambda>ct. HybridDecrypt C ks ct (labelFor (ss_Meta orig))"
  obtain plain where plain: "opens_list DecodeString ?dec (map_entries (spec_EncryptedData (ss_Spec orig))) plain"
    and old: "sec_Data old = Some (put_all plain [])"
    using Unseal_plain_entries [OF orig(1-3)] by blast
  have dist: "distinct (map fst plain)"
    using orig(4) by (intro opens_list_distinct [OF plain]) (simp add: map_wf_def)
  have opens: "opens_list DecodeString ?dec (map_entries (spec_EncryptedData (ss_Spec m))) (put_all (plainEntries secret) plain)"
    using opens_list_put_all [OF plain] sealed_opens [OF sound update(1)]
    by (simp add: map_put_all_entries [OF enc] label)
  have "map_entries (tmpl_Data (spec_Template (ss_Spec m))) = []"
    using map_put_all_entries [OF tmpl] orig(3) by (simp add: sealed_no_templates [OF update(1)])
  then have un: "Unseal C L v1 ks m = Inr (finishUnseal L m
    \<lparr> sec_Meta = tmpl_Meta (spec_Template (ss_Spec m)), sec_Immutable = tmpl_Immutable (spec_Template (ss_Spec m)),
      sec_Data = Some (put_all (put_all (plainEntries secret) plain) []), sec_StringData = None,
      sec_Type = tmpl_Type (spec_Template (ss_Spec m)) \<rparr>)"
    using opens orig(2) by (intro Unseal_plain) (simp_all add: meta)
  have "map_of (put_all (put_all (plainEntries secret) plain) []) = overlay (map_get (sec_Data old)) (plainValue secret)"
    by (rule ext) (simp add: put_all_Nil_value dist map_of_put_all distinct_plainEntries overlay_def old
      plainEntries_value [OF update(2)] map_get_def split: option.splits)
  then show ?thesis
    by (simp add: un meta map_get_def fun_eq_iff)
qed

lemma merged_refused:
  assumes merge: "mergeSealed orig update = Ret m" and "spec_Data (ss_Spec orig) = None"
    and update: "NewSealedSecret C pub secret rnd = (Inr update, rnd')"
      "map_entries (sec_Data secret) \<noteq> [] \<or> map_entries (sec_StringData secret) \<noteq> []"
    and sep: "label_separated C pub (labelFor (sec_Meta secret)) (labelFor (ss_Meta orig))"
  shows "isl (Unseal C L v1 ks m)"
proof (rule mergeSealed_Ret [OF merge])
  assume enc: "map_put_all (spec_EncryptedData (ss_Spec update)) (spec_EncryptedData (ss_Spec orig))
      = Ret (spec_EncryptedData (ss_Spec m))"
    and meta: "ss_Meta m = ss_Meta orig" "spec_Data (ss_Spec m) = spec_Data (ss_Spec orig)"
  obtain k t where kt: "(k, t) \<in> set (map_entries (spec_EncryptedData (ss_Spec update)))"
    using sealed_has_entries [OF update] by (cases "map_entries (spec_EncryptedData (ss_Spec update))") auto
  have dist: "distinct (map fst (map_entries (spec_EncryptedData (ss_Spec update))))"
    using sealed_entries(1) [OF update(1)] by (simp add: map_wf_def)
  then have "map_of (map_entries (spec_EncryptedData (ss_Spec m))) k = Some t"
    using kt by (simp add: map_put_all_entries [OF enc] map_of_put_all)
  then have "(k, t) \<in> set (map_entries (spec_EncryptedData (ss_Spec m)))" by (rule map_of_SomeD)
  moreover have "rejected DecodeString (\<lambda>ct. HybridDecrypt C ks ct (labelFor (ss_Meta orig))) t"
    by (rule sealed_entries_rejected [OF sep update(1) kt])
  ultimately show ?thesis
    using Unseal_rejected assms(2) meta by metis
qed

text \<open>
  C14: merging new items into a sealed secret. The merged object unseals to the old values with the new
  ones laid over them, under the old name, namespace and type, when the new items were sealed
  under the label of the old object. When they were not (another \<open>--scope\<close>, or an input annotated
  with another scope: the object's own annotations are not merged), nothing of the merged object
  can be unsealed any more, the old values included.
\<close>

theorem merge_into_unseals:
  assumes "mergeSealed orig update = Ret m" "Unseal C L v1 ks orig = Inr old" "spec_Data (ss_Spec orig) = None"
    "map_entries (tmpl_Data (spec_Template (ss_Spec orig))) = []" "map_wf (spec_EncryptedData (ss_Spec orig))"
    "NewSealedSecret C pub secret rnd = (Inr update, rnd')" "secret_wf secret"
    "map_entries (sec_Data secret) \<noteq> [] \<or> map_entries (sec_StringData secret) \<noteq> []"
    "crypto_sound C pub (labelFor (sec_Meta secret))" "holds_key ks pub"
    "oaep_label_bound C (labelFor (sec_Meta secret)) (labelFor (ss_Meta orig))"
  shows "if labelFor (ss_Meta orig) = labelFor (sec_Meta secret)
    then \<exists>new. Unseal C L v1 ks m = Inr new
      \<and> map_get (sec_Data new) = overlay (map_get (sec_Data old)) (plainValue secret)
      \<and> sec_Type new = tmpl_Type (spec_Template (ss_Spec orig))
      \<and> om_Name (sec_Meta new) = om_Name (ss_Meta orig) \<and> om_Namespace (sec_Meta new) = om_Namespace (ss_Meta orig)
    else isl (Unseal C L v1 ks m)"
proof (cases "labelFor (ss_Meta orig) = labelFor (sec_Meta secret)")
  case True
  with merged_unseals [OF assms(1-7,9,10)] show ?thesis by simp
next
  case False
  then have "label_separated C pub (labelFor (sec_Meta secret)) (labelFor (ss_Meta orig))"
    using assms(9,11) by (auto simp: label_separated_def crypto_sound_def)
  with merged_refused [OF assms(1,3,6,8)] False show ?thesis by simp
qed

text \<open>A second secret of the same name and namespace, to be merged into the sample.\<close>

definition sampleUpdate :: Secret where
  "sampleUpdate = sampleSecret\<lparr>sec_Data := Some [(''token'', [5])], sec_StringData := None\<rparr>"

lemma sampleUpdate_simps: "sec_Meta sampleUpdate = sec_Meta sampleSecret" "map_entries (sec_Data sampleUpdate) = [(''token'', [5])]"
  "map_entries (sec_StringData sampleUpdate) = []" "secret_wf sampleUpdate"
  by (simp_all add: sampleUpdate_def secret_wf_def)

lemma sampleUpdate_seals:
  "\<exists>update r. NewSealedSecret sampleCrypto (rsaPublicKey sampleKey) sampleUpdate sampleRandom = (Inr update, r)"
proof -
  have "\<not> missingNamespace sampleUpdate"
    by (simp add: missingNamespace_def sampleUpdate_simps sampleSecret_def)
  then show ?thesis
    by (simp add: NewSealedSecret_def Let_def sampleUpdate_simps string_items_def sample_HybridEncrypt sampleRandom_def)
qed

lemma sealed_template_maps:
  assumes "NewSealedSecret C pub secret rnd = (Inr s, rnd')" "om_Annotations (sec_Meta secret) = None" "om_Labels (sec_Meta secret) = None"
  shows "om_Annotations (tmpl_Meta (spec_Template (ss_Spec s))) = None" "om_Labels (tmpl_Meta (spec_Template (ss_Spec s))) = None"
    "\<exists>out. spec_EncryptedData (ss_Spec s) = Some out"
  by (rule NewSealedSecret_Inr [OF assms(1)];
      simp add: sealTemplate_def Let_def assms StripLastAppliedAnnotations_def)+

lemma sample_merge:
  obtains update r m where "NewSealedSecret sampleCrypto (rsaPublicKey sampleKey) sampleUpdate sampleRandom = (Inr update, r)"
    "mergeSealed sampleSealed update = Ret m"
proof -
  obtain update r where u: "NewSealedSecret sampleCrypto (rsaPublicKey sampleKey) sampleUpdate sampleRandom = (Inr update, r)"
    using sampleUpdate_seals by blast
  have "om_Annotations (sec_Meta sampleSecret) = None" "om_Labels (sec_Meta sampleSecret) = None"
    by (simp_all add: sampleSecret_def emptyObjectMeta_def)
  note maps = sealed_template_maps [OF sample_seals this]
    sealed_template_maps [OF u, unfolded sampleUpdate_simps(1), OF this]
  obtain out upd where "spec_EncryptedData (ss_Spec sampleSealed) = Some out" "spec_EncryptedData (ss_Spec update) = Some upd"
    using maps(3,6) by blast
  then have "\<exists>m. mergeSealed sampleSealed update = Ret m"
    by (cases upd) (simp_all add: mergeSealed_def Let_def map_put_all_def sealed_no_templates [OF u]
        sealed_no_templates [OF sample_seals] maps(1,2,4,5))
  with u that show thesis by blast
qed

lemma sampleUpdate_label: "labelFor (ss_Meta sampleSealed) = labelFor (sec_Meta sampleUpdate)"
  "crypto_sound sampleCrypto (rsaPublicKey sampleKey) (labelFor (sec_Meta sampleUpdate))"
  using sealed_label [OF sample_seals] sample_sound by (simp_all add: sampleUpdate_simps)

theorem merge_into_unseals_witness:
  "\<exists>update r m new. NewSealedSecret sampleCrypto (rsaPublicKey sampleKey) sampleUpdate sampleRandom = (Inr update, r)
    \<and> mergeSealed sampleSealed update = Ret m \<and> Unseal sampleCrypto sampleKube True sampleRing m = Inr new
    \<and> map_get (sec_Data new) ''token'' = Some [5]"
proof -
  obtain update r m where u: "NewSealedSecret sampleCrypto (rsaPublicKey sampleKey) sampleUpdate sampleRandom = (Inr update, r)"
    and m: "mergeSealed sampleSealed update = Ret m"
    by (rule sample_merge)
  obtain old where old: "Unseal sampleCrypto sampleKube True sampleRing sampleSealed = Inr old"
    using sample_unseals by blast
  have "\<exists>new. Unseal sampleCrypto sampleKube True sampleRing m = Inr new
      \<and> map_get (sec_Data new) = overlay (map_get (sec_Data old)) (plainValue sampleUpdate)"
    using merge_into_unseals [OF m old _ _ _ u sampleUpdate_simps(4) _ sampleUpdate_label(2) sample_holds_key]
      sealed_entries(1,3) [OF sample_seals] sealed_no_templates [OF sample_seals] sampleUpdate_label(1)
    by (auto simp: sampleUpdate_simps sample_oaep_label_bound)
  moreover have "plainValue sampleUpdate ''token'' = Some [5]"
    by (simp add: plainValue_def map_get_def sampleUpdate_simps)
  ultimately show ?thesis
    using u m by (auto simp: overlay_def)
qed

end
