(* ===== verification/RecoveryProps.thy ===== *)
theory RecoveryProps
  imports MergeProps KeyRegistryProps
begin

text \<open>
  Working without the controller: single items encrypted in raw mode, and the recovery mode, which
  unseals with the private keys found in backup files.
\<close>

section \<open>Raw items\<close>

text \<open>A sealed secret with an item pasted into its encrypted data.\<close>

definition withItem :: "SealedSecret \<Rightarrow> string \<Rightarrow> string \<Rightarrow> SealedSecret" where
  "withItem s k t = s\<lparr>ss_Spec := (ss_Spec s)\<lparr>spec_EncryptedData :=
     Some (AList.update k t (map_entries (spec_EncryptedData (ss_Spec s))))\<rparr>\<rparr>"

lemma withItem_simps [simp]:
  "ss_Meta (withItem s k t) = ss_Meta s" "spec_Data (ss_Spec (withItem s k t)) = spec_Data (ss_Spec s)"
  "spec_Template (ss_Spec (withItem s k t)) = spec_Template (ss_Spec s)"
  "map_entries (spec_EncryptedData (ss_Spec (withItem s k t))) = AList.update k t (map_entries (spec_EncryptedData (ss_Spec s)))"
  by (simp_all add: withItem_def)

lemma EncryptSecretItem_Ok:
  assumes "EncryptSecretItem C w name ns data scope pub rnd = (None, w', rnd')"
  obtains ct where "HybridEncrypt C rnd pub data (EncryptionLabel ns name scope) = (Inr ct, rnd')"
    "w' = w @ string_bytes (EncodeToString ct)"
  using assms by (auto simp: EncryptSecretItem_def Let_def split: prod.splits sum.splits)

text \<open>
  C16: the text that the raw mode prints, pasted under any key into a sealed secret whose namespace, name
  and scope give the label it was encrypted under, unseals to the given value; the other values
  stay as they were.
\<close>

theorem raw_item_opens:
  assumes "EncryptSecretItem C w name ns data scope pub rnd = (None, w', rnd')"
    "crypto_sound C pub (EncryptionLabel ns name scope)" "holds_key ks pub"
  shows "\<exists>t. w' = w @ string_bytes t \<and> (\<forall>s old k. labelFor (ss_Meta s) = EncryptionLabel ns name scope \<longrightarrow>
    Unseal C L v1 ks s = Inr old \<longrightarrow> spec_Data (ss_Spec s) = None \<longrightarrow>
    map_entries (tmpl_Data (spec_Template (ss_Spec s))) = [] \<longrightarrow> map_wf (spec_EncryptedData (ss_Spec s)) \<longrightarrow>
    (\<exists>new. Unseal C L v1 ks (withItem s k t) = Inr new
      \<and> map_get (sec_Data new) = (map_get (sec_Data old))(k \<mapsto> data) \<and> sec_Meta new = sec_Meta old))"
proof -
  obtain ct where ct: "HybridEncrypt C rnd pub data (EncryptionLabel ns name scope) = (Inr ct, rnd')"
    "w' = w @ string_bytes (EncodeToString ct)"
    using assms(1) by (rule EncryptSecretItem_Ok)
  show ?thesis
  proof (intro exI [of _ "EncodeToString ct"] conjI allI impI)
    show "w' = w @ string_bytes (EncodeToString ct)" by (rule ct(2))
  next
    fix s old k
    assume s: "labelFor (ss_Meta s) = EncryptionLabel ns name scope" "Unseal C L v1 ks s = Inr old"
      "spec_Data (ss_Spec s) = None" "map_entries (tmpl_Data (spec_Template (ss_Spec s))) = []"
      "map_wf (spec_EncryptedData (ss_Spec s))"
    let ?dec = "\<lambda>ct. HybridDecrypt C ks ct (labelFor (ss_Meta s))"
    obtain plain where plain: "opens_list DecodeString ?dec (map_entries (spec_EncryptedData (ss_Spec s))) plain"
      and old: "sec_Data old = Some (put_all plain [])"
      using Unseal_plain_entries [OF s(2-4)] by blast
    have dist: "distinct (map fst plain)"
      using s(5) by (intro opens_list_distinct [OF plain]) (simp add: map_wf_def)
    have "opens_as DecodeString ?dec (EncodeToString ct) data"
      using hybrid.dec_enc [OF assms(2,3) ct(1)] by (simp add: opens_as_def s(1))
    then have opens: "opens_list DecodeString ?dec
        (AList.update k (EncodeToString ct) (map_entries (spec_EncryptedData (ss_Spec s)))) (AList.update k data plain)"
      by (rule opens_list_update [OF plain])
    have "Unseal C L v1 ks s = Inr (finishUnseal L s \<lparr> sec_Meta = tmpl_Meta (spec_Template (ss_Spec s)),
        sec_Immutable = tmpl_Immutable (spec_Template (ss_Spec s)), sec_Data = Some (put_all plain []),
        sec_StringData = None, sec_Type = tmpl_Type (spec_Template (ss_Spec s)) \<rparr>)"
      by (rule Unseal_plain [OF s(3,4) plain])
    moreover have "Unseal C L v1 ks (withItem s k (EncodeToString ct)) = Inr (finishUnseal L (withItem s k (EncodeToString ct))
      \<lparr> sec_Meta = tmpl_Meta (spec_Template (ss_Spec s)), sec_Immutable = tmpl_Immutable (spec_Template (ss_Spec s)),
        sec_Data = Some (put_all (AList.update k data plain) []), sec_StringData = None,
        sec_Type = tmpl_Type (spec_Template (ss_Spec s)) \<rparr>)"
      using Unseal_plain [of "withItem s k (EncodeToString ct)"] s(3,4) opens by simp
    moreover have "map_of (put_all (AList.update k data plain) []) = (map_of (put_all plain []))(k \<mapsto> data)"
      by (rule ext) (simp add: put_all_Nil_value dist distinct_update map_of_AList_update)
    moreover have "ownerReference L (withItem s k t) = ownerReference L s" for t
      by (simp add: ownerReference_def withItem_def)
    ultimately show "\<exists>new. Unseal C L v1 ks (withItem s k (EncodeToString ct)) = Inr new
        \<and> map_get (sec_Data new) = (map_get (sec_Data old))(k \<mapsto> data) \<and> sec_Meta new = sec_Meta old"
      using s(2) by (auto simp: map_get_def fun_eq_iff finishUnseal_def Let_def)
  qed
qed

theorem raw_item_opens_witness:
  "\<exists>t r new. EncryptSecretItem sampleCrypto [] ''db'' ''prod'' [7] StrictScope (rsaPublicKey sampleKey) sampleRandom
      = (None, string_bytes t, r)
    \<and> Unseal sampleCrypto sampleKube True sampleRing (withItem sampleSealed ''extra'' t) = Inr new
    \<and> map_get (sec_Data new) ''extra'' = Some [7]"
proof -
  have label: "EncryptionLabel ''prod'' ''db'' StrictScope = labelFor (sec_Meta sampleSecret)" by code_simp
  obtain w r where run: "EncryptSecretItem sampleCrypto [] ''db'' ''prod'' [7] StrictScope (rsaPublicKey sampleKey) sampleRandom
      = (None, w, r)"
    by (simp add: EncryptSecretItem_def Let_def sample_HybridEncrypt sampleRandom_def)
  obtain old where old: "Unseal sampleCrypto sampleKube True sampleRing sampleSealed = Inr old"
    using sample_unseals by blast
  obtain t where t: "w = [] @ string_bytes t"
    and opens: "labelFor (ss_Meta sampleSealed) = EncryptionLabel ''prod'' ''db'' StrictScope \<longrightarrow>
      Unseal sampleCrypto sampleKube True sampleRing sampleSealed = Inr old \<longrightarrow> spec_Data (ss_Spec sampleSealed) = None \<longrightarrow>
      map_entries (tmpl_Data (spec_Template (ss_Spec sampleSealed))) = [] \<longrightarrow> map_wf (spec_EncryptedData (ss_Spec sampleSealed)) \<longrightarrow>
      (\<exists>new. Unseal sampleCrypto sampleKube True sampleRing (withItem sampleSealed ''extra'' t) = Inr new
        \<and> map_get (sec_Data new) = (map_get (sec_Data old))(''extra'' \<mapsto> [7]) \<and> sec_Meta new = sec_Meta old)"
    using raw_item_opens [OF run _ sample_holds_key, where L = sampleKube and ?v1.0 = True] sample_sound
    unfolding label by blast
  from opens old sealed_label [OF sample_seals] sealed_entries(1,3) [OF sample_seals] sealed_no_templates [OF sample_seals]
  obtain new where "Unseal sampleCrypto sampleKube True sampleRing (withItem sampleSealed ''extra'' t) = Inr new"
    "map_get (sec_Data new) = (map_get (sec_Data old))(''extra'' \<mapsto> [7])"
    by (auto simp: label)
  with run t show ?thesis by (intro exI [of _ t] exI [of _ r] exI [of _ new]) simp
qed

section \<open>The ring of a recovery\<close>

text \<open>The keys of the files form a key store like the registry's: the same contract, over the plain map.\<close>

definition ring_add ::
  "crypto_lib \<Rightarrow> (string \<times> rsa_private_key) list \<Rightarrow> rsa_private_key \<Rightarrow> Certificate \<Rightarrow> time
    \<Rightarrow> go_error option \<times> (string \<times> rsa_private_key) list" where
  "ring_add C ring key cert t = (case addFingerprints C [key] ring of Inl e \<Rightarrow> (Some e, ring) | Inr ring \<Rightarrow> (None, ring))"

definition ring_inv :: "crypto_lib \<Rightarrow> (string \<times> rsa_private_key) list \<Rightarrow> bool" where
  "ring_inv C ring \<longleftrightarrow> distinct (map fst ring) \<and> (\<forall>(fp, k) \<in> set ring. FingerprintSHA256 C (rsaPublicKey k) = Inr fp)"

lemma ring_add_cases:
  assumes "ring_add C ring key cert t = (err, ring')"
  obtains e where "err = Some e" "ring' = ring"
  | fp where "err = None" "FingerprintSHA256 C (rsaPublicKey key) = Inr fp" "ring' = AList.update fp key ring"
  using assms by (auto simp: ring_add_def PublicKeyFingerprint_def split: sum.splits)

lemma update_holds: "holds_key (AList.update fp key ring) (rsaPublicKey key)"
  using update_has [of fp key ring] unfolding holds_key_def by fast

lemma ring_add_inv:
  assumes "ring_inv C ring" "ring_add C ring key cert t = (err, ring')"
  shows "ring_inv C ring'"
  using assms(2)
proof (cases rule: ring_add_cases)
  case (2 fp)
  have d: "distinct (map fst ring)" using assms(1) by (simp add: ring_inv_def)
  with assms(1) 2 show ?thesis
    by (auto simp: ring_inv_def distinct_update update_member [OF d] split: if_splits)
qed (use assms(1) in simp)

lemma ring_add_keeps:
  assumes "fingerprints_injective C" "ring_inv C ring" "ring_add C ring key cert t = (err, ring')" "holds_key ring pub"
  shows "holds_key ring' pub"
  using assms(3)
proof (cases rule: ring_add_cases)
  case (2 fp)
  obtain j k where jk: "(j, k) \<in> set ring" "rsaPublicKey k = pub"
    using assms(4) by (auto simp: holds_key_def)
  show ?thesis
  proof (cases "j = fp")
    case True
    then have "rsaPublicKey key = pub"
      using jk assms(1,2) 2(2) unfolding fingerprints_injective_def ring_inv_def by fastforce
    then show ?thesis using 2(3) update_has [of fp key ring] by (auto simp: holds_key_def)
  next
    case False
    then show ?thesis using 2(3) jk update_other_stays [OF jk(1)] by (auto simp: holds_key_def)
  qed
qed (use assms(4) in simp)

interpretation recovery_ring: key_store ring_add "\<lambda>ring. ring" fingerprints_injective ring_inv
proof unfold_locales
  show "ring_inv C s \<Longrightarrow> ring_add C s key cert t = (err, s') \<Longrightarrow> ring_inv C s'" for C s key cert t err s'
    by (rule ring_add_inv)
  show "ring_add C s key cert t = (None, s') \<Longrightarrow> holds_key s' (rsaPublicKey key)" for C s key cert t s'
    by (erule ring_add_cases) (auto intro: update_holds)
  show "fingerprints_injective C \<Longrightarrow> ring_inv C s \<Longrightarrow> ring_add C s key cert t = (err, s') \<Longrightarrow> holds_key s pub
      \<Longrightarrow> holds_key s' pub" for C s key cert t err s' pub
    by (rule ring_add_keeps)
  show "ring_add C s key cert t = (Some e, s') \<Longrightarrow> s' = s" for C s key cert t e s'
    by (erule ring_add_cases) auto
qed


text \<open>What reading one file and all files adds to the ring.\<close>

lemma addFingerprints_add_all:
  "addFingerprints C pks ring = Inr ring' \<Longrightarrow> ring' = add_all ring_add C ring (map (\<lambda>k. (k, cert, t)) pks)"
  by (induction C pks ring rule: addFingerprints.induct) (auto simp: ring_add_def split: sum.splits)

lemma addFingerprints_total:
  "\<forall>p. \<exists>f. FingerprintSHA256 C p = Inr f \<Longrightarrow> \<exists>ring'. addFingerprints C pks ring = Inr ring'"
proof (induction C pks ring rule: addFingerprints.induct)
  case (2 C pk rest res)
  obtain f where "FingerprintSHA256 C (rsaPublicKey pk) = Inr f" using 2(2) by blast
  with 2 show ?case by (simp add: PublicKeyFingerprint_def)
qed simp

lemma addFingerprints_props:
  assumes "addFingerprints C pks ring = Inr ring'" "ring_inv C ring"
  shows "ring_inv C ring'" "fingerprints_injective C \<Longrightarrow> holds_key ring pub \<Longrightarrow> holds_key ring' pub"
  using addFingerprints_add_all [OF assms(1), of sampleCert 0] assms(2)
  by (simp_all add: recovery_ring.add_all_inv recovery_ring.add_all_keeps)

lemma addFingerprints_holds:
  "addFingerprints C pks ring = Inr ring' \<Longrightarrow> ring_inv C ring \<Longrightarrow> fingerprints_injective C \<Longrightarrow> key \<in> set pks
    \<Longrightarrow> holds_key ring' (rsaPublicKey key)"
proof (induction pks arbitrary: ring)
  case (Cons a pks)
  obtain fp where fp: "FingerprintSHA256 C (rsaPublicKey a) = Inr fp"
    and rest: "addFingerprints C pks (AList.update fp a ring) = Inr ring'"
    using Cons.prems(1) by (auto simp: PublicKeyFingerprint_def split: sum.splits)
  have one: "ring_add C ring a sampleCert 0 = (None, AList.update fp a ring)"
    by (simp add: ring_add_def PublicKeyFingerprint_def fp)
  note inv = ring_add_inv [OF Cons.prems(2) one]
  show ?case
  proof (cases "key = a")
    case True
    then show ?thesis
      using addFingerprints_props(2) [OF rest inv Cons.prems(3)] update_holds by simp
  next
    case False
    then show ?thesis using Cons.IH [OF rest inv Cons.prems(3)] Cons.prems(4) by simp
  qed
qed simp

lemma readPrivKeys_ring:
  assumes names: "\<forall>n \<in> set names. \<forall>e. readPrivKeysFromFile L X Y E n e = Some (Inr (keysIn n), e)"
    and fps: "\<forall>p. \<exists>f. FingerprintSHA256 C p = Inr f" "fingerprints_injective C"
  shows "ring_inv C ring \<Longrightarrow> \<exists>ring'. readPrivKeys C L X Y E names ring e = Some (Inr ring', e)
    \<and> (\<forall>pub. holds_key ring pub \<longrightarrow> holds_key ring' pub)
    \<and> (\<forall>n \<in> set names. \<forall>key \<in> set (keysIn n). holds_key ring' (rsaPublicKey key))"
  using names
proof (induction names arbitrary: ring)
  case (Cons n names)
  have read: "readPrivKeysFromFile L X Y E n e = Some (Inr (keysIn n), e)" using Cons.prems(2) by simp
  obtain ring1 where 1: "addFingerprints C (keysIn n) ring = Inr ring1"
    using addFingerprints_total [OF fps(1)] by blast
  note p = addFingerprints_props [OF 1 Cons.prems(1)]
  obtain ring' where "readPrivKeys C L X Y E names ring1 e = Some (Inr ring', e)"
    "\<forall>pub. holds_key ring1 pub \<longrightarrow> holds_key ring' pub"
    "\<forall>n \<in> set names. \<forall>key \<in> set (keysIn n). holds_key ring' (rsaPublicKey key)"
    using Cons.IH [OF p(1)] Cons.prems(2) by auto
  moreover have "\<forall>key \<in> set (keysIn n). holds_key ring1 (rsaPublicKey key)"
    using addFingerprints_holds [OF 1 Cons.prems(1) fps(2)] by blast
  ultimately show ?case
    using p(2) [OF fps(2)] by (auto simp: read 1)
qed simp

text \<open>
  C15: recovery without a cluster: given files from which \<open>kubeseal\<close> reads private keys, one of them the
  key a secret was sealed for (with any other keys, in any order and any number of files), the
  recovery mode prints a secret with exactly the original values, type and name. It changes
  nothing and leaves no panic or hang.
\<close>

theorem recovery_unseals:
  assumes "\<forall>n \<in> set names. \<forall>e. readPrivKeysFromFile L X Y E n e = Some (Inr (keysIn n), e)"
    "\<forall>p. \<exists>f. FingerprintSHA256 C p = Inr f" "fingerprints_injective C"
    "n \<in> set names" "key \<in> set (keysIn n)"
    "NewSealedSecret C (rsaPublicKey key) secret rnd = (Inr s0, rnd')" "secret_wf secret"
    "crypto_sound C (rsaPublicKey key) (labelFor (sec_Meta secret))"
    "decodeSealedSecret X b = Inr s" "ss_Spec s = ss_Spec s0" "labelFor (ss_Meta s) = labelFor (sec_Meta secret)"
  shows "\<exists>sec. UnsealSealedSecret C L X Y E v1 w (Inr b) names fmt e =
      Some (fst (resourceOutput X fmt (SecretObj sec) w), snd (resourceOutput X fmt (SecretObj sec) w), e)
    \<and> (\<forall>k. map_get (sec_Data sec) k = plainValue secret k) \<and> sec_Type sec = sec_Type secret
    \<and> om_Name (sec_Meta sec) = om_Name (ss_Meta s) \<and> om_Namespace (sec_Meta sec) = om_Namespace (ss_Meta s)"
proof -
  have "ring_inv C []" by (simp add: ring_inv_def)
  from readPrivKeys_ring [OF assms(1-3) this] obtain ring where
    ring: "readPrivKeys C L X Y E names [] e = Some (Inr ring, e)" "holds_key ring (rsaPublicKey key)"
    using assms(4,5) by blast
  obtain sec where un: "Unseal C L v1 ring s = Inr sec" and sec: "\<forall>k. map_get (sec_Data sec) k = plainValue secret k"
      "sec_Type sec = sec_Type secret" "om_Name (sec_Meta sec) = om_Name (ss_Meta s)"
      "om_Namespace (sec_Meta sec) = om_Namespace (ss_Meta s)"
    using Unseal_sealed [OF assms(8) ring(2) assms(6,10,11), of L v1]
    by (simp add: map_get_def put_all_Nil_value distinct_plainEntries plainEntries_value [OF assms(7)])
  have "UnsealSealedSecret C L X Y E v1 w (Inr b) names fmt e =
      Some (fst (resourceOutput X fmt (SecretObj sec) w), snd (resourceOutput X fmt (SecretObj sec) w), e)"
    by (simp add: UnsealSealedSecret_def ring(1) assms(9) un case_prod_unfold)
  with sec show ?thesis by blast
qed


text \<open>A directory with one key file.\<close>

definition keyFiles :: "unit cli_env" where
  "keyFiles = (let offline = LibError ''offline'' in \<lparr>
     OsOpen = (\<lambda>n e. (Inl offline, e)), OsReadFile = (\<lambda>n e. (if n = ''key.pem'' then Inr [1] else Inl offline, e)),
     HttpGet = (\<lambda>u e. (Inl offline, e)), ClientConfig = (\<lambda>e. (Some offline, e)), NewForConfig = (\<lambda>e. (Some offline, e)),
     ConfigNamespace = (\<lambda>e. (('''', False, None), e)), ServicesGet = (\<lambda>ns n e. (Inl offline, e)),
     ProxyGet = (\<lambda>ns n p u e. (Inl offline, e)), ProxyPost = (\<lambda>ns n u b e. ((Some offline, Inl offline), e)),
     FileOpen = (\<lambda>n e. (Inl offline, e)), FileTruncate = (\<lambda>n e. (None, e)), FileSeek = (\<lambda>n e. (None, e)),
     FileCopy = (\<lambda>n b e. (None, e)), FileClose = (\<lambda>n e. (None, e)), StdinRead = (\<lambda>e. (Inr [], e)),
     TempFile = (\<lambda>n e. (None, e)), CloseAtomicallyReplace = (\<lambda>n b e. e) \<rparr>)"

definition recoveryCli :: cli_lib where
  "recoveryCli = \<lparr> FormatDate = (\<lambda>t. ''''), UrlParse = (\<lambda>s. Inr ''''),
     JoinSchemeNamePort = (\<lambda>s n p. s), HasSerializer = (\<lambda>m. True),
     EncodeObject = (\<lambda>m obj. case obj of
         SecretObj s \<Rightarrow> (case map_get (sec_Data s) ''user'' of Some v \<Rightarrow> Inr v | None \<Rightarrow> Inl (LibError ''no user''))
       | _ \<Rightarrow> Inl (LibError ''not a secret'')),
     DecodeSealedSecretInto = (\<lambda>b. Inr sampleSealed), DecodeListInto = (\<lambda>b. Inl (LibError ''no list'')),
     ShowPrivateKeyType = (\<lambda>k. ''key'') \<rparr>"

theorem recovery_unseals_witness:
  "\<forall>Y :: nat yaml_lib. UnsealSealedSecret sampleCrypto sampleKube recoveryCli Y keyFiles True [] (Inr [9]) [''key.pem''] ''json'' ()
    = Some (None, [1, 2, 10], ())"
proof
  fix Y :: "nat yaml_lib"
  have read: "\<forall>n \<in> set [''key.pem'']. \<forall>e. readPrivKeysFromFile sampleKube recoveryCli Y keyFiles n e = Some (Inr [sampleKey], e)"
    by (simp add: readPrivKeysFromFile_def keyFiles_def parsePrivKey_def sampleKube_def Let_def)
  have fps: "\<forall>p. \<exists>f. FingerprintSHA256 sampleCrypto p = Inr f" "fingerprints_injective sampleCrypto"
    by (simp add: sampleCrypto_def) (rule sample_fingerprints)
  have wf: "secret_wf sampleSecret" by code_simp
  have dec: "decodeSealedSecret recoveryCli [9] = Inr sampleSealed"
    by (simp add: decodeSealedSecret_def recoveryCli_def)
  have out: "resourceOutput recoveryCli ''json'' (SecretObj sec) [] = (None, [1, 2, 10])"
    if "map_get (sec_Data sec) ''user'' = Some [1, 2]" for sec
    using that by (simp add: resourceOutput_def recoveryCli_def prettyEncoder_def ToLower_def lower_char_def Let_def
        ContentTypeJSON_def string_bytes_def)
  have user: "plainValue sampleSecret ''user'' = Some [1, 2]" by code_simp
  have mem: "''key.pem'' \<in> set [''key.pem'']" "sampleKey \<in> set [sampleKey]" by simp_all
  obtain sec where sec: "UnsealSealedSecret sampleCrypto sampleKube recoveryCli Y keyFiles True [] (Inr [9]) [''key.pem''] ''json'' () =
      Some (fst (resourceOutput recoveryCli ''json'' (SecretObj sec) []), snd (resourceOutput recoveryCli ''json'' (SecretObj sec) []), ())"
    "\<forall>k. map_get (sec_Data sec) k = plainValue sampleSecret k"
    using recovery_unseals [OF read fps mem sample_seals wf sample_sound dec refl sealed_label [OF sample_seals],
        of True "[]" "''json''" "()"] by blast
  then show "UnsealSealedSecret sampleCrypto sampleKube recoveryCli Y keyFiles True [] (Inr [9]) [''key.pem''] ''json'' ()
    = Some (None, [1, 2, 10], ())"
    using out [of sec] user by simp
qed


end
