(* ===== verification/ControllerMain.thy ===== *)
theory ControllerMain
  imports KeyRegistry Flags Controller
begin

text \<open>
  The start of the controller: its flags (\<open>cmd/controller/main.go\<close>), logging (\<open>pkg/log\<close>), the version
  (\<open>pkg/buildinfo\<close>) and \<open>Main\<close> of \<open>pkg/controller/main.go\<close> up to the point where everything runs:
  the key registry, the renewal of keys and one controller per namespace.
\<close>

section \<open>Flags\<close>

record Flags =
  fl_KeyPrefix :: string
  fl_KeySize :: int
  fl_ValidFor :: duration
  fl_MyCN :: string
  fl_KeyRenewPeriod :: duration
  fl_KeyOrderPriority :: string
  fl_AcceptV1Data :: bool
  fl_KeyCutoffTime :: string
  fl_NamespaceAll :: bool
  fl_AdditionalNamespaces :: string
  fl_LabelSelector :: string
  fl_RateLimitPerSecond :: int
  fl_RateLimitBurst :: int
  fl_OldGCBehavior :: bool
  fl_UpdateStatus :: bool
  fl_SkipRecreate :: bool
  fl_LogInfoToStdout :: bool
  fl_LogLevel :: string
  fl_LogFormat :: string
  fl_PrivateKeyAnnotations :: string
  fl_PrivateKeyLabels :: string
  fl_MaxRetries :: int
  fl_WatchForSecrets :: bool
  fl_KubeClientQPS :: string
  fl_KubeClientBurst :: int

text \<open>One hour in nanoseconds, and the constants of the command.\<close>

definition hour :: duration where "hour = 3600000000000"

definition controllerFlagEnvPrefix :: string where "controllerFlagEnvPrefix = ''SEALED_SECRETS''"
definition defaultKeyRenewPeriod :: duration where "defaultKeyRenewPeriod = 30 * 24 * hour"
definition defaultKeyOrderPriority :: string where "defaultKeyOrderPriority = ''CertNotBefore''"

definition defaultFlags :: Flags where
  "defaultFlags = \<lparr> fl_KeyPrefix = ''sealed-secrets-key'', fl_KeySize = 4096, fl_ValidFor = 10 * 365 * 24 * hour,
     fl_MyCN = '''', fl_KeyRenewPeriod = defaultKeyRenewPeriod, fl_KeyOrderPriority = defaultKeyOrderPriority,
     fl_AcceptV1Data = True, fl_KeyCutoffTime = '''', fl_NamespaceAll = True, fl_AdditionalNamespaces = '''',
     fl_LabelSelector = '''', fl_RateLimitPerSecond = 2, fl_RateLimitBurst = 2, fl_OldGCBehavior = False,
     fl_UpdateStatus = True, fl_SkipRecreate = False, fl_LogInfoToStdout = True, fl_LogLevel = ''INFO'',
     fl_LogFormat = ''text'', fl_PrivateKeyAnnotations = '''', fl_PrivateKeyLabels = '''', fl_MaxRetries = 5,
     fl_WatchForSecrets = False, fl_KubeClientQPS = ''5'', fl_KubeClientBurst = 10 \<rparr>"

definition bindControllerFlags :: "pflag_lib \<Rightarrow> Flags flag list" where
  "bindControllerFlags P =
    [boundFlag ''key-prefix'' SetString fl_KeyPrefix (\<lambda>v f. f\<lparr>fl_KeyPrefix := v\<rparr>),
     boundFlag ''key-size'' (SetInt P) fl_KeySize (\<lambda>v f. f\<lparr>fl_KeySize := v\<rparr>),
     boundFlag ''key-ttl'' (SetDuration P) fl_ValidFor (\<lambda>v f. f\<lparr>fl_ValidFor := v\<rparr>),
     boundFlag ''my-cn'' SetString fl_MyCN (\<lambda>v f. f\<lparr>fl_MyCN := v\<rparr>),
     boundFlag ''key-renew-period'' (SetDuration P) fl_KeyRenewPeriod (\<lambda>v f. f\<lparr>fl_KeyRenewPeriod := v\<rparr>),
     boundFlag ''key-order-priority'' SetString fl_KeyOrderPriority (\<lambda>v f. f\<lparr>fl_KeyOrderPriority := v\<rparr>),
     boundFlag ''accept-deprecated-v1-data'' (SetBool P) fl_AcceptV1Data (\<lambda>v f. f\<lparr>fl_AcceptV1Data := v\<rparr>),
     boundFlag ''key-cutoff-time'' SetString fl_KeyCutoffTime (\<lambda>v f. f\<lparr>fl_KeyCutoffTime := v\<rparr>),
     boundFlag ''all-namespaces'' (SetBool P) fl_NamespaceAll (\<lambda>v f. f\<lparr>fl_NamespaceAll := v\<rparr>),
     boundFlag ''additional-namespaces'' SetString fl_AdditionalNamespaces (\<lambda>v f. f\<lparr>fl_AdditionalNamespaces := v\<rparr>),
     boundFlag ''label-selector'' SetString fl_LabelSelector (\<lambda>v f. f\<lparr>fl_LabelSelector := v\<rparr>),
     boundFlag ''rate-limit'' (SetInt P) fl_RateLimitPerSecond (\<lambda>v f. f\<lparr>fl_RateLimitPerSecond := v\<rparr>),
     boundFlag ''rate-limit-burst'' (SetInt P) fl_RateLimitBurst (\<lambda>v f. f\<lparr>fl_RateLimitBurst := v\<rparr>),
     boundFlag ''privatekey-annotations'' SetString fl_PrivateKeyAnnotations (\<lambda>v f. f\<lparr>fl_PrivateKeyAnnotations := v\<rparr>),
     boundFlag ''privatekey-labels'' SetString fl_PrivateKeyLabels (\<lambda>v f. f\<lparr>fl_PrivateKeyLabels := v\<rparr>),
     boundFlag ''old-gc-behavior'' (SetBool P) fl_OldGCBehavior (\<lambda>v f. f\<lparr>fl_OldGCBehavior := v\<rparr>),
     boundFlag ''update-status'' (SetBool P) fl_UpdateStatus (\<lambda>v f. f\<lparr>fl_UpdateStatus := v\<rparr>),
     boundFlag ''watch-for-secrets'' (SetBool P) fl_WatchForSecrets (\<lambda>v f. f\<lparr>fl_WatchForSecrets := v\<rparr>),
     boundFlag ''skip-recreate'' (SetBool P) fl_SkipRecreate (\<lambda>v f. f\<lparr>fl_SkipRecreate := v\<rparr>),
     boundFlag ''log-info-stdout'' (SetBool P) fl_LogInfoToStdout (\<lambda>v f. f\<lparr>fl_LogInfoToStdout := v\<rparr>),
     boundFlag ''log-level'' SetString fl_LogLevel (\<lambda>v f. f\<lparr>fl_LogLevel := v\<rparr>),
     boundFlag ''log-format'' SetString fl_LogFormat (\<lambda>v f. f\<lparr>fl_LogFormat := v\<rparr>),
     boundFlag ''rotate-period'' (SetDuration P) fl_KeyRenewPeriod (\<lambda>v f. f\<lparr>fl_KeyRenewPeriod := v\<rparr>),
     boundFlag ''max-unseal-retries'' (SetInt P) fl_MaxRetries (\<lambda>v f. f\<lparr>fl_MaxRetries := v\<rparr>),
     boundFlag ''kubeclient-qps'' (SetFloat32 P) fl_KubeClientQPS (\<lambda>v f. f\<lparr>fl_KubeClientQPS := v\<rparr>),
     boundFlag ''kubeclient-burst'' (SetInt P) fl_KubeClientBurst (\<lambda>v f. f\<lparr>fl_KubeClientBurst := v\<rparr>)]"

section \<open>Logging and version\<close>

text \<open>Handlers of \<open>log/slog\<close>: a format and the stream \<open>'s\<close> they write to. A level is an integer.\<close>

datatype 's slog_handler = JSONHandler 's | TextHandler 's

record 's MultiStreamHandler =
  ms_level :: int
  ms_lowHandler :: "'s slog_handler"
  ms_highHandler :: "'s slog_handler"

definition LevelInfo :: int where "LevelInfo = 0"

definition log_New :: "'s \<Rightarrow> 's \<Rightarrow> string \<Rightarrow> int \<Rightarrow> 's MultiStreamHandler" where
  "log_New outLow outHigh format level =
     (if format = ''json''
      then \<lparr> ms_level = level, ms_lowHandler = JSONHandler outLow, ms_highHandler = JSONHandler outHigh \<rparr>
      else \<lparr> ms_level = level, ms_lowHandler = TextHandler outLow, ms_highHandler = TextHandler outHigh \<rparr>)"

definition log_Enabled :: "'s MultiStreamHandler \<Rightarrow> int \<Rightarrow> bool" where
  "log_Enabled m level \<longleftrightarrow> ms_level m \<le> level"

text \<open>The handler a record of a level is passed to.\<close>

definition log_Handle :: "'s MultiStreamHandler \<Rightarrow> int \<Rightarrow> 's slog_handler" where
  "log_Handle m level = (if level \<le> LevelInfo then ms_lowHandler m else ms_highHandler m)"

text \<open>\<open>build\<close> is the version of the main module in the build information, if there is any.\<close>

definition FallbackVersion :: "string option \<Rightarrow> string \<Rightarrow> string \<Rightarrow> string" where
  "FallbackVersion build v unchanged =
     (if v \<noteq> unchanged then v
      else (case build of None \<Rightarrow> v | Some modv \<Rightarrow> if modv \<noteq> ''(devel)'' then modv else v))"

section \<open>Namespaces\<close>

text \<open>\<open>saFile\<close> is the namespace file of the service account, if it can be read.\<close>

definition myNamespace :: "(string \<Rightarrow> string option) \<Rightarrow> bytes option \<Rightarrow> string" where
  "myNamespace env saFile =
     (let ns = (case env ''POD_NAMESPACE'' of None \<Rightarrow> '''' | Some s \<Rightarrow> s) in
      if ns \<noteq> '''' then ns
      else (case saFile of
              Some data \<Rightarrow> (let ns = TrimSpace (bytes_string data) in if 0 < length ns then ns else ''default'')
            | None \<Rightarrow> ''default''))"

section \<open>Controllers\<close>

text \<open>
  What \<open>prepareController\<close> and \<open>NewController\<close> build: the namespace and labels of the sealed secrets (and
  secrets) one controller watches, whether it watches the secrets it manages and the key secrets
  (by their label, in the controller's own namespace), and its settings.
\<close>

record controller_setup =
  su_namespace :: string
  su_labelSelector :: "string option"
  su_watchSecrets :: "string option"
  su_watchKeySecrets :: "(string \<times> string) option"
  su_maxRetries :: int
  su_keyOrderPriority :: string
  su_oldGCBehavior :: bool
  su_updateStatus :: bool

definition initSecretInformerFactory :: "'i \<Rightarrow> bool \<Rightarrow> 'i option" where
  "initSecretInformerFactory informer enabled = (if \<not> enabled then None else Some informer)"

text \<open>
  Adding an event handler to an informer may fail: \<open>addHandler\<close> says for which of them. The handlers
  themselves are those of \<open>Worker\<close>.
\<close>

datatype informer_kind = SealedSecretInformer | SecretInformer | KeySecretInformer

definition watchKeySecrets :: "(informer_kind \<Rightarrow> go_error option) \<Rightarrow> go_error + informer_kind" where
  "watchKeySecrets addHandler = (let kInformer = KeySecretInformer in
     case addHandler kInformer of
       Some err \<Rightarrow> Inl (Errorf (''could not add event handler to secrets informer: '' @ err_text err))
     | None \<Rightarrow> Inr kInformer)"

definition watchSealedSecrets :: "(informer_kind \<Rightarrow> go_error option) \<Rightarrow> go_error + informer_kind" where
  "watchSealedSecrets addHandler = (let ssInformer = SealedSecretInformer in
     case addHandler ssInformer of
       Some err \<Rightarrow> Inl (Errorf (''could not add event handler to sealed secrets informer: '' @ err_text err))
     | None \<Rightarrow> Inr ssInformer)"

definition watchSecrets :: "(informer_kind \<Rightarrow> go_error option) \<Rightarrow> go_error + informer_kind" where
  "watchSecrets addHandler = (let sInformer = SecretInformer in
     case addHandler sInformer of
       Some err \<Rightarrow> Inl (Errorf (''could not add event handler to secrets informer: '' @ err_text err))
     | None \<Rightarrow> Inr sInformer)"

lemmas watch_defs = watchKeySecrets_def watchSealedSecrets_def watchSecrets_def

definition NewController ::
  "(informer_kind \<Rightarrow> go_error option) \<Rightarrow> string \<Rightarrow> string option \<Rightarrow> string option \<Rightarrow> (string \<times> string) option
    \<Rightarrow> int \<Rightarrow> string \<Rightarrow> go_error + controller_setup" where
  "NewController addHandler namespace labelSelector sinformer kinformer maxRetriesConfig keyOrderPriority =
     (case watchSealedSecrets addHandler of
        Inl err \<Rightarrow> Inl err
      | Inr _ \<Rightarrow>
          (case (if sinformer \<noteq> None then map_sum id Some (watchSecrets addHandler) else Inr None) of
             Inl err \<Rightarrow> Inl err
           | Inr _ \<Rightarrow>
               (case (if kinformer \<noteq> None then map_sum id Some (watchKeySecrets addHandler) else Inr None) of
                  Inl err \<Rightarrow> Inl err
                | Inr _ \<Rightarrow> Inr \<lparr> su_namespace = namespace, su_labelSelector = labelSelector,
                    su_watchSecrets = sinformer, su_watchKeySecrets = kinformer, su_maxRetries = maxRetriesConfig,
                    su_keyOrderPriority = keyOrderPriority, su_oldGCBehavior = False, su_updateStatus = False \<rparr>)))"

definition prepareController ::
  "(informer_kind \<Rightarrow> go_error option) \<Rightarrow> string \<Rightarrow> string \<Rightarrow> string option \<Rightarrow> Flags \<Rightarrow> go_error + controller_setup" where
  "prepareController addHandler namespace keyNamespace tweakopts f =
     (let kinformer = initSecretInformerFactory (keyNamespace, keySelector) (fl_WatchForSecrets f);
          sinformer = initSecretInformerFactory namespace (\<not> fl_SkipRecreate f)
      in NewController addHandler namespace tweakopts sinformer kinformer (fl_MaxRetries f) (fl_KeyOrderPriority f))"

definition configured :: "Flags \<Rightarrow> controller_setup \<Rightarrow> controller_setup" where
  "configured f c = c\<lparr>su_oldGCBehavior := fl_OldGCBehavior f, su_updateStatus := fl_UpdateStatus f\<rparr>"

text \<open>The loop over the additional namespaces. Those that do not exist are skipped.\<close>

fun additionalControllers ::
  "(informer_kind \<Rightarrow> go_error option) \<Rightarrow> (string \<Rightarrow> 'w \<Rightarrow> go_error option \<times> 'w) \<Rightarrow> string \<Rightarrow> string \<Rightarrow> string option \<Rightarrow> Flags
    \<Rightarrow> string list \<Rightarrow> controller_setup list \<Rightarrow> 'w \<Rightarrow> (go_error + controller_setup list) \<times> 'w" where
  "additionalControllers addHandler NamespacesGet namespace myNs tweakopts f [] cs w = (Inr cs, w)"
| "additionalControllers addHandler NamespacesGet namespace myNs tweakopts f (ns # rest) cs w =
     (case NamespacesGet ns w of
        (Some err, w) \<Rightarrow>
          (if IsNotFound err then additionalControllers addHandler NamespacesGet namespace myNs tweakopts f rest cs w
           else (Inl err, w))
      | (None, w) \<Rightarrow>
          (if ns \<noteq> namespace
           then (case prepareController addHandler ns myNs tweakopts f of
                   Inl err \<Rightarrow> (Inl err, w)
                 | Inr ctlr \<Rightarrow> additionalControllers addHandler NamespacesGet namespace myNs tweakopts f rest
                                (cs @ [configured f ctlr]) w)
           else additionalControllers addHandler NamespacesGet namespace myNs tweakopts f rest cs w))"

definition watchedNamespace :: "Flags \<Rightarrow> string \<Rightarrow> string" where
  "watchedNamespace f myNs = (if \<not> fl_NamespaceAll f \<or> fl_AdditionalNamespaces f \<noteq> '''' then myNs else '''')"

definition setupControllers ::
  "(informer_kind \<Rightarrow> go_error option) \<Rightarrow> (string \<Rightarrow> 'w \<Rightarrow> go_error option \<times> 'w) \<Rightarrow> string \<Rightarrow> Flags \<Rightarrow> 'w
    \<Rightarrow> (go_error + controller_setup list) \<times> 'w" where
  "setupControllers addHandler NamespacesGet myNs f w =
     (let namespace = watchedNamespace f myNs;
          tweakopts = (if fl_LabelSelector f \<noteq> '''' then Some (fl_LabelSelector f) else None)
      in case prepareController addHandler namespace myNs tweakopts f of
           Inl err \<Rightarrow> (Inl err, w)
         | Inr controller \<Rightarrow>
             (if fl_AdditionalNamespaces f \<noteq> ''''
              then additionalControllers addHandler NamespacesGet namespace myNs tweakopts f
                     (removeDuplicates (Split (CHR '','') (fl_AdditionalNamespaces f))) [configured f controller] w
              else (Inr [configured f controller], w)))"

section \<open>Main\<close>

text \<open>
  The packages and services \<open>Main\<close> uses: \<open>connect\<close> is the error of reaching the API server (the
  configuration and the two clients), \<open>mn_sorter\<close> is \<open>sort.Sort\<close>, \<open>mn_parseTime\<close> is \<open>time.Parse\<close> with
  \<open>RFC1123Z\<close>, \<open>mn_clock\<close> the readings of the clock during the key renewal.
\<close>

record 'w main_env =
  mn_crypto :: crypto_lib
  mn_kube :: kube_lib
  mn_api :: "'w kube_api"
  mn_connect :: "go_error option"
  mn_env :: "string \<Rightarrow> string option"
  mn_saFile :: "bytes option"
  mn_sorter :: "Secret list \<Rightarrow> Secret list"
  mn_parseTime :: "string \<Rightarrow> go_error + time"
  mn_clock :: "time \<times> time \<times> time"
  mn_addHandler :: "informer_kind \<Rightarrow> go_error option"
  mn_NamespacesGet :: "string \<Rightarrow> 'w \<Rightarrow> go_error option \<times> 'w"

record started =
  sd_registry :: KeyRegistry
  sd_renewal :: renewal
  sd_controllers :: "controller_setup list"

definition cutoff :: "(string \<Rightarrow> go_error + time) \<Rightarrow> string \<Rightarrow> go_error + time" where
  "cutoff parseTime s = (if s \<noteq> '''' then parseTime s else Inr 0)"

definition controller_Main ::
  "'w main_env \<Rightarrow> Flags \<Rightarrow> bytes \<Rightarrow> 'w \<Rightarrow> ((go_error + started) \<times> bytes \<times> 'w) outcome" where
  "controller_Main M f rnd w =
     (case mn_connect M of
        Some e \<Rightarrow> Ret (Inl e, rnd, w)
      | None \<Rightarrow>
        let myNs = myNamespace (mn_env M) (mn_saFile M) in
        case initKeyPrefix (fl_KeyPrefix f) of
          Inl e \<Rightarrow> Ret (Inl e, rnd, w)
        | Inr prefix \<Rightarrow>
            obind (initKeyRegistry (mn_crypto M) (mn_kube M) (mn_api M) (mn_sorter M) myNs prefix
                     SealedSecretsKeyLabel (fl_KeySize f) (fl_KeyOrderPriority f) w) (\<lambda>(r, w). case r of
              Inl e \<Rightarrow> Ret (Inl e, rnd, w)
            | Inr keyRegistry \<Rightarrow>
                (case cutoff (mn_parseTime M) (fl_KeyCutoffTime f) of
                   Inl e \<Rightarrow> Ret (Inl e, rnd, w)
                 | Inr ct \<Rightarrow>
                     obind (initKeyRenewal (mn_crypto M) (mn_kube M) (mn_api M) (mn_clock M) (fl_KeyRenewPeriod f)
                              (fl_ValidFor f) ct (fl_MyCN f) (fl_PrivateKeyAnnotations f) (fl_PrivateKeyLabels f)
                              keyRegistry rnd w) (\<lambda>(r, keyRegistry, rnd, w). Ret (case r of
                       Inl e \<Rightarrow> (Inl e, rnd, w)
                     | Inr trigger \<Rightarrow>
                         (case setupControllers (mn_addHandler M) (mn_NamespacesGet M) myNs f w of
                            (Inl e, w) \<Rightarrow> (Inl e, rnd, w)
                          | (Inr controllers, w) \<Rightarrow>
                              (Inr \<lparr> sd_registry = keyRegistry, sd_renewal = trigger, sd_controllers = controllers \<rparr>,
                               rnd, w)))))))"

text \<open>
  The logger \<open>mainE\<close> installs: \<open>UnmarshalText\<close> is the parser of levels, which keeps the level it is
  given (0) when it fails.
\<close>

datatype std_stream = Stdout | Stderr

definition setLogging :: "(string \<Rightarrow> int \<Rightarrow> int) \<Rightarrow> Flags \<Rightarrow> std_stream MultiStreamHandler" where
  "setLogging UnmarshalText f =
     (let logLevel = UnmarshalText (fl_LogLevel f) 0
      in if fl_LogInfoToStdout f then log_New Stdout Stderr (fl_LogFormat f) logLevel
         else log_New Stderr Stderr (fl_LogFormat f) logLevel)"

text \<open>
  \<open>mainE\<close>: the flags, the version or \<open>Main\<close>, whose error is a panic. The result is what is printed
  and, when \<open>Main\<close> ran, what it started, with the value of \<open>AcceptDeprecatedV1Data\<close>.
\<close>

definition controllerCommandFlags :: "pflag_lib \<Rightarrow> (bool \<times> Flags) flag list" where
  "controllerCommandFlags P =
     boundFlag ''version'' (SetBool P) fst (\<lambda>v (_, f). (v, f)) #
     map (\<lambda>fl. \<lparr> flag_Name = flag_Name fl,
       flag_Set = (\<lambda>s (pv, f). case flag_Set fl s f of (err, f) \<Rightarrow> (err, (pv, f))) \<rparr>) (bindControllerFlags P)"

definition controllerFlags ::
  "pflag_lib \<Rightarrow> (string \<Rightarrow> string option) \<Rightarrow> (string \<times> string) list \<Rightarrow> go_error + bool \<times> Flags" where
  "controllerFlags P env args = applyArgs (controllerCommandFlags P) args
     (pflagenv_SetFlagsFromEnv controllerFlagEnvPrefix env [] (controllerCommandFlags P) (False, defaultFlags))"

definition controller_mainE ::
  "'w main_env \<Rightarrow> pflag_lib \<Rightarrow> string \<Rightarrow> (string \<times> string) list \<Rightarrow> bytes \<Rightarrow> 'w
    \<Rightarrow> ((go_error + string \<times> (bool \<times> started) option) \<times> bytes \<times> 'w) outcome" where
  "controller_mainE M P version args rnd w =
     (case controllerFlags P (mn_env M) args of
        Inl e \<Rightarrow> Ret (Inl e, rnd, w)
      | Inr (printVersion, flags) \<Rightarrow>
          (if printVersion then Ret (Inr (''controller version: '' @ version @ [CHR 0x0A], None), rnd, w)
           else obind (controller_Main M flags rnd w) (\<lambda>(r, rnd, w). case r of
                  Inl e \<Rightarrow> Panic (PanicWith e)
                | Inr st \<Rightarrow> Ret (Inr ('''', Some (fl_AcceptV1Data flags, st)), rnd, w))))"

text \<open>\<open>main\<close>: what is printed to the standard error, and the exit status.\<close>

definition exitStatus :: "go_error option \<Rightarrow> string \<times> int" where
  "exitStatus err = (case err of None \<Rightarrow> ('''', 0) | Some e \<Rightarrow> (''error: '' @ err_text e @ [CHR 0x0A], 1))"

definition controller_main ::
  "'w main_env \<Rightarrow> pflag_lib \<Rightarrow> string \<Rightarrow> (string \<times> string) list \<Rightarrow> bytes \<Rightarrow> 'w
    \<Rightarrow> ((string \<times> int) \<times> (string \<times> (bool \<times> started) option) option \<times> bytes \<times> 'w) outcome" where
  "controller_main M P version args rnd w = obind (controller_mainE M P version args rnd w) (\<lambda>(r, rnd, w).
     Ret (case r of Inl err \<Rightarrow> (exitStatus (Some err), None, rnd, w) | Inr out \<Rightarrow> (exitStatus None, Some out, rnd, w)))"

end
