(* ===== verification/Worker.thy ===== *)
theory Worker
  imports Controller
begin

text \<open>
  The controller's work queue: the event handlers that fill it (\<open>watchSealedSecrets\<close>, \<open>watchSecrets\<close>,
  \<open>watchKeySecrets\<close> of \<open>controller.go\<close>) and the worker that empties it (\<open>processNextItem\<close>,
  \<open>runWorker\<close>). The rate-limiting queue is client-go's: a record of its operations on an abstract
  state \<open>'q\<close>.
\<close>

section \<open>The queue\<close>

record 'q work_queue =
  QGet :: "'q \<Rightarrow> (string \<times> bool) \<times> 'q"
  QDone :: "string \<Rightarrow> 'q \<Rightarrow> 'q"
  QForget :: "string \<Rightarrow> 'q \<Rightarrow> 'q"
  QAdd :: "string \<Rightarrow> 'q \<Rightarrow> 'q"
  QAddRateLimited :: "string \<Rightarrow> 'q \<Rightarrow> 'q"
  QNumRequeues :: "string \<Rightarrow> 'q \<Rightarrow> nat"

section \<open>Event handlers\<close>

text \<open>
  Whether the spec changed; an object that is not a sealed secret counts as changed. The two
  objects are returned as the conversion leaves them (it fills in a missing kind).
\<close>

definition sealedSecretChanged :: "kube_lib \<Rightarrow> any_object \<Rightarrow> any_object \<Rightarrow> bool \<times> any_object \<times> any_object" where
  "sealedSecretChanged L oldObj newObj =
     (case convertSealedSecret L oldObj of
        Inl _ \<Rightarrow> (True, oldObj, newObj)
      | Inr oldSealedSecret \<Rightarrow>
          (case convertSealedSecret L newObj of
             Inl _ \<Rightarrow> (True, converted oldObj, newObj)
           | Inr newSealedSecret \<Rightarrow>
               (\<not> spec_deep_equal (ss_Spec oldSealedSecret) (ss_Spec newSealedSecret),
                converted oldObj, converted newObj)))"

definition watchSealedSecrets_Add :: "kube_lib \<Rightarrow> 'q work_queue \<Rightarrow> any_object \<Rightarrow> 'q \<Rightarrow> 'q" where
  "watchSealedSecrets_Add L Q obj q = (case MetaNamespaceKeyFunc L obj of Inl _ \<Rightarrow> q | Inr key \<Rightarrow> QAdd Q key q)"

definition watchSealedSecrets_Update ::
  "kube_lib \<Rightarrow> 'q work_queue \<Rightarrow> any_object \<Rightarrow> any_object \<Rightarrow> 'q \<Rightarrow> 'q \<times> any_object \<times> any_object" where
  "watchSealedSecrets_Update L Q oldObj newObj q =
     (case MetaNamespaceKeyFunc L newObj of
        Inl _ \<Rightarrow> (q, oldObj, newObj)
      | Inr key \<Rightarrow>
          (case sealedSecretChanged L oldObj newObj of
             (changed, oldObj, newObj) \<Rightarrow> (if changed then QAdd Q key q else q, oldObj, newObj)))"

definition watchSealedSecrets_Delete ::
  "kube_lib \<Rightarrow> 'q work_queue \<Rightarrow> any_object \<Rightarrow> 'q \<Rightarrow> metrics \<Rightarrow> 'q \<times> metrics" where
  "watchSealedSecrets_Delete L Q obj q m =
     (case DeletionHandlingMetaNamespaceKeyFunc L obj of Inl _ \<Rightarrow> q | Inr key \<Rightarrow> QAdd Q key q,
      case obj of SealedSecretObj ssecret \<Rightarrow> UnregisterCondition ssecret m | _ \<Rightarrow> m)"

text \<open>The assertion \<open>obj.(*corev1.Secret)\<close>.\<close>

definition assertSecret :: "any_object \<Rightarrow> Secret outcome" where
  "assertSecret obj = (case obj of SecretObj s \<Rightarrow> Ret s | _ \<Rightarrow> Panic TypeAssertion)"

definition watchSecrets_Delete ::
  "kube_lib \<Rightarrow> 'w kube_api \<Rightarrow> 'q work_queue \<Rightarrow> any_object \<Rightarrow> 'q \<Rightarrow> 'w \<Rightarrow> ('q \<times> 'w) outcome" where
  "watchSecrets_Delete L api Q obj q w =
     (case DeletionHandlingMetaNamespaceKeyFunc L obj of
        Inl _ \<Rightarrow> Ret (q, w)
      | Inr skey \<Rightarrow>
          (case SplitMetaNamespaceKey L skey of
             Inl _ \<Rightarrow> Ret (q, w)
           | Inr (ns, name) \<Rightarrow>
               (case SealedSecretsGet api ns name w of
                  (Inl _, w) \<Rightarrow> Ret (q, w)
                | (Inr ssecret, w) \<Rightarrow>
                    obind (assertSecret obj) (\<lambda>secret.
                      if \<not> IsControlledBy L (sec_Meta secret) (ss_Meta ssecret) \<and> \<not> isAnnotatedToBeManaged secret
                      then Ret (q, w)
                      else Ret (case MetaNamespaceKeyFunc L (SealedSecretObj ssecret) of
                                  Inl _ \<Rightarrow> (q, w) | Inr sskey \<Rightarrow> (QAdd Q sskey q, w))))))"

definition watchKeySecrets_Add ::
  "crypto_lib \<Rightarrow> kube_lib \<Rightarrow> string \<Rightarrow> any_object \<Rightarrow> KeyRegistry \<Rightarrow> KeyRegistry outcome" where
  "watchKeySecrets_Add C L keyOrderPriority obj kr =
     obind (assertSecret obj) (\<lambda>secret.
     obind (registryNewKeyWithSecret C L secret keyOrderPriority kr) (\<lambda>(err, kr). Ret kr))"

text \<open>\<open>sSynced\<close> is None when the controller does not watch secrets.\<close>

definition HasSynced :: "bool \<Rightarrow> bool option \<Rightarrow> bool" where
  "HasSynced ssSynced sSynced = (case sSynced of None \<Rightarrow> ssSynced | Some s \<Rightarrow> ssSynced \<and> s)"

section \<open>The worker\<close>

definition afterUnseal :: "'q work_queue \<Rightarrow> int \<Rightarrow> string \<Rightarrow> go_error option \<Rightarrow> 'q \<Rightarrow> 'q" where
  "afterUnseal Q maxRetries key err q =
     (case err of
        None \<Rightarrow> QForget Q key q
      | Some e \<Rightarrow>
          (if isImmutableError e then QForget Q key q
           else if int (QNumRequeues Q key q) < maxRetries then QAddRateLimited Q key q
           else QForget Q key q))"

definition processNextItem ::
  "'w Controller \<Rightarrow> 'q work_queue \<Rightarrow> int \<Rightarrow> time \<Rightarrow> 'q \<Rightarrow> 'w ctl_state \<Rightarrow> (bool \<times> 'q \<times> 'w ctl_state) outcome" where
  "processNextItem c Q maxRetries now q st =
     (case QGet Q q of ((key, quit), q) \<Rightarrow>
        if quit then Ret (False, q, st)
        else obind (unseal c now key st) (\<lambda>(err, st).
          Ret (True, QDone Q key (afterUnseal Q maxRetries key err q), st)))"

text \<open>\<open>clock n\<close> is the time at which the n-th item is taken. The loop ends when the queue says so.\<close>

partial_function (option) runWorker ::
  "'w Controller \<Rightarrow> 'q work_queue \<Rightarrow> int \<Rightarrow> (nat \<Rightarrow> time) \<Rightarrow> nat \<Rightarrow> 'q \<Rightarrow> 'w ctl_state
    \<Rightarrow> ('q \<times> 'w ctl_state) outcome option" where
  "runWorker c Q maxRetries clock n q st =
     (case processNextItem c Q maxRetries (clock n) q st of
        Panic p \<Rightarrow> Some (Panic p)
      | Ret r \<Rightarrow> (if fst r then runWorker c Q maxRetries clock (Suc n) (fst (snd r)) (snd (snd r))
                 else Some (Ret (snd r))))"

section \<open>The worker among the handlers\<close>

text \<open>
  The interleavings: the worker takes an item, a handler adds a key while the informer changes its
  index, other clients change the cluster, a key is registered.
\<close>

inductive worker_step ::
  "'w Controller \<Rightarrow> 'q work_queue \<Rightarrow> int \<Rightarrow> 'q \<times> 'w ctl_state \<Rightarrow> 'q \<times> 'w ctl_state \<Rightarrow> bool"
  for c Q maxRetries where
  process: "processNextItem c Q maxRetries now q st = Ret (cont, q', st') \<Longrightarrow>
    worker_step c Q maxRetries (q, st) (q', st')"
| notify: "worker_step c Q maxRetries (q, st) (QAdd Q key q, st\<lparr>cs_index := index\<rparr>)"
| cluster: "worker_step c Q maxRetries (q, st) (q, st\<lparr>cs_world := w\<rparr>)"
| new_key: "worker_step c Q maxRetries (q, st)
    (q, st\<lparr>cs_registry := snd (registerNewKey (ctl_crypto c) (cs_registry st) key cert t)\<rparr>)"

inductive_cases worker_stepE: "worker_step c Q maxRetries (q, st) (q', st')"

text \<open>The queue's counter of requeues, as its documentation has it.\<close>

definition counts_requeues :: "'q work_queue \<Rightarrow> bool" where
  "counts_requeues Q \<longleftrightarrow> (\<forall>q key k.
     QNumRequeues Q k (QForget Q key q) = (if k = key then 0 else QNumRequeues Q k q) \<and>
     QNumRequeues Q k (QAddRateLimited Q key q) = (if k = key then QNumRequeues Q k q + 1 else QNumRequeues Q k q) \<and>
     QNumRequeues Q k (QAdd Q key q) = QNumRequeues Q k q \<and>
     QNumRequeues Q k (QDone Q key q) = QNumRequeues Q k q \<and>
     QNumRequeues Q k (snd (QGet Q q)) = QNumRequeues Q k q)"

definition retries_bounded :: "'q work_queue \<Rightarrow> int \<Rightarrow> 'q \<Rightarrow> bool" where
  "retries_bounded Q maxRetries q \<longleftrightarrow> (\<forall>key. int (QNumRequeues Q key q) \<le> max 0 maxRetries)"

end
