(* ===== verification/WorkerProps.thy ===== *)
theory WorkerProps
  imports Worker UnsealProps
begin

text \<open>
  The worker and the handlers: retries are bounded in every interleaving, the worker stops after a
  shutdown, keys are never lost, the controller's own status updates do not feed the queue, and
  the one input that makes a handler panic.
\<close>

section \<open>A queue for the witnesses\<close>

record cqueue =
  cq_items :: "string list"
  cq_requeues :: "string \<Rightarrow> nat"

definition sampleQueue :: "cqueue work_queue" where
  "sampleQueue =
     \<lparr> QGet = (\<lambda>q. case cq_items q of [] \<Rightarrow> (('''', True), q) | k # ks \<Rightarrow> ((k, False), q\<lparr>cq_items := ks\<rparr>)),
       QDone = (\<lambda>k q. q),
       QForget = (\<lambda>k q. q\<lparr>cq_requeues := (cq_requeues q)(k := 0)\<rparr>),
       QAdd = (\<lambda>k q. if k \<in> set (cq_items q) then q else q\<lparr>cq_items := cq_items q @ [k]\<rparr>),
       QAddRateLimited = (\<lambda>k q. q\<lparr>cq_requeues := (cq_requeues q)(k := cq_requeues q k + 1)\<rparr>),
       QNumRequeues = (\<lambda>k q. cq_requeues q k) \<rparr>"

lemma sample_counts: "counts_requeues sampleQueue"
  by (auto simp: counts_requeues_def sampleQueue_def split: list.splits)

section \<open>Retries\<close>

lemma requeues:
  assumes "counts_requeues Q"
  shows "QNumRequeues Q k (QForget Q key q) = (if k = key then 0 else QNumRequeues Q k q)"
    "QNumRequeues Q k (QAddRateLimited Q key q) = (if k = key then QNumRequeues Q k q + 1 else QNumRequeues Q k q)"
    "QNumRequeues Q k (QAdd Q key q) = QNumRequeues Q k q"
    "QNumRequeues Q k (QDone Q key q) = QNumRequeues Q k q"
    "QNumRequeues Q k (snd (QGet Q q)) = QNumRequeues Q k q"
  using assms unfolding counts_requeues_def by blast+

lemma afterUnseal_bounded:
  "counts_requeues Q \<Longrightarrow> retries_bounded Q maxRetries q \<Longrightarrow> retries_bounded Q maxRetries (afterUnseal Q maxRetries key err q)"
  by (auto simp: afterUnseal_def retries_bounded_def requeues max_def split: option.splits)

lemma worker_step_bounded:
  assumes "counts_requeues Q" "worker_step c Q maxRetries (q, st) (q', st')" "retries_bounded Q maxRetries q"
  shows "retries_bounded Q maxRetries q'"
  using assms(2)
proof (cases rule: worker_step.cases)
  case (process now cont)
  obtain key quit q1 where get: "QGet Q q = ((key, quit), q1)" by (metis surj_pair)
  have "QNumRequeues Q k q1 = QNumRequeues Q k q" for k
    using requeues(5) [OF assms(1), of k q] get by simp
  then have q1: "retries_bounded Q maxRetries q1"
    using assms(3) by (simp add: retries_bounded_def)
  have fin: "retries_bounded Q maxRetries (QDone Q key p)" if "retries_bounded Q maxRetries p" for p
    using that by (simp add: retries_bounded_def requeues(4) [OF assms(1)])
  show ?thesis
    using process get q1 fin [OF afterUnseal_bounded [OF assms(1) q1]]
    by (auto simp: processNextItem_def outcome_simps split: if_splits)
qed (use assms in \<open>auto simp: retries_bounded_def requeues\<close>)

text \<open>
  C30: no key is ever requeued more than \<open>maxRetries\<close> times in a row: in every interleaving of the
  worker with the handlers, other clients and new keys, the requeue counter of every key stays
  within the limit.
\<close>

theorem retries_never_exceed_limit:
  assumes "counts_requeues Q" "(worker_step c Q maxRetries)\<^sup>*\<^sup>* (q, st) (q', st')" "retries_bounded Q maxRetries q"
  shows "int (QNumRequeues Q key q') \<le> max 0 maxRetries"
proof -
  have "retries_bounded Q maxRetries (fst s)" if "(worker_step c Q maxRetries)\<^sup>*\<^sup>* (q, st) s" for s
    using that
  proof (induction rule: rtranclp_induct)
    case (step s t)
    then show ?case
      using worker_step_bounded [OF assms(1), of c maxRetries "fst s" "snd s" "fst t" "snd t"] by simp
  qed (simp add: assms(3))
  from this [OF assms(2)] show ?thesis by (simp add: retries_bounded_def)
qed

definition brokenState :: "store ctl_state" where
  "brokenState = (stateOf emptyStore)\<lparr>cs_index := \<lambda>_. Inl (LibError ''cache'')\<rparr>"

theorem retries_never_exceed_limit_witness:
  "\<exists>q' st'. (worker_step sampleController sampleQueue 1)\<^sup>*\<^sup>*
      (\<lparr> cq_items = [''a''], cq_requeues = \<lambda>_. 0 \<rparr>, brokenState) (q', st')
    \<and> cq_requeues q' ''a'' = 1 \<and> int (QNumRequeues sampleQueue ''a'' q') \<le> 1"
proof -
  have "\<exists>q' st'. processNextItem sampleController sampleQueue 1 5 \<lparr> cq_items = [''a''], cq_requeues = \<lambda>_. 0 \<rparr> brokenState
      = Ret (True, q', st') \<and> cq_requeues q' ''a'' = 1"
    by (simp add: processNextItem_def sampleQueue_def unseal_def brokenState_def afterUnseal_def isImmutableError_def
        immutableSuffix_def HasSuffix_def Let_def)
  then obtain q' st' where p: "processNextItem sampleController sampleQueue 1 5
      \<lparr> cq_items = [''a''], cq_requeues = \<lambda>_. 0 \<rparr> brokenState = Ret (True, q', st')" "cq_requeues q' ''a'' = 1"
    by blast
  then have run: "(worker_step sampleController sampleQueue 1)\<^sup>*\<^sup>*
      (\<lparr> cq_items = [''a''], cq_requeues = \<lambda>_. 0 \<rparr>, brokenState) (q', st')"
    by (intro r_into_rtranclp worker_step.process)
  have "retries_bounded sampleQueue 1 \<lparr> cq_items = [''a''], cq_requeues = \<lambda>_. 0 \<rparr>"
    by (simp add: retries_bounded_def sampleQueue_def)
  from retries_never_exceed_limit [OF sample_counts run this, of "''a''"] run p(2) show ?thesis by auto
qed

section \<open>Shutdown\<close>

text \<open>
  A queue that is shutting down: it takes no new items, so its length \<open>len\<close> only shrinks, with
  every item it hands out.
\<close>

definition shutting_down :: "'q work_queue \<Rightarrow> ('q \<Rightarrow> nat) \<Rightarrow> bool" where
  "shutting_down Q len \<longleftrightarrow>
     (\<forall>q. \<not> snd (fst (QGet Q q)) \<longrightarrow> len (snd (QGet Q q)) < len q) \<and>
     (\<forall>key q. len (QDone Q key q) \<le> len q \<and> len (QForget Q key q) \<le> len q \<and> len (QAddRateLimited Q key q) \<le> len q)"

lemma afterUnseal_len:
  "shutting_down Q len \<Longrightarrow> len (QDone Q key (afterUnseal Q maxRetries key err q)) \<le> len q"
  unfolding shutting_down_def afterUnseal_def
  by (auto split: option.splits intro: order_trans)

text \<open>
  C33: once the queue shuts down the worker's loop ends, after the items still in the queue, and
  without a panic.
\<close>

theorem runWorker_stops:
  assumes "shutting_down Q len"
  shows "\<exists>q' st'. runWorker c Q maxRetries clock n q st = Some (Ret (q', st'))"
proof (induction "len q" arbitrary: n q st rule: less_induct)
  case less
  obtain key quit q1 where get: "QGet Q q = ((key, quit), q1)" by (metis surj_pair)
  show ?case
  proof (cases quit)
    case True
    then show ?thesis
      by (simp add: runWorker.simps processNextItem_def get)
  next
    case False
    obtain err st1 where u: "unseal c (clock n) key st = Ret (err, st1)"
      using unseal_Ret by blast
    have "len q1 < len q"
      using assms get False unfolding shutting_down_def by (metis fst_conv snd_conv)
    then have "len (QDone Q key (afterUnseal Q maxRetries key err q1)) < len q"
      using afterUnseal_len [OF assms] le_less_trans by blast
    from less [OF this] show ?thesis
      by (simp add: runWorker.simps [of c Q maxRetries clock n q st] processNextItem_def get False u)
  qed
qed

lemma sample_shutting_down: "shutting_down sampleQueue (\<lambda>q. length (cq_items q))"
  by (auto simp: shutting_down_def sampleQueue_def split: list.splits)

theorem runWorker_stops_witness:
  "\<exists>q' st'. runWorker sampleController sampleQueue 5 (\<lambda>n. int n) 0
      \<lparr> cq_items = [''prod/db'', ''x''], cq_requeues = \<lambda>_. 0 \<rparr> (stateOf emptyStore) = Some (Ret (q', st'))"
  by (rule runWorker_stops [OF sample_shutting_down])

section \<open>Keys among the interleavings\<close>

lemma processNextItem_registry:
  "processNextItem c Q maxRetries now q st = Ret (cont, q', st') \<Longrightarrow> cs_registry st' = cs_registry st"
  by (auto simp: processNextItem_def outcome_simps dest: unseal_registry split: prod.splits if_splits)

lemma worker_step_keys:
  assumes inj: "fingerprints_injective (ctl_crypto c)" and step: "worker_step c Q maxRetries s t"
    and held: "holds_key (privateKeys (cs_registry (snd s))) pub"
    and inv: "registry_inv (ctl_crypto c) (cs_registry (snd s))"
  shows "holds_key (privateKeys (cs_registry (snd t))) pub \<and> registry_inv (ctl_crypto c) (cs_registry (snd t))"
  using step
proof (cases rule: worker_step.cases)
  case (process now q st cont q' st')
  with held inv processNextItem_registry [OF process(3)] show ?thesis by simp
next
  case (new_key q st key cert tm)
  obtain err kr' where r: "registerNewKey (ctl_crypto c) (cs_registry st) key cert tm = (err, kr')"
    by (metis surj_pair)
  show ?thesis
    using held inv new_key registry.add_keeps [OF inj _ r] registry.add_inv [OF _ r] by (simp add: r)
qed (use held inv in simp_all)

lemma worker_steps_keys:
  assumes "fingerprints_injective (ctl_crypto c)" "(worker_step c Q maxRetries)\<^sup>*\<^sup>* s t"
    "holds_key (privateKeys (cs_registry (snd s))) pub" "registry_inv (ctl_crypto c) (cs_registry (snd s))"
  shows "holds_key (privateKeys (cs_registry (snd t))) pub \<and> registry_inv (ctl_crypto c) (cs_registry (snd t))"
  using assms(2-4)
  by (induction rule: rtranclp_induct) (auto dest: worker_step_keys [OF assms(1)])

text \<open>
  Whatever the worker, the handlers, other clients and newly registered keys do, in any order, a key
  the controller can unseal with stays available to it, and the registry stays consistent.
\<close>

theorem keys_survive_every_interleaving:
  assumes "fingerprints_injective (ctl_crypto c)" "(worker_step c Q maxRetries)\<^sup>*\<^sup>* (q, st) (q', st')"
    "registry_inv (ctl_crypto c) (cs_registry st)" "holds_key (privateKeys (cs_registry st)) pub"
  shows "holds_key (privateKeys (cs_registry st')) pub \<and> registry_inv (ctl_crypto c) (cs_registry st')"
  using worker_steps_keys [OF assms(1,2)] assms(3,4) by simp

theorem keys_survive_every_interleaving_witness:
  "holds_key (privateKeys (snd (registerNewKey sampleCrypto sampleRegistry otherKey sampleCert 9)))
    (rsaPublicKey sampleKey)"
proof -
  let ?st = "stateOf emptyStore" and ?q = "\<lparr> cq_items = [], cq_requeues = \<lambda>_. 0 \<rparr>"
  let ?st' = "?st\<lparr>cs_registry := snd (registerNewKey (ctl_crypto sampleController) (cs_registry ?st) otherKey sampleCert 9)\<rparr>"
  have run: "(worker_step sampleController sampleQueue 5)\<^sup>*\<^sup>* (?q, ?st) (?q, ?st')"
    by (intro r_into_rtranclp worker_step.new_key)
  have r: "cs_registry ?st = sampleRegistry" by (simp add: stateOf_def)
  have inv: "registry_inv sampleCrypto sampleRegistry"
    unfolding sampleRegistry_def by (rule registerNewKey_inv [OF NewKeyRegistry_inv surjective_pairing])
  from keys_survive_every_interleaving [OF _ run, of "rsaPublicKey sampleKey"] show ?thesis
    by (simp add: r sample_fingerprints inv sampleRegistry_keys)
qed

section \<open>The handlers\<close>

lemma map_deep_equal_refl: "map_wf m \<Longrightarrow> map_deep_equal m m"
  by (cases m) (simp_all add: map_deep_equal_def entries_equal_refl)

definition spec_wf :: "SealedSecretSpec \<Rightarrow> bool" where
  "spec_wf spec \<longleftrightarrow> map_wf (spec_EncryptedData spec) \<and> map_wf (tmpl_Data (spec_Template spec)) \<and>
     map_wf (om_Labels (tmpl_Meta (spec_Template spec))) \<and> map_wf (om_Annotations (tmpl_Meta (spec_Template spec)))"

lemma spec_deep_equal_refl: "spec_wf spec \<Longrightarrow> spec_deep_equal spec spec"
  by (simp add: spec_deep_equal_def spec_wf_def meta_deep_equal_refl map_deep_equal_refl)

text \<open>
  The controller does not wake itself up: the update event that follows one of its own status
  updates (any update that leaves the spec as it is) adds nothing to the queue, whatever the
  outcome of the unsealing was.
\<close>

theorem status_update_is_suppressed:
  assumes "updateSealedSecretStatus api updateStatus now s err w = (r, s', w')" "spec_wf (ss_Spec s)"
  shows "fst (watchSealedSecrets_Update L Q (SealedSecretObj s) (SealedSecretObj s') q) = q"
proof -
  have "ss_Spec s' = ss_Spec s"
  proof (cases updateStatus)
    case True
    with assms(1) updateSealedSecretStatus_synced(2) show ?thesis by simp
  next
    case False
    with assms(1) show ?thesis by (simp add: updateSealedSecretStatus_def)
  qed
  with assms(2) show ?thesis
    by (simp add: watchSealedSecrets_Update_def sealedSecretChanged_def convertSealedSecret_def spec_deep_equal_refl
        split: sum.splits)
qed

theorem status_update_is_suppressed_witness:
  "\<exists>s'. ss_Status s' \<noteq> None \<and> fst (watchSealedSecrets_Update sampleKube sampleQueue (SealedSecretObj emptySealedSecret)
      (SealedSecretObj s') \<lparr> cq_items = [], cq_requeues = \<lambda>_. 0 \<rparr>) = \<lparr> cq_items = [], cq_requeues = \<lambda>_. 0 \<rparr>"
proof -
  obtain r s' w' where u: "updateSealedSecretStatus storeAPI True 5 emptySealedSecret None emptyStore = (r, s', w')"
    by (metis prod_cases3)
  have "spec_wf (ss_Spec emptySealedSecret)"
    by (simp add: spec_wf_def emptySealedSecret_def emptyTemplate_def emptyObjectMeta_def)
  from status_update_is_suppressed [OF u this] updateSealedSecretStatus_synced(1) [OF u] show ?thesis
    by (intro exI [of _ s']) auto
qed

text \<open>
  When a secret of the cluster is deleted while its sealed secret still exists, the sealed secret is
  queued (so that the secret is made again) if it owns the secret or the secret is annotated as
  managed, and otherwise the queue stays as it is.
\<close>

theorem deleted_secret_is_recreated:
  assumes "DeletionHandlingMetaNamespaceKeyFunc L (SecretObj secret) = Inr skey" "SplitMetaNamespaceKey L skey = Inr (ns, name)"
    "SealedSecretsGet api ns name w = (Inr ss, w')" "MetaNamespaceKeyFunc L (SealedSecretObj ss) = Inr key"
  shows "watchSecrets_Delete L api Q (SecretObj secret) q w =
    Ret (if IsControlledBy L (sec_Meta secret) (ss_Meta ss) \<or> isAnnotatedToBeManaged secret then QAdd Q key q else q, w')"
  using assms by (simp add: watchSecrets_Delete_def assertSecret_def)

definition managedSecret :: Secret where
  "managedSecret = emptySecret\<lparr>sec_Meta := emptyObjectMeta\<lparr>om_Name := ''b'', om_Namespace := ''a'',
     om_Annotations := Some [(SealedSecretManagedAnnotation, ''true'')]\<rparr>\<rparr>"

definition managedSealed :: SealedSecret where
  "managedSealed = emptySealedSecret\<lparr>ss_Meta := emptyObjectMeta\<lparr>om_Name := ''b'', om_Namespace := ''a''\<rparr>\<rparr>"

definition managedStore :: store where
  "managedStore = emptyStore\<lparr>store_sealed := [((''a'', ''b''), managedSealed)]\<rparr>"

theorem deleted_secret_is_recreated_witness:
  "watchSecrets_Delete sampleKube storeAPI sampleQueue (SecretObj managedSecret) \<lparr> cq_items = [], cq_requeues = \<lambda>_. 0 \<rparr>
     managedStore = Ret (\<lparr> cq_items = [''a/b''], cq_requeues = \<lambda>_. 0 \<rparr>, managedStore)"
proof -
  have d: "DeletionHandlingMetaNamespaceKeyFunc sampleKube (SecretObj managedSecret) = Inr ''a/b''"
    "MetaNamespaceKeyFunc sampleKube (SealedSecretObj managedSealed) = Inr ''a/b''"
    by (simp_all add: sampleKube_def managedSecret_def managedSealed_def)
  have s: "SplitMetaNamespaceKey sampleKube ''a/b'' = Inr (''a'', ''b'')"
    by code_simp
  have g: "SealedSecretsGet storeAPI ''a'' ''b'' managedStore = (Inr managedSealed, managedStore)"
    by (simp add: storeAPI_def managedStore_def)
  have "isAnnotatedToBeManaged managedSecret"
    by code_simp
  with deleted_secret_is_recreated [OF d(1) s g d(2), of sampleQueue] show ?thesis
    by (simp add: sampleQueue_def)
qed

text \<open>
  The deletion handler of secrets panics exactly on an object that is not a secret (the tombstone
  client-go delivers for a deletion it missed, in particular) whose key names an existing sealed
  secret: the tombstone is unpacked for the key but not for the type assertion.
\<close>

theorem tombstone_panics_iff:
  "watchSecrets_Delete L api Q obj q w = Panic p \<longleftrightarrow>
    p = TypeAssertion \<and> (\<forall>secret. obj \<noteq> SecretObj secret) \<and>
    (\<exists>skey ns name ss w'. DeletionHandlingMetaNamespaceKeyFunc L obj = Inr skey \<and>
      SplitMetaNamespaceKey L skey = Inr (ns, name) \<and> SealedSecretsGet api ns name w = (Inr ss, w'))"
  by (auto simp: watchSecrets_Delete_def assertSecret_def outcome_simps
      split: sum.splits prod.splits any_object.splits if_splits)

end
