(* ===== verification/MainProps.thy ===== *)
theory MainProps
  imports ControllerMain KeyLifecycle WorkerProps RotateProps
begin

text \<open>
  The started controller: which namespaces it watches, and that it always has a key.
\<close>

section \<open>Namespaces\<close>

lemma myNamespace_nonempty: "myNamespace env saFile \<noteq> ''''"
  by (auto simp: myNamespace_def Let_def split: option.splits)

lemma prepareController_namespace:
  assumes "prepareController addHandler ns myNs tweakopts f = Inr c"
  shows "su_namespace c = ns" "su_watchKeySecrets c = (if fl_WatchForSecrets f then Some (myNs, keySelector) else None)"
  using assms by (auto simp: prepareController_def NewController_def watch_defs initSecretInformerFactory_def Let_def
      split: option.splits sum.splits if_splits)

lemma configured_simps [simp]: "su_namespace (configured f c) = su_namespace c"
  "su_watchKeySecrets (configured f c) = su_watchKeySecrets c"
  by (simp_all add: configured_def)

text \<open>The namespaces that exist, as far as the answers of the API server say; they do not change the world.\<close>

definition namespace_lookup :: "(string \<Rightarrow> 'w \<Rightarrow> go_error option \<times> 'w) \<Rightarrow> 'w \<Rightarrow> (string \<Rightarrow> bool) \<Rightarrow> bool" where
  "namespace_lookup NamespacesGet w known \<longleftrightarrow> (\<forall>ns. snd (NamespacesGet ns w) = w \<and>
     (case fst (NamespacesGet ns w) of None \<Rightarrow> known ns | Some e \<Rightarrow> IsNotFound e \<longrightarrow> \<not> known ns))"

lemma additionalControllers_namespaces:
  assumes "namespace_lookup NamespacesGet w known"
  shows "additionalControllers addHandler NamespacesGet namespace myNs tweakopts f nss cs w = (Inr cs', w') \<Longrightarrow>
    map su_namespace cs' = map su_namespace cs @ filter (\<lambda>ns. known ns \<and> ns \<noteq> namespace) nss"
proof (induction nss arbitrary: cs)
  case (Cons ns nss)
  obtain err where get: "NamespacesGet ns w = (err, w)"
    using assms unfolding namespace_lookup_def by (metis prod.collapse)
  have known: "case err of None \<Rightarrow> known ns | Some e \<Rightarrow> IsNotFound e \<longrightarrow> \<not> known ns"
    using assms get unfolding namespace_lookup_def by (metis fst_conv)
  show ?case
  proof (cases err)
    case None
    with known have k: "known ns" by simp
    show ?thesis
    proof (cases "ns = namespace")
      case True
      with Cons None get k show ?thesis by simp
    next
      case False
      with Cons.prems None get obtain c where c: "prepareController addHandler ns myNs tweakopts f = Inr c"
        and rest: "additionalControllers addHandler NamespacesGet namespace myNs tweakopts f nss (cs @ [configured f c]) w = (Inr cs', w')"
        by (auto split: sum.splits)
      from Cons.IH [OF rest] prepareController_namespace(1) [OF c] False k show ?thesis by simp
    qed
  next
    case (Some e)
    with Cons known get show ?thesis by (auto split: if_splits)
  qed
qed simp

text \<open>
  C38: the controllers that \<open>Main\<close> starts watch each namespace at most once: all namespaces together, or
  (when restricted, or given additional ones) the controller's own and every additional one that
  exists. A restricted controller never watches all namespaces.
\<close>

theorem watched_namespaces:
  assumes "setupControllers addHandler NamespacesGet (myNamespace env saFile) f w = (Inr cs, w')"
    "namespace_lookup NamespacesGet w known" "\<not> known ''''"
  shows "distinct (map su_namespace cs) \<and> su_namespace ` set cs =
    (if fl_NamespaceAll f \<and> fl_AdditionalNamespaces f = '''' then {''''}
     else insert (myNamespace env saFile)
       (if fl_AdditionalNamespaces f = '''' then {} else {ns \<in> set (Split (CHR '','') (fl_AdditionalNamespaces f)). known ns}))
    \<and> ('''' \<in> su_namespace ` set cs \<longleftrightarrow> fl_NamespaceAll f \<and> fl_AdditionalNamespaces f = '''')"
proof -
  let ?my = "myNamespace env saFile"
  let ?tweak = "if fl_LabelSelector f \<noteq> '''' then Some (fl_LabelSelector f) else None"
  obtain c where c: "prepareController addHandler (watchedNamespace f ?my) ?my ?tweak f = Inr c"
    using assms(1) by (auto simp: setupControllers_def Let_def split: sum.splits)
  note ns = prepareController_namespace(1) [OF c]
  show ?thesis
  proof (cases "fl_AdditionalNamespaces f = ''''")
    case True
    then have "cs = [configured f c]"
      using assms(1) c by (simp add: setupControllers_def)
    with True ns myNamespace_nonempty [of env saFile] show ?thesis
      by (simp add: watchedNamespace_def)
  next
    case False
    then have w: "watchedNamespace f ?my = ?my" by (simp add: watchedNamespace_def)
    have "additionalControllers addHandler NamespacesGet ?my ?my ?tweak f
        (removeDuplicates (Split (CHR '','') (fl_AdditionalNamespaces f))) [configured f c] w = (Inr cs, w')"
      using assms(1) c False by (simp add: setupControllers_def w Let_def cong: if_cong)
    from additionalControllers_namespaces [OF assms(2) this]
    have names: "map su_namespace cs = ?my # filter (\<lambda>ns. known ns \<and> ns \<noteq> ?my)
        (removeDuplicates (Split (CHR '','') (fl_AdditionalNamespaces f)))"
      by (simp add: ns w)
    have "su_namespace ` set cs = set (map su_namespace cs)" by simp
    with names False assms(3) myNamespace_nonempty [of env saFile] show ?thesis
      by (auto simp: names)
  qed
qed

theorem watched_namespaces_witness:
  "\<exists>cs. setupControllers (\<lambda>_. None) (\<lambda>ns w. (if ns = ''gone'' then Some notFound else if ns = '''' then Some (LibError ''no name'') else None, w))
      (myNamespace [''POD_NAMESPACE'' \<mapsto> ''sys''] None) (defaultFlags\<lparr>fl_AdditionalNamespaces := ''a,gone,a,sys''\<rparr>) () = (Inr cs, ())
    \<and> su_namespace ` set cs = {''sys'', ''a''}"
proof -
  let ?get = "\<lambda>ns (w :: unit). (if ns = ''gone'' then Some notFound else if ns = '''' then Some (LibError ''no name'') else None, w)"
  let ?f = "defaultFlags\<lparr>fl_AdditionalNamespaces := ''a,gone,a,sys''\<rparr>"
  have my: "myNamespace [''POD_NAMESPACE'' \<mapsto> ''sys''] None = ''sys''" by (simp add: myNamespace_def)
  have split: "removeDuplicates [''a'', ''gone'', ''a'', ''sys''] = [''a'', ''gone'', ''sys'']" by code_simp
  have nf: "IsNotFound notFound" by (simp add: notFound_def)
  have "\<exists>cs. setupControllers (\<lambda>_. None) ?get (myNamespace [''POD_NAMESPACE'' \<mapsto> ''sys''] None) ?f () = (Inr cs, ())"
    by (simp add: setupControllers_def my watchedNamespace_def split nf prepareController_def NewController_def watch_defs
        initSecretInformerFactory_def Let_def defaultFlags_def)
  then obtain cs where run: "setupControllers (\<lambda>_. None) ?get (myNamespace [''POD_NAMESPACE'' \<mapsto> ''sys''] None) ?f () = (Inr cs, ())"
    by blast
  have look: "namespace_lookup ?get () (\<lambda>ns. ns \<noteq> ''gone'' \<and> ns \<noteq> '''')"
    by (auto simp: namespace_lookup_def nf)
  have "{ns \<in> set (Split (CHR '','') ''a,gone,a,sys''). ns \<noteq> ''gone'' \<and> ns \<noteq> ''''} = {''a'', ''sys''}" by auto
  with watched_namespaces [OF run look] run show ?thesis by (auto simp: my)
qed

section \<open>There is always a key\<close>

lemma registerNewKey_most_recent:
  assumes "registerNewKey C kr key cert t = (err, kr')"
  shows "err = None \<Longrightarrow> kr_mostRecentKey kr' \<noteq> None" "kr_mostRecentKey kr \<noteq> None \<Longrightarrow> kr_mostRecentKey kr' \<noteq> None"
  using assms by (auto simp: registerNewKey_def Let_def split: sum.splits option.splits if_splits)

lemma registerSecrets_inv:
  "registerSecrets C L prio items kr = Ret (Inr kr') \<Longrightarrow> registry_inv C kr \<Longrightarrow> registry_inv C kr'"
proof (induction items arbitrary: kr)
  case (Cons s items)
  then obtain kr1 where one: "registryNewKeyWithSecret C L s prio kr = Ret (None, kr1)"
    and rest: "registerSecrets C L prio items kr1 = Ret (Inr kr')"
    by (auto simp: outcome_simps split: option.splits)
  have "registry_inv C kr1"
    using one Cons.prems(2) by (auto simp: registryNewKeyWithSecret_def dest: registerNewKey_inv split: sum.splits list.splits)
  then show ?case by (rule Cons.IH [OF rest])
qed simp

lemma initKeyRegistry_inv:
  assumes "initKeyRegistry C L api sorter ns prefix label keysize prio w = Ret (Inr kr, w')"
  shows "registry_inv C kr"
  using assms by (auto simp: initKeyRegistry_def outcome_simps split: prod.splits sum.splits if_splits
      intro: registerSecrets_inv NewKeyRegistry_inv)

lemma generateKey_inv:
  assumes "generateKey C L api t1 t2 validFor cn annotations labels kr rnd w = Ret (r, kr', rnd', w')" "registry_inv C kr"
  shows "registry_inv C kr'" "\<not> isl r \<Longrightarrow> kr_mostRecentKey kr' \<noteq> None"
  using assms by (auto simp: generateKey_def elim!: obind_RetE split: prod.split_asm sum.split_asm option.split_asm
      dest: registerNewKey_inv registerNewKey_most_recent)

lemma registry_most_recent: "registry_inv C kr \<Longrightarrow> kr_keys kr \<noteq> [] \<Longrightarrow> kr_mostRecentKey kr \<noteq> None"
  by (auto simp: registry_inv_def split: option.splits)

lemma initKeyRenewal_key:
  assumes "initKeyRenewal C L api clock period validFor ct cn annotations labels kr rnd w = Ret (Inr plan, kr', rnd', w')"
    "registry_inv C kr"
  shows "registry_inv C kr' \<and> kr_mostRecentKey kr' \<noteq> None"
proof -
  obtain t1 t2 t3 where clock: "clock = (t1, t2, t3)" by (metis prod_cases3)
  obtain need where need: "needsNewKey kr ct = Ret need"
    and step: "(if need then \<exists>r. generateKey C L api t1 t2 validFor cn annotations labels kr rnd w = Ret (r, kr', rnd', w') \<and> \<not> isl r
      else kr' = kr)"
    using assms(1) by (fastforce simp: initKeyRenewal_def clock elim!: obind_RetE
        split: if_split_asm sum.split_asm option.split_asm prod.split_asm)
  show ?thesis
  proof (cases need)
    case True
    with step generateKey_inv [OF _ assms(2)] show ?thesis by auto
  next
    case False
    with need have "kr_keys kr \<noteq> []" by (auto simp: needsNewKey_def split: if_splits)
    with registry_most_recent [OF assms(2)] assms(2) step False show ?thesis by simp
  qed
qed

lemma controller_Main_registry:
  assumes "controller_Main M f rnd w = Ret (Inr st, rnd', w')"
  shows "registry_inv (mn_crypto M) (sd_registry st) \<and> kr_mostRecentKey (sd_registry st) \<noteq> None"
  using assms by (auto simp: controller_Main_def Let_def elim!: obind_RetE split: option.split_asm sum.split_asm prod.split_asm
      dest!: initKeyRegistry_inv initKeyRenewal_key)

lemma worker_step_most_recent:
  assumes "(worker_step c Q maxRetries)\<^sup>*\<^sup>* s t" "kr_mostRecentKey (cs_registry (snd s)) \<noteq> None"
  shows "kr_mostRecentKey (cs_registry (snd t)) \<noteq> None"
  using assms
proof (induction rule: rtranclp_induct)
  case (step t u)
  from step.hyps(2) show ?case
  proof (cases rule: worker_step.cases)
    case (process now q st cont q' st')
    with step.IH [OF step.prems] processNextItem_registry [OF process(3)] show ?thesis by simp
  next
    case (new_key q st key cert tm)
    with step.IH [OF step.prems] registerNewKey_most_recent(2) [OF surjective_pairing] show ?thesis by simp
  qed (use step.IH [OF step.prems] in simp_all)
qed

text \<open>
  A controller that has started always has a key: whatever the worker, the handlers, other clients
  and new keys do afterwards, the certificate endpoint has a certificate to serve and no request
  for re-encryption can panic.
\<close>

theorem started_controller_has_key:
  assumes "controller_Main M f rnd w = Ret (Inr started, rnd', w')" "cs_registry st = sd_registry started"
    "(worker_step c Q maxRetries)\<^sup>*\<^sup>* (q, st) (q', st')"
  shows "(\<exists>cert. getCert (cs_registry st') = Inr cert) \<and> returns (Rotate c (cs_registry st') content r)"
proof -
  have key: "kr_mostRecentKey (cs_registry st') \<noteq> None"
    using worker_step_most_recent [OF assms(3)] controller_Main_registry [OF assms(1)] assms(2) by simp
  have "Rotate c (cs_registry st') content r \<noteq> Panic p" for p
    using key by (simp add: Rotate_panics_iff)
  then have "returns (Rotate c (cs_registry st') content r)"
    by (cases "Rotate c (cs_registry st') content r") auto
  with key show ?thesis by (auto simp: getCert_def)
qed


definition sampleMain :: "store main_env" where
  "sampleMain = \<lparr> mn_crypto = sampleCrypto, mn_kube = sampleKube, mn_api = storeAPI, mn_connect = None,
     mn_env = [''POD_NAMESPACE'' \<mapsto> ''sys''], mn_saFile = None, mn_sorter = (\<lambda>xs. xs),
     mn_parseTime = (\<lambda>s. Inl (LibError ''no time'')), mn_clock = (100, 120, 130), mn_addHandler = (\<lambda>_. None),
     mn_NamespacesGet = (\<lambda>ns w. (None, w)) \<rparr>"

definition sampleFlags :: Flags where
  "sampleFlags = defaultFlags\<lparr>fl_KeySize := 3, fl_ValidFor := 50, fl_MyCN := ''ca''\<rparr>"

lemma sample_starts: "\<exists>started rnd' w'. controller_Main sampleMain sampleFlags [] emptyStore = Ret (Inr started, rnd', w')"
proof -
  have prefix: "initKeyPrefix ''sealed-secrets-key'' = Inr ''sealed-secrets-key''" by code_simp
  have kr: "initKeyRegistry sampleCrypto sampleKube storeAPI (\<lambda>xs. xs) ''sys'' ''sealed-secrets-key'' SealedSecretsKeyLabel 3
      ''CertNotBefore'' emptyStore = Ret (Inr (NewKeyRegistry ''sys'' ''sealed-secrets-key'' SealedSecretsKeyLabel 3), emptyStore)"
    by (simp add: initKeyRegistry_def storeAPI_def emptyStore_def notFound_def)
  have "\<exists>plan kr' rnd' w'. initKeyRenewal sampleCrypto sampleKube storeAPI (100, 120, 130) defaultKeyRenewPeriod 50 0 ''ca''
      '''' '''' (NewKeyRegistry ''sys'' ''sealed-secrets-key'' SealedSecretsKeyLabel 3) [] emptyStore
      = Ret (Inr plan, kr', rnd', w')"
    by (simp add: initKeyRenewal_def needsNewKey_def renewalPlan_def generateKey_def GeneratePrivateKeyAndCert_def SignKey_def
        SignKeyWithNotBefore_def sampleCrypto_def sampleCert_def KeyUsageEncipherOnly_def NewKeyRegistry_def writeKey_def
        flagItems_def storeAPI_def emptyStore_def registerNewKey_def PublicKeyFingerprint_def Let_def)
  then obtain plan kr' rnd' w' where "initKeyRenewal sampleCrypto sampleKube storeAPI (100, 120, 130) defaultKeyRenewPeriod
      50 0 ''ca'' '''' '''' (NewKeyRegistry ''sys'' ''sealed-secrets-key'' SealedSecretsKeyLabel 3) [] emptyStore
      = Ret (Inr plan, kr', rnd', w')" by blast
  then show ?thesis
    by (simp add: controller_Main_def sampleMain_def sampleFlags_def defaultFlags_def defaultKeyOrderPriority_def myNamespace_def prefix kr
        cutoff_def setupControllers_def watchedNamespace_def prepareController_def NewController_def watch_defs
        initSecretInformerFactory_def Let_def)
qed

theorem started_controller_has_key_witness:
  "\<exists>(started :: started) cert. returns (Rotate sampleController (sd_registry started) [1] []) \<and> getCert (sd_registry started) = Inr cert"
proof -
  obtain started rnd' w' where run: "controller_Main sampleMain sampleFlags [] emptyStore = Ret (Inr started, rnd', w')"
    using sample_starts by blast
  let ?st = "(stateOf emptyStore)\<lparr>cs_registry := sd_registry started\<rparr>"
  from started_controller_has_key [OF run, of ?st sampleController sampleQueue 5 "\<lparr> cq_items = [], cq_requeues = \<lambda>_. 0 \<rparr>"
      "\<lparr> cq_items = [], cq_requeues = \<lambda>_. 0 \<rparr>" ?st "[1]" "[]"]
  have "(\<exists>cert. getCert (sd_registry started) = Inr cert) \<and> returns (Rotate sampleController (sd_registry started) [1] [])"
    by simp
  then show ?thesis by blast
qed

end
