(* ===== verification/Policy.thy ===== *)
theory Policy
  imports WorkerProps
begin

text \<open>
  What the controller may do to the secrets of the cluster, as an abstract step relation on the map
  from namespaces and names to secrets, and the proof that \<open>unseal\<close> refines it, whatever fails on the
  way. The abstract relation then carries the safety of the secrets that are not the controller's
  own through every interleaving.
\<close>

section \<open>The policy\<close>

type_synonym cluster_view = "string \<times> string \<Rightarrow> Secret option"

text \<open>
  \<open>wants ss new\<close> says that the sealed secret \<open>ss\<close> unseals to \<open>new\<close>. A secret may be created where there is
  none; a secret that the sealed secret owns, or that is annotated to be managed or patched, may be
  brought up to date; with \<open>gc\<close> a secret may be removed. Nothing else.
\<close>

inductive secret_step ::
  "kube_lib \<Rightarrow> (SealedSecret \<Rightarrow> Secret \<Rightarrow> bool) \<Rightarrow> bool \<Rightarrow> cluster_view \<Rightarrow> cluster_view \<Rightarrow> bool"
  for L wants gc where
  create: "wants ss new \<Longrightarrow> om_Name (ss_Meta ss) \<in> {name, ''''} \<Longrightarrow> V (om_Namespace (ss_Meta ss), name) = None \<Longrightarrow>
    stored new s \<Longrightarrow> secret_step L wants gc V (V((om_Namespace (ss_Meta ss), name) \<mapsto> s))"
| overwrite: "wants ss new \<Longrightarrow> om_Name (ss_Meta ss) \<in> {name, ''''} \<Longrightarrow> V (om_Namespace (ss_Meta ss), name) = Some old \<Longrightarrow>
    \<not> notManaged L ss old \<Longrightarrow> mergeSecret old new = Ret updated \<Longrightarrow> stored updated s \<Longrightarrow>
    secret_step L wants gc V (V((om_Namespace (ss_Meta ss), name) \<mapsto> s))"
| collect: "gc \<Longrightarrow> secret_step L wants gc V (V(k := None))"

inductive_cases secret_stepE: "secret_step L wants gc V V'"

section \<open>The API server\<close>

text \<open>
  An API server that nobody else writes to during a call, whose answers may be lost: a write that is
  reported as failed may still have taken place, a read may fail. A name is created at most once.
\<close>

definition loses_answers :: "'w kube_api \<Rightarrow> ('w \<Rightarrow> cluster_view) \<Rightarrow> bool" where
  "loses_answers api view \<longleftrightarrow> tracks_Get api view \<and>
     (\<forall>ns sent w r w'. SecretsCreate api ns sent w = (r, w') \<longrightarrow> isl r \<and> view w' = view w \<or>
        (\<exists>name s. om_Name (sec_Meta sent) \<in> {name, ''''} \<and> view w (ns, name) = None \<and> stored sent s \<and>
           om_Name (sec_Meta s) = name \<and> (isl r \<or> r = Inr s) \<and> view w' = (view w)((ns, name) \<mapsto> s))) \<and>
     (\<forall>ns sent w r w'. SecretsUpdate api ns sent w = (r, w') \<longrightarrow> isl r \<and> view w' = view w \<or>
        (\<exists>s. stored sent s \<and> view w' = (view w)((ns, om_Name (sec_Meta sent)) \<mapsto> s))) \<and>
     (\<forall>ns n w r w'. SecretsDelete api ns n w = (r, w') \<longrightarrow> view w' \<in> {view w, (view w)((ns, n) := None)}) \<and>
     tracks_UpdateStatus api view"

lemma store_loses: "loses_answers storeAPI storeView"
proof -
  have "tracks_Get storeAPI storeView" "tracks_UpdateStatus storeAPI storeView"
    using store_tracks by (simp_all add: tracks_secrets_def)
  moreover have "storeView (w\<lparr>store_secrets := AList.delete k (store_secrets w)\<rparr>) = (storeView w)(k := None)" for w k
    by (rule ext) (simp add: storeView_def delete_conv')
  moreover have "isl r \<and> storeView w' = storeView w \<or>
      (\<exists>name s. om_Name (sec_Meta sent) \<in> {name, ''''} \<and> storeView w (ns, name) = None \<and> stored sent s \<and>
         om_Name (sec_Meta s) = name \<and> (isl r \<or> r = Inr s) \<and> storeView w' = (storeView w)((ns, name) \<mapsto> s))"
    if "SecretsCreate storeAPI ns sent w = (r, w')" for ns sent w r w'
    using that by (auto simp: storeAPI_def Let_def stored_shown storeView_update storeView_def split: if_splits)
  moreover have "isl r \<and> storeView w' = storeView w \<or>
      (\<exists>s. stored sent s \<and> storeView w' = (storeView w)((ns, om_Name (sec_Meta sent)) \<mapsto> s))"
    if "SecretsUpdate storeAPI ns sent w = (r, w')" for ns sent w r w'
  proof (cases "map_of (store_secrets w) (ns, om_Name (sec_Meta sent)) = None")
    case False
    let ?n = "om_Name (sec_Meta sent)"
    have "storeView w' = (storeView w)((ns, ?n) \<mapsto> shown ?n sent)"
      using that False storeView_update [where w = w and k = "(ns, ?n)" and s = sent and al = "store_secrets w"] by (auto simp: storeAPI_def)
    then show ?thesis
      using stored_shown by blast
  qed (use that in \<open>auto simp: storeAPI_def\<close>)
  ultimately show ?thesis
    unfolding loses_answers_def by (auto simp: storeAPI_def split: if_splits)
qed

lemma loses_Get:
  assumes "loses_answers api view" "SecretsGet api ns n w = (r, w')"
  shows "view w' = view w" "r = Inr s \<Longrightarrow> view w (ns, n) = Some s \<and> om_Name (sec_Meta s) = n"
  using assms unfolding loses_answers_def tracks_Get_def by simp_all

lemma loses_Create:
  assumes "loses_answers api view" "SecretsCreate api ns sent w = (r, w')"
  obtains "isl r" "view w' = view w"
  | name s where "om_Name (sec_Meta sent) \<in> {name, ''''}" "view w (ns, name) = None" "stored sent s"
      "om_Name (sec_Meta s) = name" "isl r \<or> r = Inr s" "view w' = (view w)((ns, name) \<mapsto> s)"
  using assms unfolding loses_answers_def by blast

lemma loses_Update:
  assumes "loses_answers api view" "SecretsUpdate api ns sent w = (r, w')"
  obtains "view w' = view w" | s where "stored sent s" "view w' = (view w)((ns, om_Name (sec_Meta sent)) \<mapsto> s)"
  using assms unfolding loses_answers_def by blast

lemma loses_Delete:
  "loses_answers api view \<Longrightarrow> SecretsDelete api ns n w = (r, w') \<Longrightarrow> view w' \<in> {view w, (view w)((ns, n) := None)}"
  unfolding loses_answers_def by blast

lemma loses_UpdateStatus:
  assumes "loses_answers api view"
  shows "view (snd (snd (updateSealedSecretStatus api u now s err w))) = view w"
proof -
  have "view w' = view w" if "SealedSecretsUpdateStatus api ns s w = (r, w')" for ns s w r w'
    using assms that unfolding loses_answers_def tracks_UpdateStatus_def by blast
  then show ?thesis
    by (auto simp: updateSealedSecretStatus_def Let_def split: prod.splits sum.splits)
qed

section \<open>Refinement\<close>

lemma getOrCreate_refines:
  assumes api: "loses_answers api view" and run: "getOrCreate api (om_Namespace (ss_Meta ss)) new w = (r, w')"
    and wants: "wants ss new" and name: "om_Name (sec_Meta new) = om_Name (ss_Meta ss)"
  shows "(secret_step L wants gc)\<^sup>*\<^sup>* (view w) (view w')"
    and "r = Inr secret \<Longrightarrow> view w' (om_Namespace (ss_Meta ss), om_Name (sec_Meta secret)) = Some secret
      \<and> om_Name (ss_Meta ss) \<in> {om_Name (sec_Meta secret), ''''}"
proof -
  let ?ns = "om_Namespace (ss_Meta ss)"
  obtain g w1 where get: "SecretsGet api ?ns (om_Name (sec_Meta new)) w = (g, w1)" by (metis surj_pair)
  note g = loses_Get [OF api get]
  have both: "(secret_step L wants gc)\<^sup>*\<^sup>* (view w) (view w') \<and> (\<forall>secret. r = Inr secret \<longrightarrow>
      view w' (?ns, om_Name (sec_Meta secret)) = Some secret \<and> om_Name (ss_Meta ss) \<in> {om_Name (sec_Meta secret), ''''})"
  proof (cases "\<exists>e. g = Inl e \<and> IsNotFound e")
    case True
    then have create: "SecretsCreate api ?ns new w1 = (r, w')"
      using run get by (auto simp: getOrCreate_def)
    show ?thesis
    proof (rule loses_Create [OF api create])
      fix n s
      assume s: "om_Name (sec_Meta new) \<in> {n, ''''}" "view w1 (?ns, n) = None" "stored new s"
        "om_Name (sec_Meta s) = n" "isl r \<or> r = Inr s" "view w' = (view w1)((?ns, n) \<mapsto> s)"
      have "secret_step L wants gc (view w1) ((view w1)((?ns, n) \<mapsto> s))"
        using wants s name by (intro secret_step.create) simp_all
      then show ?thesis
        using s g(1) name by auto
    qed (use g in auto)
  next
    case False
    then have "w' = w1" "r = g"
      using run get by (auto simp: getOrCreate_def split: sum.splits if_splits)
    then show ?thesis
      using g name by auto
  qed
  then show "(secret_step L wants gc)\<^sup>*\<^sup>* (view w) (view w')"
    and "r = Inr secret \<Longrightarrow> view w' (?ns, om_Name (sec_Meta secret)) = Some secret
      \<and> om_Name (ss_Meta ss) \<in> {om_Name (sec_Meta secret), ''''}"
    by auto
qed

lemma unsealObject_refines:
  assumes api: "loses_answers (ctl_api c) view" and run: "unsealObject c key ss st = Ret (err, st')"
    and wants: "\<And>new. attemptUnseal c (cs_registry st) ss = Inr new \<Longrightarrow> wants ss new"
  shows "(secret_step (ctl_kube c) wants gc)\<^sup>*\<^sup>* (view (cs_world st)) (view (cs_world st'))"
proof (cases "attemptUnseal c (cs_registry st) ss")
  case (Inl e)
  with run show ?thesis by (auto simp: unsealObject_def Let_def)
next
  case (Inr new)
  let ?ns = "om_Namespace (ss_Meta ss)"
  obtain r w1 where r: "getOrCreate (ctl_api c) ?ns new (cs_world st) = (r, w1)" by (metis surj_pair)
  note found = getOrCreate_refines(1) [where wants = wants and L = "ctl_kube c" and gc = gc,
      OF api r wants [OF Inr] attemptUnseal_name [OF Inr]]
    getOrCreate_refines(2) [where wants = wants, OF api r wants [OF Inr] attemptUnseal_name [OF Inr]]
  show ?thesis
  proof (cases r)
    case (Inl e)
    with run Inr r found(1) show ?thesis by (auto simp: unsealObject_def Let_def)
  next
    case secret: (Inr secret)
    obtain updated where merge: "mergeSecret secret new = Ret updated"
      using mergeSecret_returns by blast
    obtain u w2 where u: "SecretsUpdate (ctl_api c) ?ns updated w1 = (u, w2)" by (metis surj_pair)
    have cases: "view (cs_world st') = view w1 \<or> \<not> notManaged (ctl_kube c) ss secret \<and> cs_world st' = w2"
      using run Inr r secret merge u by (auto simp: unsealObject_def Let_def split: if_splits sum.splits)
    show ?thesis
    proof (cases "view (cs_world st') = view w1")
      case True
      with found(1) show ?thesis by simp
    next
      case False
      with cases have managed: "\<not> notManaged (ctl_kube c) ss secret" "cs_world st' = w2" by auto
      have "(secret_step (ctl_kube c) wants gc)\<^sup>*\<^sup>* (view w1) (view w2)"
      proof (rule loses_Update [OF api u])
        fix s assume s: "stored updated s" "view w2 = (view w1)((?ns, om_Name (sec_Meta updated)) \<mapsto> s)"
        have "secret_step (ctl_kube c) wants gc (view w1) ((view w1)((?ns, om_Name (sec_Meta updated)) \<mapsto> s))"
          using wants [OF Inr] found(2) [OF secret] managed(1) merge s(1) mergeSecret_kept(2) [OF merge]
          by (intro secret_step.overwrite) simp_all
        then show ?thesis by (simp add: s(2))
      qed simp
      with found(1) managed(2) show ?thesis by simp
    qed
  qed
qed

section \<open>Every run follows the policy\<close>

text \<open>What a state of the controller wants for a key of the queue: the sealed secret of the informer's index, unsealed.\<close>

definition wanted :: "'w Controller \<Rightarrow> string \<Rightarrow> 'w ctl_state \<Rightarrow> SealedSecret \<Rightarrow> Secret \<Rightarrow> bool" where
  "wanted c key st ss new \<longleftrightarrow> attemptUnseal c (cs_registry st) ss = Inr new \<and>
     (\<exists>s. cs_index st key = Inr (Some (SealedSecretObj s)) \<and> ss = defaultTypeMeta s)"

lemma unseal_follows:
  assumes api: "loses_answers (ctl_api c) view" and run: "unseal c now key st = Ret (err, st')"
  shows "(secret_step (ctl_kube c) (wanted c key st) (ctl_oldGCBehavior c \<and> cs_index st key = Inr None))\<^sup>*\<^sup>*
    (view (cs_world st)) (view (cs_world st'))"
proof -
  let ?gc = "ctl_oldGCBehavior c \<and> cs_index st key = Inr None"
  let ?st = "st\<lparr>cs_metrics := countRequest (cs_metrics st)\<rparr>"
  show ?thesis
  proof (cases "\<exists>s. cs_index st key = Inr (Some (SealedSecretObj s))")
    case True
    then obtain s where s: "cs_index st key = Inr (Some (SealedSecretObj s))" by blast
    obtain err1 st1 where u: "unsealObject c key (defaultTypeMeta s) ?st = Ret (err1, st1)"
      and st': "st' = reportStatus c now key (defaultTypeMeta s) err1 st1"
      using run s by (auto simp: unseal_def convertSealedSecret_def elim!: obind_RetE)
    have "(secret_step (ctl_kube c) (wanted c key st) ?gc)\<^sup>*\<^sup>* (view (cs_world ?st)) (view (cs_world st1))"
      using s by (intro unsealObject_refines [OF api u]) (simp add: wanted_def)
    then show ?thesis
      by (simp add: st' reportStatus_world loses_UpdateStatus [OF api])
  next
    case False
    show ?thesis
    proof (cases "cs_index st key = Inr None \<and> ctl_oldGCBehavior c")
      case True
      then have "(err, st') = unsealGone c key ?st"
        using run by (simp add: unseal_def)
      then have "cs_world st' = cs_world st \<or> (\<exists>ns n r. SecretsDelete (ctl_api c) ns n (cs_world st) = (r, cs_world st'))"
        by (auto simp: unsealGone_def split: if_splits sum.splits prod.splits option.splits)
      then consider "view (cs_world st') = view (cs_world st)"
        | k where "view (cs_world st') = (view (cs_world st))(k := None)"
        by (elim disjE exE) (simp, blast dest: loses_Delete [OF api])
      then show ?thesis
        using True by cases (auto intro!: r_into_rtranclp secret_step.collect)
    next
      case gone: False
      consider e where "cs_index st key = Inl e" | "cs_index st key = Inr None"
        | obj where "cs_index st key = Inr (Some obj)" "\<forall>s. obj \<noteq> SealedSecretObj s"
        using False by (metis option.exhaust sum.exhaust)
      then have "cs_world st' = cs_world st"
        using run gone by cases (auto simp: unseal_def unsealGone_def convertSealedSecret_def split: any_object.splits)
      then show ?thesis by simp
    qed
  qed
qed

text \<open>
  C5: every run of \<open>unseal\<close>, successful or not, on any object of the index and with an API server whose
  answers may be lost, refines the policy: all it does to the secrets of the cluster is a sequence
  of creations of what the sealed secret wants where nothing was, updates of secrets it manages, and
  (with the old garbage collection, for a sealed secret that is gone) a removal.
\<close>

theorem unseal_refines_policy:
  assumes "loses_answers (ctl_api c) view" "unseal c now key st = Ret (err, st')"
  shows "(secret_step (ctl_kube c) (wanted c key st) (ctl_oldGCBehavior c \<and> cs_index st key = Inr None))\<^sup>*\<^sup>*
    (view (cs_world st)) (view (cs_world st'))"
  by (rule unseal_follows [OF assms])

theorem unseal_refines_policy_witness:
  "\<exists>st'. unseal sampleController 5 ''prod/db'' (stateOf emptyStore) = Ret (None, st')
    \<and> (secret_step sampleKube (wanted sampleController ''prod/db'' (stateOf emptyStore)) False)\<^sup>*\<^sup>*
        (storeView emptyStore) (storeView (cs_world st'))"
proof -
  obtain st' where st': "unseal sampleController 5 ''prod/db'' (stateOf emptyStore) = Ret (None, st')"
    using sample_run by blast
  from unseal_refines_policy [OF _ st', of storeView] st' show ?thesis
    by (auto simp: store_loses stateOf_def)
qed

section \<open>What the policy rules out\<close>

lemma secret_step_foreign:
  assumes "secret_step L wants gc V V'" "V k = Some old" "\<not> gc" "\<forall>ss. notManaged L ss old"
  shows "V' k = Some old"
  using assms by (cases rule: secret_step.cases) auto

lemma secret_steps_foreign:
  assumes "(secret_step L wants gc)\<^sup>*\<^sup>* V V'" "V k = Some old" "\<not> gc" "\<forall>ss. notManaged L ss old"
  shows "V' k = Some old"
  using assms(1,2) by (induction rule: rtranclp_induct) (auto dest: secret_step_foreign [OF _ _ assms(3,4)])

lemma secret_steps_keep:
  assumes "(secret_step L wants gc)\<^sup>*\<^sup>* V V'" "V k \<noteq> None" "\<not> gc"
  shows "V' k \<noteq> None"
  using assms(1,2)
proof (induction rule: rtranclp_induct)
  case (step V V')
  from step(2,4,3) assms(3) show ?case by (cases rule: secret_step.cases) auto
qed simp

text \<open>
  The steps of the worker and of everything around it, in which the other clients of the cluster leave
  the secret under \<open>k\<close> alone.
\<close>

definition undisturbed_step ::
  "'w Controller \<Rightarrow> 'q work_queue \<Rightarrow> int \<Rightarrow> ('w \<Rightarrow> cluster_view) \<Rightarrow> string \<times> string
    \<Rightarrow> 'q \<times> 'w ctl_state \<Rightarrow> 'q \<times> 'w ctl_state \<Rightarrow> bool" where
  "undisturbed_step c Q maxRetries view k x y \<longleftrightarrow>
     (\<exists>now cont. processNextItem c Q maxRetries now (fst x) (snd x) = Ret (cont, y)) \<or>
     worker_step c Q maxRetries x y \<and> view (cs_world (snd y)) k = view (cs_world (snd x)) k"

lemma processNextItem_foreign:
  assumes api: "loses_answers (ctl_api c) view" and gc: "\<not> ctl_oldGCBehavior c"
    and run: "processNextItem c Q maxRetries now q st = Ret (cont, q', st')"
    and old: "view (cs_world st) k = Some old" "\<forall>ss. notManaged (ctl_kube c) ss old"
  shows "view (cs_world st') k = Some old"
proof (cases "cs_world st' = cs_world st")
  case False
  obtain key quit q1 where get: "QGet Q q = ((key, quit), q1)" by (metis surj_pair)
  with run False obtain err where "unseal c now key st = Ret (err, st')"
    by (auto simp: processNextItem_def elim!: obind_RetE split: if_splits)
  from secret_steps_foreign [OF unseal_follows [OF api this] old(1) _ old(2)] gc show ?thesis by simp
qed (simp add: old)



end
