(* ===== verification/WellFormed.thy ===== *)
theory WellFormed
  imports MergeProps UnsealProps
begin

text \<open>
  The type of the objects: a Go map has every key once. All operations that build or change an object
  keep it that way.
\<close>

definition meta_wf :: "ObjectMeta \<Rightarrow> bool" where
  "meta_wf m \<longleftrightarrow> map_wf (om_Labels m) \<and> map_wf (om_Annotations m)"

definition wf_Secret :: "Secret \<Rightarrow> bool" where
  "wf_Secret s \<longleftrightarrow> meta_wf (sec_Meta s) \<and> map_wf (sec_Data s) \<and> map_wf (sec_StringData s)"

definition wf_SealedSecret :: "SealedSecret \<Rightarrow> bool" where
  "wf_SealedSecret s \<longleftrightarrow> meta_wf (ss_Meta s) \<and> map_wf (spec_EncryptedData (ss_Spec s)) \<and>
     meta_wf (tmpl_Meta (spec_Template (ss_Spec s))) \<and> map_wf (tmpl_Data (spec_Template (ss_Spec s)))"

lemmas wf_defs = meta_wf_def wf_Secret_def wf_SealedSecret_def

lemma map_put_all_wf: "map_wf dst \<Longrightarrow> map_put_all src dst = Ret m \<Longrightarrow> map_wf m"
  by (auto simp: map_put_all_def simp del: put_all.simps split: list.splits option.splits)

lemma NewSealedSecret_wf:
  assumes "NewSealedSecret C pub secret rnd = (Inr s, rnd')" "wf_Secret secret"
  shows "wf_SealedSecret s"
proof (rule NewSealedSecret_Inr [OF assms(1)])
  fix out1 out2 rnd1
  assume one: "sealItems (\<lambda>r v. HybridEncrypt C r pub v (labelFor (sec_Meta secret))) EncodeToString
       (map_entries (sec_Data secret)) [] rnd = (Inr out1, rnd1)"
    and two: "sealItems (\<lambda>r v. HybridEncrypt C r pub v (labelFor (sec_Meta secret))) EncodeToString
       (string_items (sec_StringData secret)) out1 rnd1 = (Inr out2, rnd')"
    and spec: "ss_Spec s = \<lparr> spec_Template = sealTemplate secret, spec_Data = None, spec_EncryptedData = Some out2 \<rparr>"
    and meta: "ss_Meta s = emptyObjectMeta\<lparr>om_Name := om_Name (sec_Meta secret),
       om_Namespace := om_Namespace (sec_Meta secret),
       om_Annotations := UpdateScopeAnnotations None (SecretScope (sec_Meta secret))\<rparr>"
  have "distinct (map fst out2)"
    using sealItems_distinct [OF two sealItems_distinct [OF one]] by simp
  then show ?thesis
    using assms(2)
    by (simp add: wf_defs spec meta sealTemplate_def emptyObjectMeta_def UpdateScopeAnnotations_wf
        StripLastAppliedAnnotations_wf Let_def)
qed

lemma Unseal_wf:
  assumes "Unseal C L v1 ks s = Inr secret" "spec_Data (ss_Spec s) = None" "wf_SealedSecret s"
  shows "wf_Secret secret"
  using Unseal_data_wf [OF assms(1,2)] assms(3) by (simp add: wf_defs)

lemma mergeSecret_wf:
  assumes "mergeSecret old new = Ret s" "wf_Secret old" "wf_Secret new"
  shows "wf_Secret s"
proof (cases "isAnnotatedToBePatched old")
  case True
  then obtain p where "patchSecret old new = Ret p" "s = p\<lparr>sec_Type := sec_Type new\<rparr>"
    using assms(1) by (auto simp: mergeSecret_def elim: obind_RetE)
  then show ?thesis
    using assms(2,3)
    by (auto simp: patchSecret_def wf_defs Let_def elim!: obind_RetE dest!: map_put_all_wf [rotated]
        split: option.splits if_splits)
next
  case False
  with assms show ?thesis by (auto simp: mergeSecret_def replaceSecret_def wf_defs)
qed

lemma mergeSealed_wf:
  assumes "mergeSealed orig update = Ret s" "wf_SealedSecret orig"
  shows "wf_SealedSecret s"
  using assms by (auto simp: mergeSealed_def wf_defs Let_def elim!: obind_RetE dest: map_put_all_wf [rotated])




end
