(* ===== verification/TypedClient.thy ===== *)
theory TypedClient
  imports KubeAPI
begin

text \<open>
  The generated client of the sealed secrets resource (\<open>clientset/versioned\<close>): every method builds one
  REST request, hands it to client-go and returns what it read, also when there is an error. The
  REST client is a parameter. Durations and the seconds of the list options are 64 bit integers.
\<close>

section \<open>Requests\<close>

type_synonym int64 = "64 word"

record ListOptions =
  lo_LabelSelector :: string
  lo_FieldSelector :: string
  lo_ResourceVersion :: string
  lo_Watch :: bool
  lo_TimeoutSeconds :: "int64 option"

text \<open>The options of the other verbs only go into the query or the body: they stay as text.\<close>

datatype req_params = NoParams | ListParams ListOptions | OptionParams string

datatype req_body = NoBody | ObjectBody SealedSecret | OptionsBody string | PatchBody bytes

datatype req_verb = GET | POST | PUT | DELETE | PATCH string

record request =
  rq_verb :: req_verb
  rq_namespace :: string
  rq_resource :: string
  rq_name :: "string option"
  rq_subresources :: "string list"
  rq_params :: req_params
  rq_timeout :: int64
  rq_body :: req_body

definition newRequest :: "req_verb \<Rightarrow> string \<Rightarrow> string \<Rightarrow> request" where
  "newRequest verb ns resource = \<lparr> rq_verb = verb, rq_namespace = ns, rq_resource = resource, rq_name = None,
     rq_subresources = [], rq_params = NoParams, rq_timeout = 0, rq_body = NoBody \<rparr>"

record SealedSecretList =
  ssl_ResourceVersion :: string
  ssl_Items :: "SealedSecret list"

text \<open>
  \<open>Do(ctx).Into(result)\<close> for an object and for a list (what it left in the result, and the error),
  \<open>Do(ctx).Error()\<close>, and \<open>Watch(ctx)\<close>.
\<close>

record ('w, 'i) rest_client =
  DoObject :: "request \<Rightarrow> 'w \<Rightarrow> (SealedSecret \<times> go_error option) \<times> 'w"
  DoList :: "request \<Rightarrow> 'w \<Rightarrow> (SealedSecretList \<times> go_error option) \<times> 'w"
  DoError :: "request \<Rightarrow> 'w \<Rightarrow> go_error option \<times> 'w"
  DoWatch :: "request \<Rightarrow> 'w \<Rightarrow> (go_error + 'i) \<times> 'w"

section \<open>The methods\<close>

text \<open>\<open>time.Duration(*opts.TimeoutSeconds) * time.Second\<close>, which wraps around.\<close>

definition listTimeout :: "ListOptions \<Rightarrow> int64" where
  "listTimeout opts = (case lo_TimeoutSeconds opts of None \<Rightarrow> 0 | Some t \<Rightarrow> t * 1000000000)"

definition ssc_Get ::
  "('w, 'i) rest_client \<Rightarrow> string \<Rightarrow> string \<Rightarrow> string \<Rightarrow> 'w \<Rightarrow> (SealedSecret \<times> go_error option) \<times> 'w" where
  "ssc_Get R ns name options =
     DoObject R ((newRequest GET ns ''sealedsecrets'')\<lparr>rq_name := Some name, rq_params := OptionParams options\<rparr>)"

definition ssc_List ::
  "('w, 'i) rest_client \<Rightarrow> string \<Rightarrow> ListOptions \<Rightarrow> 'w \<Rightarrow> (SealedSecretList \<times> go_error option) \<times> 'w" where
  "ssc_List R ns opts =
     DoList R ((newRequest GET ns ''sealedsecrets'')\<lparr>rq_params := ListParams opts, rq_timeout := listTimeout opts\<rparr>)"

definition ssc_Watch ::
  "('w, 'i) rest_client \<Rightarrow> string \<Rightarrow> ListOptions \<Rightarrow> 'w \<Rightarrow> (go_error + 'i) \<times> 'w" where
  "ssc_Watch R ns opts = (let timeout = listTimeout opts; opts = opts\<lparr>lo_Watch := True\<rparr> in
     DoWatch R ((newRequest GET ns ''sealedsecrets'')\<lparr>rq_params := ListParams opts, rq_timeout := timeout\<rparr>))"

definition ssc_Create ::
  "('w, 'i) rest_client \<Rightarrow> string \<Rightarrow> SealedSecret \<Rightarrow> string \<Rightarrow> 'w \<Rightarrow> (SealedSecret \<times> go_error option) \<times> 'w" where
  "ssc_Create R ns sealedSecret opts =
     DoObject R ((newRequest POST ns ''sealedsecrets'')\<lparr>rq_params := OptionParams opts, rq_body := ObjectBody sealedSecret\<rparr>)"

definition ssc_Update ::
  "('w, 'i) rest_client \<Rightarrow> string \<Rightarrow> SealedSecret \<Rightarrow> string \<Rightarrow> 'w \<Rightarrow> (SealedSecret \<times> go_error option) \<times> 'w" where
  "ssc_Update R ns sealedSecret opts =
     DoObject R ((newRequest PUT ns ''sealedsecrets'')\<lparr>rq_name := Some (om_Name (ss_Meta sealedSecret)),
       rq_params := OptionParams opts, rq_body := ObjectBody sealedSecret\<rparr>)"

definition ssc_UpdateStatus ::
  "('w, 'i) rest_client \<Rightarrow> string \<Rightarrow> SealedSecret \<Rightarrow> string \<Rightarrow> 'w \<Rightarrow> (SealedSecret \<times> go_error option) \<times> 'w" where
  "ssc_UpdateStatus R ns sealedSecret opts =
     DoObject R ((newRequest PUT ns ''sealedsecrets'')\<lparr>rq_name := Some (om_Name (ss_Meta sealedSecret)),
       rq_subresources := [''status''], rq_params := OptionParams opts, rq_body := ObjectBody sealedSecret\<rparr>)"

definition ssc_Delete :: "('w, 'i) rest_client \<Rightarrow> string \<Rightarrow> string \<Rightarrow> string \<Rightarrow> 'w \<Rightarrow> go_error option \<times> 'w" where
  "ssc_Delete R ns name opts =
     DoError R ((newRequest DELETE ns ''sealedsecrets'')\<lparr>rq_name := Some name, rq_body := OptionsBody opts\<rparr>)"

definition ssc_DeleteCollection ::
  "('w, 'i) rest_client \<Rightarrow> string \<Rightarrow> string \<Rightarrow> ListOptions \<Rightarrow> 'w \<Rightarrow> go_error option \<times> 'w" where
  "ssc_DeleteCollection R ns opts listOpts =
     DoError R ((newRequest DELETE ns ''sealedsecrets'')\<lparr>rq_params := ListParams listOpts,
       rq_timeout := listTimeout listOpts, rq_body := OptionsBody opts\<rparr>)"

definition ssc_Patch ::
  "('w, 'i) rest_client \<Rightarrow> string \<Rightarrow> string \<Rightarrow> string \<Rightarrow> bytes \<Rightarrow> string \<Rightarrow> string list \<Rightarrow> 'w
    \<Rightarrow> (SealedSecret \<times> go_error option) \<times> 'w" where
  "ssc_Patch R ns name pt data opts subresources =
     DoObject R ((newRequest (PATCH pt) ns ''sealedsecrets'')\<lparr>rq_name := Some name, rq_subresources := subresources,
       rq_params := OptionParams opts, rq_body := PatchBody data\<rparr>)"

section \<open>Building the client\<close>

text \<open>\<open>'rl\<close> is a rate limiter. The queries per second are a float: their text.\<close>

record 'rl rest_config =
  cfg_GroupVersion :: string
  cfg_APIPath :: string
  cfg_UserAgent :: string
  cfg_QPS :: string
  cfg_Burst :: int
  cfg_RateLimiter :: "'rl option"

record ('rl, 'h, 'c, 'd) rest_lib =
  DefaultKubernetesUserAgent :: string
  IsPositive :: "string \<Rightarrow> bool"
  HTTPClientFor :: "'rl rest_config \<Rightarrow> go_error + 'h"
  RESTClientFor :: "'rl rest_config \<Rightarrow> 'h \<Rightarrow> go_error + 'c"
  DiscoveryClientFor :: "'rl rest_config \<Rightarrow> 'h \<Rightarrow> go_error + 'd"
  NewTokenBucketRateLimiter :: "string \<Rightarrow> int \<Rightarrow> 'rl"

definition setConfigDefaults :: "('rl, 'h, 'c, 'd) rest_lib \<Rightarrow> 'rl rest_config \<Rightarrow> 'rl rest_config" where
  "setConfigDefaults X config =
     (let config = config\<lparr>cfg_GroupVersion := GroupName @ ''/v1alpha1'', cfg_APIPath := ''/apis''\<rparr>
      in if cfg_UserAgent config = '''' then config\<lparr>cfg_UserAgent := DefaultKubernetesUserAgent X\<rparr> else config)"

definition typed_NewForConfigAndClient ::
  "('rl, 'h, 'c, 'd) rest_lib \<Rightarrow> 'rl rest_config \<Rightarrow> 'h \<Rightarrow> go_error + 'c" where
  "typed_NewForConfigAndClient X c h = RESTClientFor X (setConfigDefaults X c) h"

definition typed_NewForConfig :: "('rl, 'h, 'c, 'd) rest_lib \<Rightarrow> 'rl rest_config \<Rightarrow> go_error + 'c" where
  "typed_NewForConfig X c =
     (let config = setConfigDefaults X c in
      case HTTPClientFor X config of Inl e \<Rightarrow> Inl e | Inr h \<Rightarrow> typed_NewForConfigAndClient X config h)"

definition typed_NewForConfigOrDie :: "('rl, 'h, 'c, 'd) rest_lib \<Rightarrow> 'rl rest_config \<Rightarrow> 'c outcome" where
  "typed_NewForConfigOrDie X c = (case typed_NewForConfig X c of Inl e \<Rightarrow> Panic (PanicWith e) | Inr client \<Rightarrow> Ret client)"

definition NewForConfigAndClient ::
  "('rl, 'h, 'c, 'd) rest_lib \<Rightarrow> 'rl rest_config \<Rightarrow> 'h \<Rightarrow> go_error + ('c \<times> 'd)" where
  "NewForConfigAndClient X c h =
     (if cfg_RateLimiter c = None \<and> IsPositive X (cfg_QPS c) \<and> cfg_Burst c \<le> 0
      then Inl (Errorf ''burst is required to be greater than 0 when RateLimiter is not set and QPS is set to greater than 0'')
      else let c = (if cfg_RateLimiter c = None \<and> IsPositive X (cfg_QPS c)
                    then c\<lparr>cfg_RateLimiter := Some (NewTokenBucketRateLimiter X (cfg_QPS c) (cfg_Burst c))\<rparr> else c) in
        (case typed_NewForConfigAndClient X c h of
           Inl e \<Rightarrow> Inl e
         | Inr client \<Rightarrow>
             (case DiscoveryClientFor X c h of
                Inl e \<Rightarrow> Inl e
              | Inr discovery \<Rightarrow> Inr (client, discovery))))"

definition clientset_NewForConfig :: "('rl, 'h, 'c, 'd) rest_lib \<Rightarrow> 'rl rest_config \<Rightarrow> go_error + ('c \<times> 'd)" where
  "clientset_NewForConfig X c =
     (let c = (if cfg_UserAgent c = '''' then c\<lparr>cfg_UserAgent := DefaultKubernetesUserAgent X\<rparr> else c) in
      case HTTPClientFor X c of Inl e \<Rightarrow> Inl e | Inr h \<Rightarrow> NewForConfigAndClient X c h)"

definition clientset_NewForConfigOrDie :: "('rl, 'h, 'c, 'd) rest_lib \<Rightarrow> 'rl rest_config \<Rightarrow> ('c \<times> 'd) outcome" where
  "clientset_NewForConfigOrDie X c = (case clientset_NewForConfig X c of Inl e \<Rightarrow> Panic (PanicWith e) | Inr cs \<Rightarrow> Ret cs)"

section \<open>The API server through this client\<close>

text \<open>The two calls the controller makes on sealed secrets; it drops the object when there is an error.\<close>

definition clientResult :: "(SealedSecret \<times> go_error option) \<times> 'w \<Rightarrow> (go_error + SealedSecret) \<times> 'w" where
  "clientResult r = (case r of ((s, err), w) \<Rightarrow> (case err of None \<Rightarrow> Inr s | Some e \<Rightarrow> Inl e, w))"

definition restKubeAPI :: "('w, 'i) rest_client \<Rightarrow> 'w kube_api \<Rightarrow> 'w kube_api" where
  "restKubeAPI R api = api
     \<lparr> SealedSecretsGet := (\<lambda>ns name w. clientResult (ssc_Get R ns name '''' w)),
       SealedSecretsUpdateStatus := (\<lambda>ns s w. clientResult (ssc_UpdateStatus R ns s '''' w)) \<rparr>"

end
