(* ===== verification/ControllerRun.thy ===== *)
theory ControllerRun
  imports ControllerMain Worker
begin

text \<open>
  \<open>Controller.Run\<close> of \<open>controller.go\<close> as a state machine: the informers are started, the caches awaited,
  then \<open>wait.Until\<close> runs the worker's loop again and again until the stop channel is closed; the queue
  is shut down by the deferred call at the end. Each iteration of the worker is one step, so the
  handlers of the informers and the closing of the channel come in between; an informer changes its
  index with every event it hands to a handler. \<open>LastSyncResourceVersion\<close> only hands on a value of the
  informer and is left out.
\<close>

datatype run_phase =
    Starting
  | Syncing  \<comment> \<open>in \<open>WaitForCacheSync\<close>\<close>
  | Polling  \<comment> \<open>in \<open>wait.Until\<close>, before the next call of the worker\<close>
  | Working  \<comment> \<open>in \<open>runWorker\<close>\<close>
  | Deferred \<comment> \<open>returning\<close>
  | Returned

record ('q, 'w) run_state =
  rn_phase :: run_phase
  rn_stopped :: bool
  rn_informers :: "informer_kind list"
  rn_ssSynced :: bool
  rn_sSynced :: bool
  rn_queue :: 'q
  rn_ctl :: "'w ctl_state"

definition run_init :: "'q \<Rightarrow> 'w ctl_state \<Rightarrow> ('q, 'w) run_state" where
  "run_init q st = \<lparr> rn_phase = Starting, rn_stopped = False, rn_informers = [], rn_ssSynced = False,
     rn_sSynced = False, rn_queue = q, rn_ctl = st \<rparr>"

definition startInformers :: "controller_setup \<Rightarrow> informer_kind list" where
  "startInformers su = SealedSecretInformer #
     (if su_watchSecrets su \<noteq> None then [SecretInformer] else []) @
     (if su_watchKeySecrets su \<noteq> None then [KeySecretInformer] else [])"

definition runSynced :: "controller_setup \<Rightarrow> ('q, 'w) run_state \<Rightarrow> bool" where
  "runSynced su s = HasSynced (rn_ssSynced s) (if su_watchSecrets su \<noteq> None then Some (rn_sSynced s) else None)"

text \<open>\<open>shutDown\<close> is the queue's \<open>ShutDown\<close>; \<open>ready\<close> says that \<open>Get\<close> does not block.\<close>

inductive run_step ::
  "'w Controller \<Rightarrow> 'q work_queue \<Rightarrow> ('q \<Rightarrow> 'q) \<Rightarrow> ('q \<Rightarrow> bool) \<Rightarrow> controller_setup
    \<Rightarrow> ('q, 'w) run_state \<Rightarrow> ('q, 'w) run_state \<Rightarrow> bool"
  for c Q shutDown ready su where
  start: "rn_phase s = Starting \<Longrightarrow>
    run_step c Q shutDown ready su s (s\<lparr>rn_phase := Syncing, rn_informers := startInformers su\<rparr>)"
| cache_sealed: "SealedSecretInformer \<in> set (rn_informers s) \<Longrightarrow>
    run_step c Q shutDown ready su s (s\<lparr>rn_ssSynced := True\<rparr>)"
| cache_secrets: "SecretInformer \<in> set (rn_informers s) \<Longrightarrow>
    run_step c Q shutDown ready su s (s\<lparr>rn_sSynced := True\<rparr>)"
| sealed_added: "SealedSecretInformer \<in> set (rn_informers s) \<Longrightarrow>
    run_step c Q shutDown ready su s (s\<lparr>rn_queue := watchSealedSecrets_Add (ctl_kube c) Q obj (rn_queue s),
      rn_ctl := (rn_ctl s)\<lparr>cs_index := index\<rparr>\<rparr>)"
| sealed_updated: "SealedSecretInformer \<in> set (rn_informers s) \<Longrightarrow>
    watchSealedSecrets_Update (ctl_kube c) Q old new (rn_queue s) = (q, old', new') \<Longrightarrow>
    run_step c Q shutDown ready su s (s\<lparr>rn_queue := q, rn_ctl := (rn_ctl s)\<lparr>cs_index := index\<rparr>\<rparr>)"
| sealed_deleted: "SealedSecretInformer \<in> set (rn_informers s) \<Longrightarrow>
    watchSealedSecrets_Delete (ctl_kube c) Q obj (rn_queue s) (cs_metrics (rn_ctl s)) = (q, m) \<Longrightarrow>
    run_step c Q shutDown ready su s
      (s\<lparr>rn_queue := q, rn_ctl := (rn_ctl s)\<lparr>cs_index := index, cs_metrics := m\<rparr>\<rparr>)"
| secret_deleted: "SecretInformer \<in> set (rn_informers s) \<Longrightarrow>
    watchSecrets_Delete (ctl_kube c) (ctl_api c) Q obj (rn_queue s) (cs_world (rn_ctl s)) = Ret (q, w) \<Longrightarrow>
    run_step c Q shutDown ready su s (s\<lparr>rn_queue := q, rn_ctl := (rn_ctl s)\<lparr>cs_world := w\<rparr>\<rparr>)"
| key_added: "KeySecretInformer \<in> set (rn_informers s) \<Longrightarrow>
    watchKeySecrets_Add (ctl_crypto c) (ctl_kube c) (su_keyOrderPriority su) obj (cs_registry (rn_ctl s)) = Ret kr \<Longrightarrow>
    run_step c Q shutDown ready su s (s\<lparr>rn_ctl := (rn_ctl s)\<lparr>cs_registry := kr\<rparr>\<rparr>)"
| close_stop: "run_step c Q shutDown ready su s (s\<lparr>rn_stopped := True\<rparr>)"
| synced: "rn_phase s = Syncing \<Longrightarrow> runSynced su s \<Longrightarrow>
    run_step c Q shutDown ready su s (s\<lparr>rn_phase := Polling\<rparr>)"
| sync_stopped: "rn_phase s = Syncing \<Longrightarrow> rn_stopped s \<Longrightarrow>
    run_step c Q shutDown ready su s (s\<lparr>rn_phase := Deferred\<rparr>)"
| until_run: "rn_phase s = Polling \<Longrightarrow> \<not> rn_stopped s \<Longrightarrow>
    run_step c Q shutDown ready su s (s\<lparr>rn_phase := Working\<rparr>)"
| until_stopped: "rn_phase s = Polling \<Longrightarrow> rn_stopped s \<Longrightarrow>
    run_step c Q shutDown ready su s (s\<lparr>rn_phase := Deferred\<rparr>)"
| work: "rn_phase s = Working \<Longrightarrow> ready (rn_queue s) \<Longrightarrow>
    processNextItem c Q (su_maxRetries su) now (rn_queue s) (rn_ctl s) = Ret (cont, q, st) \<Longrightarrow>
    run_step c Q shutDown ready su s
      (s\<lparr>rn_phase := (if cont then Working else Polling), rn_queue := q, rn_ctl := st\<rparr>)"
| return: "rn_phase s = Deferred \<Longrightarrow>
    run_step c Q shutDown ready su s (s\<lparr>rn_phase := Returned, rn_queue := shutDown (rn_queue s)\<rparr>)"

inductive_cases run_stepE: "run_step c Q shutDown ready su s t"

end
