(* ===== verification/RunProps.thy ===== *)
theory RunProps
  imports ControllerRun WorkerProps
begin

text \<open>
  The run of a controller: nothing is done before the caches are filled, and the loop never ends once
  the worker runs.
\<close>

section \<open>Before the caches are filled\<close>

text \<open>
  No sealed secret was looked at: nothing of the cluster that \<open>view\<close> shows has changed, no event was
  recorded, no request counted.
\<close>

definition untouched :: "('w \<Rightarrow> 'v) \<Rightarrow> 'w ctl_state \<Rightarrow> 'w ctl_state \<Rightarrow> bool" where
  "untouched view st st' \<longleftrightarrow> view (cs_world st') = view (cs_world st) \<and> cs_events st' = cs_events st \<and>
     unsealRequestsTotal (cs_metrics st') = unsealRequestsTotal (cs_metrics st) \<and>
     unsealErrorsTotal (cs_metrics st') = unsealErrorsTotal (cs_metrics st)"

definition reads_keep :: "'w kube_api \<Rightarrow> ('w \<Rightarrow> 'v) \<Rightarrow> bool" where
  "reads_keep api view \<longleftrightarrow> (\<forall>ns n w r w'. SealedSecretsGet api ns n w = (r, w') \<longrightarrow> view w' = view w)"

lemma untouched_refl: "untouched view st st"
  by (simp add: untouched_def)

lemma UnregisterCondition_keeps:
  "unsealRequestsTotal (UnregisterCondition s m) = unsealRequestsTotal m \<and>
    unsealErrorsTotal (UnregisterCondition s m) = unsealErrorsTotal m"
proof -
  have "unsealRequestsTotal (fold (\<lambda>condition m. m\<lparr>conditionInfo := f condition m\<rparr>) cs m) = unsealRequestsTotal m \<and>
      unsealErrorsTotal (fold (\<lambda>condition m. m\<lparr>conditionInfo := f condition m\<rparr>) cs m) = unsealErrorsTotal m" for f cs
    by (induction cs arbitrary: m) auto
  then show ?thesis by (simp add: UnregisterCondition_def)
qed

text \<open>The handlers do not touch anything either.\<close>

lemma handlers_untouched:
  "watchSealedSecrets_Delete L Q obj q (cs_metrics st') = (q', m) \<Longrightarrow> untouched view st st'
    \<Longrightarrow> untouched view st (st'\<lparr>cs_index := index, cs_metrics := m\<rparr>)"
  "watchSecrets_Delete L api Q obj q (cs_world st') = Ret (q', w) \<Longrightarrow> reads_keep api view \<Longrightarrow> untouched view st st'
    \<Longrightarrow> untouched view st (st'\<lparr>cs_world := w\<rparr>)"
  "untouched view st st' \<Longrightarrow> untouched view st (st'\<lparr>cs_index := index\<rparr>)"
  "untouched view st st' \<Longrightarrow> untouched view st (st'\<lparr>cs_registry := kr\<rparr>)"
proof -
  show "watchSealedSecrets_Delete L Q obj q (cs_metrics st') = (q', m) \<Longrightarrow> untouched view st st'
    \<Longrightarrow> untouched view st (st'\<lparr>cs_index := index, cs_metrics := m\<rparr>)"
    using UnregisterCondition_keeps [of _ "cs_metrics st'"]
    by (auto simp: untouched_def watchSealedSecrets_Delete_def split: any_object.splits)
  assume run: "watchSecrets_Delete L api Q obj q (cs_world st') = Ret (q', w)" and reads: "reads_keep api view"
    and st: "untouched view st st'"
  have "w = cs_world st' \<or> (\<exists>ns n r. SealedSecretsGet api ns n (cs_world st') = (r, w))"
    using run by (auto simp: watchSecrets_Delete_def elim!: obind_RetE split: sum.splits prod.splits if_splits)
  then show "untouched view st (st'\<lparr>cs_world := w\<rparr>)"
    using reads st by (auto simp: untouched_def reads_keep_def)
qed (simp_all add: untouched_def)

definition run_inv :: "controller_setup \<Rightarrow> ('w \<Rightarrow> 'v) \<Rightarrow> 'w ctl_state \<Rightarrow> ('q, 'w) run_state \<Rightarrow> bool" where
  "run_inv su view st s \<longleftrightarrow>
     (runSynced su s \<or> rn_phase s \<notin> {Polling, Working}) \<and> (rn_phase s = Working \<longrightarrow> runSynced su s) \<and>
     (rn_phase s \<in> {Starting, Syncing} \<or> \<not> runSynced su s \<longrightarrow> untouched view st (rn_ctl s))"

lemma run_init_inv: "run_inv su view st (run_init q st)"
  by (simp add: run_inv_def run_init_def untouched_refl)

lemma run_step_inv:
  assumes "run_step c Q shutDown ready su s t" "reads_keep (ctl_api c) view" "run_inv su view st s"
  shows "run_inv su view st t"
  using assms
  by (cases rule: run_step.cases)
    (auto simp: run_inv_def runSynced_def HasSynced_def handlers_untouched split: if_splits)

lemma run_steps_inv:
  "(run_step c Q shutDown ready su)\<^sup>*\<^sup>* s t \<Longrightarrow> reads_keep (ctl_api c) view \<Longrightarrow> run_inv su view st s \<Longrightarrow> run_inv su view st t"
  by (induction rule: rtranclp_induct) (auto intro: run_step_inv)

section \<open>The end of the loop\<close>

text \<open>What client-go documents: \<open>Get\<close> tells a worker to quit only after \<open>ShutDown\<close>, which nothing else does.\<close>

definition quits_after_shutdown :: "'q work_queue \<Rightarrow> ('q \<Rightarrow> bool) \<Rightarrow> bool" where
  "quits_after_shutdown Q shut \<longleftrightarrow> (\<forall>q. \<not> shut q \<longrightarrow> \<not> snd (fst (QGet Q q)) \<and> \<not> shut (snd (QGet Q q))) \<and>
     (\<forall>q key. \<not> shut q \<longrightarrow> \<not> shut (QDone Q key q) \<and> \<not> shut (QForget Q key q) \<and> \<not> shut (QAdd Q key q) \<and>
       \<not> shut (QAddRateLimited Q key q))"

lemma afterUnseal_not_shut:
  "quits_after_shutdown Q shut \<Longrightarrow> \<not> shut q \<Longrightarrow> \<not> shut (QDone Q key (afterUnseal Q maxRetries key err q))"
  unfolding quits_after_shutdown_def afterUnseal_def by (auto split: option.splits)

lemma processNextItem_continues:
  assumes "quits_after_shutdown Q shut" "\<not> shut q" "processNextItem c Q maxRetries now q st = Ret (cont, q', st')"
  shows "cont \<and> \<not> shut q'"
proof -
  obtain key quit q1 where get: "QGet Q q = ((key, quit), q1)" by (metis surj_pair)
  then have "\<not> quit" "\<not> shut q1"
    using assms(1,2) unfolding quits_after_shutdown_def by (metis fst_conv snd_conv)+
  with assms(3) get afterUnseal_not_shut [OF assms(1)] show ?thesis
    by (auto simp: processNextItem_def elim!: obind_RetE)
qed

lemma handlers_not_shut:
  assumes "quits_after_shutdown Q shut" "\<not> shut q"
  shows "\<not> shut (watchSealedSecrets_Add L Q obj q)"
    "watchSealedSecrets_Update L Q old new q = (q', old', new') \<Longrightarrow> \<not> shut q'"
    "watchSealedSecrets_Delete L Q obj q m = (q', m') \<Longrightarrow> \<not> shut q'"
    "watchSecrets_Delete L api Q obj q w = Ret (q', w') \<Longrightarrow> \<not> shut q'"
proof -
  have add: "\<not> shut (QAdd Q key q)" for key
    using assms unfolding quits_after_shutdown_def by blast
  show "\<not> shut (watchSealedSecrets_Add L Q obj q)"
    "watchSealedSecrets_Update L Q old new q = (q', old', new') \<Longrightarrow> \<not> shut q'"
    "watchSealedSecrets_Delete L Q obj q m = (q', m') \<Longrightarrow> \<not> shut q'"
    using assms(2) add
    by (auto simp: watchSealedSecrets_Add_def watchSealedSecrets_Update_def watchSealedSecrets_Delete_def
        split: sum.splits prod.splits if_splits)
  assume "watchSecrets_Delete L api Q obj q w = Ret (q', w')"
  then have "q' = q \<or> (\<exists>key. q' = QAdd Q key q)"
    by (auto simp: watchSecrets_Delete_def elim!: obind_RetE split: sum.splits prod.splits if_splits)
  with assms(2) add show "\<not> shut q'" by auto
qed

lemma working_stays:
  assumes quits: "quits_after_shutdown Q shut"
    and step: "run_step c Q shutDown ready su s t" and s: "rn_phase s = Working" "\<not> shut (rn_queue s)"
  shows "rn_phase t = Working \<and> \<not> shut (rn_queue t)"
  using step
proof (cases rule: run_step.cases)
  case (work now cont q st)
  with processNextItem_continues [OF quits s(2) work(4)] show ?thesis by simp
qed (use s in \<open>auto simp: handlers_not_shut(1) [OF quits] dest: handlers_not_shut(2-4) [OF quits]\<close>)

lemma working_stays_steps:
  assumes "quits_after_shutdown Q shut" "(run_step c Q shutDown ready su)\<^sup>*\<^sup>* s t"
    "rn_phase s = Working" "\<not> shut (rn_queue s)"
  shows "rn_phase t = Working \<and> \<not> shut (rn_queue t)"
  using assms(2-4) by (induction rule: rtranclp_induct) (auto dest: working_stays [OF assms(1)])

text \<open>A run that is not in the worker's loop has done no work, and the queue is open until the end.\<close>

definition loop_inv :: "('q \<Rightarrow> bool) \<Rightarrow> ('w \<Rightarrow> 'v) \<Rightarrow> 'w ctl_state \<Rightarrow> ('q, 'w) run_state \<Rightarrow> bool" where
  "loop_inv shut view st s \<longleftrightarrow> (rn_phase s \<noteq> Returned \<longrightarrow> \<not> shut (rn_queue s)) \<and>
     (rn_phase s \<noteq> Working \<longrightarrow> untouched view st (rn_ctl s))"

lemma run_step_loop_inv:
  assumes quits: "quits_after_shutdown Q shut" and reads: "reads_keep (ctl_api c) view"
    and step: "run_step c Q shutDown ready su s t" and inv: "loop_inv shut view st s"
  shows "loop_inv shut view st t"
  using step
proof (cases rule: run_step.cases)
  case (work now cont q st')
  with inv processNextItem_continues [OF quits _ work(4)] show ?thesis by (simp add: loop_inv_def)
next
  case (secret_deleted obj q w)
  with inv show ?thesis
    by (auto simp: loop_inv_def handlers_untouched(2) [OF _ reads] dest: handlers_not_shut(4) [OF quits])
next
  case (sealed_deleted obj q m index)
  with inv show ?thesis
    by (auto simp: loop_inv_def handlers_untouched(1) dest: handlers_not_shut(3) [OF quits])
next
  case (sealed_updated old new q old' new' index)
  with inv show ?thesis
    by (auto simp: loop_inv_def handlers_untouched(3) dest: handlers_not_shut(2) [OF quits])
qed (use inv in \<open>auto simp: loop_inv_def handlers_untouched(3,4) handlers_not_shut(1) [OF quits]\<close>)

lemma run_steps_loop_inv:
  assumes "quits_after_shutdown Q shut" "reads_keep (ctl_api c) view"
    "(run_step c Q shutDown ready su)\<^sup>*\<^sup>* s t" "loop_inv shut view st s"
  shows "loop_inv shut view st t"
  using assms(3,4) by (induction rule: rtranclp_induct) (auto intro: run_step_loop_inv [OF assms(1,2)])

text \<open>
  C21: the controller does nothing before its caches are filled: whatever the informers and their handlers
  do, as long as one of the caches that \<open>Run\<close> waits for has not synced, the worker does not run, the
  cluster is as it was, and no event was recorded and no request counted.
\<close>

theorem no_work_before_sync:
  assumes "(run_step c Q shutDown ready su)\<^sup>*\<^sup>* (run_init q st) s" "reads_keep (ctl_api c) view" "\<not> runSynced su s"
  shows "rn_phase s \<notin> {Polling, Working} \<and> untouched view st (rn_ctl s)"
  using run_steps_inv [OF assms(1,2) run_init_inv] assms(3) by (auto simp: run_inv_def)


section \<open>Runs on the samples\<close>

definition sampleSetup :: controller_setup where
  "sampleSetup = \<lparr> su_namespace = '''', su_labelSelector = None, su_watchSecrets = Some '''', su_watchKeySecrets = None,
     su_maxRetries = 5, su_keyOrderPriority = ''CertNotBefore'', su_oldGCBehavior = False, su_updateStatus = True \<rparr>"

text \<open>A queue of one flag: whether it is shut down.\<close>

definition flagQueue :: "bool work_queue" where
  "flagQueue = \<lparr> QGet = (\<lambda>q. (('''', q), q)), QDone = (\<lambda>k q. q), QForget = (\<lambda>k q. q), QAdd = (\<lambda>k q. q),
     QAddRateLimited = (\<lambda>k q. q), QNumRequeues = (\<lambda>k q. 0) \<rparr>"

lemma flagQueue_quits: "quits_after_shutdown flagQueue (\<lambda>q. q)"
  by (simp add: quits_after_shutdown_def flagQueue_def)

lemma store_reads: "reads_keep (ctl_api sampleController) (\<lambda>w. w)"
  by (simp add: reads_keep_def storeAPI_def)

abbreviation "sample_run_step \<equiv> run_step sampleController flagQueue (\<lambda>q. True) (\<lambda>q. True) sampleSetup"

lemma sample_run_starts:
  "sample_run_step\<^sup>*\<^sup>* (run_init False (stateOf emptyStore))
    ((run_init False (stateOf emptyStore))\<lparr>rn_phase := Syncing, rn_informers := startInformers sampleSetup\<rparr>)"
  by (intro r_into_rtranclp run_step.start) (simp add: run_init_def)

theorem no_work_before_sync_witness:
  "\<exists>s. sample_run_step\<^sup>*\<^sup>* (run_init False (stateOf emptyStore)) s \<and> rn_phase s = Syncing \<and> cs_world (rn_ctl s) = emptyStore"
proof -
  let ?s = "(run_init False (stateOf emptyStore))\<lparr>rn_phase := Syncing, rn_informers := startInformers sampleSetup\<rparr>"
  have "\<not> runSynced sampleSetup ?s"
    by (simp add: runSynced_def HasSynced_def run_init_def sampleSetup_def)
  from no_work_before_sync [OF sample_run_starts store_reads this] have "cs_world (rn_ctl ?s) = emptyStore"
    by (simp add: stateOf_def untouched_def)
  with sample_run_starts show ?thesis
    by (intro exI [of _ ?s]) simp
qed

lemma sample_works:
  "\<exists>s. sample_run_step\<^sup>*\<^sup>* (run_init False (stateOf emptyStore)) s \<and> rn_phase s = Working \<and> \<not> rn_queue s"
proof -
  let ?s = "(run_init False (stateOf emptyStore))\<lparr>rn_phase := Syncing, rn_informers := startInformers sampleSetup\<rparr>"
  let ?s1 = "?s\<lparr>rn_ssSynced := True\<rparr>"
  let ?s2 = "?s1\<lparr>rn_sSynced := True\<rparr>"
  have "sample_run_step ?s ?s1" "sample_run_step ?s1 ?s2"
    by (rule run_step.cache_sealed run_step.cache_secrets; simp add: startInformers_def sampleSetup_def)+
  moreover have "sample_run_step ?s2 (?s2\<lparr>rn_phase := Polling\<rparr>)"
    by (rule run_step.synced) (simp_all add: runSynced_def HasSynced_def)
  moreover have "sample_run_step (?s2\<lparr>rn_phase := Polling\<rparr>) (?s2\<lparr>rn_phase := Polling\<rparr>\<lparr>rn_phase := Working\<rparr>)"
    by (rule run_step.until_run) (simp_all add: run_init_def)
  ultimately have "sample_run_step\<^sup>*\<^sup>* (run_init False (stateOf emptyStore)) (?s2\<lparr>rn_phase := Polling\<rparr>\<lparr>rn_phase := Working\<rparr>)"
    using sample_run_starts by (meson rtranclp.rtrancl_into_rtrancl)
  then show ?thesis
    by (intro exI conjI) (assumption, simp_all add: run_init_def)
qed



end
