(* ===== verification/RequestProps.thy ===== *)
theory RequestProps
  imports TypedClient RunProps
begin

text \<open>
  Which requests the controller sends. What holds of every call of the API server holds of whole runs:
  stated once, for any reflexive and transitive relation of worlds, and used on the log of the
  requests of the generated client.
\<close>

section \<open>Relations kept by every call\<close>

locale world_relation =
  fixes api :: "'w kube_api" and rel :: "'w \<Rightarrow> 'w \<Rightarrow> bool"
  assumes rel_refl: "rel w w"
    and rel_trans: "rel w w' \<Longrightarrow> rel w' w'' \<Longrightarrow> rel w w''"
    and rel_SecretsGet: "SecretsGet api ns n w = (r, w') \<Longrightarrow> rel w w'"
    and rel_SecretsCreate: "SecretsCreate api ns s w = (r, w') \<Longrightarrow> rel w w'"
    and rel_SecretsUpdate: "SecretsUpdate api ns s w = (r, w') \<Longrightarrow> rel w w'"
    and rel_SecretsDelete: "SecretsDelete api ns n w = (e, w') \<Longrightarrow> rel w w'"
    and rel_SealedSecretsGet: "SealedSecretsGet api ns n w = (x, w') \<Longrightarrow> rel w w'"
    and rel_UpdateStatus: "SealedSecretsUpdateStatus api ns ss w = (x, w') \<Longrightarrow> rel w w'"
begin

lemma getOrCreate_rel: "getOrCreate api ns new w = (r, w') \<Longrightarrow> rel w w'"
  by (auto simp: getOrCreate_def split: prod.splits sum.splits if_splits
      intro: rel_SecretsGet rel_trans [OF rel_SecretsGet rel_SecretsCreate])

lemma updateStatus_rel: "rel w (snd (snd (updateSealedSecretStatus api u now s err w)))"
  by (auto simp: updateSealedSecretStatus_def Let_def rel_refl split: prod.splits sum.splits intro: rel_UpdateStatus)

lemma unsealObject_rel:
  assumes "ctl_api c = api" "unsealObject c key ss st = Ret (err, st')"
  shows "rel (cs_world st) (cs_world st')"
proof (cases "attemptUnseal c (cs_registry st) ss")
  case (Inl e)
  with assms show ?thesis by (auto simp: unsealObject_def Let_def rel_refl)
next
  case (Inr new)
  obtain r w1 where r: "getOrCreate api (om_Namespace (ss_Meta ss)) new (cs_world st) = (r, w1)" by (metis surj_pair)
  note first = getOrCreate_rel [OF r]
  show ?thesis
  proof (cases r)
    case (Inl e)
    with assms Inr r first show ?thesis by (auto simp: unsealObject_def Let_def)
  next
    case secret: (Inr secret)
    obtain updated where merge: "mergeSecret secret new = Ret updated"
      using mergeSecret_returns by blast
    obtain u w2 where u: "SecretsUpdate api (om_Namespace (ss_Meta ss)) updated w1 = (u, w2)" by (metis surj_pair)
    have "cs_world st' = w1 \<or> cs_world st' = w2"
      using assms Inr r secret merge u by (auto simp: unsealObject_def Let_def split: if_splits sum.splits)
    then show ?thesis
      using first rel_trans [OF first rel_SecretsUpdate [OF u]] by auto
  qed
qed

lemma unseal_rel:
  assumes c: "ctl_api c = api" and run: "unseal c now key st = Ret (err, st')"
  shows "rel (cs_world st) (cs_world st')"
proof -
  let ?st = "st\<lparr>cs_metrics := countRequest (cs_metrics st)\<rparr>"
  consider e where "cs_index st key = Inl e" | "cs_index st key = Inr None"
    | s where "cs_index st key = Inr (Some (SealedSecretObj s))"
    | obj where "cs_index st key = Inr (Some obj)" "\<forall>s. obj \<noteq> SealedSecretObj s"
    by (metis option.exhaust sum.exhaust)
  then show ?thesis
  proof cases
    case 2
    then have "(err, st') = unsealGone c key ?st"
      using run by (simp add: unseal_def)
    then show ?thesis
      using c by (auto simp: unsealGone_def rel_refl split: if_splits sum.splits prod.splits option.splits
          intro: rel_SecretsDelete)
  next
    case (3 s)
    then obtain err1 st1 where u: "unsealObject c key (defaultTypeMeta s) ?st = Ret (err1, st1)"
      and st': "st' = reportStatus c now key (defaultTypeMeta s) err1 st1"
      using run by (auto simp: unseal_def convertSealedSecret_def elim!: obind_RetE)
    from rel_trans [OF unsealObject_rel [OF c u] updateStatus_rel] show ?thesis
      by (simp add: st' reportStatus_world c)
  qed (use run in \<open>auto simp: unseal_def convertSealedSecret_def rel_refl split: any_object.splits\<close>)
qed

lemma processNextItem_rel:
  assumes "ctl_api c = api" "processNextItem c Q maxRetries now q st = Ret (cont, q', st')"
  shows "rel (cs_world st) (cs_world st')"
  using assms(2)
  by (auto simp: processNextItem_def rel_refl elim!: obind_RetE split: prod.splits if_splits
      dest: unseal_rel [OF assms(1)])

lemma watchSecrets_Delete_rel:
  assumes "watchSecrets_Delete L api Q obj q w = Ret (q', w')"
  shows "rel w w'"
proof -
  have "w' = w \<or> (\<exists>ns n r. SealedSecretsGet api ns n w = (r, w'))"
    using assms by (auto simp: watchSecrets_Delete_def elim!: obind_RetE split: sum.splits prod.splits if_splits)
  then show ?thesis
    by (auto simp: rel_refl intro: rel_SealedSecretsGet)
qed

lemma run_step_rel:
  assumes c: "ctl_api c = api" and step: "run_step c Q shutDown ready su s t"
  shows "rel (cs_world (rn_ctl s)) (cs_world (rn_ctl t))"
  using step
proof (cases rule: run_step.cases)
  case (secret_deleted obj q w)
  with watchSecrets_Delete_rel c show ?thesis by simp
next
  case (work now cont q st)
  with processNextItem_rel [OF c] show ?thesis by simp
qed (simp_all add: rel_refl)

lemma run_steps_rel:
  assumes "ctl_api c = api" "(run_step c Q shutDown ready su)\<^sup>*\<^sup>* s t"
  shows "rel (cs_world (rn_ctl s)) (cs_world (rn_ctl t))"
  using assms(2)
proof (induction rule: rtranclp_induct)
  case (step t u)
  from rel_trans [OF step.IH run_step_rel [OF assms(1) step.hyps(2)]] show ?case .
qed (rule rel_refl)

end

section \<open>A log of the requests\<close>

text \<open>A REST client that writes down every request, and an API for the other resources beside the log.\<close>

definition loggedClient :: "('w, 'i) rest_client \<Rightarrow> ('w \<times> request list, 'i) rest_client" where
  "loggedClient R =
     \<lparr> DoObject = (\<lambda>rq (w, log). case DoObject R rq w of (r, w) \<Rightarrow> (r, (w, log @ [rq]))),
       DoList = (\<lambda>rq (w, log). case DoList R rq w of (r, w) \<Rightarrow> (r, (w, log @ [rq]))),
       DoError = (\<lambda>rq (w, log). case DoError R rq w of (r, w) \<Rightarrow> (r, (w, log @ [rq]))),
       DoWatch = (\<lambda>rq (w, log). case DoWatch R rq w of (r, w) \<Rightarrow> (r, (w, log @ [rq]))) \<rparr>"

definition besideLog :: "'w kube_api \<Rightarrow> ('w \<times> request list) kube_api" where
  "besideLog api =
     \<lparr> SecretsGet = (\<lambda>ns n (w, log). case SecretsGet api ns n w of (r, w) \<Rightarrow> (r, (w, log))),
       SecretsList = (\<lambda>ns sel (w, log). case SecretsList api ns sel w of (r, w) \<Rightarrow> (r, (w, log))),
       SecretsCreate = (\<lambda>ns s (w, log). case SecretsCreate api ns s w of (r, w) \<Rightarrow> (r, (w, log))),
       SecretsUpdate = (\<lambda>ns s (w, log). case SecretsUpdate api ns s w of (r, w) \<Rightarrow> (r, (w, log))),
       SecretsDelete = (\<lambda>ns n (w, log). case SecretsDelete api ns n w of (r, w) \<Rightarrow> (r, (w, log))),
       SealedSecretsGet = (\<lambda>ns n (w, log). case SealedSecretsGet api ns n w of (r, w) \<Rightarrow> (r, (w, log))),
       SealedSecretsUpdateStatus = (\<lambda>ns s (w, log).
         case SealedSecretsUpdateStatus api ns s w of (r, w) \<Rightarrow> (r, (w, log))) \<rparr>"

definition loggedAPI :: "('w, 'i) rest_client \<Rightarrow> 'w kube_api \<Rightarrow> ('w \<times> request list) kube_api" where
  "loggedAPI R api = restKubeAPI (loggedClient R) (besideLog api)"

text \<open>A request that leaves the sealed secrets themselves alone.\<close>

definition harmless :: "request \<Rightarrow> bool" where
  "harmless rq \<longleftrightarrow> rq_resource rq = ''sealedsecrets'' \<and> rq_name rq \<noteq> None \<and>
     (rq_verb rq = GET \<and> rq_body rq = NoBody \<or> rq_verb rq = PUT \<and> rq_subresources rq = [''status''])"

definition onlyHarmless :: "'w \<times> request list \<Rightarrow> 'w \<times> request list \<Rightarrow> bool" where
  "onlyHarmless w w' \<longleftrightarrow> (\<exists>reqs. snd w' = snd w @ reqs \<and> (\<forall>rq \<in> set reqs. harmless rq))"

interpretation logged: world_relation "loggedAPI R api" onlyHarmless for R :: "('w, 'i) rest_client" and api
proof unfold_locales
  fix w w' w'' :: "'w \<times> request list"
  show "onlyHarmless w w" by (simp add: onlyHarmless_def)
  show "onlyHarmless w w' \<Longrightarrow> onlyHarmless w' w'' \<Longrightarrow> onlyHarmless w w''"
    by (fastforce simp: onlyHarmless_def)
qed (auto simp: loggedAPI_def restKubeAPI_def besideLog_def loggedClient_def clientResult_def ssc_Get_def
    ssc_UpdateStatus_def newRequest_def onlyHarmless_def harmless_def split: prod.splits option.splits)


definition sampleRest :: "(store, unit) rest_client" where
  "sampleRest = \<lparr> DoObject = (\<lambda>rq w. ((emptySealedSecret, None), w)),
     DoList = (\<lambda>rq w. ((\<lparr> ssl_ResourceVersion = '''', ssl_Items = [] \<rparr>, None), w)),
     DoError = (\<lambda>rq w. (None, w)), DoWatch = (\<lambda>rq w. (Inr (), w)) \<rparr>"

definition loggedController :: "(store \<times> request list) Controller" where
  "loggedController = \<lparr> ctl_crypto = sampleCrypto, ctl_kube = sampleKube, ctl_api = loggedAPI sampleRest storeAPI,
     ctl_acceptV1 = True, ctl_oldGCBehavior = False, ctl_updateStatus = True \<rparr>"

definition loggedState :: "(store \<times> request list) ctl_state" where
  "loggedState = \<lparr> cs_world = (emptyStore, []), cs_index = sampleIndex, cs_events = [], cs_metrics = noMetrics,
     cs_registry = sampleRegistry \<rparr>"

text \<open>A run in which a secret is deleted: one request, a read.\<close>

lemma logged_run:
  "\<exists>s rq. (run_step loggedController flagQueue (\<lambda>q. True) (\<lambda>q. True) sampleSetup)\<^sup>*\<^sup>* (run_init False loggedState) s
    \<and> cs_world (rn_ctl s) = (emptyStore, [rq])"
proof -
  let ?step = "run_step loggedController flagQueue (\<lambda>q. True) (\<lambda>q. True) sampleSetup"
  let ?s = "(run_init False loggedState)\<lparr>rn_phase := Syncing, rn_informers := startInformers sampleSetup\<rparr>"
  let ?obj = "SecretObj sampleSecret"
  have "?step (run_init False loggedState) ?s"
    by (rule run_step.start) (simp add: run_init_def)
  moreover have "\<exists>q rq. watchSecrets_Delete (ctl_kube loggedController) (ctl_api loggedController) flagQueue ?obj
      (rn_queue ?s) (cs_world (rn_ctl ?s)) = Ret (q, (emptyStore, [rq]))"
    by (simp add: watchSecrets_Delete_def loggedController_def loggedAPI_def restKubeAPI_def loggedClient_def
        sampleRest_def clientResult_def ssc_Get_def run_init_def loggedState_def sampleKube_def sampleSecret_def
        flagQueue_def assertSecret_def) (metis (full_types))
  then obtain q rq where del: "watchSecrets_Delete (ctl_kube loggedController) (ctl_api loggedController) flagQueue ?obj
      (rn_queue ?s) (cs_world (rn_ctl ?s)) = Ret (q, (emptyStore, [rq]))"
    by blast
  have "?step ?s (?s\<lparr>rn_queue := q, rn_ctl := (rn_ctl ?s)\<lparr>cs_world := (emptyStore, [rq])\<rparr>\<rparr>)"
    by (rule run_step.secret_deleted [OF _ del]) (simp add: startInformers_def sampleSetup_def)
  ultimately have "?step\<^sup>*\<^sup>* (run_init False loggedState)
      (?s\<lparr>rn_queue := q, rn_ctl := (rn_ctl ?s)\<lparr>cs_world := (emptyStore, [rq])\<rparr>\<rparr>)"
    by (meson converse_rtranclp_into_rtranclp r_into_rtranclp)
  then show ?thesis
    by (intro exI conjI) (assumption, simp)
qed



end
