(* ===== verification/Informers.thy ===== *)
theory Informers
  imports TypedClient "HOL-Library.AList"
begin

text \<open>
  The generated informers and listers of sealed secrets (\<open>informers/externalversions\<close>, \<open>listers\<close>): the
  factory that makes one informer per type and starts each once, the informer of sealed secrets with
  its filters, and the lister over an informer's index. The informers themselves are client-go's.
\<close>

section \<open>The factory\<close>

text \<open>
  A type is its name; \<open>'tw\<close> tweaks list options, \<open>'tr\<close> transforms objects. A factory holds informers
  \<open>'i\<close>; \<open>fa_running\<close> counts the goroutines of its wait group.
\<close>

record ('i, 'tw, 'tr) sharedInformerFactory =
  fa_namespace :: string
  fa_tweakListOptions :: "'tw option"
  fa_defaultResync :: duration
  fa_customResync :: "(string \<times> duration) list"
  fa_transform :: "'tr option"
  fa_informers :: "(string \<times> 'i) list"
  fa_startedInformers :: "string list"
  fa_running :: nat
  fa_shuttingDown :: bool

type_synonym ('i, 'tw, 'tr) SharedInformerOption =
  "('i, 'tw, 'tr) sharedInformerFactory \<Rightarrow> ('i, 'tw, 'tr) sharedInformerFactory"

definition WithCustomResyncConfig :: "(string \<times> duration) list \<Rightarrow> ('i, 'tw, 'tr) SharedInformerOption" where
  "WithCustomResyncConfig resyncConfig f =
     f\<lparr>fa_customResync := fold (\<lambda>(k, v) m. AList.update k v m) resyncConfig (fa_customResync f)\<rparr>"

definition WithTweakListOptions :: "'tw option \<Rightarrow> ('i, 'tw, 'tr) SharedInformerOption" where
  "WithTweakListOptions tweak f = f\<lparr>fa_tweakListOptions := tweak\<rparr>"

definition WithNamespace :: "string \<Rightarrow> ('i, 'tw, 'tr) SharedInformerOption" where
  "WithNamespace namespace f = f\<lparr>fa_namespace := namespace\<rparr>"

definition WithTransform :: "'tr option \<Rightarrow> ('i, 'tw, 'tr) SharedInformerOption" where
  "WithTransform transform f = f\<lparr>fa_transform := transform\<rparr>"

definition NewSharedInformerFactoryWithOptions ::
  "duration \<Rightarrow> ('i, 'tw, 'tr) SharedInformerOption list \<Rightarrow> ('i, 'tw, 'tr) sharedInformerFactory" where
  "NewSharedInformerFactoryWithOptions defaultResync options = fold (\<lambda>opt f. opt f) options
     \<lparr> fa_namespace = '''', fa_tweakListOptions = None, fa_defaultResync = defaultResync, fa_customResync = [],
       fa_transform = None, fa_informers = [], fa_startedInformers = [], fa_running = 0, fa_shuttingDown = False \<rparr>"

definition NewSharedInformerFactory :: "duration \<Rightarrow> ('i, 'tw, 'tr) sharedInformerFactory" where
  "NewSharedInformerFactory defaultResync = NewSharedInformerFactoryWithOptions defaultResync []"

definition NewFilteredSharedInformerFactory ::
  "duration \<Rightarrow> string \<Rightarrow> 'tw option \<Rightarrow> ('i, 'tw, 'tr) sharedInformerFactory" where
  "NewFilteredSharedInformerFactory defaultResync namespace tweak =
     NewSharedInformerFactoryWithOptions defaultResync [WithNamespace namespace, WithTweakListOptions tweak]"

text \<open>\<open>Start\<close>: the informers that are launched, each in its own goroutine, and the factory after it.\<close>

definition factory_Start ::
  "('i, 'tw, 'tr) sharedInformerFactory \<Rightarrow> (string \<times> 'i) list \<times> ('i, 'tw, 'tr) sharedInformerFactory" where
  "factory_Start f =
     (if fa_shuttingDown f then ([], f)
      else let launched = filter (\<lambda>(t, i). t \<notin> set (fa_startedInformers f)) (fa_informers f)
           in (launched, f\<lparr>fa_running := fa_running f + length launched,
                           fa_startedInformers := fa_startedInformers f @ map fst launched\<rparr>))"

text \<open>\<open>Shutdown\<close> up to its wait, which ends when no goroutine is left.\<close>

definition factory_Shutdown :: "('i, 'tw, 'tr) sharedInformerFactory \<Rightarrow> ('i, 'tw, 'tr) sharedInformerFactory" where
  "factory_Shutdown f = f\<lparr>fa_shuttingDown := True\<rparr>"

definition shutdownReturns :: "('i, 'tw, 'tr) sharedInformerFactory \<Rightarrow> bool" where
  "shutdownReturns f \<longleftrightarrow> fa_running f = 0"

text \<open>\<open>wait\<close> is \<open>cache.WaitForCacheSync\<close> on one informer: whether it synced before the stop.\<close>

definition factory_WaitForCacheSync ::
  "('i \<Rightarrow> bool) \<Rightarrow> ('i, 'tw, 'tr) sharedInformerFactory \<Rightarrow> (string \<times> bool) list" where
  "factory_WaitForCacheSync wait f =
     map (\<lambda>(t, i). (t, wait i)) (filter (\<lambda>(t, i). t \<in> set (fa_startedInformers f)) (fa_informers f))"

text \<open>\<open>newFunc\<close> makes an informer with a resync period, \<open>SetTransform\<close> is the informer's method.\<close>

definition InformerFor ::
  "('i \<Rightarrow> 'tr option \<Rightarrow> 'i) \<Rightarrow> string \<Rightarrow> (duration \<Rightarrow> 'i) \<Rightarrow> ('i, 'tw, 'tr) sharedInformerFactory
    \<Rightarrow> 'i \<times> ('i, 'tw, 'tr) sharedInformerFactory" where
  "InformerFor SetTransform informerType newFunc f =
     (case map_of (fa_informers f) informerType of
        Some informer \<Rightarrow> (informer, f)
      | None \<Rightarrow>
          (let resyncPeriod = (case map_of (fa_customResync f) informerType of None \<Rightarrow> fa_defaultResync f | Some d \<Rightarrow> d);
               informer = SetTransform (newFunc resyncPeriod) (fa_transform f)
           in (informer, f\<lparr>fa_informers := AList.update informerType informer (fa_informers f)\<rparr>)))"

section \<open>The informer of sealed secrets\<close>

text \<open>
  \<open>cache.NewSharedIndexInformer\<close> on its list and watch functions, a resync period and the names of its
  indexers. A tweak changes the list options.
\<close>

type_synonym tweak = "ListOptions \<Rightarrow> ListOptions"

record ('w, 'x) ListWatch =
  ListFunc :: "ListOptions \<Rightarrow> 'w \<Rightarrow> (SealedSecretList \<times> go_error option) \<times> 'w"
  WatchFunc :: "ListOptions \<Rightarrow> 'w \<Rightarrow> (go_error + 'x) \<times> 'w"

definition NewFilteredSealedSecretInformer ::
  "(('w, 'x) ListWatch \<Rightarrow> duration \<Rightarrow> string list \<Rightarrow> 'i) \<Rightarrow> ('w, 'x) rest_client \<Rightarrow> string \<Rightarrow> duration \<Rightarrow> string list
    \<Rightarrow> tweak option \<Rightarrow> 'i" where
  "NewFilteredSealedSecretInformer NewSharedIndexInformer R namespace resyncPeriod indexers tweakListOptions =
     NewSharedIndexInformer
       \<lparr> ListFunc = (\<lambda>options. ssc_List R namespace
           (case tweakListOptions of None \<Rightarrow> options | Some tweak \<Rightarrow> tweak options)),
         WatchFunc = (\<lambda>options. ssc_Watch R namespace
           (case tweakListOptions of None \<Rightarrow> options | Some tweak \<Rightarrow> tweak options)) \<rparr>
       resyncPeriod indexers"

definition NewSealedSecretInformer ::
  "(('w, 'x) ListWatch \<Rightarrow> duration \<Rightarrow> string list \<Rightarrow> 'i) \<Rightarrow> ('w, 'x) rest_client \<Rightarrow> string \<Rightarrow> duration \<Rightarrow> string list \<Rightarrow> 'i" where
  "NewSealedSecretInformer NewSharedIndexInformer R namespace resyncPeriod indexers =
     NewFilteredSealedSecretInformer NewSharedIndexInformer R namespace resyncPeriod indexers None"

text \<open>\<open>factory.Bitnami().V1alpha1().SealedSecrets()\<close> carries the factory's namespace and filter along.\<close>

definition defaultInformer ::
  "(('w, 'x) ListWatch \<Rightarrow> duration \<Rightarrow> string list \<Rightarrow> 'i) \<Rightarrow> ('w, 'x) rest_client
    \<Rightarrow> ('i, tweak, 'tr) sharedInformerFactory \<Rightarrow> duration \<Rightarrow> 'i" where
  "defaultInformer NewSharedIndexInformer R f resyncPeriod =
     NewFilteredSealedSecretInformer NewSharedIndexInformer R (fa_namespace f) resyncPeriod [''namespace'']
       (fa_tweakListOptions f)"

definition sealedSecretInformer ::
  "('i \<Rightarrow> 'tr option \<Rightarrow> 'i) \<Rightarrow> (('w, 'x) ListWatch \<Rightarrow> duration \<Rightarrow> string list \<Rightarrow> 'i) \<Rightarrow> ('w, 'x) rest_client
    \<Rightarrow> ('i, tweak, 'tr) sharedInformerFactory \<Rightarrow> 'i \<times> ('i, tweak, 'tr) sharedInformerFactory" where
  "sealedSecretInformer SetTransform NewSharedIndexInformer R f =
     InformerFor SetTransform ''SealedSecret'' (defaultInformer NewSharedIndexInformer R f) f"

text \<open>A resource is a group, a version and a name.\<close>

definition ForResource ::
  "('i \<Rightarrow> 'tr option \<Rightarrow> 'i) \<Rightarrow> (('w, 'x) ListWatch \<Rightarrow> duration \<Rightarrow> string list \<Rightarrow> 'i) \<Rightarrow> ('w, 'x) rest_client
    \<Rightarrow> (string \<times> string \<times> string \<Rightarrow> string) \<Rightarrow> string \<times> string \<times> string \<Rightarrow> ('i, tweak, 'tr) sharedInformerFactory
    \<Rightarrow> (go_error + 'i) \<times> ('i, tweak, 'tr) sharedInformerFactory" where
  "ForResource SetTransform NewSharedIndexInformer R showResource resource f =
     (if resource = (GroupName, ''v1alpha1'', ''sealedsecrets'')
      then (case sealedSecretInformer SetTransform NewSharedIndexInformer R f of (i, f) \<Rightarrow> (Inr i, f))
      else (Inl (Errorf (''no informer found for '' @ showResource resource)), f))"

section \<open>Listers\<close>

text \<open>
  An index of objects by their key; \<open>matches\<close> is the label selector. \<open>ListAll\<close> and \<open>ListAllByNamespace\<close> call
  their function on every matching object; the assertion \<open>m.(*SealedSecret)\<close> panics on another type.
\<close>

record indexer =
  GetByKey :: "string \<Rightarrow> go_error + any_object option"
  ListAll :: "(any_object \<Rightarrow> bool) \<Rightarrow> any_object list \<times> go_error option"
  ListAllByNamespace :: "string \<Rightarrow> (any_object \<Rightarrow> bool) \<Rightarrow> any_object list \<times> go_error option"

definition asSealedSecret :: "any_object \<Rightarrow> SealedSecret outcome" where
  "asSealedSecret obj = (case obj of SealedSecretObj s \<Rightarrow> Ret s | _ \<Rightarrow> Panic TypeAssertion)"

fun appendSealedSecrets :: "any_object list \<Rightarrow> SealedSecret list \<Rightarrow> SealedSecret list outcome" where
  "appendSealedSecrets [] ret = Ret ret"
| "appendSealedSecrets (m # ms) ret = obind (asSealedSecret m) (\<lambda>s. appendSealedSecrets ms (ret @ [s]))"

definition lister_List :: "indexer \<Rightarrow> (any_object \<Rightarrow> bool) \<Rightarrow> (SealedSecret list \<times> go_error option) outcome" where
  "lister_List ix selector = (case ListAll ix selector of (ms, err) \<Rightarrow>
     obind (appendSealedSecrets ms []) (\<lambda>ret. Ret (ret, err)))"

definition lister_ListNamespace ::
  "indexer \<Rightarrow> string \<Rightarrow> (any_object \<Rightarrow> bool) \<Rightarrow> (SealedSecret list \<times> go_error option) outcome" where
  "lister_ListNamespace ix namespace selector = (case ListAllByNamespace ix namespace selector of (ms, err) \<Rightarrow>
     obind (appendSealedSecrets ms []) (\<lambda>ret. Ret (ret, err)))"

definition lister_Get :: "indexer \<Rightarrow> string \<Rightarrow> string \<Rightarrow> (go_error + SealedSecret) outcome" where
  "lister_Get ix namespace name =
     (case GetByKey ix (namespace @ ''/'' @ name) of
        Inl e \<Rightarrow> Ret (Inl e)
      | Inr None \<Rightarrow> Ret (Inl (StatusError 404 ''NotFound''
          (''sealedsecret.'' @ GroupName @ '' '' @ [CHR 0x22] @ name @ [CHR 0x22] @ '' not found'')))
      | Inr (Some obj) \<Rightarrow> obind (asSealedSecret obj) (\<lambda>s. Ret (Inr s)))"

end
