(* ===== verification/InformerProps.thy ===== *)
theory InformerProps
  imports Informers
begin

text \<open>
  The factory of informers as a state machine over its calls, and what its lock protects: one informer per
  type, launched at most once, never after the shutdown. Then what a lister returns, and the timeouts of
  the requests an informer sends.
\<close>

section \<open>The life of a factory\<close>

text \<open>\<open>fw_log\<close> records the launches, \<open>fw_ended\<close> the goroutines that returned (their \<open>wg.Done\<close>).\<close>

record ('i, 'tw, 'tr) factory_world =
  fw_factory :: "('i, 'tw, 'tr) sharedInformerFactory"
  fw_log :: "(string \<times> 'i) list"
  fw_ended :: nat

inductive factory_step ::
  "('i \<Rightarrow> 'tr option \<Rightarrow> 'i) \<Rightarrow> ('i, 'tw, 'tr) factory_world \<Rightarrow> ('i, 'tw, 'tr) factory_world \<Rightarrow> bool"
  for SetTransform where
  request: "InformerFor SetTransform t newFunc (fw_factory w) = (i, f) \<Longrightarrow>
    factory_step SetTransform w (w\<lparr>fw_factory := f\<rparr>)"
| start: "factory_Start (fw_factory w) = (launched, f) \<Longrightarrow>
    factory_step SetTransform w (w\<lparr>fw_factory := f, fw_log := fw_log w @ launched\<rparr>)"
| ended: "fa_running (fw_factory w) = Suc n \<Longrightarrow>
    factory_step SetTransform w (w\<lparr>fw_factory := (fw_factory w)\<lparr>fa_running := n\<rparr>, fw_ended := Suc (fw_ended w)\<rparr>)"
| shutdown: "factory_step SetTransform w (w\<lparr>fw_factory := factory_Shutdown (fw_factory w)\<rparr>)"

inductive_simps factory_step_iff: "factory_step S w w'"

definition newFactory :: "duration \<Rightarrow> ('i, 'tw, 'tr) SharedInformerOption list \<Rightarrow> ('i, 'tw, 'tr) factory_world" where
  "newFactory d options =
     \<lparr>fw_factory = NewSharedInformerFactoryWithOptions d options, fw_log = [], fw_ended = 0\<rparr>"

text \<open>The options the package offers.\<close>

inductive offeredOption :: "('i, 'tw, 'tr) SharedInformerOption \<Rightarrow> bool" where
  "offeredOption (WithCustomResyncConfig c)"
| "offeredOption (WithTweakListOptions t)"
| "offeredOption (WithNamespace n)"
| "offeredOption (WithTransform tr)"

lemmas option_defs = WithCustomResyncConfig_def WithTweakListOptions_def WithNamespace_def WithTransform_def

definition unused :: "('i, 'tw, 'tr) sharedInformerFactory \<Rightarrow> bool" where
  "unused f \<longleftrightarrow> fa_informers f = [] \<and> fa_startedInformers f = [] \<and> fa_running f = 0 \<and> \<not> fa_shuttingDown f"

lemma offeredOption_unused: "offeredOption opt \<Longrightarrow> unused (opt f) \<longleftrightarrow> unused f"
  by (erule offeredOption.cases) (simp_all add: option_defs unused_def)

lemma options_unused: "list_all offeredOption options \<Longrightarrow> unused f \<Longrightarrow> unused (fold (\<lambda>opt f. opt f) options f)"
  by (induction options arbitrary: f) (simp_all add: offeredOption_unused)

lemma new_factory_unused:
  "list_all offeredOption options \<Longrightarrow> unused (NewSharedInformerFactoryWithOptions d options)"
  unfolding NewSharedInformerFactoryWithOptions_def by (rule options_unused) (simp_all add: unused_def)

section \<open>What every step keeps\<close>

definition factory_ok :: "('i, 'tw, 'tr) factory_world \<Rightarrow> bool" where
  "factory_ok w \<longleftrightarrow> distinct (map fst (fa_informers (fw_factory w))) \<and> distinct (map fst (fw_log w)) \<and>
     set (fw_log w) \<subseteq> set (fa_informers (fw_factory w)) \<and>
     map fst (fw_log w) = fa_startedInformers (fw_factory w) \<and>
     fa_running (fw_factory w) + fw_ended w = length (fw_log w)"

lemma update_new: "map_of al k = None \<Longrightarrow> AList.update k v al = al @ [(k, v)]"
  by (induction al) (auto split: if_splits)

lemma InformerFor_cases:
  assumes "InformerFor S t n f = (i, f')"
  obtains (known) "map_of (fa_informers f) t = Some i" "f' = f"
  | (fresh) "map_of (fa_informers f) t = None" "f' = f\<lparr>fa_informers := fa_informers f @ [(t, i)]\<rparr>"
  using assms by (cases "map_of (fa_informers f) t") (auto simp: InformerFor_def Let_def update_new)

lemma started_by:
  assumes "factory_Start f = (launched, f')" "distinct (map fst (fa_informers f))"
  shows "fa_informers f' = fa_informers f" "fa_shuttingDown f' = fa_shuttingDown f"
    "fa_running f' = fa_running f + length launched"
    "fa_startedInformers f' = fa_startedInformers f @ map fst launched"
    "set launched \<subseteq> set (fa_informers f)" "distinct (map fst launched)"
    "fst ` set launched \<inter> set (fa_startedInformers f) = {}"
    "\<not> fa_shuttingDown f \<Longrightarrow> fst ` set (fa_informers f) \<subseteq> set (fa_startedInformers f')"
    "fa_shuttingDown f \<Longrightarrow> launched = []"
  using assms by (auto simp: factory_Start_def Let_def distinct_map_filter image_iff split: if_splits)

lemma factory_step_ok:
  assumes "factory_step S w w'" "factory_ok w"
  shows "factory_ok w'"
  using assms(1)
proof (cases rule: factory_step.cases)
  case (request t newFunc i f)
  then show ?thesis
    using assms(2) by (auto simp: factory_ok_def map_of_eq_None_iff elim!: InformerFor_cases)
next
  case (start launched f)
  have d: "distinct (map fst (fa_informers (fw_factory w)))"
    using assms(2) by (simp add: factory_ok_def)
  show ?thesis
    using started_by(1,3,4,5,6,7) [OF start(2) d] assms(2) start(1) by (auto simp: factory_ok_def)
qed (use assms(2) in \<open>auto simp: factory_ok_def factory_Shutdown_def\<close>)

lemma factory_steps_ok: "(factory_step S)\<^sup>*\<^sup>* w w' \<Longrightarrow> factory_ok w \<Longrightarrow> factory_ok w'"
  by (induction rule: rtranclp_induct) (auto intro: factory_step_ok)

lemma new_factory_ok: "list_all offeredOption options \<Longrightarrow> factory_ok (newFactory d options)"
  using new_factory_unused [of options d] by (simp add: factory_ok_def newFactory_def unused_def)

lemma every_informer_started:
  assumes "factory_ok w" "\<not> fa_shuttingDown (fw_factory w)"
  shows "set (fw_log w) \<union> set (fst (factory_Start (fw_factory w))) = set (fa_informers (fw_factory w))"
proof -
  have "x \<in> set (fw_log w)" if x: "x \<in> set (fa_informers (fw_factory w))" "fst x \<in> set (fa_startedInformers (fw_factory w))" for x
  proof -
    obtain y where "y \<in> set (fw_log w)" "fst y = fst x"
      using assms(1) x(2) unfolding factory_ok_def by (metis imageE list.set_map)
    then show ?thesis
      using assms(1) x(1) inj_onD [of fst "set (fa_informers (fw_factory w))" x y]
      by (auto simp: factory_ok_def distinct_map)
  qed
  moreover have "set (fst (factory_Start (fw_factory w))) =
    {x \<in> set (fa_informers (fw_factory w)). fst x \<notin> set (fa_startedInformers (fw_factory w))}"
    using assms(2) by (auto simp: factory_Start_def Let_def)
  moreover have "set (fw_log w) \<subseteq> set (fa_informers (fw_factory w))"
    using assms(1) by (simp add: factory_ok_def)
  ultimately show ?thesis
    by blast
qed

text \<open>What stays from one state to every later one: informers that were handed out, and the shutdown.\<close>

definition factory_later :: "('i, 'tw, 'tr) factory_world \<Rightarrow> ('i, 'tw, 'tr) factory_world \<Rightarrow> bool" where
  "factory_later w w' \<longleftrightarrow>
     (\<forall>t i. map_of (fa_informers (fw_factory w)) t = Some i \<longrightarrow> map_of (fa_informers (fw_factory w')) t = Some i) \<and>
     (fa_shuttingDown (fw_factory w) \<longrightarrow> fa_shuttingDown (fw_factory w') \<and> fw_log w' = fw_log w)"

lemma factory_step_later:
  assumes "factory_step S w w'" "factory_ok w"
  shows "factory_later w w'"
  using assms(1)
proof (cases rule: factory_step.cases)
  case (start launched f)
  have d: "distinct (map fst (fa_informers (fw_factory w)))"
    using assms(2) by (simp add: factory_ok_def)
  show ?thesis
    using started_by(1,2,9) [OF start(2) d] start(1) by (auto simp: factory_later_def)
qed (auto simp: factory_later_def factory_Shutdown_def elim!: InformerFor_cases)

lemma factory_steps_later: "(factory_step S)\<^sup>*\<^sup>* w w' \<Longrightarrow> factory_ok w \<Longrightarrow> factory_later w w'"
proof (induction rule: rtranclp_induct)
  case (step v w')
  then show ?case
    using factory_step_later [OF step(2) factory_steps_ok [OF step(1)]] by (auto simp: factory_later_def)
qed (simp add: factory_later_def)

text \<open>
  C34: The factory of informers hands out one informer per type for its whole life, however the calls to it
  interleave. Each is launched at most once, a start launches all that were asked for unless the factory was shut
  down before, after a shutdown nothing is launched any more, and the wait group counts exactly the launched
  informers that have not returned.
\<close>

theorem informers_shared_and_started_once:
  assumes "list_all offeredOption options" "(factory_step SetTransform)\<^sup>*\<^sup>* (newFactory d options) w"
    "(factory_step SetTransform)\<^sup>*\<^sup>* w w'"
  shows "distinct (map fst (fw_log w')) \<and> set (fw_log w') \<subseteq> set (fa_informers (fw_factory w')) \<and>
    (\<forall>t i newFunc. map_of (fa_informers (fw_factory w)) t = Some i \<longrightarrow>
       InformerFor SetTransform t newFunc (fw_factory w') = (i, fw_factory w')) \<and>
    (\<not> fa_shuttingDown (fw_factory w') \<longrightarrow>
       set (fw_log w') \<union> set (fst (factory_Start (fw_factory w'))) = set (fa_informers (fw_factory w'))) \<and>
    (fa_shuttingDown (fw_factory w) \<longrightarrow> fw_log w' = fw_log w) \<and>
    (shutdownReturns (fw_factory w') \<longleftrightarrow> fw_ended w' = length (fw_log w'))"
proof -
  have ok: "factory_ok w" "factory_ok w'"
    using factory_steps_ok [OF _ new_factory_ok [OF assms(1)]] assms(2,3) by (auto dest: rtranclp_trans)
  have late: "factory_later w w'"
    by (rule factory_steps_later [OF assms(3) ok(1)])
  have "set (fw_log w') \<union> set (fst (factory_Start (fw_factory w'))) = set (fa_informers (fw_factory w'))"
    if "\<not> fa_shuttingDown (fw_factory w')"
    using that ok(2) every_informer_started by blast
  moreover have "InformerFor SetTransform t newFunc (fw_factory w') = (i, fw_factory w')"
    if "map_of (fa_informers (fw_factory w)) t = Some i" for t i newFunc
    using that late by (simp add: factory_later_def InformerFor_def)
  moreover have "fa_running (fw_factory w') + fw_ended w' = length (fw_log w')"
    "distinct (map fst (fw_log w'))" "set (fw_log w') \<subseteq> set (fa_informers (fw_factory w'))"
    using ok(2) unfolding factory_ok_def by blast+
  ultimately show ?thesis
    using late by (auto simp: factory_later_def shutdownReturns_def)
qed

text \<open>A factory of one kind of informer (its period), started twice around a second request, then shut down.\<close>

definition sampleFactory :: "(duration, unit, unit) factory_world" where
  "sampleFactory = newFactory 600 [WithNamespace ''default'', WithCustomResyncConfig [(''Secret'', 30)]]"

definition sampleStarted :: "(duration, unit, unit) factory_world" where
  "sampleStarted = sampleFactory\<lparr>fw_factory := (fw_factory sampleFactory)\<lparr>fa_informers := [(''SealedSecret'', 600)],
     fa_startedInformers := [''SealedSecret''], fa_running := 1\<rparr>, fw_log := [(''SealedSecret'', 600)]\<rparr>"

lemma sample_factory_run:
  "(factory_step (\<lambda>i tr. i))\<^sup>*\<^sup>* sampleFactory sampleStarted"
  "(factory_step (\<lambda>i tr. i))\<^sup>*\<^sup>* sampleStarted (sampleStarted\<lparr>fw_factory := factory_Shutdown (fw_factory sampleStarted)\<rparr>)"
proof -
  have first: "factory_step (\<lambda>i tr. i) sampleFactory
    (sampleFactory\<lparr>fw_factory := (fw_factory sampleFactory)\<lparr>fa_informers := [(''SealedSecret'', 600)]\<rparr>\<rparr>)" (is "factory_step _ _ ?v")
    by (rule factory_step.request [where t = "''SealedSecret''" and newFunc = "\<lambda>d. d"])
      (simp add: sampleFactory_def newFactory_def NewSharedInformerFactoryWithOptions_def option_defs InformerFor_def)
  have second: "factory_step (\<lambda>i tr. i) ?v
    (?v\<lparr>fw_factory := (fw_factory ?v)\<lparr>fa_running := 1, fa_startedInformers := [''SealedSecret'']\<rparr>,
       fw_log := fw_log ?v @ [(''SealedSecret'', 600)]\<rparr>)"
    by (rule factory_step.start)
      (simp add: sampleFactory_def newFactory_def NewSharedInformerFactoryWithOptions_def option_defs factory_Start_def Let_def)
  have last: "?v\<lparr>fw_factory := (fw_factory ?v)\<lparr>fa_running := 1, fa_startedInformers := [''SealedSecret'']\<rparr>,
       fw_log := fw_log ?v @ [(''SealedSecret'', 600)]\<rparr> = sampleStarted"
    by (simp add: sampleStarted_def sampleFactory_def newFactory_def)
  show "(factory_step (\<lambda>i tr. i))\<^sup>*\<^sup>* sampleFactory sampleStarted"
  proof (rule converse_rtranclp_into_rtranclp)
    show "factory_step (\<lambda>i tr. i) sampleFactory ?v"
      by (rule first)
    show "(factory_step (\<lambda>i tr. i))\<^sup>*\<^sup>* ?v sampleStarted"
      unfolding last [symmetric] by (rule r_into_rtranclp) (rule second)
  qed
  show "(factory_step (\<lambda>i tr. i))\<^sup>*\<^sup>* sampleStarted (sampleStarted\<lparr>fw_factory := factory_Shutdown (fw_factory sampleStarted)\<rparr>)"
    by (intro r_into_rtranclp factory_step.shutdown)
qed

theorem informers_shared_and_started_once_witness:
  "fw_log (sampleStarted\<lparr>fw_factory := factory_Shutdown (fw_factory sampleStarted)\<rparr>) = [(''SealedSecret'', 600)] \<and>
    InformerFor (\<lambda>i tr. i) ''SealedSecret'' (\<lambda>d. 0) (factory_Shutdown (fw_factory sampleStarted)) =
      (600, factory_Shutdown (fw_factory sampleStarted)) \<and>
    \<not> shutdownReturns (factory_Shutdown (fw_factory sampleStarted))"
proof -
  have "list_all offeredOption [WithNamespace ''default'', WithCustomResyncConfig [(''Secret'', 30)] ::
      (duration, unit, unit) SharedInformerOption]"
    by (simp add: offeredOption.intros)
  note fact = informers_shared_and_started_once [OF this sample_factory_run(1)[unfolded sampleFactory_def]
    sample_factory_run(2)]
  have "map_of (fa_informers (fw_factory sampleStarted)) ''SealedSecret'' = Some 600"
    by (simp add: sampleStarted_def)
  then show ?thesis
    using fact by (simp add: sampleStarted_def sampleFactory_def newFactory_def)
qed

section \<open>Listers and timeouts\<close>

text \<open>A lister hands out the objects of its index as they are, and panics when one is not a sealed secret.\<close>

lemma appendSealedSecrets_map: "appendSealedSecrets (map SealedSecretObj ss) ret = Ret (ret @ ss)"
  by (induction ss arbitrary: ret) (simp_all add: asSealedSecret_def)

lemma appendSealedSecrets_other:
  "(\<And>s. m \<noteq> SealedSecretObj s) \<Longrightarrow> m \<in> set ms \<Longrightarrow> appendSealedSecrets ms ret = Panic TypeAssertion"
proof (induction ms arbitrary: ret)
  case (Cons x ms)
  then show ?case
    by (cases x) (auto simp: asSealedSecret_def)
qed simp

lemma lister_lists:
  assumes "ListAllByNamespace ix namespace selector = (map SealedSecretObj ss, err)"
  shows "lister_ListNamespace ix namespace selector = Ret (ss, err)"
  using assms by (simp add: lister_ListNamespace_def appendSealedSecrets_map)

text \<open>The timeout of a list or watch is exact up to about 292 years and wraps around beyond.\<close>

lemma listTimeout_exact:
  assumes "lo_TimeoutSeconds opts = Some t" "- 9223372036 \<le> sint t" "sint t \<le> 9223372036"
  shows "sint (listTimeout opts) = sint t * 1000000000"
proof -
  have "sint (t * 1000000000) = signed_take_bit 63 (sint t * 1000000000)"
    by (simp add: sint_word_ariths)
  also have "\<dots> = sint t * 1000000000"
    using assms(2,3) by (intro signed_take_bit_int_eq_self) simp_all
  finally show ?thesis
    using assms(1) by (simp add: listTimeout_def)
qed

lemma listTimeout_wraps:
  "lo_TimeoutSeconds opts = Some 9223372037 \<Longrightarrow> sint (listTimeout opts) < 0"
  by (simp add: listTimeout_def)

end
