(* ===== verification/DeepCopy.thy ===== *)
theory DeepCopy
  imports SealedSecretTypes
begin

text \<open>
  The generated deep copies (\<open>zz_generated.deepcopy.go\<close>) over an explicit store: pointers, slices and maps are
  addresses, so that a copy that shares memory with its original differs from one that does not. The
  deep copies of the metadata and of \<open>v1.Secret\<close> are those of the Kubernetes libraries.
\<close>

section \<open>The store\<close>

type_synonym addr = nat

text \<open>
  A pointer, slice or map is \<open>None\<close> when it is nil. The structs as they lie in memory; \<open>'x\<close> are the values
  of the libraries (\<open>ObjectMeta\<close>, \<open>ListMeta\<close>, \<open>Secret\<close>), which may hold addresses themselves.
\<close>

record 'x heap_template =
  ht_Meta :: 'x
  ht_Type :: string
  ht_Immutable :: "addr option"
  ht_Data :: "addr option"

record 'x heap_spec =
  hs_Template :: "'x heap_template"
  hs_Data :: "addr option"
  hs_EncryptedData :: "addr option"

record heap_status =
  hst_ObservedGeneration :: int
  hst_Conditions :: "addr option"

record 'x heap_sealed =
  hss_TypeMeta :: TypeMeta
  hss_Meta :: 'x
  hss_Spec :: "'x heap_spec"
  hss_Status :: "addr option"

record 'x heap_list =
  hl_TypeMeta :: TypeMeta
  hl_Meta :: 'x
  hl_Items :: "addr option"

text \<open>What an address holds; a slice is the address of its elements.\<close>

datatype 'x cell =
    Fresh
  | StringMap "(string \<times> string) list"
  | Bytes bytes
  | Bool bool
  | Condition SealedSecretCondition
  | Conditions "SealedSecretCondition list"
  | Status heap_status
  | Template "'x heap_template"
  | Spec "'x heap_spec"
  | Sealed "'x heap_sealed"
  | SealedItems "'x heap_sealed list"
  | SealedList "'x heap_list"
  | Secrets "'x list"
  | Library 'x

record 'x heap =
  hp_cell :: "addr \<Rightarrow> 'x cell"
  hp_limit :: addr

definition allocate :: "'x heap \<Rightarrow> addr \<times> 'x heap" where
  "allocate h = (hp_limit h, h\<lparr>hp_cell := (hp_cell h)(hp_limit h := Fresh), hp_limit := Suc (hp_limit h)\<rparr>)"

definition store :: "addr \<Rightarrow> 'x cell \<Rightarrow> 'x heap \<Rightarrow> 'x heap" where
  "store a c h = h\<lparr>hp_cell := (hp_cell h)(a := c)\<rparr>"

text \<open>Reading through an address; Go's types rule out every other kind of cell there.\<close>

fun entries_of :: "'x cell \<Rightarrow> (string \<times> string) list" where
  "entries_of (StringMap m) = m" | "entries_of _ = []"

fun bytes_of :: "'x cell \<Rightarrow> bytes" where
  "bytes_of (Bytes bs) = bs" | "bytes_of _ = []"

fun bool_of :: "'x cell \<Rightarrow> bool" where
  "bool_of (Bool b) = b" | "bool_of _ = False"

fun condition_of :: "'x cell \<Rightarrow> SealedSecretCondition" where
  "condition_of (Condition c) = c" | "condition_of _ = undefined"

fun conditions_of :: "'x cell \<Rightarrow> SealedSecretCondition list" where
  "conditions_of (Conditions cs) = cs" | "conditions_of _ = []"

fun status_of :: "'x cell \<Rightarrow> heap_status" where
  "status_of (Status s) = s" | "status_of _ = \<lparr>hst_ObservedGeneration = 0, hst_Conditions = None\<rparr>"

fun template_of :: "'x cell \<Rightarrow> 'x heap_template" where
  "template_of (Template t) = t" | "template_of _ = undefined"

fun spec_of :: "'x cell \<Rightarrow> 'x heap_spec" where
  "spec_of (Spec s) = s" | "spec_of _ = undefined"

fun sealed_of :: "'x cell \<Rightarrow> 'x heap_sealed" where
  "sealed_of (Sealed s) = s" | "sealed_of _ = undefined"

fun items_of :: "'x cell \<Rightarrow> 'x heap_sealed list" where
  "items_of (SealedItems s) = s" | "items_of _ = []"

fun list_of_cell :: "'x cell \<Rightarrow> 'x heap_list" where
  "list_of_cell (SealedList l) = l" | "list_of_cell _ = undefined"

fun secrets_of :: "'x cell \<Rightarrow> 'x list" where
  "secrets_of (Secrets s) = s" | "secrets_of _ = []"

section \<open>The copies\<close>

text \<open>
  A \<open>DeepCopyInto\<close> is the value it writes to \<open>*out\<close>, and the store after it. \<open>copyInto\<close> is
  \<open>*out = new(T)\<close> (or \<open>make\<close>) followed by the copy into it; \<open>nilable\<close> is \<open>if in != nil\<close>.
\<close>

type_synonym ('x, 'a) copying = "'a \<Rightarrow> 'x heap \<Rightarrow> 'a \<times> 'x heap"

definition copyInto :: "('x cell \<Rightarrow> 'a) \<Rightarrow> ('a \<Rightarrow> 'x cell) \<Rightarrow> ('x, 'a) copying \<Rightarrow> ('x, addr) copying" where
  "copyInto sel mk copy a h =
     (case allocate h of (out, h1) \<Rightarrow> case copy (sel (hp_cell h a)) h1 of (v, h2) \<Rightarrow> (out, store out (mk v) h2))"

definition nilable :: "('x, addr) copying \<Rightarrow> ('x, addr option) copying" where
  "nilable copy p h = (case p of None \<Rightarrow> (None, h) | Some a \<Rightarrow> (case copy a h of (out, h) \<Rightarrow> (Some out, h)))"

fun copyElems :: "('x, 'a) copying \<Rightarrow> ('x, 'a list) copying" where
  "copyElems copy [] h = ([], h)"
| "copyElems copy (x # xs) h = (case copy x h of (y, h) \<Rightarrow> case copyElems copy xs h of (ys, h) \<Rightarrow> (y # ys, h))"

text \<open>\<open>for key, val := range *in { ( *out )[key] = val }\<close>.\<close>

definition copyEntries :: "('x, (string \<times> string) list) copying" where
  "copyEntries entries h = (fold (\<lambda>(k, v) m. AList.update k v m) entries [], h)"

definition copyStringMap :: "('x, addr) copying" where
  "copyStringMap = copyInto entries_of StringMap copyEntries"

definition copyBytes :: "('x, addr) copying" where
  "copyBytes = copyInto bytes_of Bytes (\<lambda>bs h. (bs, h))"

definition copyBool :: "('x, addr) copying" where
  "copyBool = copyInto bool_of Bool (\<lambda>b h. (b, h))"

record 'x library =
  ObjectMeta_DeepCopyInto :: "('x, 'x) copying"
  ListMeta_DeepCopyInto :: "('x, 'x) copying"
  Secret_DeepCopyInto :: "('x, 'x) copying"

definition SecretTemplateSpec_DeepCopyInto :: "'x library \<Rightarrow> ('x, 'x heap_template) copying" where
  "SecretTemplateSpec_DeepCopyInto L t h =
     (case ObjectMeta_DeepCopyInto L (ht_Meta t) h of (meta, h) \<Rightarrow>
      case nilable copyBool (ht_Immutable t) h of (immutable, h) \<Rightarrow>
      case nilable copyStringMap (ht_Data t) h of (data, h) \<Rightarrow>
        (t\<lparr>ht_Meta := meta, ht_Immutable := immutable, ht_Data := data\<rparr>, h))"

definition SealedSecretSpec_DeepCopyInto :: "'x library \<Rightarrow> ('x, 'x heap_spec) copying" where
  "SealedSecretSpec_DeepCopyInto L s h =
     (case SecretTemplateSpec_DeepCopyInto L (hs_Template s) h of (template, h) \<Rightarrow>
      case nilable copyBytes (hs_Data s) h of (data, h) \<Rightarrow>
      case nilable copyStringMap (hs_EncryptedData s) h of (encrypted, h) \<Rightarrow>
        (s\<lparr>hs_Template := template, hs_Data := data, hs_EncryptedData := encrypted\<rparr>, h))"

text \<open>The times of a condition are values without pointers: their \<open>DeepCopyInto\<close> is an assignment.\<close>

definition SealedSecretCondition_DeepCopyInto :: "('x, SealedSecretCondition) copying" where
  "SealedSecretCondition_DeepCopyInto c h = (c\<lparr>cond_LastUpdateTime := cond_LastUpdateTime c,
     cond_LastTransitionTime := cond_LastTransitionTime c\<rparr>, h)"

definition copyConditions :: "('x, addr) copying" where
  "copyConditions = copyInto conditions_of Conditions (copyElems SealedSecretCondition_DeepCopyInto)"

definition SealedSecretStatus_DeepCopyInto :: "('x, heap_status) copying" where
  "SealedSecretStatus_DeepCopyInto s h =
     (case nilable copyConditions (hst_Conditions s) h of (conditions, h) \<Rightarrow> (s\<lparr>hst_Conditions := conditions\<rparr>, h))"

definition copyStatus :: "('x, addr) copying" where
  "copyStatus = copyInto status_of Status SealedSecretStatus_DeepCopyInto"

definition SealedSecret_DeepCopyInto :: "'x library \<Rightarrow> ('x, 'x heap_sealed) copying" where
  "SealedSecret_DeepCopyInto L s h =
     (case ObjectMeta_DeepCopyInto L (hss_Meta s) h of (meta, h) \<Rightarrow>
      case SealedSecretSpec_DeepCopyInto L (hss_Spec s) h of (spec, h) \<Rightarrow>
      case nilable copyStatus (hss_Status s) h of (status, h) \<Rightarrow>
        (s\<lparr>hss_TypeMeta := hss_TypeMeta s, hss_Meta := meta, hss_Spec := spec, hss_Status := status\<rparr>, h))"

definition copyItems :: "'x library \<Rightarrow> ('x, addr) copying" where
  "copyItems L = copyInto items_of SealedItems (copyElems (SealedSecret_DeepCopyInto L))"

definition SealedSecretList_DeepCopyInto :: "'x library \<Rightarrow> ('x, 'x heap_list) copying" where
  "SealedSecretList_DeepCopyInto L l h =
     (case ListMeta_DeepCopyInto L (hl_Meta l) h of (meta, h) \<Rightarrow>
      case nilable (copyItems L) (hl_Items l) h of (items, h) \<Rightarrow>
        (l\<lparr>hl_TypeMeta := hl_TypeMeta l, hl_Meta := meta, hl_Items := items\<rparr>, h))"

text \<open>The two named map and slice types: their \<open>DeepCopyInto\<close> makes a new one even of nil.\<close>

definition SealedSecretEncryptedData_DeepCopyInto :: "('x, addr option) copying" where
  "SealedSecretEncryptedData_DeepCopyInto m h =
     (case m of None \<Rightarrow> (case allocate h of (out, h) \<Rightarrow> (Some out, store out (StringMap []) h))
      | Some a \<Rightarrow> (case copyStringMap a h of (out, h) \<Rightarrow> (Some out, h)))"

definition copySecrets :: "'x library \<Rightarrow> ('x, addr) copying" where
  "copySecrets L = copyInto secrets_of Secrets (copyElems (Secret_DeepCopyInto L))"

definition ByCreationTimestamp_DeepCopyInto :: "'x library \<Rightarrow> ('x, addr option) copying" where
  "ByCreationTimestamp_DeepCopyInto L s h =
     (case s of None \<Rightarrow> (case allocate h of (out, h) \<Rightarrow> (Some out, store out (Secrets []) h))
      | Some a \<Rightarrow> (case copySecrets L a h of (out, h) \<Rightarrow> (Some out, h)))"

text \<open>\<open>DeepCopy\<close>: nil for nil, else a new object copied into.\<close>

definition SealedSecret_DeepCopy :: "'x library \<Rightarrow> ('x, addr option) copying" where
  "SealedSecret_DeepCopy L = nilable (copyInto sealed_of Sealed (SealedSecret_DeepCopyInto L))"

definition SealedSecretCondition_DeepCopy :: "('x, addr option) copying" where
  "SealedSecretCondition_DeepCopy = nilable (copyInto condition_of Condition SealedSecretCondition_DeepCopyInto)"

definition SealedSecretList_DeepCopy :: "'x library \<Rightarrow> ('x, addr option) copying" where
  "SealedSecretList_DeepCopy L = nilable (copyInto list_of_cell SealedList (SealedSecretList_DeepCopyInto L))"

definition SealedSecretSpec_DeepCopy :: "'x library \<Rightarrow> ('x, addr option) copying" where
  "SealedSecretSpec_DeepCopy L = nilable (copyInto spec_of Spec (SealedSecretSpec_DeepCopyInto L))"

definition SealedSecretStatus_DeepCopy :: "('x, addr option) copying" where
  "SealedSecretStatus_DeepCopy = nilable (copyInto status_of Status SealedSecretStatus_DeepCopyInto)"

definition SecretTemplateSpec_DeepCopy :: "'x library \<Rightarrow> ('x, addr option) copying" where
  "SecretTemplateSpec_DeepCopy L = nilable (copyInto template_of Template (SecretTemplateSpec_DeepCopyInto L))"

definition SealedSecretEncryptedData_DeepCopy :: "('x, addr option) copying" where
  "SealedSecretEncryptedData_DeepCopy m h =
     (if m = None then (None, h) else SealedSecretEncryptedData_DeepCopyInto m h)"

definition ByCreationTimestamp_DeepCopy :: "'x library \<Rightarrow> ('x, addr option) copying" where
  "ByCreationTimestamp_DeepCopy L s h = (if s = None then (None, h) else ByCreationTimestamp_DeepCopyInto L s h)"

text \<open>A \<open>runtime.Object\<close>: nil, or a non-nil pointer with its type.\<close>

datatype runtime_object = SealedSecretPtr addr | SealedSecretListPtr addr

definition SealedSecret_DeepCopyObject ::
  "'x library \<Rightarrow> addr option \<Rightarrow> 'x heap \<Rightarrow> runtime_object option \<times> 'x heap" where
  "SealedSecret_DeepCopyObject L p h =
     (case SealedSecret_DeepCopy L p h of (Some c, h) \<Rightarrow> (Some (SealedSecretPtr c), h) | (None, h) \<Rightarrow> (None, h))"

definition SealedSecretList_DeepCopyObject ::
  "'x library \<Rightarrow> addr option \<Rightarrow> 'x heap \<Rightarrow> runtime_object option \<times> 'x heap" where
  "SealedSecretList_DeepCopyObject L p h =
     (case SealedSecretList_DeepCopy L p h of (Some c, h) \<Rightarrow> (Some (SealedSecretListPtr c), h) | (None, h) \<Rightarrow> (None, h))"

end
