(* ===== verification/DeepCopyProps.thy ===== *)
theory DeepCopyProps
  imports DeepCopy Samples
begin

text \<open>
  The deep copies read like their originals and share no memory with them. The contract of a deep copy is
  the locale \<open>deep_copier\<close>; one lemma per way of building copies (a new object, nil, elements, two fields, a
  struct) carries it from the parts to the whole.
\<close>

section \<open>The contract\<close>

text \<open>Cells of the old store keep their contents.\<close>

definition grows :: "'x heap \<Rightarrow> 'x heap \<Rightarrow> bool" where
  "grows h h' \<longleftrightarrow> hp_limit h \<le> hp_limit h' \<and> (\<forall>a < hp_limit h. hp_cell h' a = hp_cell h a)"

lemma grows_refl [simp]: "grows h h"
  by (simp add: grows_def)

lemma grows_trans: "grows h h1 \<Longrightarrow> grows h1 h2 \<Longrightarrow> grows h h2"
  by (fastforce simp: grows_def)

text \<open>
  \<open>view\<close> is what a value means, \<open>foot\<close> the addresses reachable from it and \<open>ok\<close> that they are allocated and hold
  what they should. All three depend on the cells of the footprint only.
\<close>

locale deep_copier =
  fixes copy :: "('x, 'a) copying" and view :: "'x heap \<Rightarrow> 'a \<Rightarrow> 'v" and foot :: "'x heap \<Rightarrow> 'a \<Rightarrow> addr set"
    and ok :: "'x heap \<Rightarrow> 'a \<Rightarrow> bool"
  assumes below: "ok h x \<Longrightarrow> foot h x \<subseteq> {..<hp_limit h}"
    and view_local: "(\<And>a. a \<in> foot h x \<Longrightarrow> hp_cell h' a = hp_cell h a) \<Longrightarrow> view h' x = view h x"
    and foot_local: "(\<And>a. a \<in> foot h x \<Longrightarrow> hp_cell h' a = hp_cell h a) \<Longrightarrow> foot h' x = foot h x"
    and ok_local: "(\<And>a. a \<in> foot h x \<Longrightarrow> hp_cell h' a = hp_cell h a) \<Longrightarrow> hp_limit h \<le> hp_limit h' \<Longrightarrow> ok h x \<Longrightarrow> ok h' x"
    and copy_grows: "ok h x \<Longrightarrow> copy x h = (y, h') \<Longrightarrow> grows h h'"
    and copy_view: "ok h x \<Longrightarrow> copy x h = (y, h') \<Longrightarrow> view h' y = view h x"
    and copy_fresh: "ok h x \<Longrightarrow> copy x h = (y, h') \<Longrightarrow> foot h' y \<subseteq> {hp_limit h..<hp_limit h'}"
    and copy_ok: "ok h x \<Longrightarrow> copy x h = (y, h') \<Longrightarrow> ok h' y"
begin

lemma kept:
  assumes "ok h x" "grows h h'"
  shows "view h' x = view h x" "foot h' x = foot h x" "ok h' x"
proof -
  have same: "hp_cell h' a = hp_cell h a" if "a \<in> foot h x" for a
    using below [OF assms(1)] assms(2) that by (auto simp: grows_def)
  show "view h' x = view h x" "foot h' x = foot h x" "ok h' x"
    using view_local [OF same] foot_local [OF same] ok_local [OF same _ assms(1)] assms(2) by (auto simp: grows_def)
qed

lemma disjoint: "ok h x \<Longrightarrow> copy x h = (y, h') \<Longrightarrow> foot h' y \<inter> foot h' x = {}"
  using copy_fresh [of h x y h'] kept(2) [OF _ copy_grows, of h x x y h'] below [of h x] by fastforce

text \<open>No write to the one is seen through the other.\<close>

lemma writes_apart:
  assumes "ok h x" "copy x h = (y, h')"
  shows "(\<And>a. a \<notin> foot h' y \<Longrightarrow> hp_cell h'' a = hp_cell h' a) \<Longrightarrow> view h'' x = view h x"
    and "(\<And>a. a \<notin> foot h' x \<Longrightarrow> hp_cell h'' a = hp_cell h' a) \<Longrightarrow> view h'' y = view h x"
proof -
  have apart: "a \<notin> foot h' y" if "a \<in> foot h' x" for a
    using disjoint [OF assms] that by blast
  have apart': "a \<notin> foot h' x" if "a \<in> foot h' y" for a
    using disjoint [OF assms] that by blast
  show "view h'' x = view h x" if "\<And>a. a \<notin> foot h' y \<Longrightarrow> hp_cell h'' a = hp_cell h' a"
    unfolding kept(1) [OF assms(1) copy_grows [OF assms], symmetric] by (rule view_local, rule that, rule apart)
  show "view h'' y = view h x" if "\<And>a. a \<notin> foot h' x \<Longrightarrow> hp_cell h'' a = hp_cell h' a"
    unfolding copy_view [OF assms, symmetric] by (rule view_local, rule that, rule apart')
qed

end

section \<open>Ways of building copies\<close>

lemma deep_copierI:
  assumes "\<And>h x. ok h x \<Longrightarrow> foot h x \<subseteq> {..<hp_limit h}"
    "\<And>h x h'. (\<And>a. a \<in> foot h x \<Longrightarrow> hp_cell h' a = hp_cell h a) \<Longrightarrow> view h' x = view h x"
    "\<And>h x h'. (\<And>a. a \<in> foot h x \<Longrightarrow> hp_cell h' a = hp_cell h a) \<Longrightarrow> foot h' x = foot h x"
    "\<And>h x h'. (\<And>a. a \<in> foot h x \<Longrightarrow> hp_cell h' a = hp_cell h a) \<Longrightarrow> hp_limit h \<le> hp_limit h' \<Longrightarrow> ok h x \<Longrightarrow> ok h' x"
    "\<And>h x y h'. ok h x \<Longrightarrow> copy x h = (y, h') \<Longrightarrow>
       grows h h' \<and> view h' y = view h x \<and> foot h' y \<subseteq> {hp_limit h..<hp_limit h'} \<and> ok h' y"
  shows "deep_copier copy view foot ok"
proof (rule deep_copier.intro)
  show "view h' x = view h x" if "\<And>a. a \<in> foot h x \<Longrightarrow> hp_cell h' a = hp_cell h a" for h x h'
    using that by (rule assms(2))
  show "foot h' x = foot h x" if "\<And>a. a \<in> foot h x \<Longrightarrow> hp_cell h' a = hp_cell h a" for h x h'
    using that by (rule assms(3))
  show "ok h' x" if "\<And>a. a \<in> foot h x \<Longrightarrow> hp_cell h' a = hp_cell h a" "hp_limit h \<le> hp_limit h'" "ok h x" for h x h'
    using that by (rule assms(4))
qed (use assms(1,5) in simp_all)

lemma flat_copier: "deep_copier (\<lambda>x h. (x, h)) (\<lambda>h x. x) (\<lambda>h x. {}) (\<lambda>h x. True)"
  by unfold_locales auto

text \<open>A map with distinct keys is copied entry by entry.\<close>

lemma fold_update_append:
  "distinct (map fst (al @ es)) \<Longrightarrow> fold (\<lambda>(k, v) m. AList.update k v m) es al = al @ es"
proof (induction es arbitrary: al)
  case (Cons e es)
  obtain k v where e: "e = (k, v)"
    by (cases e)
  have "AList.update k v al = al @ [(k, v)]"
    using Cons.prems e by (induction al) (auto split: if_splits)
  then show ?case
    using Cons.IH [of "al @ [(k, v)]"] Cons.prems e by simp
qed simp

lemma entries_copier: "deep_copier copyEntries (\<lambda>h x. x) (\<lambda>h x. {}) (\<lambda>h x. distinct (map fst x))"
  by unfold_locales (auto simp: copyEntries_def fold_update_append [where al = "[]", simplified])

text \<open>\<open>new(T)\<close> and the copy into it.\<close>

lemma allocate_grows: "allocate h = (a, h') \<Longrightarrow> grows h h' \<and> a = hp_limit h \<and> hp_limit h' = Suc (hp_limit h)"
  by (auto simp: allocate_def grows_def)

lemma copyInto_steps:
  assumes "deep_copier copy view foot ok" "\<And>v. sel (mk v) = v" "ok h (sel (hp_cell h a))"
    "copyInto sel mk copy a h = (out, h')"
  obtains v where "out = hp_limit h" "grows h h'" "hp_limit h < hp_limit h'" "sel (hp_cell h' out) = v"
    "view h' v = view h (sel (hp_cell h a))" "foot h' v \<subseteq> {Suc (hp_limit h)..<hp_limit h'}" "ok h' v"
proof -
  let ?x = "sel (hp_cell h a)"
  obtain h1 where h1: "allocate h = (hp_limit h, h1)"
    by (simp add: allocate_def)
  obtain v h2 where h2: "copy ?x h1 = (v, h2)"
    by (cases "copy ?x h1")
  have out: "out = hp_limit h" and h': "h' = store (hp_limit h) (mk v) h2"
    using assms(4) h1 h2 by (auto simp: copyInto_def)
  have g1: "grows h h1" "hp_limit h1 = Suc (hp_limit h)"
    using allocate_grows [OF h1] by auto
  note kept = deep_copier.kept [OF assms(1,3) g1(1)]
  note copied = deep_copier.copy_grows [OF assms(1) kept(3) h2] deep_copier.copy_view [OF assms(1) kept(3) h2]
    deep_copier.copy_fresh [OF assms(1) kept(3) h2] deep_copier.copy_ok [OF assms(1) kept(3) h2]
  have same: "hp_cell h' b = hp_cell h2 b" if "b \<in> foot h2 v" for b
    using copied(3) g1(2) h' that by (auto simp: store_def)
  show thesis
  proof (rule that)
    show "grows h h'" "hp_limit h < hp_limit h'"
      using g1 copied(1) h' by (auto simp: grows_def store_def)
    show "sel (hp_cell h' out) = v"
      using h' out assms(2) by (simp add: store_def)
    show "view h' v = view h ?x"
      using deep_copier.view_local [OF assms(1) same] copied(2) kept(1) by simp
    show "foot h' v \<subseteq> {Suc (hp_limit h)..<hp_limit h'}"
      using deep_copier.foot_local [OF assms(1) same] copied(3) g1(2) h' by (simp add: store_def)
    show "ok h' v"
      by (rule deep_copier.ok_local [OF assms(1) same _ copied(4)]) (simp_all add: h' store_def)
  qed (rule out)
qed

lemma copyInto_copier:
  assumes "deep_copier copy view foot ok" "\<And>v. sel (mk v) = v"
  shows "deep_copier (copyInto sel mk copy) (\<lambda>h a. view h (sel (hp_cell h a)))
    (\<lambda>h a. insert a (foot h (sel (hp_cell h a)))) (\<lambda>h a. a < hp_limit h \<and> ok h (sel (hp_cell h a)))"
proof (rule deep_copierI, goal_cases)
  case (1 h x)
  then show ?case
    using deep_copier.below [OF assms(1)] by fastforce
next
  case (2 h x h')
  then show ?case
    by (simp add: deep_copier.view_local [OF assms(1), of h _ h'])
next
  case (3 h x h')
  then show ?case
    by (simp add: deep_copier.foot_local [OF assms(1), of h _ h'])
next
  case (4 h x h')
  then show ?case
    using deep_copier.ok_local [OF assms(1), of h "sel (hp_cell h x)" h'] by simp
next
  case (5 h x y h')
  then obtain v where "y = hp_limit h" "grows h h'" "hp_limit h < hp_limit h'" "sel (hp_cell h' y) = v"
    "view h' v = view h (sel (hp_cell h x))" "foot h' v \<subseteq> {Suc (hp_limit h)..<hp_limit h'}" "ok h' v"
    using copyInto_steps [OF assms, where h = h] by metis
  then show ?case
    by auto
qed

lemma nilable_copier:
  assumes "deep_copier copy view foot ok"
  shows "deep_copier (nilable copy) (\<lambda>h. map_option (view h)) (\<lambda>h. case_option {} (foot h)) (\<lambda>h. pred_option (ok h))"
proof (rule deep_copierI, goal_cases)
  case (1 h x)
  then show ?case
    using deep_copier.below [OF assms] by (cases x) simp_all
next
  case (2 h x h')
  then show ?case
    by (cases x) (simp_all add: deep_copier.view_local [OF assms, of h _ h'])
next
  case (3 h x h')
  then show ?case
    by (cases x) (simp_all add: deep_copier.foot_local [OF assms, of h _ h'])
next
  case (4 h x h')
  then show ?case
    using deep_copier.ok_local [OF assms, of h _ h'] by (cases x) simp_all
next
  case (5 h x y h')
  show ?case
  proof (cases x)
    case (Some a)
    then obtain out where "ok h a" "copy a h = (out, h')" "y = Some out"
      using 5 by (auto simp: nilable_def split: prod.splits)
    then show ?thesis
      using Some deep_copier.copy_grows [OF assms] deep_copier.copy_view [OF assms] deep_copier.copy_fresh [OF assms]
        deep_copier.copy_ok [OF assms] by simp
  qed (use 5 in \<open>simp add: nilable_def\<close>)
qed

text \<open>Two fields, one after the other.\<close>

definition copyBoth :: "('x, 'a) copying \<Rightarrow> ('x, 'b) copying \<Rightarrow> ('x, 'a \<times> 'b) copying" where
  "copyBoth c d xy h = (case c (fst xy) h of (x', h) \<Rightarrow> case d (snd xy) h of (y', h) \<Rightarrow> ((x', y'), h))"

lemma copyBoth_steps:
  assumes "deep_copier c cv cf co" "deep_copier d dv df dok" "co h x" "dok h y"
    "copyBoth c d (x, y) h = (xy', h')"
  obtains x' y' where "xy' = (x', y')" "grows h h'" "cv h' x' = cv h x" "dv h' y' = dv h y"
    "cf h' x' \<subseteq> {hp_limit h..<hp_limit h'}" "df h' y' \<subseteq> {hp_limit h..<hp_limit h'}" "co h' x'" "dok h' y'"
proof -
  obtain x' h1 y' where c: "c x h = (x', h1)" and d: "d y h1 = (y', h')" and xy: "xy' = (x', y')"
    using assms(5) by (auto simp: copyBoth_def split: prod.splits)
  note g1 = deep_copier.copy_grows [OF assms(1,3) c]
  note y = deep_copier.kept [OF assms(2,4) g1]
  note g2 = deep_copier.copy_grows [OF assms(2) y(3) d]
  note x' = deep_copier.kept [OF assms(1) deep_copier.copy_ok [OF assms(1,3) c] g2]
  have lim: "hp_limit h \<le> hp_limit h1" "hp_limit h1 \<le> hp_limit h'"
    using g1 g2 by (simp_all add: grows_def)
  show thesis
  proof (rule that [OF xy grows_trans [OF g1 g2]])
    show "cf h' x' \<subseteq> {hp_limit h..<hp_limit h'}"
      using deep_copier.copy_fresh [OF assms(1,3) c] x'(2) lim by auto
    show "df h' y' \<subseteq> {hp_limit h..<hp_limit h'}"
      using deep_copier.copy_fresh [OF assms(2) y(3) d] lim by auto
  qed (use x' y deep_copier.copy_view [OF assms(1,3) c] deep_copier.copy_view [OF assms(2) y(3) d]
      deep_copier.copy_ok [OF assms(2) y(3) d] in auto)
qed

lemma copyBoth_copier:
  assumes "deep_copier c cv cf co" "deep_copier d dv df dok"
  shows "deep_copier (copyBoth c d) (\<lambda>h (x, y). (cv h x, dv h y)) (\<lambda>h (x, y). cf h x \<union> df h y)
    (\<lambda>h (x, y). co h x \<and> dok h y)"
proof (rule deep_copierI, goal_cases)
  case (1 h xy)
  then show ?case
    using deep_copier.below [OF assms(1)] deep_copier.below [OF assms(2)] by (cases xy) auto
next
  case (2 h xy h')
  then show ?case
    by (cases xy) (simp add: deep_copier.view_local [OF assms(1), of h _ h'] deep_copier.view_local [OF assms(2), of h _ h'])
next
  case (3 h xy h')
  then show ?case
    by (cases xy) (simp add: deep_copier.foot_local [OF assms(1), of h _ h'] deep_copier.foot_local [OF assms(2), of h _ h'])
next
  case (4 h xy h')
  then show ?case
    using deep_copier.ok_local [OF assms(1), of h _ h'] deep_copier.ok_local [OF assms(2), of h _ h'] by (cases xy) simp
next
  case (5 h xy xy' h')
  then obtain x y where xy: "xy = (x, y)" "co h x" "dok h y" "copyBoth c d (x, y) h = (xy', h')"
    by (cases xy) auto
  show ?case
    by (rule copyBoth_steps [OF assms xy(2-4)]) (simp add: xy(1))
qed

text \<open>The elements of a slice.\<close>

lemma copyElems_steps:
  assumes "deep_copier copy view foot ok"
  shows "list_all (ok h) xs \<Longrightarrow> copyElems copy xs h = (ys, h') \<Longrightarrow>
    grows h h' \<and> map (view h') ys = map (view h) xs \<and> (\<Union>y \<in> set ys. foot h' y) \<subseteq> {hp_limit h..<hp_limit h'} \<and>
    list_all (ok h') ys"
proof (induction xs arbitrary: h ys)
  case (Cons x xs)
  obtain y h1 zs where x: "copy x h = (y, h1)" and xs: "copyElems copy xs h1 = (zs, h')" and ys: "ys = y # zs"
    using Cons.prems(2) by (auto split: prod.splits)
  have okx: "ok h x" and okxs: "list_all (ok h) xs"
    using Cons.prems(1) by simp_all
  note g1 = deep_copier.copy_grows [OF assms okx x]
  note old = deep_copier.kept [OF assms _ g1]
  have IH: "grows h1 h'" "map (view h') zs = map (view h1) xs" "(\<Union>y \<in> set zs. foot h' y) \<subseteq> {hp_limit h1..<hp_limit h'}"
    "list_all (ok h') zs"
    using Cons.IH [OF _ xs] okxs old(3) by (auto simp: list_all_iff)
  note new = deep_copier.kept [OF assms deep_copier.copy_ok [OF assms okx x] IH(1)]
  have "map (view h1) xs = map (view h) xs"
    using okxs old(1) by (simp add: list_all_iff)
  moreover have "hp_limit h \<le> hp_limit h1" "hp_limit h1 \<le> hp_limit h'"
    using g1 IH(1) by (simp_all add: grows_def)
  moreover have "foot h' y \<subseteq> {hp_limit h..<hp_limit h1}"
    using new(2) deep_copier.copy_fresh [OF assms okx x] by simp
  ultimately show ?case
    using ys IH new(1,3) grows_trans [OF g1 IH(1)] deep_copier.copy_view [OF assms okx x] by fastforce
qed simp

lemma copyElems_copier:
  assumes "deep_copier copy view foot ok"
  shows "deep_copier (copyElems copy) (\<lambda>h. map (view h)) (\<lambda>h xs. \<Union>x \<in> set xs. foot h x) (\<lambda>h. list_all (ok h))"
proof (rule deep_copierI, goal_cases)
  case (1 h xs)
  then show ?case
    using deep_copier.below [OF assms] by (fastforce simp: list_all_iff)
next
  case (2 h xs h')
  then show ?case
    by (auto intro!: deep_copier.view_local [OF assms])
next
  case (3 h xs h')
  have "foot h' x = foot h x" if "x \<in> set xs" for x
    by (rule deep_copier.foot_local [OF assms], rule 3) (use that in blast)
  then show ?case
    by simp
next
  case (4 h xs h')
  have "ok h' x" if "x \<in> set xs" for x
    by (rule deep_copier.ok_local [OF assms, of h x], rule 4(1)) (use that 4(2,3) in \<open>auto simp: list_all_iff\<close>)
  then show ?case
    by (simp add: list_all_iff)
qed (rule copyElems_steps [OF assms])

text \<open>A struct: the fields \<open>get\<close> are copied, the others are assigned.\<close>

lemma struct_copier:
  assumes "deep_copier c cv cf co" "\<And>x h. copy x h = (case c (get x) h of (y, h') \<Rightarrow> (put x y, h'))"
    "\<And>x y. get (put x y) = y" "\<And>x y v. F (put x y) v = F x v" "\<And>h x. view h x = F x (cv h (get x))"
    "\<And>h x. foot h x = cf h (get x)" "\<And>h x. ok h x = co h (get x)"
  shows "deep_copier copy view foot ok"
proof (rule deep_copierI, goal_cases)
  case (1 h x)
  then show ?case
    using deep_copier.below [OF assms(1)] by (simp add: assms(6,7))
next
  case (2 h x h')
  then show ?case
    by (simp add: assms(5,6) deep_copier.view_local [OF assms(1), of h _ h'])
next
  case (3 h x h')
  then show ?case
    by (simp add: assms(6) deep_copier.foot_local [OF assms(1), of h _ h'])
next
  case (4 h x h')
  then show ?case
    using deep_copier.ok_local [OF assms(1), of h "get x" h'] by (simp add: assms(6,7))
next
  case (5 h x z h')
  then obtain y where y: "c (get x) h = (y, h')" "z = put x y" "co h (get x)"
    by (auto simp: assms(2,7) split: prod.splits)
  show ?case
    using deep_copier.copy_grows [OF assms(1) y(3,1)] deep_copier.copy_view [OF assms(1) y(3,1)]
      deep_copier.copy_fresh [OF assms(1) y(3,1)] deep_copier.copy_ok [OF assms(1) y(3,1)]
    by (simp add: assms(3-7) y(2))
qed

section \<open>What the copied values mean\<close>

text \<open>Reading a value out of the store gives the value of the model; \<open>MV\<close> reads the metadata.\<close>

definition readTemplate :: "('x heap \<Rightarrow> 'x \<Rightarrow> ObjectMeta) \<Rightarrow> 'x heap \<Rightarrow> 'x heap_template \<Rightarrow> SecretTemplateSpec" where
  "readTemplate MV h t = \<lparr> tmpl_Meta = MV h (ht_Meta t), tmpl_Type = ht_Type t,
     tmpl_Immutable = map_option (\<lambda>a. bool_of (hp_cell h a)) (ht_Immutable t),
     tmpl_Data = map_option (\<lambda>a. entries_of (hp_cell h a)) (ht_Data t) \<rparr>"

definition readSpec :: "('x heap \<Rightarrow> 'x \<Rightarrow> ObjectMeta) \<Rightarrow> 'x heap \<Rightarrow> 'x heap_spec \<Rightarrow> SealedSecretSpec" where
  "readSpec MV h s = \<lparr> spec_Template = readTemplate MV h (hs_Template s),
     spec_Data = map_option (\<lambda>a. bytes_of (hp_cell h a)) (hs_Data s),
     spec_EncryptedData = map_option (\<lambda>a. entries_of (hp_cell h a)) (hs_EncryptedData s) \<rparr>"

definition readStatus :: "'x heap \<Rightarrow> heap_status \<Rightarrow> SealedSecretStatus" where
  "readStatus h s = \<lparr> st_ObservedGeneration = hst_ObservedGeneration s,
     st_Conditions = (case hst_Conditions s of None \<Rightarrow> [] | Some a \<Rightarrow> conditions_of (hp_cell h a)) \<rparr>"

definition readSealed :: "('x heap \<Rightarrow> 'x \<Rightarrow> ObjectMeta) \<Rightarrow> 'x heap \<Rightarrow> 'x heap_sealed \<Rightarrow> SealedSecret" where
  "readSealed MV h s = \<lparr> ss_TypeMeta = hss_TypeMeta s, ss_Meta = MV h (hss_Meta s), ss_Spec = readSpec MV h (hss_Spec s),
     ss_Status = map_option (\<lambda>a. readStatus h (status_of (hp_cell h a))) (hss_Status s) \<rparr>"

text \<open>The addresses reachable from a value; \<open>MF\<close> gives those of the metadata.\<close>

definition templateReach :: "('x heap \<Rightarrow> 'x \<Rightarrow> addr set) \<Rightarrow> 'x heap \<Rightarrow> 'x heap_template \<Rightarrow> addr set" where
  "templateReach MF h t = MF h (ht_Meta t) \<union> set_option (ht_Immutable t) \<union> set_option (ht_Data t)"

definition specReach :: "('x heap \<Rightarrow> 'x \<Rightarrow> addr set) \<Rightarrow> 'x heap \<Rightarrow> 'x heap_spec \<Rightarrow> addr set" where
  "specReach MF h s = templateReach MF h (hs_Template s) \<union> set_option (hs_Data s) \<union> set_option (hs_EncryptedData s)"

definition statusReach :: "'x heap \<Rightarrow> heap_status \<Rightarrow> addr set" where
  "statusReach h s = set_option (hst_Conditions s)"

definition sealedReach :: "('x heap \<Rightarrow> 'x \<Rightarrow> addr set) \<Rightarrow> 'x heap \<Rightarrow> 'x heap_sealed \<Rightarrow> addr set" where
  "sealedReach MF h s = MF h (hss_Meta s) \<union> specReach MF h (hss_Spec s) \<union>
     (\<Union>a \<in> set_option (hss_Status s). insert a (statusReach h (status_of (hp_cell h a))))"

text \<open>Allocated values: every address lies in the store, and a map has distinct keys.\<close>

definition allocatedMap :: "'x heap \<Rightarrow> addr \<Rightarrow> bool" where
  "allocatedMap h a \<longleftrightarrow> a < hp_limit h \<and> distinct (map fst (entries_of (hp_cell h a)))"

definition allocatedTemplate :: "('x heap \<Rightarrow> 'x \<Rightarrow> bool) \<Rightarrow> 'x heap \<Rightarrow> 'x heap_template \<Rightarrow> bool" where
  "allocatedTemplate MO h t \<longleftrightarrow> MO h (ht_Meta t) \<and> pred_option (\<lambda>a. a < hp_limit h) (ht_Immutable t) \<and>
     pred_option (allocatedMap h) (ht_Data t)"

definition allocatedSpec :: "('x heap \<Rightarrow> 'x \<Rightarrow> bool) \<Rightarrow> 'x heap \<Rightarrow> 'x heap_spec \<Rightarrow> bool" where
  "allocatedSpec MO h s \<longleftrightarrow> allocatedTemplate MO h (hs_Template s) \<and>
     pred_option (\<lambda>a. a < hp_limit h) (hs_Data s) \<and> pred_option (allocatedMap h) (hs_EncryptedData s)"

definition allocatedStatus :: "'x heap \<Rightarrow> heap_status \<Rightarrow> bool" where
  "allocatedStatus h s \<longleftrightarrow> pred_option (\<lambda>a. a < hp_limit h) (hst_Conditions s)"

definition allocatedSealed :: "('x heap \<Rightarrow> 'x \<Rightarrow> bool) \<Rightarrow> 'x heap \<Rightarrow> 'x heap_sealed \<Rightarrow> bool" where
  "allocatedSealed MO h s \<longleftrightarrow> MO h (hss_Meta s) \<and> allocatedSpec MO h (hss_Spec s) \<and>
     pred_option (\<lambda>a. a < hp_limit h \<and> allocatedStatus h (status_of (hp_cell h a))) (hss_Status s)"

lemmas read_defs = readTemplate_def readSpec_def readStatus_def readSealed_def
lemmas reach_defs = templateReach_def specReach_def statusReach_def sealedReach_def
lemmas allocated_defs = allocatedMap_def allocatedTemplate_def allocatedSpec_def allocatedStatus_def allocatedSealed_def

section \<open>The generated copies are deep\<close>

lemma set_option_case: "set_option p = (case p of None \<Rightarrow> {} | Some a \<Rightarrow> {a})"
  by (cases p) simp_all

lemma stringMap_copier: "deep_copier copyStringMap (\<lambda>h a. entries_of (hp_cell h a)) (\<lambda>h a. {a}) allocatedMap"
  unfolding copyStringMap_def allocatedMap_def [abs_def] using copyInto_copier [OF entries_copier, of entries_of StringMap]
  by simp

lemma bytes_copier: "deep_copier copyBytes (\<lambda>h a. bytes_of (hp_cell h a)) (\<lambda>h a. {a}) (\<lambda>h a. a < hp_limit h)"
  unfolding copyBytes_def using copyInto_copier [OF flat_copier, of bytes_of Bytes] by simp

lemma bool_copier: "deep_copier copyBool (\<lambda>h a. bool_of (hp_cell h a)) (\<lambda>h a. {a}) (\<lambda>h a. a < hp_limit h)"
  unfolding copyBool_def using copyInto_copier [OF flat_copier, of bool_of Bool] by simp

lemma condition_copier:
  "deep_copier SealedSecretCondition_DeepCopyInto (\<lambda>h x. x) (\<lambda>h x. {}) (\<lambda>h x. True)"
  using flat_copier unfolding SealedSecretCondition_DeepCopyInto_def [abs_def] by simp

lemma conditions_copier:
  "deep_copier copyConditions (\<lambda>h a. conditions_of (hp_cell h a)) (\<lambda>h a. {a}) (\<lambda>h a. a < hp_limit h)"
  unfolding copyConditions_def
  using copyInto_copier [OF copyElems_copier [OF condition_copier], of conditions_of Conditions]
  by (simp add: list.pred_True)

lemma status_copier: "deep_copier SealedSecretStatus_DeepCopyInto readStatus statusReach allocatedStatus"
  by (rule struct_copier [OF nilable_copier [OF conditions_copier], where get = hst_Conditions
        and put = "\<lambda>s c. s\<lparr>hst_Conditions := c\<rparr>"
        and F = "\<lambda>s v. \<lparr>st_ObservedGeneration = hst_ObservedGeneration s, st_Conditions = (case v of None \<Rightarrow> [] | Some c \<Rightarrow> c)\<rparr>"])
    (auto simp: SealedSecretStatus_DeepCopyInto_def read_defs reach_defs allocated_defs split: option.splits)

lemma statusPtr_copier:
  "deep_copier copyStatus (\<lambda>h a. readStatus h (status_of (hp_cell h a)))
    (\<lambda>h a. insert a (statusReach h (status_of (hp_cell h a))))
    (\<lambda>h a. a < hp_limit h \<and> allocatedStatus h (status_of (hp_cell h a)))"
  unfolding copyStatus_def by (rule copyInto_copier [OF status_copier]) simp

lemma template_copier:
  assumes "deep_copier (ObjectMeta_DeepCopyInto L) MV MF MO"
  shows "deep_copier (SecretTemplateSpec_DeepCopyInto L) (readTemplate MV) (templateReach MF) (allocatedTemplate MO)"
  by (rule struct_copier [OF copyBoth_copier [OF assms copyBoth_copier [OF nilable_copier [OF bool_copier]
          nilable_copier [OF stringMap_copier]]],
        where get = "\<lambda>t. (ht_Meta t, ht_Immutable t, ht_Data t)"
        and put = "\<lambda>t (m, i, d). t\<lparr>ht_Meta := m, ht_Immutable := i, ht_Data := d\<rparr>"
        and F = "\<lambda>t (m, i, d). \<lparr>tmpl_Meta = m, tmpl_Type = ht_Type t, tmpl_Immutable = i, tmpl_Data = d\<rparr>"])
    (auto simp: SecretTemplateSpec_DeepCopyInto_def copyBoth_def read_defs reach_defs allocated_defs
      split: option.splits prod.splits)

lemma spec_copier:
  assumes "deep_copier (ObjectMeta_DeepCopyInto L) MV MF MO"
  shows "deep_copier (SealedSecretSpec_DeepCopyInto L) (readSpec MV) (specReach MF) (allocatedSpec MO)"
  by (rule struct_copier [OF copyBoth_copier [OF template_copier [OF assms] copyBoth_copier [OF
          nilable_copier [OF bytes_copier] nilable_copier [OF stringMap_copier]]],
        where get = "\<lambda>s. (hs_Template s, hs_Data s, hs_EncryptedData s)"
        and put = "\<lambda>s (t, d, e). s\<lparr>hs_Template := t, hs_Data := d, hs_EncryptedData := e\<rparr>"
        and F = "\<lambda>s (t, d, e). \<lparr>spec_Template = t, spec_Data = d, spec_EncryptedData = e\<rparr>"])
    (auto simp: SealedSecretSpec_DeepCopyInto_def copyBoth_def readSpec_def specReach_def allocatedSpec_def
      split: option.splits prod.splits)

lemma sealed_copier:
  assumes "deep_copier (ObjectMeta_DeepCopyInto L) MV MF MO"
  shows "deep_copier (SealedSecret_DeepCopyInto L) (readSealed MV) (sealedReach MF) (allocatedSealed MO)"
  by (rule struct_copier [OF copyBoth_copier [OF assms copyBoth_copier [OF spec_copier [OF assms]
          nilable_copier [OF statusPtr_copier]]],
        where get = "\<lambda>s. (hss_Meta s, hss_Spec s, hss_Status s)"
        and put = "\<lambda>s (m, sp, st). s\<lparr>hss_Meta := m, hss_Spec := sp, hss_Status := st\<rparr>"
        and F = "\<lambda>s (m, sp, st). \<lparr>ss_TypeMeta = hss_TypeMeta s, ss_Meta = m, ss_Spec = sp, ss_Status = st\<rparr>"])
    (auto simp: SealedSecret_DeepCopyInto_def copyBoth_def readSealed_def sealedReach_def allocatedSealed_def
      split: option.splits prod.splits)

text \<open>Lists of sealed secrets and of secrets; \<open>LV\<close> and \<open>SV\<close> read the list's metadata and a secret.\<close>

definition readList ::
  "('x heap \<Rightarrow> 'x \<Rightarrow> ObjectMeta) \<Rightarrow> ('x heap \<Rightarrow> 'x \<Rightarrow> 'l) \<Rightarrow> 'x heap \<Rightarrow> 'x heap_list \<Rightarrow> TypeMeta \<times> 'l \<times> SealedSecret list option"
  where "readList MV LV h l = (hl_TypeMeta l, LV h (hl_Meta l),
     map_option (\<lambda>a. map (readSealed MV h) (items_of (hp_cell h a))) (hl_Items l))"

lemma items_copier:
  assumes "deep_copier (ObjectMeta_DeepCopyInto L) MV MF MO"
  shows "deep_copier (copyItems L) (\<lambda>h a. map (readSealed MV h) (items_of (hp_cell h a)))
    (\<lambda>h a. insert a (\<Union>s \<in> set (items_of (hp_cell h a)). sealedReach MF h s))
    (\<lambda>h a. a < hp_limit h \<and> list_all (allocatedSealed MO h) (items_of (hp_cell h a)))"
  unfolding copyItems_def by (rule copyInto_copier [OF copyElems_copier [OF sealed_copier [OF assms]]]) simp

lemma list_copier:
  assumes "deep_copier (ObjectMeta_DeepCopyInto L) MV MF MO" "deep_copier (ListMeta_DeepCopyInto L) LV LF LO"
  shows "deep_copier (SealedSecretList_DeepCopyInto L) (readList MV LV)
    (\<lambda>h l. LF h (hl_Meta l) \<union> (\<Union>a \<in> set_option (hl_Items l).
       insert a (\<Union>s \<in> set (items_of (hp_cell h a)). sealedReach MF h s)))
    (\<lambda>h l. LO h (hl_Meta l) \<and> pred_option (\<lambda>a. a < hp_limit h \<and>
       list_all (allocatedSealed MO h) (items_of (hp_cell h a))) (hl_Items l))"
  by (rule struct_copier [OF copyBoth_copier [OF assms(2) nilable_copier [OF items_copier [OF assms(1)]]],
        where get = "\<lambda>l. (hl_Meta l, hl_Items l)" and put = "\<lambda>l (m, i). l\<lparr>hl_Meta := m, hl_Items := i\<rparr>"
        and F = "\<lambda>l (m, i). (hl_TypeMeta l, m, i)"])
    (auto simp: SealedSecretList_DeepCopyInto_def copyBoth_def readList_def split: option.splits prod.splits)

lemma secrets_copier:
  assumes "deep_copier (Secret_DeepCopyInto L) SV SF SO"
  shows "deep_copier (copySecrets L) (\<lambda>h a. map (SV h) (secrets_of (hp_cell h a)))
    (\<lambda>h a. insert a (\<Union>s \<in> set (secrets_of (hp_cell h a)). SF h s))
    (\<lambda>h a. a < hp_limit h \<and> list_all (SO h) (secrets_of (hp_cell h a)))"
  unfolding copySecrets_def by (rule copyInto_copier [OF copyElems_copier [OF assms]]) simp

lemma nil_copies:
  "SealedSecret_DeepCopy L None h = (None, h)" "SealedSecretList_DeepCopy L None h = (None, h)"
  "SealedSecretEncryptedData_DeepCopy None h = (None, h)" "ByCreationTimestamp_DeepCopy L None h = (None, h)"
  "SealedSecret_DeepCopyObject L None h = (None, h)" "SealedSecretList_DeepCopyObject L None h = (None, h)"
  by (simp_all add: SealedSecret_DeepCopy_def SealedSecretList_DeepCopy_def SealedSecretEncryptedData_DeepCopy_def
      ByCreationTimestamp_DeepCopy_def SealedSecret_DeepCopyObject_def SealedSecretList_DeepCopyObject_def nilable_def)

interpretation stringMapCopy: deep_copier copyStringMap "\<lambda>h a. entries_of (hp_cell h a)" "\<lambda>h a. {a}" allocatedMap
  by (rule stringMap_copier)

interpretation statusCopy: deep_copier copyStatus "\<lambda>h a. readStatus h (status_of (hp_cell h a))"
  "\<lambda>h a. insert a (statusReach h (status_of (hp_cell h a)))"
  "\<lambda>h a. a < hp_limit h \<and> allocatedStatus h (status_of (hp_cell h a))"
  by (rule statusPtr_copier)

lemma statuses_apart:
  assumes "a < hp_limit h" "allocatedStatus h (status_of (hp_cell h a))" "copyStatus a h = (b, h')"
  shows "insert b (statusReach h' (status_of (hp_cell h' b))) \<inter> insert a (statusReach h' (status_of (hp_cell h' a))) = {}"
  using assms by (intro statusCopy.disjoint) simp_all

section \<open>A sealed secret and its copy\<close>

definition readPtr :: "('x heap \<Rightarrow> 'x \<Rightarrow> ObjectMeta) \<Rightarrow> 'x heap \<Rightarrow> addr \<Rightarrow> SealedSecret" where
  "readPtr MV h a = readSealed MV h (sealed_of (hp_cell h a))"

definition ptrReach :: "('x heap \<Rightarrow> 'x \<Rightarrow> addr set) \<Rightarrow> 'x heap \<Rightarrow> addr \<Rightarrow> addr set" where
  "ptrReach MF h a = insert a (sealedReach MF h (sealed_of (hp_cell h a)))"

lemma sealedPtr_copier:
  assumes "deep_copier (ObjectMeta_DeepCopyInto L) MV MF MO"
  shows "deep_copier (copyInto sealed_of Sealed (SealedSecret_DeepCopyInto L)) (readPtr MV) (ptrReach MF)
    (\<lambda>h a. a < hp_limit h \<and> allocatedSealed MO h (sealed_of (hp_cell h a)))"
  unfolding readPtr_def [abs_def] ptrReach_def [abs_def] by (rule copyInto_copier [OF sealed_copier [OF assms]]) simp

text \<open>
  C20: The deep copy of a sealed secret reads as the same sealed secret, leaves the original as it was and shares no
  memory with it: whatever is written to the cells of the one afterwards, the other reads as before. So the values of
  this development, which no operation changes in place, are those of the code, which works on deep copies.
\<close>

theorem deep_copy_is_independent:
  assumes "deep_copier (ObjectMeta_DeepCopyInto L) MV MF MO" "a < hp_limit h"
    "allocatedSealed MO h (sealed_of (hp_cell h a))"
  shows "\<exists>b h'. SealedSecret_DeepCopy L (Some a) h = (Some b, h') \<and>
    readPtr MV h' b = readPtr MV h a \<and> readPtr MV h' a = readPtr MV h a \<and> ptrReach MF h' b \<inter> ptrReach MF h' a = {} \<and>
    (\<forall>h''. (\<forall>c. c \<notin> ptrReach MF h' b \<longrightarrow> hp_cell h'' c = hp_cell h' c) \<longrightarrow> readPtr MV h'' a = readPtr MV h a) \<and>
    (\<forall>h''. (\<forall>c. c \<notin> ptrReach MF h' a \<longrightarrow> hp_cell h'' c = hp_cell h' c) \<longrightarrow> readPtr MV h'' b = readPtr MV h a)"
proof -
  note c = sealedPtr_copier [OF assms(1)]
  obtain b h' where copy: "copyInto sealed_of Sealed (SealedSecret_DeepCopyInto L) a h = (b, h')"
    by (cases "copyInto sealed_of Sealed (SealedSecret_DeepCopyInto L) a h")
  have ok: "a < hp_limit h \<and> allocatedSealed MO h (sealed_of (hp_cell h a))"
    using assms(2,3) by simp
  show ?thesis
    using copy deep_copier.copy_view [OF c ok copy] deep_copier.kept(1) [OF c ok deep_copier.copy_grows [OF c ok copy]]
      deep_copier.disjoint [OF c ok copy] deep_copier.writes_apart [OF c ok copy]
    by (simp add: SealedSecret_DeepCopy_def nilable_def)
qed

text \<open>Metadata that is a pointer to its labels, and a sealed secret with one item.\<close>

definition labelsLibrary :: "addr option library" where
  "labelsLibrary = \<lparr>ObjectMeta_DeepCopyInto = nilable copyStringMap, ListMeta_DeepCopyInto = nilable copyStringMap,
     Secret_DeepCopyInto = nilable copyStringMap\<rparr>"

definition labelsMeta :: "addr option heap \<Rightarrow> addr option \<Rightarrow> ObjectMeta" where
  "labelsMeta h p = emptyObjectMeta\<lparr>om_Labels := map_option (\<lambda>a. entries_of (hp_cell h a)) p\<rparr>"

lemma labels_copier: "deep_copier (ObjectMeta_DeepCopyInto labelsLibrary) labelsMeta
  (\<lambda>h. case_option {} (\<lambda>a. {a})) (\<lambda>h. pred_option (allocatedMap h))"
  by (rule struct_copier [OF nilable_copier [OF stringMap_copier], where get = "\<lambda>p. p" and put = "\<lambda>p q. q"
        and F = "\<lambda>p v. emptyObjectMeta\<lparr>om_Labels := v\<rparr>"])
    (simp_all add: labelsLibrary_def labelsMeta_def)

definition sampleHeap :: "addr option heap" where
  "sampleHeap = \<lparr>hp_cell = (\<lambda>a. if a = 0 then Sealed \<lparr>hss_TypeMeta = \<lparr>tm_APIVersion = ''bitnami.com/v1alpha1'', tm_Kind = ''SealedSecret''\<rparr>,
     hss_Meta = Some 1, hss_Spec = \<lparr>hs_Template = \<lparr>ht_Meta = None, ht_Type = ''Opaque'', ht_Immutable = None, ht_Data = None\<rparr>,
     hs_Data = None, hs_EncryptedData = Some 2\<rparr>, hss_Status = None\<rparr>
     else if a = 1 then StringMap [(''app'', ''db'')] else if a = 2 then StringMap [(''foo'', ''AgB='')] else Fresh),
     hp_limit = 3\<rparr>"

theorem deep_copy_is_independent_witness:
  "\<exists>b h'. SealedSecret_DeepCopy labelsLibrary (Some 0) sampleHeap = (Some b, h') \<and>
    map_get (spec_EncryptedData (ss_Spec (readPtr labelsMeta h' b))) ''foo'' = Some ''AgB='' \<and>
    map_get (om_Labels (ss_Meta (readPtr labelsMeta h' b))) ''app'' = Some ''db'' \<and> b \<noteq> 0"
proof -
  have "allocatedSealed (\<lambda>h. pred_option (allocatedMap h)) sampleHeap (sealed_of (hp_cell sampleHeap 0))"
    by (simp add: allocated_defs sampleHeap_def)
  from deep_copy_is_independent [OF labels_copier _ this]
  obtain b h' where "SealedSecret_DeepCopy labelsLibrary (Some 0) sampleHeap = (Some b, h')"
    and view: "readPtr labelsMeta h' b = readPtr labelsMeta sampleHeap 0"
    and apart: "ptrReach (\<lambda>h. case_option {} (\<lambda>a. {a})) h' b \<inter> ptrReach (\<lambda>h. case_option {} (\<lambda>a. {a})) h' 0 = {}"
    by (auto simp: sampleHeap_def)
  moreover have "b \<noteq> 0"
    using apart by (auto simp: ptrReach_def)
  moreover have "map_get (spec_EncryptedData (ss_Spec (readPtr labelsMeta sampleHeap 0))) ''foo'' = Some ''AgB=''"
    "map_get (om_Labels (ss_Meta (readPtr labelsMeta sampleHeap 0))) ''app'' = Some ''db''"
    by (simp_all add: readPtr_def read_defs sampleHeap_def labelsMeta_def map_get_def map_entries_def)
  ultimately show ?thesis
    by auto
qed

end
