(* ===== verification/HttpServer.thy ===== *)
theory HttpServer
  imports Server ControllerMain
begin

text \<open>
  The two HTTP servers as the controller sets them up (\<open>server.go\<close>, the HTTP part of \<open>metrics.go\<close>, the end of
  \<open>Main\<close>): routes with their instrumentation and rate limiter, addresses and timeouts, the registration
  of the metrics and the shutdown. The limiter and the Prometheus handlers are those of the libraries.
\<close>

section \<open>Requests and the state of the server\<close>

record http_request =
  hr_Method :: string
  hr_Path :: string
  hr_Headers :: "(string \<times> string) list"
  hr_Body :: "go_error + bytes"

text \<open>\<open>httpRequestsTotal\<close> by path, code and method, and how often a duration was observed by path and method.\<close>

record http_metrics =
  httpRequestsTotal :: "string \<times> string \<times> string \<Rightarrow> nat"
  httpRequestDurationSeconds :: "string \<times> string \<Rightarrow> nat"

definition noHttpMetrics :: http_metrics where
  "noHttpMetrics = \<lparr> httpRequestsTotal = (\<lambda>_. 0), httpRequestDurationSeconds = (\<lambda>_. 0) \<rparr>"

record 'l http_state =
  hs_limiter :: 'l
  hs_rnd :: bytes
  hs_metrics :: http_metrics

type_synonym 'l handler = "http_request \<Rightarrow> 'l http_state \<Rightarrow> (response option \<times> 'l http_state) outcome"

section \<open>The rate limiter\<close>

record RateQuota =
  rq_MaxRate :: int
  rq_MaxBurst :: int

record VaryBy =
  vb_Path :: bool
  vb_Headers :: "string list"

text \<open>
  \<open>throttled\<close>: the store of the counters, the limiter of a quota on it, and the handler that puts the
  limiter of the state in front of another.
\<close>

record ('s, 'l) throttled_lib =
  memstore_New :: "int \<Rightarrow> go_error + 's"
  NewGCRARateLimiter :: "'s \<Rightarrow> RateQuota \<Rightarrow> go_error + 'l"
  RateLimit :: "VaryBy \<Rightarrow> 'l handler \<Rightarrow> 'l handler"

text \<open>\<open>log.Fatal\<close> ends the process: a panic with its message here.\<close>

definition limitedBy :: VaryBy where
  "limitedBy = \<lparr> vb_Path = True, vb_Headers = [''X-Forwarded-For''] \<rparr>"

definition rateLimiter :: "('s, 'l) throttled_lib \<Rightarrow> int \<Rightarrow> int \<Rightarrow> 'l outcome" where
  "rateLimiter T burst rate =
     (case memstore_New T 65536 of
        Inl err \<Rightarrow> Panic (PanicWith err)
      | Inr st \<Rightarrow>
          (case NewGCRARateLimiter T st \<lparr> rq_MaxRate = rate, rq_MaxBurst = burst \<rparr> of
             Inl err \<Rightarrow> Panic (PanicWith err)
           | Inr l \<Rightarrow> Ret l))"

section \<open>Instrumentation\<close>

text \<open>\<open>promhttp\<close>: the handlers around another that report the metrics of a path, and the page of all metrics.\<close>

record 'l promhttp_lib =
  InstrumentHandlerCounter :: "string \<Rightarrow> 'l handler \<Rightarrow> 'l handler"
  InstrumentHandlerDuration :: "string \<Rightarrow> 'l handler \<Rightarrow> 'l handler"
  MetricsPage :: "http_metrics \<Rightarrow> response"

definition Instrument :: "'l promhttp_lib \<Rightarrow> string \<Rightarrow> 'l handler \<Rightarrow> 'l handler" where
  "Instrument P path h = InstrumentHandlerDuration P path (InstrumentHandlerCounter P path h)"

section \<open>The servers\<close>

text \<open>The handler of a path: \<open>serve\<close> with the randomness of the server's state.\<close>

definition routed :: "'w Controller \<Rightarrow> KeyRegistry \<Rightarrow> string \<Rightarrow> 'l handler" where
  "routed c kr path r s = obind (serve c kr path (hr_Body r) (hs_rnd s)) (\<lambda>(w, rnd). Ret (w, s\<lparr>hs_rnd := rnd\<rparr>))"

definition httpMux :: "('s, 'l) throttled_lib \<Rightarrow> 'l promhttp_lib \<Rightarrow> 'w Controller \<Rightarrow> KeyRegistry \<Rightarrow> 'l handler" where
  "httpMux T P c kr r =
     (if hr_Path r = ''/healthz'' then routed c kr ''/healthz'' r
      else if hr_Path r = ''/v1/verify'' then Instrument P ''/v1/verify'' (RateLimit T limitedBy (routed c kr ''/v1/verify'')) r
      else if hr_Path r = ''/v1/rotate'' then Instrument P ''/v1/rotate'' (routed c kr ''/v1/rotate'') r
      else if hr_Path r = ''/v1/cert.pem'' then Instrument P ''/v1/cert.pem'' (routed c kr ''/v1/cert.pem'') r
      else (\<lambda>s. Ret (None, s)))"

record http_flags =
  hf_listenAddr :: string
  hf_listenMetricsAddr :: string
  hf_readTimeout :: duration
  hf_writeTimeout :: duration

definition minute :: duration where "minute = 60000000000"

definition defaultHttpFlags :: http_flags where
  "defaultHttpFlags = \<lparr> hf_listenAddr = '':8080'', hf_listenMetricsAddr = '':8081'', hf_readTimeout = 2 * minute,
     hf_writeTimeout = 2 * minute \<rparr>"

record 'l Server =
  srv_Addr :: string
  srv_Handler :: "'l handler"
  srv_ReadTimeout :: duration
  srv_ReadHeaderTimeout :: duration
  srv_WriteTimeout :: duration

text \<open>The server and the limiter its state starts with.\<close>

definition httpserver ::
  "('s, 'l) throttled_lib \<Rightarrow> 'l promhttp_lib \<Rightarrow> http_flags \<Rightarrow> 'w Controller \<Rightarrow> KeyRegistry \<Rightarrow> int \<Rightarrow> int
    \<Rightarrow> ('l Server \<times> 'l) outcome" where
  "httpserver T P F c kr burst rate =
     obind (rateLimiter T burst rate) (\<lambda>l. Ret
       (\<lparr> srv_Addr = hf_listenAddr F, srv_Handler = httpMux T P c kr, srv_ReadTimeout = hf_readTimeout F,
          srv_ReadHeaderTimeout = hf_readTimeout F, srv_WriteTimeout = hf_writeTimeout F \<rparr>, l))"

definition httpserverMetrics :: "'l promhttp_lib \<Rightarrow> http_flags \<Rightarrow> 'l Server" where
  "httpserverMetrics P F =
     \<lparr> srv_Addr = hf_listenMetricsAddr F,
       srv_Handler = (\<lambda>r s. Ret (if hr_Path r = ''/metrics'' then Some (MetricsPage P (hs_metrics s)) else None, s)),
       srv_ReadTimeout = hf_readTimeout F, srv_ReadHeaderTimeout = hf_readTimeout F,
       srv_WriteTimeout = hf_writeTimeout F \<rparr>"

text \<open>
  Requests one after the other, with their answers. \<open>net/http\<close> recovers from a panic of a handler and drops the
  connection; the handlers that panic do so before they change the state.
\<close>

datatype answer = Answer "response option" | Aborted

fun answers :: "'l handler \<Rightarrow> http_request list \<Rightarrow> 'l http_state \<Rightarrow> answer list \<times> 'l http_state" where
  "answers h [] s = ([], s)"
| "answers h (r # rs) s =
     (case h r s of
        Ret (w, s) \<Rightarrow> (case answers h rs s of (ws, s) \<Rightarrow> (Answer w # ws, s))
      | Panic _ \<Rightarrow> (case answers h rs s of (ws, s) \<Rightarrow> (Aborted # ws, s)))"

section \<open>The end of Main\<close>

text \<open>
  After SIGTERM both servers are shut down, the second only when the first succeeded; then the deferred
  \<open>close(stop)\<close> ends the controllers. The result is the error of \<open>Main\<close>.
\<close>

definition shutdownServers ::
  "('l Server \<Rightarrow> 'w \<Rightarrow> go_error option \<times> 'w) \<Rightarrow> 'l Server \<Rightarrow> 'l Server \<Rightarrow> 'w \<Rightarrow> go_error option \<times> 'w" where
  "shutdownServers Shutdown server serverMetrics w =
     (case Shutdown server w of
        (Some err, w) \<Rightarrow> (Some err, w)
      | (None, w) \<Rightarrow>
          (case Shutdown serverMetrics w of
             (Some err, w) \<Rightarrow> (Some err, w)
           | (None, w) \<Rightarrow> (None, w)))"

section \<open>Registration of the metrics\<close>

definition metricNamespace :: string where "metricNamespace = ''sealed_secrets_controller''"

text \<open>A metric: its full name, its constant labels and the names of its variable labels.\<close>

datatype collector =
    Metric string "(string \<times> string) list" "string list"
  | GoBuildInfo

definition named :: "string \<Rightarrow> (string \<times> string) list \<Rightarrow> string list \<Rightarrow> collector" where
  "named name consts labels = Metric (metricNamespace @ ''_'' @ name) consts labels"

definition buildInfo :: "string \<Rightarrow> collector" where
  "buildInfo version = named ''build_info'' [(''revision'', version)] []"

definition registeredMetrics :: "string \<Rightarrow> collector list" where
  "registeredMetrics version =
     [buildInfo version, GoBuildInfo, named ''unseal_requests_total'' [] [],
      named ''unseal_errors_total'' [] [''reason'', ''namespace''],
      named ''condition_info'' [] [''namespace'', ''name'', ''condition'', ''ss_app_kubernetes_io_instance''],
      named ''http_requests_total'' [] [''path'', ''code'', ''method''],
      named ''http_request_duration_seconds'' [] [''path'', ''method'']]"

text \<open>\<open>Register\<close> is the registerer's; \<open>MustRegister\<close> panics with its error.\<close>

definition MustRegister :: "(collector \<Rightarrow> 'p \<Rightarrow> go_error + 'p) \<Rightarrow> collector \<Rightarrow> 'p \<Rightarrow> 'p outcome" where
  "MustRegister Register m reg = (case Register m reg of Inl err \<Rightarrow> Panic (PanicWith err) | Inr reg \<Rightarrow> Ret reg)"

fun registerAll :: "(collector \<Rightarrow> 'p \<Rightarrow> go_error + 'p) \<Rightarrow> collector list \<Rightarrow> 'p \<Rightarrow> 'p outcome" where
  "registerAll Register [] reg = Ret reg"
| "registerAll Register (m # ms) reg = obind (MustRegister Register m reg) (registerAll Register ms)"

definition registerMetrics :: "(collector \<Rightarrow> 'p \<Rightarrow> go_error + 'p) \<Rightarrow> string \<Rightarrow> 'p \<Rightarrow> 'p outcome" where
  "registerMetrics Register version = registerAll Register (registeredMetrics version)"

end
