(* ===== verification/Process.thy ===== *)
theory Process
  imports ControllerRun HttpServer
begin

text \<open>
  The running process of the controller, as \<open>Main\<close> leaves it behind: one \<open>Run\<close> per watched namespace, the key
  renewal and the HTTP server, all on one registry of keys, one cluster and one set of metrics. Each step is
  one step of one of them; in between other clients change the cluster.
\<close>

section \<open>The state\<close>

text \<open>\<open>pr_answers\<close> records the requests to the HTTP server with their answers.\<close>

record ('q, 'w, 'l) process =
  pr_registry :: KeyRegistry
  pr_world :: 'w
  pr_metrics :: metrics
  pr_runs :: "('q, 'w) run_state list"
  pr_http :: "'l http_state"
  pr_answers :: "(http_request \<times> answer) list"

text \<open>
  \<open>Main\<close> at the point where everything has been started: a controller starts with an empty queue and an empty
  index, and sees the shared state.
\<close>

definition controller_init :: "KeyRegistry \<Rightarrow> 'w \<Rightarrow> 'w ctl_state" where
  "controller_init kr w = \<lparr> cs_world = w, cs_index = (\<lambda>_. Inr None), cs_events = [], cs_metrics = noMetrics,
     cs_registry = kr \<rparr>"

definition process_init :: "started \<Rightarrow> 'q \<Rightarrow> 'l \<Rightarrow> bytes \<Rightarrow> 'w \<Rightarrow> ('q, 'w, 'l) process" where
  "process_init started q limiter rnd w =
     \<lparr> pr_registry = sd_registry started, pr_world = w, pr_metrics = noMetrics,
       pr_runs = map (\<lambda>su. run_init q (controller_init (sd_registry started) w)) (sd_controllers started),
       pr_http = \<lparr> hs_limiter = limiter, hs_rnd = rnd, hs_metrics = noHttpMetrics \<rparr>, pr_answers = [] \<rparr>"

text \<open>What is shared, seen by one controller, and handed back by it.\<close>

definition attach :: "('q, 'w, 'l) process \<Rightarrow> ('q, 'w) run_state \<Rightarrow> ('q, 'w) run_state" where
  "attach p s = s\<lparr>rn_ctl := (rn_ctl s)\<lparr>cs_world := pr_world p, cs_metrics := pr_metrics p, cs_registry := pr_registry p\<rparr>\<rparr>"

definition detach :: "nat \<Rightarrow> ('q, 'w) run_state \<Rightarrow> ('q, 'w, 'l) process \<Rightarrow> ('q, 'w, 'l) process" where
  "detach i s p = p\<lparr>pr_registry := cs_registry (rn_ctl s), pr_world := cs_world (rn_ctl s),
     pr_metrics := cs_metrics (rn_ctl s), pr_runs := (pr_runs p)[i := s]\<rparr>"

section \<open>The steps\<close>

text \<open>
  \<open>renewal\<close> is one call of the key generation, by the schedule or by the signal; its times are the clock's.
  A request runs to its end in one step: it only reads what it shares with the controllers.
\<close>

inductive process_step ::
  "'w Controller \<Rightarrow> 'q work_queue \<Rightarrow> ('q \<Rightarrow> 'q) \<Rightarrow> ('q \<Rightarrow> bool) \<Rightarrow> controller_setup list
    \<Rightarrow> Flags \<Rightarrow> ('s, 'l) throttled_lib \<Rightarrow> 'l promhttp_lib
    \<Rightarrow> ('q, 'w, 'l) process \<Rightarrow> ('q, 'w, 'l) process \<Rightarrow> bool"
  for c Q shutDown ready sus f T P where
  controller: "i < length (pr_runs p) \<Longrightarrow> run_step c Q shutDown ready (sus ! i) (attach p (pr_runs p ! i)) s \<Longrightarrow>
    process_step c Q shutDown ready sus f T P p (detach i s p)"
| renewal: "generateKey (ctl_crypto c) (ctl_kube c) (ctl_api c) certNow regNow (fl_ValidFor f) (fl_MyCN f)
      (fl_PrivateKeyAnnotations f) (fl_PrivateKeyLabels f) (pr_registry p) rnd (pr_world p) = Ret (r, kr, rnd', w) \<Longrightarrow>
    process_step c Q shutDown ready sus f T P p (p\<lparr>pr_registry := kr, pr_world := w\<rparr>)"
| request: "answers (httpMux T P c (pr_registry p)) [r] (pr_http p) = ([a], h) \<Longrightarrow>
    process_step c Q shutDown ready sus f T P p (p\<lparr>pr_http := h, pr_answers := pr_answers p @ [(r, a)]\<rparr>)"
| cluster: "process_step c Q shutDown ready sus f T P p (p\<lparr>pr_world := w\<rparr>)"

end
