(* ===== verification/HttpProps.thy ===== *)
theory HttpProps
  imports HttpServer ServerProps RotateProps
begin

text \<open>
  Runs of the HTTP server: what its answers tell about the keys and the secrets, which requests pass the rate
  limiter, and that the metrics count every request.
\<close>

section \<open>What the libraries document\<close>

text \<open>
  The limiter answers a request itself or passes it on; the instrumented handlers report once the wrapped one has
  returned, under labels made of its status and the method.
\<close>

definition limitsRequests :: "(VaryBy \<Rightarrow> http_request \<Rightarrow> 'l \<Rightarrow> response option \<times> 'l) \<Rightarrow> VaryBy \<Rightarrow> 'l handler \<Rightarrow> 'l handler" where
  "limitsRequests admit vary h r s =
     (case admit vary r (hs_limiter s) of
        (Some denied, l) \<Rightarrow> Ret (Some denied, s\<lparr>hs_limiter := l\<rparr>)
      | (None, l) \<Rightarrow> h r (s\<lparr>hs_limiter := l\<rparr>))"

definition countsRequests :: "(nat \<Rightarrow> string) \<Rightarrow> (string \<Rightarrow> string) \<Rightarrow> string \<Rightarrow> 'l handler \<Rightarrow> 'l handler" where
  "countsRequests code_label method_label path h r s =
     obind (h r s) (\<lambda>(w, s).
       let labels = (path, code_label (case w of None \<Rightarrow> 404 | Some w \<Rightarrow> status w), method_label (hr_Method r));
           m = hs_metrics s
       in Ret (w, s\<lparr>hs_metrics := m\<lparr>httpRequestsTotal :=
            (httpRequestsTotal m)(labels := Suc (httpRequestsTotal m labels))\<rparr>\<rparr>))"

definition observesDurations :: "(string \<Rightarrow> string) \<Rightarrow> string \<Rightarrow> 'l handler \<Rightarrow> 'l handler" where
  "observesDurations method_label path h r s =
     obind (h r s) (\<lambda>(w, s).
       let labels = (path, method_label (hr_Method r)); m = hs_metrics s
       in Ret (w, s\<lparr>hs_metrics := m\<lparr>httpRequestDurationSeconds :=
            (httpRequestDurationSeconds m)(labels := Suc (httpRequestDurationSeconds m labels))\<rparr>\<rparr>))"

definition as_documented :: "('s, 'l) throttled_lib \<Rightarrow> 'l promhttp_lib \<Rightarrow>
  (VaryBy \<Rightarrow> http_request \<Rightarrow> 'l \<Rightarrow> response option \<times> 'l) \<Rightarrow> (nat \<Rightarrow> string) \<Rightarrow> (string \<Rightarrow> string) \<Rightarrow> bool" where
  "as_documented T P admit code_label method_label \<longleftrightarrow> RateLimit T = limitsRequests admit \<and>
     InstrumentHandlerCounter P = countsRequests code_label method_label \<and>
     InstrumentHandlerDuration P = observesDurations method_label"

lemmas handler_defs = limitsRequests_def countsRequests_def observesDurations_def

section \<open>What the server reveals\<close>

text \<open>Two controllers that would call the same contents valid.\<close>

definition same_validity ::
  "'w Controller \<Rightarrow> KeyRegistry \<Rightarrow> 'v Controller \<Rightarrow> KeyRegistry \<Rightarrow> bytes \<Rightarrow> bool" where
  "same_validity c kr c' kr' content \<longleftrightarrow>
     (case (AttemptUnseal c kr content, AttemptUnseal c' kr' content) of
        (Inl _, Inl _) \<Rightarrow> True
      | (Inr valid, Inr valid') \<Rightarrow> valid = valid'
      | _ \<Rightarrow> False)"

text \<open>A request whose answer the two give alike.\<close>

definition harmless ::
  "'w Controller \<Rightarrow> KeyRegistry \<Rightarrow> 'v Controller \<Rightarrow> KeyRegistry \<Rightarrow> http_request \<Rightarrow> bool" where
  "harmless c kr c' kr' r \<longleftrightarrow> hr_Path r \<noteq> ''/v1/rotate'' \<and>
     (\<forall>content. hr_Path r = ''/v1/verify'' \<longrightarrow> hr_Body r = Inr content \<longrightarrow> same_validity c kr c' kr' content)"

lemma serve_same:
  assumes "harmless c kr c' kr' r" "getCert kr = getCert kr'" "EncodeCertPEM (ctl_kube c) = EncodeCertPEM (ctl_kube c')"
  shows "serve c kr (hr_Path r) (hr_Body r) rnd = serve c' kr' (hr_Path r) (hr_Body r) rnd"
proof (cases "hr_Path r = ''/v1/verify''")
  case True
  then show ?thesis
    using assms(1) by (cases "hr_Body r") (auto simp: serve_def handleVerify_def harmless_def same_validity_def
        split: sum.splits)
next
  case False
  then show ?thesis
    using assms by (simp add: serve_def harmless_def handleCert_def certProvider_def split: sum.splits)
qed

lemma RateLimit_cong: "h r = h' r \<Longrightarrow> limitsRequests admit v h r = limitsRequests admit v h' r"
  by (auto simp: limitsRequests_def fun_eq_iff split: prod.splits option.splits)

lemma Instrument_cong:
  "h r = h' r \<Longrightarrow> observesDurations ml path (countsRequests cl ml path h) r = observesDurations ml path (countsRequests cl ml path h') r"
  by (simp add: observesDurations_def countsRequests_def fun_eq_iff)

lemma httpMux_same:
  assumes "as_documented T P admit cl ml"
    and "harmless c kr c' kr' r" "getCert kr = getCert kr'" "EncodeCertPEM (ctl_kube c) = EncodeCertPEM (ctl_kube c')"
  shows "httpMux T P c kr r = httpMux T P c' kr' r"
proof -
  have "routed c kr (hr_Path r) r = routed c' kr' (hr_Path r) r"
    using serve_same [OF assms(2-)] by (simp add: routed_def fun_eq_iff)
  then show ?thesis
    using assms(1,2)
    by (auto simp: httpMux_def harmless_def as_documented_def Instrument_def intro!: Instrument_cong RateLimit_cong)
qed

text \<open>
  C29: The server reveals nothing but the certificate it serves and which contents are valid: two controllers with the
  same certificate, whatever other keys and settings they have, give every client the same answers to any run of
  requests for health, verification and certificates whose contents are equally valid for both, and their metrics
  and rate limiters move alike.
\<close>

theorem server_reveals_only_validity:
  assumes "as_documented T P admit cl ml" "list_all (harmless c kr c' kr') requests" "getCert kr = getCert kr'"
    "EncodeCertPEM (ctl_kube c) = EncodeCertPEM (ctl_kube c')"
  shows "answers (httpMux T P c kr) requests s = answers (httpMux T P c' kr') requests s"
  using assms(2)
  by (induction requests arbitrary: s) (simp_all add: httpMux_same [OF assms(1) _ assms(3,4)] split: outcome.splits)

section \<open>What the metrics count\<close>

definition instrumented :: "string \<Rightarrow> bool" where
  "instrumented path \<longleftrightarrow> path \<in> {''/v1/verify'', ''/v1/rotate'', ''/v1/cert.pem''}"

definition requestsAnswered ::
  "(nat \<Rightarrow> string) \<Rightarrow> (string \<Rightarrow> string) \<Rightarrow> string \<Rightarrow> string \<Rightarrow> string \<Rightarrow> (http_request \<times> answer) list \<Rightarrow> nat" where
  "requestsAnswered cl ml path code meth log = length (filter (\<lambda>(r, a). hr_Path r = path \<and> ml (hr_Method r) = meth \<and>
     (\<exists>w. a = Answer (Some w) \<and> cl (status w) = code)) log)"

lemma routed_Ret:
  assumes "routed c kr path r s = Ret (w, s')"
  shows "hs_metrics s' = hs_metrics s" "hs_limiter s' = hs_limiter s" "instrumented path \<Longrightarrow> w \<noteq> None"
  using assms by (auto simp: routed_def serve_def instrumented_def outcome_simps split: if_splits)

lemma RateLimit_Ret:
  assumes "limitsRequests admit limitedBy (routed c kr ''/v1/verify'') r s = Ret (w, s')"
  shows "hs_metrics s' = hs_metrics s" "hs_limiter s' = snd (admit limitedBy r (hs_limiter s))" "w \<noteq> None"
proof -
  obtain d l where a: "admit limitedBy r (hs_limiter s) = (d, l)"
    by (cases "admit limitedBy r (hs_limiter s)")
  have i: "instrumented ''/v1/verify''"
    by (simp add: instrumented_def)
  have "hs_metrics s' = hs_metrics s \<and> hs_limiter s' = l \<and> w \<noteq> None"
  proof (cases d)
    case None
    then have "routed c kr ''/v1/verify'' r (s\<lparr>hs_limiter := l\<rparr>) = Ret (w, s')"
      using assms a by (simp add: limitsRequests_def)
    from routed_Ret [OF this] i show ?thesis
      by simp
  qed (use assms a in \<open>auto simp: limitsRequests_def\<close>)
  then show "hs_metrics s' = hs_metrics s" "hs_limiter s' = snd (admit limitedBy r (hs_limiter s))" "w \<noteq> None"
    by (simp_all add: a)
qed

lemma Instrument_Ret:
  assumes "observesDurations ml path (countsRequests cl ml path h) r s = Ret (w, s')"
  obtains s1 where "h r s = Ret (w, s1)" "hs_limiter s' = hs_limiter s1"
    "\<And>k. httpRequestsTotal (hs_metrics s') k = httpRequestsTotal (hs_metrics s1) k +
      (if k = (path, cl (case w of None \<Rightarrow> 404 | Some w \<Rightarrow> status w), ml (hr_Method r)) then 1 else 0)"
  using assms by (auto simp: Instrument_def observesDurations_def countsRequests_def outcome_simps Let_def)

lemma requestsAnswered_one:
  "requestsAnswered cl ml path code meth [(r, Answer (Some w))] =
     (if (path, code, meth) = (hr_Path r, cl (status w), ml (hr_Method r)) then 1 else 0)"
  by (auto simp: requestsAnswered_def)

lemma httpMux_Ret:
  assumes "as_documented T P admit cl ml" "httpMux T P c kr r s = Ret (w, s')"
  shows "hs_limiter s' = (if hr_Path r = ''/v1/verify'' then snd (admit limitedBy r (hs_limiter s)) else hs_limiter s)"
    (is "?limited")
    and "instrumented path \<Longrightarrow> httpRequestsTotal (hs_metrics s') (path, code, meth) =
      httpRequestsTotal (hs_metrics s) (path, code, meth) + requestsAnswered cl ml path code meth [(r, Answer w)]"
    (is "_ \<Longrightarrow> ?counted")
proof -
  consider (verify) "hr_Path r = ''/v1/verify''" "observesDurations ml ''/v1/verify'' (countsRequests cl ml ''/v1/verify'' (limitsRequests admit limitedBy (routed c kr ''/v1/verify''))) r s = Ret (w, s')"
    | (other) "instrumented (hr_Path r)" "hr_Path r \<noteq> ''/v1/verify''" "observesDurations ml (hr_Path r) (countsRequests cl ml (hr_Path r) (routed c kr (hr_Path r))) r s = Ret (w, s')"
    | (plain) "\<not> instrumented (hr_Path r)" "hr_Path r \<noteq> ''/v1/verify''" "hs_limiter s' = hs_limiter s" "hs_metrics s' = hs_metrics s"
    using assms by (auto simp: httpMux_def instrumented_def as_documented_def Instrument_def split: if_splits dest: routed_Ret)
  then have "?limited \<and> (instrumented path \<longrightarrow> ?counted)"
  proof cases
    case verify
    obtain s1 where s1: "limitsRequests admit limitedBy (routed c kr ''/v1/verify'') r s = Ret (w, s1)" "hs_limiter s' = hs_limiter s1"
      and total: "\<And>k. httpRequestsTotal (hs_metrics s') k = httpRequestsTotal (hs_metrics s1) k +
        (if k = (''/v1/verify'', cl (case w of None \<Rightarrow> 404 | Some w \<Rightarrow> status w), ml (hr_Method r)) then 1 else 0)"
      using Instrument_Ret [OF verify(2)] by blast
    obtain v where v: "w = Some v"
      using RateLimit_Ret(3) [OF s1(1)] by blast
    show ?thesis
      unfolding v requestsAnswered_one using s1(2) RateLimit_Ret(1,2) [OF s1(1)] verify(1) total v by simp
  next
    case other
    obtain s1 where s1: "routed c kr (hr_Path r) r s = Ret (w, s1)" "hs_limiter s' = hs_limiter s1"
      and total: "\<And>k. httpRequestsTotal (hs_metrics s') k = httpRequestsTotal (hs_metrics s1) k +
        (if k = (hr_Path r, cl (case w of None \<Rightarrow> 404 | Some w \<Rightarrow> status w), ml (hr_Method r)) then 1 else 0)"
      using Instrument_Ret [OF other(3)] by blast
    obtain v where v: "w = Some v"
      using routed_Ret(3) [OF s1(1) other(1)] by blast
    show ?thesis
      unfolding v requestsAnswered_one using s1(2) routed_Ret(1,2) [OF s1(1)] other(2) total v by simp
  next
    case plain
    then show ?thesis
      by (auto simp: requestsAnswered_def)
  qed
  then show ?limited "instrumented path \<Longrightarrow> ?counted"
    by blast+
qed

text \<open>A verification request always gets an answer.\<close>

lemma httpMux_verify:
  "as_documented T P admit cl ml \<Longrightarrow> hr_Path r = ''/v1/verify'' \<Longrightarrow> \<exists>w s'. httpMux T P c kr r s = Ret (w, s')"
  by (auto simp: httpMux_def as_documented_def Instrument_def observesDurations_def countsRequests_def limitsRequests_def
      routed_def serve_def Let_def split: prod.splits option.splits)

lemma requestsAnswered_Cons:
  "requestsAnswered cl ml path code meth (x # log) =
     requestsAnswered cl ml path code meth [x] + requestsAnswered cl ml path code meth log"
  "requestsAnswered cl ml path code meth [(r, Aborted)] = 0"
  by (simp_all add: requestsAnswered_def)


section \<open>Registration\<close>

text \<open>With a registerer that refuses what it has already, the metrics can be registered once and not again.\<close>

lemma registerMetrics_once:
  assumes "\<And>m reg. Register m reg = (if m \<in> set reg then Inl err else Inr (m # reg))"
  shows "registerMetrics Register version [] = Ret (rev (registeredMetrics version))"
    "registerMetrics Register version (rev (registeredMetrics version)) = Panic (PanicWith err)"
  by (simp_all add: registerMetrics_def registeredMetrics_def MustRegister_def assms buildInfo_def named_def)

section \<open>Samples\<close>

text \<open>A limiter that admits one request, and labels for the codes of the answers.\<close>

definition once :: "VaryBy \<Rightarrow> http_request \<Rightarrow> nat \<Rightarrow> response option \<times> nat" where
  "once v r l = (if l = 0 then (None, 1) else (Some (finishResponse (WriteHeader 429 newResponse)), l))"

definition codeLabel :: "nat \<Rightarrow> string" where
  "codeLabel n = (if n = 200 then ''200'' else if n = 429 then ''429'' else ''other'')"

definition onceLimiter :: "(unit, nat) throttled_lib" where
  "onceLimiter = \<lparr> memstore_New = (\<lambda>n. Inr ()), NewGCRARateLimiter = (\<lambda>st q. Inr 0), RateLimit = limitsRequests once \<rparr>"

definition samplePromhttp :: "nat promhttp_lib" where
  "samplePromhttp = \<lparr> InstrumentHandlerCounter = countsRequests codeLabel (\<lambda>m. m),
     InstrumentHandlerDuration = observesDurations (\<lambda>m. m), MetricsPage = (\<lambda>m. newResponse) \<rparr>"

lemma sample_documented: "as_documented onceLimiter samplePromhttp once codeLabel (\<lambda>m. m)"
  by (simp add: as_documented_def onceLimiter_def samplePromhttp_def)

definition verifyRequest :: http_request where
  "verifyRequest = \<lparr> hr_Method = ''post'', hr_Path = ''/v1/verify'', hr_Headers = [], hr_Body = Inr [] \<rparr>"

definition startState :: "nat http_state" where
  "startState = \<lparr> hs_limiter = 0, hs_rnd = [], hs_metrics = noHttpMetrics \<rparr>"


theorem server_reveals_only_validity_witness:
  "answers (httpMux onceLimiter samplePromhttp rotateController sampleRegistry)
     [verifyRequest, verifyRequest\<lparr>hr_Path := ''/v1/cert.pem''\<rparr>] startState =
   answers (httpMux onceLimiter samplePromhttp rotateController
       (snd (registerNewKey sampleCrypto sampleRegistry otherKey sampleCert 9)))
     [verifyRequest, verifyRequest\<lparr>hr_Path := ''/v1/cert.pem''\<rparr>] startState"
proof -
  let ?kr = "snd (registerNewKey sampleCrypto sampleRegistry otherKey sampleCert 9)"
  have "holds_key (privateKeys ?kr) (rsaPublicKey sampleKey)"
    using registerNewKey_keeps [OF sample_fingerprints sampleRegistry_facts(1) _ sampleRegistry_keys]
    by (metis prod.collapse)
  then have valid: "\<not> isl (attemptUnseal rotateController kr sampleSealed)" if "kr \<in> {sampleRegistry, ?kr}" for kr
    using that sampleRegistry_keys Unseal_sealed [OF sample_sound _ sample_seals refl sealed_label [OF sample_seals]]
    by (auto simp: attemptUnseal_def rotate_kube)
  have "EnsureNotMultiDoc (ctl_kube rotateController) [] = None"
    by (simp add: EnsureNotMultiDoc_def isMultiDocumentYAML_def rotateController_def sampleKube_def)
  then have "AttemptUnseal rotateController kr [] = Inr True" if "kr \<in> {sampleRegistry, ?kr}" for kr
    using valid [OF that] by (auto simp: AttemptUnseal_def rotate_kube split: sum.splits)
  then have "list_all (harmless rotateController sampleRegistry rotateController ?kr)
    [verifyRequest, verifyRequest\<lparr>hr_Path := ''/v1/cert.pem''\<rparr>]"
    by (simp add: harmless_def same_validity_def verifyRequest_def)
  moreover have "getCert sampleRegistry = getCert ?kr"
    by (simp add: getCert_def sampleRegistry_def registerNewKey_def PublicKeyFingerprint_def sampleCrypto_def
        NewKeyRegistry_def Let_def)
  ultimately show ?thesis
    by (intro server_reveals_only_validity [OF sample_documented]) simp_all
qed

end
