(* ===== verification/ProcessProps.thy ===== *)
theory ProcessProps
  imports Process RunProps HttpProps MainProps
begin

text \<open>
  The process as a whole: whatever its parts do in whatever order, no key is lost, there is always a certificate
  to serve, and no request is dropped.
\<close>

section \<open>The registry among the parts\<close>

text \<open>The one way in which the registry changes.\<close>

definition registers :: "crypto_lib \<Rightarrow> KeyRegistry \<Rightarrow> KeyRegistry \<Rightarrow> bool" where
  "registers C kr kr' \<longleftrightarrow> kr' = kr \<or> (\<exists>key cert t err. registerNewKey C kr key cert t = (err, kr'))"

lemma registers_refl [simp]: "registers C kr kr"
  by (simp add: registers_def)

lemma registers_keeps:
  assumes "registers C kr kr'" "registry_inv C kr"
  shows "registry_inv C kr'" "kr_mostRecentKey kr \<noteq> None \<Longrightarrow> kr_mostRecentKey kr' \<noteq> None"
    "fingerprints_injective C \<Longrightarrow> holds_key (privateKeys kr) pub \<Longrightarrow> holds_key (privateKeys kr') pub"
  using assms by (auto simp: registers_def dest: registerNewKey_inv registerNewKey_most_recent(2)
      intro: registerNewKey_keeps)

lemma watchKeySecrets_registers: "watchKeySecrets_Add C L prio obj kr = Ret kr' \<Longrightarrow> registers C kr kr'"
  by (auto simp: watchKeySecrets_Add_def registryNewKeyWithSecret_def registers_def elim!: obind_RetE
      split: sum.split_asm list.split_asm prod.split_asm)

lemma generateKey_registers:
  "generateKey C L api t1 t2 validFor cn annotations labels kr rnd w = Ret (r, kr', rnd', w') \<Longrightarrow> registers C kr kr'"
  by (auto simp: generateKey_def registers_def elim!: obind_RetE split: prod.split_asm sum.split_asm option.split_asm)

lemma run_step_registers:
  assumes "run_step c Q shutDown ready su s t"
  shows "registers (ctl_crypto c) (cs_registry (rn_ctl s)) (cs_registry (rn_ctl t))"
  using assms by (cases rule: run_step.cases) (auto dest: watchKeySecrets_registers processNextItem_registry)

lemma process_step_registers:
  assumes "process_step c Q shutDown ready sus f T P p p'"
  shows "registers (ctl_crypto c) (pr_registry p) (pr_registry p')"
  using assms
proof (cases rule: process_step.cases)
  case (controller i s)
  from run_step_registers [OF controller(3)] controller(1) show ?thesis
    by (simp add: attach_def detach_def)
qed (auto dest: generateKey_registers)

section \<open>What every state of the process satisfies\<close>

lemma returns_obind: "returns m \<Longrightarrow> (\<And>x. returns (f x)) \<Longrightarrow> returns (obind m f)"
  by (cases m) simp_all

lemma handlers_return:
  assumes "\<And>r s. returns (h r s)"
  shows "returns (limitsRequests admit v h r s)" "returns (countsRequests cl ml path h r s)"
    "returns (observesDurations ml path h r s)"
  using assms by (auto simp: handler_defs Let_def intro!: returns_obind split: prod.splits option.splits)

lemma httpMux_returns:
  assumes "as_documented T P admit cl ml" "kr_mostRecentKey kr \<noteq> None"
  shows "returns (httpMux T P c kr r s)"
proof -
  have "returns (Rotate c kr content rnd)" for content rnd
    using assms(2) by (cases "Rotate c kr content rnd") (simp_all add: Rotate_panics_iff)
  then have "returns (serve c kr path body rnd)" for path body rnd
    by (auto simp: serve_def handleRotate_def intro!: returns_obind split: sum.splits)
  then have "returns (routed c kr path r s)" for path r s
    by (auto simp: routed_def intro!: returns_obind)
  then show ?thesis
    using assms(1) by (auto simp: httpMux_def as_documented_def Instrument_def intro!: handlers_return)
qed

definition process_ok :: "crypto_lib \<Rightarrow> ('q, 'w, 'l) process \<Rightarrow> bool" where
  "process_ok C p \<longleftrightarrow> registry_inv C (pr_registry p) \<and> kr_mostRecentKey (pr_registry p) \<noteq> None \<and>
     Aborted \<notin> snd ` set (pr_answers p)"

lemma process_step_ok:
  assumes "as_documented T P admit cl ml" "process_step c Q shutDown ready sus f T P p p'" "process_ok (ctl_crypto c) p"
  shows "process_ok (ctl_crypto c) p'"
proof -
  have "Aborted \<notin> snd ` set (pr_answers p')"
    using assms(2)
  proof (cases rule: process_step.cases)
    case (request r a h)
    obtain x where "httpMux T P c (pr_registry p) r (pr_http p) = Ret x"
      using httpMux_returns [OF assms(1), of "pr_registry p" c r "pr_http p"] assms(3)
      by (cases "httpMux T P c (pr_registry p) r (pr_http p)") (auto simp: process_ok_def)
    with request(2) have "a \<noteq> Aborted"
      by (auto split: prod.splits)
    with request(1) assms(3) show ?thesis
      by (auto simp: process_ok_def)
  qed (use assms(3) in \<open>auto simp: process_ok_def detach_def\<close>)
  then show ?thesis
    using registers_keeps(1,2) [OF process_step_registers [OF assms(2)]] assms(3) by (simp add: process_ok_def)
qed

lemma process_steps_ok:
  assumes "as_documented T P admit cl ml" "(process_step c Q shutDown ready sus f T P)\<^sup>*\<^sup>* p p'" "process_ok (ctl_crypto c) p"
  shows "process_ok (ctl_crypto c) p'"
  using assms(2,3) by (induction rule: rtranclp_induct) (auto intro: process_step_ok [OF assms(1)])

lemma process_steps_hold:
  assumes "fingerprints_injective (ctl_crypto c)" "(process_step c Q shutDown ready sus f T P)\<^sup>*\<^sup>* p p'"
    "registry_inv (ctl_crypto c) (pr_registry p)" "holds_key (privateKeys (pr_registry p)) pub"
  shows "holds_key (privateKeys (pr_registry p')) pub \<and> registry_inv (ctl_crypto c) (pr_registry p')"
  using assms(2-4)
proof (induction rule: rtranclp_induct)
  case (step p1 p2)
  then show ?case
    using registers_keeps(1,3) [OF process_step_registers [OF step(2)]] assms(1) by blast
qed simp

lemma process_init_ok:
  assumes "controller_Main M f rnd w = Ret (Inr started, rnd', w')" "ctl_crypto c = mn_crypto M"
  shows "process_ok (ctl_crypto c) (process_init started q limiter rnd' w')"
  using controller_Main_registry [OF assms(1)] assms(2) by (simp add: process_ok_def process_init_def)

text \<open>
  C19: In every state that a started process can reach, whatever its controllers, the renewal of keys, the clients
  of its HTTP server and other clients of the cluster do in any order, the registry is consistent and has a
  certificate to serve, no request was dropped, and every key that ever was able to unseal still is.
\<close>

theorem process_keeps_its_keys:
  assumes "controller_Main M f rnd w = Ret (Inr started, rnd', w')" "ctl_crypto c = mn_crypto M"
    "fingerprints_injective (mn_crypto M)" "as_documented T P admit cl ml"
    "(process_step c Q shutDown ready (sd_controllers started) f T P)\<^sup>*\<^sup>* (process_init started q limiter rnd' w') p"
    "(process_step c Q shutDown ready (sd_controllers started) f T P)\<^sup>*\<^sup>* p p'"
  shows "registry_inv (mn_crypto M) (pr_registry p') \<and> (\<exists>cert. getCert (pr_registry p') = Inr cert) \<and>
    (\<forall>request. (request, Aborted) \<notin> set (pr_answers p')) \<and>
    (\<forall>pub. holds_key (privateKeys (pr_registry p)) pub \<longrightarrow> holds_key (privateKeys (pr_registry p')) pub)"
proof -
  have "process_ok (ctl_crypto c) p"
    by (rule process_steps_ok [OF assms(4,5) process_init_ok [OF assms(1,2)]])
  then have "process_ok (ctl_crypto c) p'" "registry_inv (ctl_crypto c) (pr_registry p)"
    using process_steps_ok [OF assms(4,6)] by (simp_all add: process_ok_def)
  then show ?thesis
    using process_steps_hold [OF _ assms(6)] assms(2,3) by (force simp: process_ok_def getCert_def image_iff)
qed

text \<open>The sample process after a health request and a write of another client.\<close>

abbreviation "sample_process_step started \<equiv> process_step sampleController flagQueue (\<lambda>q. True) (\<lambda>q. True)
  (sd_controllers started) sampleFlags onceLimiter samplePromhttp"

definition healthRequest :: http_request where
  "healthRequest = \<lparr> hr_Method = ''get'', hr_Path = ''/healthz'', hr_Headers = [], hr_Body = Inr [] \<rparr>"

definition healthAnswer :: response where
  "healthAnswer = finishResponse (handleHealthz newResponse)"

lemma sample_requests:
  "(sample_process_step started)\<^sup>*\<^sup>* p
     (p\<lparr>pr_answers := pr_answers p @ [(healthRequest, Answer (Some healthAnswer))], pr_world := w\<rparr>)"
proof -
  have "answers (httpMux onceLimiter samplePromhttp sampleController (pr_registry p)) [healthRequest] (pr_http p) =
    ([Answer (Some healthAnswer)], pr_http p)"
    by (simp add: httpMux_def healthRequest_def routed_def serve_def healthAnswer_def)
  note request = process_step.request [OF this]
  have "(p\<lparr>pr_http := pr_http p, pr_answers := pr_answers p @ [(healthRequest, Answer (Some healthAnswer))]\<rparr>) =
    p\<lparr>pr_answers := pr_answers p @ [(healthRequest, Answer (Some healthAnswer))]\<rparr>"
    by simp
  with request have "sample_process_step started p (p\<lparr>pr_answers := pr_answers p @ [(healthRequest, Answer (Some healthAnswer))]\<rparr>)"
    by metis
  then show ?thesis
    by (rule converse_rtranclp_into_rtranclp) (rule r_into_rtranclp, rule process_step.cluster)
qed

theorem process_keeps_its_keys_witness:
  "\<exists>started rnd' w'. controller_Main sampleMain sampleFlags [] emptyStore = Ret (Inr started, rnd', w') \<and>
    (\<exists>p. (sample_process_step started)\<^sup>*\<^sup>* (process_init started True 0 rnd' w') p \<and> length (pr_answers p) = 1 \<and>
      (\<exists>cert. getCert (pr_registry p) = Inr cert) \<and> (healthRequest, Aborted) \<notin> set (pr_answers p))"
proof -
  obtain started rnd' w' where main: "controller_Main sampleMain sampleFlags [] emptyStore = Ret (Inr started, rnd', w')"
    using sample_starts by blast
  let ?p = "process_init started True (0 :: nat) rnd' w'"
  let ?p' = "?p\<lparr>pr_answers := pr_answers ?p @ [(healthRequest, Answer (Some healthAnswer))], pr_world := emptyStore\<rparr>"
  have c: "ctl_crypto sampleController = mn_crypto sampleMain" "fingerprints_injective (mn_crypto sampleMain)"
    by (simp_all add: sampleController_def sampleMain_def sample_fingerprints)
  have run: "(sample_process_step started)\<^sup>*\<^sup>* ?p ?p'"
    by (rule sample_requests)
  have "length (pr_answers ?p') = 1"
    by (simp add: process_init_def)
  then show ?thesis
    using process_keeps_its_keys [OF main c sample_documented rtranclp.rtrancl_refl run] main run by blast
qed

end
