(* ===== verification/Signals.thy ===== *)
theory Signals
  imports Schedule
begin

text \<open>
  The key generation on demand (\<open>signal_notwin.go\<close>, \<open>signal_windows.go\<close>): a goroutine that receives the signals
  from a channel of capacity one and calls the trigger of the schedule for each. The runtime drops a signal
  while the channel is full, and the trigger blocks until the worker of the schedule receives.
\<close>

datatype listener = NoListener | AwaitingSignal | CallingTrigger

text \<open>\<open>sg_pending\<close> is the signal in the channel; the ghost field counts the signals the process was sent.\<close>

record signals =
  sg_listener :: listener
  sg_pending :: bool
  sg_delivered :: nat
  sg_sched :: sched

text \<open>On Windows nobody listens.\<close>

definition initKeyGenSignalListener :: "bool \<Rightarrow> sched \<Rightarrow> signals" where
  "initKeyGenSignalListener windows c =
     \<lparr> sg_listener = (if windows then NoListener else AwaitingSignal), sg_pending = False, sg_delivered = 0, sg_sched = c \<rparr>"

text \<open>
  The listener is the only caller of the trigger: its call is the step of the schedule that adds a caller, and it
  returns with the step that takes one away.
\<close>

inductive signal_step :: "nat \<Rightarrow> signals \<Rightarrow> signals \<Rightarrow> bool" for period where
  deliver: "sg_listener s \<noteq> NoListener \<Longrightarrow>
    signal_step period s (s\<lparr>sg_pending := True, sg_delivered := Suc (sg_delivered s)\<rparr>)"
| receive: "sg_listener s = AwaitingSignal \<Longrightarrow> sg_pending s \<Longrightarrow>
    sched_step period (sg_sched s) c \<Longrightarrow> sc_calls c = Suc (sc_calls (sg_sched s)) \<Longrightarrow>
    signal_step period s (s\<lparr>sg_listener := CallingTrigger, sg_pending := False, sg_sched := c\<rparr>)"
| served: "sg_listener s = CallingTrigger \<Longrightarrow>
    sched_step period (sg_sched s) c \<Longrightarrow> sc_callers c < sc_callers (sg_sched s) \<Longrightarrow>
    signal_step period s (s\<lparr>sg_listener := AwaitingSignal, sg_sched := c\<rparr>)"
| schedule: "sched_step period (sg_sched s) c \<Longrightarrow> sc_calls c = sc_calls (sg_sched s) \<Longrightarrow>
    sc_callers c = sc_callers (sg_sched s) \<Longrightarrow> signal_step period s (s\<lparr>sg_sched := c\<rparr>)"

inductive signal_reach :: "bool \<Rightarrow> nat \<Rightarrow> nat \<Rightarrow> signals \<Rightarrow> bool" for windows initialDelay period where
  start: "signal_reach windows initialDelay period (initKeyGenSignalListener windows (sched_init initialDelay))"
| step: "signal_reach windows initialDelay period s \<Longrightarrow> signal_step period s t \<Longrightarrow> signal_reach windows initialDelay period t"

inductive_cases signal_stepE: "signal_step period s t"

section \<open>Invariants\<close>

text \<open>Each kind of step of the schedule, told by its counters.\<close>

lemma sched_step_called:
  "sched_step period c d \<Longrightarrow> sc_calls d = Suc (sc_calls c) \<Longrightarrow>
    sc_callers d = Suc (sc_callers c) \<and> sc_started d = sc_started c \<and> sc_timed d = sc_timed c"
  by (erule sched_stepE) auto

lemma sched_step_served:
  "sched_step period c d \<Longrightarrow> sc_callers d < sc_callers c \<Longrightarrow>
    sc_callers c = Suc (sc_callers d) \<and> sc_started d = Suc (sc_started c) \<and> sc_timed d = sc_timed c \<and> sc_calls d = sc_calls c"
  by (erule sched_stepE) auto

lemma sched_step_own:
  "sched_step period c d \<Longrightarrow> sc_calls d = sc_calls c \<Longrightarrow> sc_callers d = sc_callers c \<Longrightarrow>
    sc_started d + sc_timed c = sc_started c + sc_timed d"
  by (erule sched_stepE) auto

definition busy :: "signals \<Rightarrow> nat" where
  "busy s = (if sg_listener s = CallingTrigger then 1 else 0)"

definition waiting :: "signals \<Rightarrow> nat" where
  "waiting s = (if sg_pending s then 1 else 0)"

definition signals_inv :: "nat \<Rightarrow> nat \<Rightarrow> signals \<Rightarrow> bool" where
  "signals_inv initialDelay period s \<longleftrightarrow> sched_inv initialDelay period (sg_sched s) \<and>
     sc_callers (sg_sched s) = busy s \<and> sc_calls (sg_sched s) + waiting s \<le> sg_delivered s \<and>
     sc_timed (sg_sched s) \<le> sc_started (sg_sched s) \<and> (sg_listener s = NoListener \<longrightarrow> sg_delivered s = 0)"

lemma signals_inv_init: "signals_inv initialDelay period (initKeyGenSignalListener windows (sched_init initialDelay))"
  by (simp add: signals_inv_def initKeyGenSignalListener_def sched_inv_init busy_def waiting_def) (simp add: sched_init_def)

lemma signal_step_inv:
  assumes "signal_step period s t" "signals_inv initialDelay period s"
  shows "signals_inv initialDelay period t"
  using assms
proof (cases rule: signal_step.cases)
  case (receive c)
  with assms(2) sched_step_called [OF receive(4,5)] sched_step_inv [OF receive(4)] show ?thesis
    by (auto simp: signals_inv_def busy_def waiting_def)
next
  case (served c)
  with assms(2) sched_step_served [OF served(3,4)] sched_step_inv [OF served(3)] show ?thesis
    by (auto simp: signals_inv_def busy_def waiting_def)
next
  case (schedule c)
  with assms(2) sched_step_own [OF schedule(2-4)] sched_step_inv [OF schedule(2)] show ?thesis
    by (auto simp: signals_inv_def busy_def waiting_def)
qed (auto simp: signals_inv_def busy_def waiting_def)

lemma signal_reach_inv: "signal_reach windows initialDelay period s \<Longrightarrow> signals_inv initialDelay period s"
  by (induction rule: signal_reach.induct) (auto intro: signals_inv_init signal_step_inv)

section \<open>Signals and key generations\<close>

text \<open>The jobs the trigger has started.\<close>

definition triggered :: "signals \<Rightarrow> nat" where
  "triggered s = sc_started (sg_sched s) - sc_timed (sg_sched s)"

definition quiet :: "signals \<Rightarrow> bool" where
  "quiet s \<longleftrightarrow> \<not> sg_pending s \<and> sg_listener s \<noteq> CallingTrigger"

text \<open>A call is served or still waits; none is lost.\<close>

lemma triggered_calls:
  "signals_inv initialDelay period s \<Longrightarrow> triggered s + busy s = sc_calls (sg_sched s)"
  by (auto simp: signals_inv_def sched_inv_def triggered_def)

lemma signal_step_calls:
  assumes "signal_step period s t"
  shows "sc_calls (sg_sched s) + waiting s \<le> sc_calls (sg_sched t) + waiting t"
  using assms
proof (cases rule: signal_step.cases)
  case (served c)
  with sched_step_served [OF served(3,4)] show ?thesis
    by (simp add: waiting_def)
qed (auto simp: waiting_def)

lemma signal_steps_calls:
  "(signal_step period)\<^sup>*\<^sup>* s t \<Longrightarrow> sc_calls (sg_sched s) + waiting s \<le> sc_calls (sg_sched t) + waiting t"
  by (induction rule: rtranclp_induct) (auto dest: signal_step_calls)

lemma signal_steps_inv:
  "(signal_step period)\<^sup>*\<^sup>* s t \<Longrightarrow> signals_inv initialDelay period s \<Longrightarrow> signals_inv initialDelay period t"
  by (induction rule: rtranclp_induct) (auto dest: signal_step_inv)

text \<open>A blocked call can be served at once, or when the running job has ended.\<close>

lemma call_can_be_served:
  assumes "signals_inv initialDelay period s" "sg_listener s = CallingTrigger"
  shows "\<exists>t. (signal_step period)\<^sup>*\<^sup>* s t \<and> sg_listener t = AwaitingSignal \<and> sg_pending t = sg_pending s"
proof -
  have n: "sc_callers (sg_sched s) = Suc 0"
    using assms by (simp add: signals_inv_def busy_def)
  let ?c = "sg_sched s"
  let ?r = "if sc_worker ?c = RunningJob
    then s\<lparr>sg_sched := ?c\<lparr>sc_worker := Receiving, sc_finished := Suc (sc_finished ?c)\<rparr>\<rparr> else s"
  let ?d = "(sg_sched ?r)\<lparr>sc_worker := RunningJob, sc_callers := 0, sc_started := Suc (sc_started (sg_sched ?r))\<rparr>"
  have "(signal_step period)\<^sup>*\<^sup>* s ?r"
    using signal_step.schedule [OF sched_step.job_done, of s period] by auto
  moreover have "sched_step period (sg_sched ?r) ?d"
    by (rule sched_step.triggered) (use n in \<open>auto intro: worker_pc.exhaust\<close>)
  then have "signal_step period ?r (?r\<lparr>sg_listener := AwaitingSignal, sg_sched := ?d\<rparr>)"
    by (rule signal_step.served [rotated]) (use n assms(2) in auto)
  ultimately have "(signal_step period)\<^sup>*\<^sup>* s (?r\<lparr>sg_listener := AwaitingSignal, sg_sched := ?d\<rparr>)"
    by (rule rtranclp.rtrancl_into_rtrancl)
  then show ?thesis
    by (intro exI [of _ "?r\<lparr>sg_listener := AwaitingSignal, sg_sched := ?d\<rparr>"]) auto
qed

lemma signal_can_be_served:
  assumes "signals_inv initialDelay period s" "sg_listener s \<noteq> NoListener"
  shows "\<exists>t. (signal_step period)\<^sup>*\<^sup>* s t \<and> quiet t"
proof -
  obtain t where t: "(signal_step period)\<^sup>*\<^sup>* s t" "sg_listener t = AwaitingSignal"
    using call_can_be_served [OF assms(1)] assms(2) by (cases "sg_listener s") auto
  show ?thesis
  proof (cases "sg_pending t")
    case True
    let ?u = "t\<lparr>sg_listener := CallingTrigger, sg_pending := False, sg_sched := (sg_sched t)
      \<lparr>sc_callers := Suc (sc_callers (sg_sched t)), sc_calls := Suc (sc_calls (sg_sched t))\<rparr>\<rparr>"
    have u: "signal_step period t ?u"
      by (rule signal_step.receive [OF t(2) True sched_step.call]) simp
    with t(1) have su: "(signal_step period)\<^sup>*\<^sup>* s ?u"
      by (rule rtranclp.rtrancl_into_rtrancl)
    from call_can_be_served [OF signal_steps_inv [OF su assms(1)]]
    obtain v where "(signal_step period)\<^sup>*\<^sup>* ?u v" "sg_listener v = AwaitingSignal" "\<not> sg_pending v"
      by auto
    with su show ?thesis
      by (auto simp: quiet_def intro: rtranclp_trans)
  qed (use t in \<open>auto simp: quiet_def\<close>)
qed



end
