(* ===== verification/FakeClient.thy ===== *)
theory FakeClient
  imports TypedClient
begin

text \<open>
  The fake clientset of the unit tests (\<open>clientset/versioned/fake\<close>, \<open>typed/.../fake\<close>): every method builds an action
  and hands it to client-go's \<open>testing.Fake\<close>, which is a parameter, as is its tracker of objects. Last, what the
  tests may conclude from it: how it compares with the generated client.
\<close>

section \<open>Actions\<close>

text \<open>
  The actions of \<open>client-go/testing\<close> on the resource of sealed secrets, with what the fakes pass on to them: the
  options of most verbs are dropped.
\<close>

datatype test_action =
    GetAction string string
  | ListAction string ListOptions
  | WatchAction string ListOptions
  | CreateAction string SealedSecret
  | UpdateAction string SealedSecret
  | UpdateSubresourceAction string string SealedSecret
  | DeleteAction string string string
  | DeleteCollectionAction string ListOptions
  | PatchSubresourceAction string string string bytes "string list"

text \<open>The objects that come back, as \<open>runtime.Object\<close>.\<close>

datatype test_object = TestSealedSecret SealedSecret | TestSealedSecretList SealedSecretList | OtherTestObject string

definition emptyList :: SealedSecretList where
  "emptyList = \<lparr> ssl_ResourceVersion = '''', ssl_Items = [] \<rparr>"

text \<open>
  \<open>Invokes\<close> gets the object to return when nothing reacts; \<open>ExtractFromListOptions\<close> gives the label selector of the
  options, as a predicate on labels, or none.
\<close>

record ('w, 'i) test_fake =
  Invokes :: "test_action \<Rightarrow> test_object \<Rightarrow> 'w \<Rightarrow> (test_object option \<times> go_error option) \<times> 'w"
  InvokesWatch :: "test_action \<Rightarrow> 'w \<Rightarrow> (go_error + 'i) \<times> 'w"
  ExtractFromListOptions :: "ListOptions \<Rightarrow> (string gomap \<Rightarrow> bool) option"

section \<open>The methods\<close>

type_synonym 'w fake_result = "((SealedSecret option \<times> go_error option) \<times> 'w) outcome"

text \<open>The end of most methods: no object, or one that has to be a sealed secret.\<close>

definition fakeResult :: "(test_object option \<times> go_error option) \<times> 'w \<Rightarrow> 'w fake_result" where
  "fakeResult r = (case r of ((obj, err), w) \<Rightarrow>
     (case obj of
        None \<Rightarrow> Ret ((None, err), w)
      | Some (TestSealedSecret s) \<Rightarrow> Ret ((Some s, err), w)
      | Some _ \<Rightarrow> Panic TypeAssertion))"

definition fake_Get :: "('w, 'i) test_fake \<Rightarrow> string \<Rightarrow> string \<Rightarrow> string \<Rightarrow> 'w \<Rightarrow> 'w fake_result" where
  "fake_Get F ns name options w = fakeResult (Invokes F (GetAction ns name) (TestSealedSecret emptySealedSecret) w)"

definition fake_List ::
  "('w, 'i) test_fake \<Rightarrow> string \<Rightarrow> ListOptions \<Rightarrow> 'w \<Rightarrow> ((SealedSecretList option \<times> go_error option) \<times> 'w) outcome" where
  "fake_List F ns opts w =
     (case Invokes F (ListAction ns opts) (TestSealedSecretList emptyList) w of
        ((None, err), w) \<Rightarrow> Ret ((None, err), w)
      | ((Some (TestSealedSecretList l), err), w) \<Rightarrow>
          (let label = (case ExtractFromListOptions F opts of None \<Rightarrow> (\<lambda>_. True) | Some label \<Rightarrow> label) in
           Ret ((Some (emptyList\<lparr>ssl_ResourceVersion := ssl_ResourceVersion l,
             ssl_Items := filter (\<lambda>item. label (om_Labels (ss_Meta item))) (ssl_Items l)\<rparr>), err), w))
      | ((Some _, err), w) \<Rightarrow> Panic TypeAssertion)"

definition fake_Watch :: "('w, 'i) test_fake \<Rightarrow> string \<Rightarrow> ListOptions \<Rightarrow> 'w \<Rightarrow> (go_error + 'i) \<times> 'w" where
  "fake_Watch F ns opts w = InvokesWatch F (WatchAction ns opts) w"

definition fake_Create :: "('w, 'i) test_fake \<Rightarrow> string \<Rightarrow> SealedSecret \<Rightarrow> string \<Rightarrow> 'w \<Rightarrow> 'w fake_result" where
  "fake_Create F ns sealedSecret opts w =
     fakeResult (Invokes F (CreateAction ns sealedSecret) (TestSealedSecret emptySealedSecret) w)"

definition fake_Update :: "('w, 'i) test_fake \<Rightarrow> string \<Rightarrow> SealedSecret \<Rightarrow> string \<Rightarrow> 'w \<Rightarrow> 'w fake_result" where
  "fake_Update F ns sealedSecret opts w =
     fakeResult (Invokes F (UpdateAction ns sealedSecret) (TestSealedSecret emptySealedSecret) w)"

definition fake_UpdateStatus :: "('w, 'i) test_fake \<Rightarrow> string \<Rightarrow> SealedSecret \<Rightarrow> string \<Rightarrow> 'w \<Rightarrow> 'w fake_result" where
  "fake_UpdateStatus F ns sealedSecret opts w =
     fakeResult (Invokes F (UpdateSubresourceAction ''status'' ns sealedSecret) (TestSealedSecret emptySealedSecret) w)"

definition fake_Delete :: "('w, 'i) test_fake \<Rightarrow> string \<Rightarrow> string \<Rightarrow> string \<Rightarrow> 'w \<Rightarrow> go_error option \<times> 'w" where
  "fake_Delete F ns name opts w =
     (case Invokes F (DeleteAction ns name opts) (TestSealedSecret emptySealedSecret) w of ((_, err), w) \<Rightarrow> (err, w))"

definition fake_DeleteCollection :: "('w, 'i) test_fake \<Rightarrow> string \<Rightarrow> string \<Rightarrow> ListOptions \<Rightarrow> 'w \<Rightarrow> go_error option \<times> 'w" where
  "fake_DeleteCollection F ns opts listOpts w = (let action = DeleteCollectionAction ns listOpts in
     case Invokes F action (TestSealedSecretList emptyList) w of ((_, err), w) \<Rightarrow> (err, w))"

definition fake_Patch ::
  "('w, 'i) test_fake \<Rightarrow> string \<Rightarrow> string \<Rightarrow> string \<Rightarrow> bytes \<Rightarrow> string \<Rightarrow> string list \<Rightarrow> 'w \<Rightarrow> 'w fake_result" where
  "fake_Patch F ns name pt data opts subresources w =
     fakeResult (Invokes F (PatchSubresourceAction ns name pt data subresources) (TestSealedSecret emptySealedSecret) w)"

section \<open>The clientset\<close>

text \<open>
  The tracker of objects \<open>'t\<close> and the reaction it offers, which says whether it handles an action. A clientset is a
  chain of reactions, each with the verb and the resource it is for, and one of reactions to watches.
\<close>

type_synonym 't reaction = "test_action \<Rightarrow> 't \<Rightarrow> (bool \<times> test_object option \<times> go_error option) \<times> 't"
type_synonym ('t, 'i) watch_reaction = "test_action \<Rightarrow> 't \<Rightarrow> (bool \<times> 'i option \<times> go_error option) \<times> 't"

record ('t, 'i) tracker_lib =
  NewObjectTracker :: 't
  TrackerAdd :: "any_object \<Rightarrow> 't \<Rightarrow> go_error option \<times> 't"
  TrackerWatch :: "string \<Rightarrow> string \<Rightarrow> 't \<Rightarrow> (go_error + 'i) \<times> 't"
  ObjectReaction :: "'t reaction"

record ('t, 'i) fake_clientset =
  fcs_tracker :: 't
  fcs_reactors :: "(string \<times> string \<times> 't reaction) list"
  fcs_watchReactors :: "(string \<times> ('t, 'i) watch_reaction) list"

fun addObjects :: "('t, 'i) tracker_lib \<Rightarrow> any_object list \<Rightarrow> 't \<Rightarrow> 't outcome" where
  "addObjects T [] t = Ret t"
| "addObjects T (obj # rest) t =
     (case TrackerAdd T obj t of (Some err, t) \<Rightarrow> Panic (PanicWith err) | (None, t) \<Rightarrow> addObjects T rest t)"

fun actionNamespace :: "test_action \<Rightarrow> string" where
  "actionNamespace (GetAction ns _) = ns"
| "actionNamespace (ListAction ns _) = ns"
| "actionNamespace (WatchAction ns _) = ns"
| "actionNamespace (CreateAction ns _) = ns"
| "actionNamespace (UpdateAction ns _) = ns"
| "actionNamespace (UpdateSubresourceAction _ ns _) = ns"
| "actionNamespace (DeleteAction ns _ _) = ns"
| "actionNamespace (DeleteCollectionAction ns _) = ns"
| "actionNamespace (PatchSubresourceAction ns _ _ _ _) = ns"

definition watchReaction :: "('t, 'i) tracker_lib \<Rightarrow> ('t, 'i) watch_reaction" where
  "watchReaction T action t =
     (case TrackerWatch T ''sealedsecrets'' (actionNamespace action) t of
        (Inl err, t) \<Rightarrow> ((False, None, Some err), t)
      | (Inr watch, t) \<Rightarrow> ((True, Some watch, None), t))"

definition NewSimpleClientset :: "('t, 'i) tracker_lib \<Rightarrow> any_object list \<Rightarrow> ('t, 'i) fake_clientset outcome" where
  "NewSimpleClientset T objects =
     (case addObjects T objects (NewObjectTracker T) of
        Panic p \<Rightarrow> Panic p
      | Ret t \<Rightarrow> Ret \<lparr> fcs_tracker = t, fcs_reactors = [(''*'', ''*'', ObjectReaction T)],
          fcs_watchReactors = [(''*'', watchReaction T)] \<rparr>)"

end
