(* ===== verification/FakeProps.thy ===== *)
theory FakeProps
  imports FakeClient
begin

text \<open>
  What a test with the fake clientset says of the program with the generated client: on a tracker that mimics the
  API server both give the same answers, call after call.
\<close>

section \<open>Calls of a client\<close>

text \<open>The methods of \<open>SealedSecretInterface\<close> with their arguments after the namespace, and what they answer.\<close>

datatype client_call =
    CallGet string string
  | CallList ListOptions
  | CallWatch ListOptions
  | CallCreate SealedSecret string
  | CallUpdate SealedSecret string
  | CallUpdateStatus SealedSecret string
  | CallDelete string string
  | CallDeleteCollection string ListOptions
  | CallPatch string string bytes string "string list"

datatype 'i client_answer =
    AnswerObject "SealedSecret option" "go_error option"
  | AnswerList "SealedSecretList option" "go_error option"
  | AnswerError "go_error option"
  | AnswerWatch "go_error + 'i"

text \<open>What a caller that looks at the error first sees of an object and an error.\<close>

definition unlessError :: "'a \<times> go_error option \<Rightarrow> 'a option" where
  "unlessError r = (case r of (a, None) \<Rightarrow> Some a | (a, Some e) \<Rightarrow> None)"

fun clientCall :: "('w, 'i) rest_client \<Rightarrow> string \<Rightarrow> client_call \<Rightarrow> 'w \<Rightarrow> 'i client_answer \<times> 'w" where
  "clientCall R ns (CallGet name opts) w = (case ssc_Get R ns name opts w of (r, w) \<Rightarrow> (AnswerObject (unlessError r) (snd r), w))"
| "clientCall R ns (CallList opts) w = (case ssc_List R ns opts w of (r, w) \<Rightarrow> (AnswerList (unlessError r) (snd r), w))"
| "clientCall R ns (CallWatch opts) w = (case ssc_Watch R ns opts w of (r, w) \<Rightarrow> (AnswerWatch r, w))"
| "clientCall R ns (CallCreate s opts) w = (case ssc_Create R ns s opts w of (r, w) \<Rightarrow> (AnswerObject (unlessError r) (snd r), w))"
| "clientCall R ns (CallUpdate s opts) w = (case ssc_Update R ns s opts w of (r, w) \<Rightarrow> (AnswerObject (unlessError r) (snd r), w))"
| "clientCall R ns (CallUpdateStatus s opts) w =
     (case ssc_UpdateStatus R ns s opts w of (r, w) \<Rightarrow> (AnswerObject (unlessError r) (snd r), w))"
| "clientCall R ns (CallDelete name opts) w = (case ssc_Delete R ns name opts w of (r, w) \<Rightarrow> (AnswerError r, w))"
| "clientCall R ns (CallDeleteCollection opts listOpts) w =
     (case ssc_DeleteCollection R ns opts listOpts w of (r, w) \<Rightarrow> (AnswerError r, w))"
| "clientCall R ns (CallPatch name pt data opts subs) w =
     (case ssc_Patch R ns name pt data opts subs w of (r, w) \<Rightarrow> (AnswerObject (unlessError r) (snd r), w))"

fun fakeCall :: "('w, 'i) test_fake \<Rightarrow> string \<Rightarrow> client_call \<Rightarrow> 'w \<Rightarrow> ('i client_answer \<times> 'w) outcome" where
  "fakeCall F ns (CallGet name opts) w = obind (fake_Get F ns name opts w) (\<lambda>((s, err), w). Ret (AnswerObject s err, w))"
| "fakeCall F ns (CallList opts) w = obind (fake_List F ns opts w) (\<lambda>((l, err), w). Ret (AnswerList l err, w))"
| "fakeCall F ns (CallWatch opts) w = (case fake_Watch F ns opts w of (r, w) \<Rightarrow> Ret (AnswerWatch r, w))"
| "fakeCall F ns (CallCreate s opts) w = obind (fake_Create F ns s opts w) (\<lambda>((s, err), w). Ret (AnswerObject s err, w))"
| "fakeCall F ns (CallUpdate s opts) w = obind (fake_Update F ns s opts w) (\<lambda>((s, err), w). Ret (AnswerObject s err, w))"
| "fakeCall F ns (CallUpdateStatus s opts) w =
     obind (fake_UpdateStatus F ns s opts w) (\<lambda>((s, err), w). Ret (AnswerObject s err, w))"
| "fakeCall F ns (CallDelete name opts) w = (case fake_Delete F ns name opts w of (r, w) \<Rightarrow> Ret (AnswerError r, w))"
| "fakeCall F ns (CallDeleteCollection opts listOpts) w =
     (case fake_DeleteCollection F ns opts listOpts w of (r, w) \<Rightarrow> Ret (AnswerError r, w))"
| "fakeCall F ns (CallPatch name pt data opts subs) w =
     obind (fake_Patch F ns name pt data opts subs w) (\<lambda>((s, err), w). Ret (AnswerObject s err, w))"

fun clientCalls :: "('w, 'i) rest_client \<Rightarrow> string \<Rightarrow> client_call list \<Rightarrow> 'w \<Rightarrow> 'i client_answer list \<times> 'w" where
  "clientCalls R ns [] w = ([], w)"
| "clientCalls R ns (call # calls) w = (case clientCall R ns call w of (a, w) \<Rightarrow>
     (case clientCalls R ns calls w of (as, w) \<Rightarrow> (a # as, w)))"

fun fakeCalls :: "('w, 'i) test_fake \<Rightarrow> string \<Rightarrow> client_call list \<Rightarrow> 'w \<Rightarrow> ('i client_answer list \<times> 'w) outcome" where
  "fakeCalls F ns [] w = Ret ([], w)"
| "fakeCalls F ns (call # calls) w = obind (fakeCall F ns call w) (\<lambda>(a, w).
     obind (fakeCalls F ns calls w) (\<lambda>(as, w). Ret (a # as, w)))"

section \<open>A tracker that mimics the server\<close>

text \<open>
  The request of an action; the parameters, the timeout and the options in the body are those the fakes drop. An
  error comes without an object, and a list has been selected by its labels already.
\<close>

fun actionRequest :: "test_action \<Rightarrow> req_params \<Rightarrow> int64 \<Rightarrow> req_body \<Rightarrow> request" where
  "actionRequest (GetAction ns name) p t b = (newRequest GET ns ''sealedsecrets'')\<lparr>rq_name := Some name, rq_params := p\<rparr>"
| "actionRequest (ListAction ns opts) p t b =
     (newRequest GET ns ''sealedsecrets'')\<lparr>rq_params := ListParams opts, rq_timeout := t\<rparr>"
| "actionRequest (WatchAction ns opts) p t b =
     (newRequest GET ns ''sealedsecrets'')\<lparr>rq_params := ListParams (opts\<lparr>lo_Watch := True\<rparr>), rq_timeout := t\<rparr>"
| "actionRequest (CreateAction ns s) p t b = (newRequest POST ns ''sealedsecrets'')\<lparr>rq_params := p, rq_body := ObjectBody s\<rparr>"
| "actionRequest (UpdateAction ns s) p t b = (newRequest PUT ns ''sealedsecrets'')
     \<lparr>rq_name := Some (om_Name (ss_Meta s)), rq_params := p, rq_body := ObjectBody s\<rparr>"
| "actionRequest (UpdateSubresourceAction sub ns s) p t b = (newRequest PUT ns ''sealedsecrets'')
     \<lparr>rq_name := Some (om_Name (ss_Meta s)), rq_subresources := [sub], rq_params := p, rq_body := ObjectBody s\<rparr>"
| "actionRequest (DeleteAction ns name opts) p t b = (newRequest DELETE ns ''sealedsecrets'')
     \<lparr>rq_name := Some name, rq_body := OptionsBody opts\<rparr>"
| "actionRequest (DeleteCollectionAction ns opts) p t b = (newRequest DELETE ns ''sealedsecrets'')
     \<lparr>rq_params := ListParams opts, rq_timeout := t, rq_body := b\<rparr>"
| "actionRequest (PatchSubresourceAction ns name pt data subs) p t b = (newRequest (PATCH pt) ns ''sealedsecrets'')
     \<lparr>rq_name := Some name, rq_subresources := subs, rq_params := p, rq_body := PatchBody data\<rparr>"

definition objectOr :: "('a \<Rightarrow> test_object) \<Rightarrow> 'a \<times> go_error option \<Rightarrow> test_object option \<times> go_error option" where
  "objectOr f r = (map_option f (unlessError r), snd r)"

fun answersLike :: "('w, 'i) test_fake \<Rightarrow> ('w, 'i) rest_client \<Rightarrow> test_action \<Rightarrow> test_object \<Rightarrow> request \<Rightarrow> 'w \<Rightarrow> bool" where
  "answersLike F R (ListAction ns opts) d rq w \<longleftrightarrow>
     Invokes F (ListAction ns opts) d w = (case DoList R rq w of (r, w) \<Rightarrow> (objectOr TestSealedSecretList r, w))"
| "answersLike F R (WatchAction ns opts) d rq w \<longleftrightarrow> InvokesWatch F (WatchAction ns opts) w = DoWatch R rq w"
| "answersLike F R (DeleteAction ns name opts) d rq w \<longleftrightarrow>
     (\<exists>obj. Invokes F (DeleteAction ns name opts) d w = (case DoError R rq w of (e, w) \<Rightarrow> ((obj, e), w)))"
| "answersLike F R (DeleteCollectionAction ns opts) d rq w \<longleftrightarrow>
     (\<exists>obj. Invokes F (DeleteCollectionAction ns opts) d w = (case DoError R rq w of (e, w) \<Rightarrow> ((obj, e), w)))"
| "answersLike F R a d rq w \<longleftrightarrow> Invokes F a d w = (case DoObject R rq w of (r, w) \<Rightarrow> (objectOr TestSealedSecret r, w))"

definition mimics :: "('w, 'i) test_fake \<Rightarrow> ('w, 'i) rest_client \<Rightarrow> bool" where
  "mimics F R \<longleftrightarrow> (\<forall>a d w p t b. answersLike F R a d (actionRequest a p t b) w)"

definition selects_labels :: "('w, 'i) test_fake \<Rightarrow> ('w, 'i) rest_client \<Rightarrow> bool" where
  "selects_labels F R \<longleftrightarrow> (\<forall>ns opts t w l w' label s.
     DoList R (actionRequest (ListAction ns opts) NoParams t NoBody) w = ((l, None), w') \<longrightarrow>
     ExtractFromListOptions F opts = Some label \<longrightarrow> s \<in> set (ssl_Items l) \<longrightarrow> label (om_Labels (ss_Meta s)))"

section \<open>Both give the same answers\<close>

text \<open>The list is selected twice, which does not matter.\<close>

lemma fake_List_selected:
  assumes "Invokes F (ListAction ns opts) (TestSealedSecretList emptyList) w = (objectOr TestSealedSecretList (l, err), w')"
    "\<And>label s. err = None \<Longrightarrow> ExtractFromListOptions F opts = Some label \<Longrightarrow> s \<in> set (ssl_Items l) \<Longrightarrow> label (om_Labels (ss_Meta s))"
  shows "fake_List F ns opts w = Ret ((unlessError (l, err), err), w')"
proof (cases err)
  case None
  have "filter (\<lambda>item. (case ExtractFromListOptions F opts of None \<Rightarrow> (\<lambda>_. True) | Some label \<Rightarrow> label) (om_Labels (ss_Meta item)))
      (ssl_Items l) = ssl_Items l"
    using assms(2) [OF None] by (auto intro!: filter_True split: option.split)
  then show ?thesis
    using assms(1) by (simp add: fake_List_def objectOr_def unlessError_def None emptyList_def Let_def)
qed (use assms(1) in \<open>simp add: fake_List_def objectOr_def unlessError_def\<close>)

lemma fakeResult_objectOr: "fakeResult (objectOr TestSealedSecret r, w) = Ret ((unlessError r, snd r), w)"
  by (auto simp: fakeResult_def objectOr_def unlessError_def split: option.split prod.split)

lemmas fake_defs = fake_Get_def fake_Create_def fake_Update_def fake_UpdateStatus_def fake_Patch_def fake_Delete_def
  fake_DeleteCollection_def fake_Watch_def

lemmas client_defs = ssc_Get_def ssc_List_def ssc_Create_def ssc_Update_def ssc_UpdateStatus_def ssc_Patch_def ssc_Delete_def
  ssc_DeleteCollection_def ssc_Watch_def

lemma fakeCall_agrees:
  assumes "mimics F R" "selects_labels F R"
  shows "fakeCall F ns call w = Ret (clientCall R ns call w)"
proof -
  have like: "answersLike F R a d (actionRequest a p t b) w" for a d p t b
    using assms(1) unfolding mimics_def by blast
  show ?thesis
  proof (cases call)
    case (CallGet n opts)
    with like [of "GetAction ns n" _ "OptionParams opts"] show ?thesis
      by (simp add: fake_defs client_defs fakeResult_objectOr split: prod.split)
  next
    case (CallList opts)
    let ?rq = "(newRequest GET ns ''sealedsecrets'')\<lparr>rq_params := ListParams opts, rq_timeout := listTimeout opts\<rparr>"
    obtain l err w' where l: "DoList R ?rq w = ((l, err), w')" by (metis surj_pair)
    have "Invokes F (ListAction ns opts) (TestSealedSecretList emptyList) w = (objectOr TestSealedSecretList (l, err), w')"
      using like [of "ListAction ns opts" "TestSealedSecretList emptyList" _ "listTimeout opts"] l by simp
    moreover have "label (om_Labels (ss_Meta s))"
      if "err = None" "ExtractFromListOptions F opts = Some label" "s \<in> set (ssl_Items l)" for label s
      using assms(2) [unfolded selects_labels_def, rule_format, of ns opts "listTimeout opts" w l w' label s] l that by simp
    ultimately have "fake_List F ns opts w = Ret ((unlessError (l, err), err), w')"
      by (rule fake_List_selected)
    with CallList l show ?thesis
      by (simp add: client_defs)
  next
    case (CallWatch opts)
    with like [of "WatchAction ns opts" _ _ "listTimeout opts"] show ?thesis
      by (simp add: fake_defs client_defs Let_def split: prod.split)
  next
    case (CallCreate s opts)
    with like [of "CreateAction ns s" _ "OptionParams opts"] show ?thesis
      by (simp add: fake_defs client_defs fakeResult_objectOr split: prod.split)
  next
    case (CallUpdate s opts)
    with like [of "UpdateAction ns s" _ "OptionParams opts"] show ?thesis
      by (simp add: fake_defs client_defs fakeResult_objectOr split: prod.split)
  next
    case (CallUpdateStatus s opts)
    with like [of "UpdateSubresourceAction ''status'' ns s" _ "OptionParams opts"] show ?thesis
      by (simp add: fake_defs client_defs fakeResult_objectOr split: prod.split)
  next
    case (CallDelete n opts)
    with like [of "DeleteAction ns n opts" "TestSealedSecret emptySealedSecret"] show ?thesis
      by (auto simp: fake_defs client_defs split: prod.split)
  next
    case (CallDeleteCollection opts listOpts)
    with like [of "DeleteCollectionAction ns listOpts" "TestSealedSecretList emptyList" _ "listTimeout listOpts" "OptionsBody opts"]
    show ?thesis
      by (auto simp: fake_defs client_defs Let_def split: prod.split)
  next
    case (CallPatch n pt data opts subs)
    with like [of "PatchSubresourceAction ns n pt data subs" _ "OptionParams opts"] show ?thesis
      by (simp add: fake_defs client_defs fakeResult_objectOr split: prod.split)
  qed
qed


text \<open>A server that keeps a list of objects, and its tracker.\<close>

definition tinyRest :: "(SealedSecret list, unit) rest_client" where
  "tinyRest = \<lparr>
     DoObject = (\<lambda>rq w. case rq_body rq of
         ObjectBody s \<Rightarrow> ((s, None), s # w)
       | _ \<Rightarrow> (case find (\<lambda>s. rq_name rq = Some (om_Name (ss_Meta s))) w of
            None \<Rightarrow> ((emptySealedSecret, Some notFound), w) | Some s \<Rightarrow> ((s, None), w))),
     DoList = (\<lambda>rq w. ((emptyList\<lparr>ssl_Items := w\<rparr>, None), w)),
     DoError = (\<lambda>rq w. (None, [])), DoWatch = (\<lambda>rq w. (Inr (), w)) \<rparr>"

definition tinyFake :: "(SealedSecret list, unit) test_fake" where
  "tinyFake = \<lparr>
     Invokes = (\<lambda>a d w. case a of
         ListAction ns opts \<Rightarrow> ((Some (TestSealedSecretList (emptyList\<lparr>ssl_Items := w\<rparr>)), None), w)
       | DeleteAction ns name opts \<Rightarrow> ((None, None), [])
       | DeleteCollectionAction ns opts \<Rightarrow> ((None, None), [])
       | _ \<Rightarrow> (case DoObject tinyRest (actionRequest a NoParams 0 NoBody) w of (r, w) \<Rightarrow> (objectOr TestSealedSecret r, w))),
     InvokesWatch = (\<lambda>a w. (Inr (), w)), ExtractFromListOptions = (\<lambda>opts. None) \<rparr>"

lemma tiny_mimics: "mimics tinyFake tinyRest" "selects_labels tinyFake tinyRest"
proof -
  have "answersLike tinyFake tinyRest a d (actionRequest a p t b) w" for a d p t b w
    by (cases a) (auto simp: tinyFake_def tinyRest_def newRequest_def objectOr_def unlessError_def split: option.split)
  then show "mimics tinyFake tinyRest"
    by (simp add: mimics_def)
qed (simp add: selects_labels_def tinyFake_def)


end
