(* ===== verification/ReencryptProps.thy ===== *)
theory ReencryptProps
  imports CliProps ServerProps RotateProps
begin

text \<open>
  \<open>kubeseal --re-encrypt\<close> with the controller behind the proxy: what it prints unseals like what it was given,
  with the latest key alone.
\<close>

text \<open>What the proxy hands on as a success is the body of an answer of the controller with status 200.\<close>

definition proxies_rotate :: "'e cli_env \<Rightarrow> 'w Controller \<Rightarrow> KeyRegistry \<Rightarrow> bool" where
  "proxies_rotate E c kr \<longleftrightarrow> (\<forall>ns service content e body e'.
     ProxyPost E ns service ''/v1/rotate'' content e = ((None, Inr body), e') \<longrightarrow>
     (\<exists>rnd r rnd'. serve c kr ''/v1/rotate'' (Inr content) rnd = Ret (Some r, rnd') \<and> status r = 200 \<and> rs_body r = body))"

lemma serve_rotate:
  assumes "serve c kr ''/v1/rotate'' (Inr content) rnd = Ret (Some r, rnd')" "status r = 200"
  shows "\<exists>data. Rotate c kr content rnd = Ret (Inr data, rnd') \<and> rs_body r = data"
  using assms by (auto simp: serve_def handleRotate_def response_defs elim!: obind_RetE split: sum.split_asm)

text \<open>The fields \<open>kubeseal\<close> clears before it prints have no say in the unsealing.\<close>

lemma stripRotated_simps:
  "ss_Spec (stripRotated s) = ss_Spec s" "SecretScope (ss_Meta (stripRotated s)) = SecretScope (ss_Meta s)"
  "labelFor (ss_Meta (stripRotated s)) = labelFor (ss_Meta s)"
  "unsealEncryptedData C L ks (stripRotated s) = unsealEncryptedData C L ks s"
  "unsealDeprecatedData C L ks (stripRotated s) = unsealDeprecatedData C L ks s"
  "finishUnseal L (stripRotated s) = finishUnseal L s"
  by (simp_all add: stripRotated_def SecretScope_def labelFor_def fun_eq_iff unsealEncryptedData_def
      unsealDeprecatedData_def finishUnseal_def ownerReference_def Let_def)

lemma Unseal_stripRotated: "Unseal C L v1 ks (stripRotated s) = Unseal C L v1 ks s"
  by (simp add: Unseal_def stripRotated_simps Let_def split: option.split sum.split)

lemma resealed_stripRotated: "resealed c m s orig s' \<Longrightarrow> resealed c m s orig (stripRotated s')"
  by (simp add: resealed_def Unseal_stripRotated stripRotated_simps)

text \<open>What \<open>kubeseal\<close> prints: the sealed secrets one after the other.\<close>

fun printed :: "cli_lib \<Rightarrow> string \<Rightarrow> SealedSecret list \<Rightarrow> bytes \<Rightarrow> bytes" where
  "printed X fmt [] out = out"
| "printed X fmt (s # ss) out = printed X fmt ss (snd (sealedSecretOutput X fmt s out))"

text \<open>A sealed secret that reaches the controller as it is and is fit for sealing again under the latest key.\<close>

definition resealable :: "kube_lib \<Rightarrow> 'w Controller \<Rightarrow> Key \<Rightarrow> SealedSecret \<Rightarrow> bool" where
  "resealable L c m s \<longleftrightarrow> spec_Data (ss_Spec s) = None \<and> map_wf (om_Annotations (ss_Meta s)) \<and>
     map_wf (om_Annotations (tmpl_Meta (spec_Template (ss_Spec s)))) \<and>
     crypto_sound (ctl_crypto c) (rsaPublicKey (key_private m)) (labelFor (ss_Meta s)) \<and>
     (\<forall>content. MarshalSealedSecret L s = Inr content \<longrightarrow> DecodeObject (ctl_kube c) content = Inr (SealedSecretObj s))"

lemma reencryptLoop_reseals:
  assumes "proxies_rotate E c kr" "kr_mostRecentKey kr = Some m" "\<forall>s \<in> set ss. resealable L c m s"
    "\<And>s data. MarshalSealedSecret (ctl_kube c) s = Inr data \<Longrightarrow> UnmarshalSealedSecret L data = Inr s"
    "reencryptLoop E L X fmt ns service ss out e = (None, out', e')"
  shows "\<exists>ss'. out' = printed X fmt ss' out \<and>
    list_all2 (\<lambda>s s'. \<exists>orig. attemptUnseal c kr s = Inr orig \<and> resealed c m s orig s') ss ss'"
  using assms(3,5)
proof (induction ss arbitrary: out e)
  case (Cons s ss)
  then obtain content where marshal: "MarshalSealedSecret L s = Inr content"
    by (auto split: sum.splits)
  obtain body e1 where post: "ProxyPost E ns service ''/v1/rotate'' content e = ((None, Inr body), e1)"
    using Cons.prems(2) marshal by (auto split: prod.splits sum.splits option.splits)
  obtain rnd r rnd' where r: "serve c kr ''/v1/rotate'' (Inr content) rnd = Ret (Some r, rnd')" "status r = 200" "rs_body r = body"
    using assms(1) post unfolding proxies_rotate_def by blast
  have run: "Rotate c kr content rnd = Ret (Inr body, rnd')"
    using serve_rotate [OF r(1,2)] r(3) by blast
  have s: "spec_Data (ss_Spec s) = None" "map_wf (om_Annotations (ss_Meta s))"
    "map_wf (om_Annotations (tmpl_Meta (spec_Template (ss_Spec s))))" "DecodeObject (ctl_kube c) content = Inr (SealedSecretObj s)"
    "crypto_sound (ctl_crypto c) (rsaPublicKey (key_private m)) (labelFor (ss_Meta s))"
    using Cons.prems(1) marshal by (simp_all add: resealable_def)
  obtain orig s' where orig: "attemptUnseal c kr s = Inr orig" "MarshalSealedSecret (ctl_kube c) s' = Inr body"
    "resealed c m s orig s'"
    using Rotate_reseals [OF run s(4,1,2,3) assms(2) s(5)] by blast
  have rest: "sealedSecretOutput X fmt (stripRotated s') out = (None, snd (sealedSecretOutput X fmt (stripRotated s') out))"
    "reencryptLoop E L X fmt ns service ss (snd (sealedSecretOutput X fmt (stripRotated s') out)) e1 = (None, out', e')"
    using Cons.prems(2) marshal post assms(4) [OF orig(2)] by (auto split: prod.splits option.splits)
  obtain ss' where "out' = printed X fmt ss' (snd (sealedSecretOutput X fmt (stripRotated s') out))"
    "list_all2 (\<lambda>s s'. \<exists>orig. attemptUnseal c kr s = Inr orig \<and> resealed c m s orig s') ss ss'"
    using Cons.IH [OF _ rest(2)] Cons.prems(1) by auto
  then show ?case
    using orig(1) resealed_stripRotated [OF orig(3)] by (intro exI [of _ "stripRotated s' # ss'"]) auto
qed simp

text \<open>
  C18: \<open>kubeseal --re-encrypt\<close> keeps what it is given: when it succeeds it has printed, for each sealed secret of its
  input and in the same order, one of the same scope that unseals with the latest key of the controller alone to a
  secret with the same values, type, name and namespace as the old one does.
\<close>

theorem reencrypt_keeps_secrets:
  assumes "ReEncryptSealedSecret E L X Y ns name fmt input [] e = Some (Ret (None, out, e'))"
    "readSealedSecrets Y input = Some (Inr ss)" "\<forall>s \<in> set ss. resealable L c m s"
    "proxies_rotate E c kr" "kr_mostRecentKey kr = Some m"
    "\<And>s data. MarshalSealedSecret (ctl_kube c) s = Inr data \<Longrightarrow> UnmarshalSealedSecret L data = Inr s"
  shows "\<exists>ss'. out = printed X fmt ss' [] \<and>
    list_all2 (\<lambda>s s'. \<exists>orig. attemptUnseal c kr s = Inr orig \<and> resealed c m s orig s') ss ss'"
proof -
  obtain service e1 where "reencryptLoop E L X fmt ns service ss [] e1 = (None, out, e')"
    using assms(1,2) by (auto simp: ReEncryptSealedSecret_def split: outcome.splits prod.splits sum.splits)
  from reencryptLoop_reseals [OF assms(4,5,3,6) this] show ?thesis .
qed

section \<open>A run on the samples\<close>

text \<open>
  A controller whose JSON writes two objects, the sample and its re-encrypted form, and reads both back; and a
  proxy to its handlers.
\<close>

definition rotatedSealed :: SealedSecret where
  "rotatedSealed = projr (fst (NewSealedSecret sampleCrypto (rsaPublicKey sampleKey)
     (projr (attemptUnseal sampleController sampleRegistry (alignTemplate sampleSealed))) sampleRandom))"

definition writingKube :: kube_lib where
  "writingKube = sampleKube
     \<lparr> DecodeObject := (\<lambda>b. Inr (SealedSecretObj sampleSealed)),
       MarshalSealedSecret := (\<lambda>s. if s = sampleSealed then Inr [1] else if s = rotatedSealed then Inr [2]
         else Inl (LibError ''no JSON'')),
       UnmarshalSealedSecret := (\<lambda>b. Inr (if b = [1] then sampleSealed else rotatedSealed)) \<rparr>"

definition writingController :: "store Controller" where
  "writingController = sampleController\<lparr>ctl_kube := writingKube\<rparr>"

text \<open>A stream of one sealed secret.\<close>

definition sealedYaml :: "bool yaml_lib" where
  "sealedYaml = \<lparr> yaml_open = (\<lambda>r. True), yaml_secret = (\<lambda>d. (None, DecodeEOF, False)),
     yaml_sealed = (\<lambda>d. if d then (Some sampleSealed, DecodeOK, False) else (None, DecodeEOF, False)) \<rparr>"

definition rotatingEnv :: "(string \<Rightarrow> bytes option) cli_env" where
  "rotatingEnv = sampleEnv
     \<lparr> ProxyPost := (\<lambda>ns service path content e. ((case serve writingController sampleRegistry path (Inr content) sampleRandom of
         Ret (Some r, _) \<Rightarrow> if status r = 200 then (None, Inr (rs_body r))
           else (Some (StatusError (status r) '''' ''''), Inl (LibError ''status''))
       | _ \<Rightarrow> (Some (LibError ''offline''), Inl (LibError ''offline''))), e)) \<rparr>"

lemma rotatingEnv_rotate: "proxies_rotate rotatingEnv writingController sampleRegistry"
  by (auto simp: proxies_rotate_def rotatingEnv_def split: outcome.splits prod.splits option.splits if_splits)

lemma writingKube_reads:
  "renderItem writingKube = renderItem sampleKube" "FormatErrors writingKube = FormatErrors sampleKube"
  "DecodeSecretInto writingKube = DecodeSecretInto sampleKube" "ownerReference writingKube = ownerReference sampleKube"
  by (simp_all add: fun_eq_iff renderItem_def sprigFuncMap_def ownerReference_def writingKube_def)

lemma Unseal_writing: "Unseal C writingKube = Unseal C sampleKube"
proof -
  have "unsealEncryptedData C writingKube = unsealEncryptedData C sampleKube"
    "unsealDeprecatedData C writingKube = unsealDeprecatedData C sampleKube" "finishUnseal writingKube = finishUnseal sampleKube"
    by (intro ext, simp only: unsealEncryptedData_def unsealDeprecatedData_def finishUnseal_def writingKube_reads)+
  then show ?thesis
    by (intro ext) (simp only: Unseal_def)
qed

lemma writingController_simps:
  "ctl_crypto writingController = sampleCrypto" "ctl_kube writingController = writingKube"
  "ctl_acceptV1 writingController" "DecodeObject writingKube b = Inr (SealedSecretObj sampleSealed)" "MarshalSealedSecret writingKube sampleSealed = Inr [1]"
  "attemptUnseal writingController kr s = attemptUnseal sampleController kr s"
  by (simp_all add: writingController_def writingKube_def)
    (simp add: attemptUnseal_def Unseal_writing flip: writingKube_def)

lemma sample_writes:
  "\<exists>body rnd. Rotate writingController sampleRegistry content sampleRandom = Ret (Inr body, rnd)"
proof -
  obtain old s rnd' where u: "attemptUnseal writingController sampleRegistry (alignTemplate sampleSealed) = Inr old"
    and seal: "NewSealedSecret sampleCrypto (rsaPublicKey sampleKey) old sampleRandom = (Inr s, rnd')"
    using sample_reseals [OF writingController_simps(1)] by blast
  have "rotatedSealed = s"
    using u seal by (simp add: rotatedSealed_def writingController_simps)
  then have "MarshalSealedSecret writingKube s = Inr (if s = sampleSealed then [1] else [2])"
    by (simp add: writingKube_def)
  with u seal sampleRegistry_facts(2) show ?thesis
    by (auto simp: Rotate_def writingController_simps latestPrivateKey_def)
qed

lemma sample_reencrypts:
  "\<exists>out. ReEncryptSealedSecret rotatingEnv writingKube sampleCli sealedYaml ''kube-system'' ''c'' ''json'' (Inr [1]) []
      (\<lambda>_. None) = Some (Ret (None, out, \<lambda>_. None))"
proof -
  have "controllerService rotatingEnv sampleCli ''kube-system'' ''c'' (\<lambda>_. None) = Ret (Inr ''http:c:http'', \<lambda>_. None)"
    by (simp add: controllerService_def rotatingEnv_def sampleEnv_def sampleCli_def getServicePortName_def)
  moreover have "readSealedSecrets sealedYaml (Inr [1]) = Some (Inr [sampleSealed])"
    by (simp add: readSealedSecrets_def sealedYaml_def readDocs.simps)
  moreover obtain body rnd where "Rotate writingController sampleRegistry [1] sampleRandom = Ret (Inr body, rnd)"
    using sample_writes by blast
  then obtain r where "serve writingController sampleRegistry ''/v1/rotate'' (Inr [1]) sampleRandom = Ret (Some r, rnd)"
    "status r = 200"
    by (auto simp: serve_def handleRotate_def response_defs)
  then have "ProxyPost rotatingEnv ns service ''/v1/rotate'' [1] e = ((None, Inr (rs_body r)), e)" for ns service e
    by (simp add: rotatingEnv_def)
  moreover obtain s' where "UnmarshalSealedSecret writingKube (rs_body r) = Inr s'"
    by (simp add: writingKube_def)
  moreover have "fst (sealedSecretOutput sampleCli ''json'' s out) = None" for s out
    by (simp add: sealedSecretOutput_def resourceOutput_def prettyEncoder_def sampleCli_def ToLower_def lower_char_def Let_def)
  ultimately show ?thesis
    by (simp add: ReEncryptSealedSecret_def writingController_simps prod.case_eq_if)
qed

theorem reencrypt_keeps_secrets_witness:
  "\<exists>out new. ReEncryptSealedSecret rotatingEnv writingKube sampleCli sealedYaml ''kube-system'' ''c'' ''json'' (Inr [1]) []
      (\<lambda>_. None) = Some (Ret (None, out, \<lambda>_. None))
    \<and> out = snd (sealedSecretOutput sampleCli ''json'' new [])
    \<and> (\<exists>secret. Unseal sampleCrypto writingKube True sampleRing new = Inr secret)"
proof -
  obtain out where out: "ReEncryptSealedSecret rotatingEnv writingKube sampleCli sealedYaml ''kube-system'' ''c'' ''json''
      (Inr [1]) [] (\<lambda>_. None) = Some (Ret (None, out, \<lambda>_. None))"
    using sample_reencrypts by blast
  obtain m where m: "kr_mostRecentKey sampleRegistry = Some m" "key_private m = sampleKey"
    using sampleRegistry_facts(2) by blast
  have ss: "readSealedSecrets sealedYaml (Inr [1]) = Some (Inr [sampleSealed])"
    by (simp add: readSealedSecrets_def sealedYaml_def readDocs.simps)
  have ok: "\<forall>s \<in> set [sampleSealed]. resealable writingKube writingController m s"
    using sample_sound sealed_label [OF sample_seals]
    by (simp add: resealable_def writingController_simps sample_spec(1) sampleSealed_wf m(2))
  have json: "MarshalSealedSecret (ctl_kube writingController) s = Inr data \<Longrightarrow> UnmarshalSealedSecret writingKube data = Inr s"
    for s data
    by (simp add: writingController_simps) (auto simp: writingKube_def split: if_splits)
  have "\<exists>s'. out = printed sampleCli ''json'' [s'] [] \<and> (\<exists>orig. resealed writingController m sampleSealed orig s')"
    using reencrypt_keeps_secrets [OF out ss ok rotatingEnv_rotate m(1) json] by (auto simp: list_all2_Cons1)
  then obtain s' orig where s': "out = printed sampleCli ''json'' [s'] []" "resealed writingController m sampleSealed orig s'"
    by blast
  from s'(2) sample_holds_key have "\<exists>secret. Unseal sampleCrypto writingKube True sampleRing s' = Inr secret"
    by (auto simp: resealed_def m(2) writingController_simps)
  with out s'(1) show ?thesis
    by auto
qed

end
