(* ===== verification/EndToEnd.thy ===== *)
theory EndToEnd
  imports ReencryptProps ProcessProps
begin

text \<open>
  The client and the controller together: \<open>kubeseal\<close> reaches the handlers through the API server's proxy, its
  validation says what the controller would do, and what it seals with a fetched certificate unseals in the
  running process ever after.
\<close>

section \<open>The proxy of the API server\<close>

text \<open>
  \<open>kubeseal\<close> reaches the controller through the API server's service proxy: the answer of the handler
  comes back as the body, and as an error (a conflict for 409) unless the status is 200.
\<close>

definition proxies_verify :: "'e cli_env \<Rightarrow> 'w Controller \<Rightarrow> KeyRegistry \<Rightarrow> bool" where
  "proxies_verify E c kr \<longleftrightarrow> (\<forall>ns service content e r rnd rnd'.
     serve c kr ''/v1/verify'' (Inr content) rnd = Ret (Some r, rnd') \<longrightarrow>
     (\<exists>err e'. ProxyPost E ns service ''/v1/verify'' content e = ((err, Inr (rs_body r)), e') \<and>
        (err = None \<longleftrightarrow> status r = 200) \<and> (\<forall>x. err = Some x \<longrightarrow> (isConflict x \<longleftrightarrow> status r = 409))))"

definition proxies_cert :: "'e cli_env \<Rightarrow> 'w Controller \<Rightarrow> KeyRegistry \<Rightarrow> bool" where
  "proxies_cert E c kr \<longleftrightarrow> (\<forall>ns name port e r rnd rnd'.
     serve c kr ''/v1/cert.pem'' (Inr []) rnd = Ret (Some r, rnd') \<longrightarrow> status r = 200 \<longrightarrow>
     (\<exists>e'. ProxyGet E ns name port ''/v1/cert.pem'' e = (Inr (Inr (rs_body r)), e')))"

section \<open>Validation\<close>

text \<open>An object that survives the way to the controller.\<close>

definition transmits :: "kube_lib \<Rightarrow> kube_lib \<Rightarrow> SealedSecret \<Rightarrow> bool" where
  "transmits L L' s \<longleftrightarrow> (\<exists>content. MarshalSealedSecret L s = Inr content \<and> EnsureNotMultiDoc L' content = None \<and>
     DecodeObject L' content = Inr (SealedSecretObj s))"

lemma serve_verify:
  assumes "EnsureNotMultiDoc (ctl_kube c) content = None" "DecodeObject (ctl_kube c) content = Inr (SealedSecretObj s)"
  shows "\<exists>r. serve c kr ''/v1/verify'' (Inr content) rnd = Ret (Some r, rnd) \<and>
    status r = (if isl (attemptUnseal c kr s) then 409 else 200)"
  using assms by (simp add: serve_def handleVerify_def AttemptUnseal_def response_defs split: sum.splits)

lemma validateLoop_agrees:
  assumes "proxies_verify E c kr" "\<forall>s \<in> set ss. transmits L (ctl_kube c) s"
  shows "fst (validateLoop E L ns service ss e) = map_option
    (\<lambda>s. Errorf (''unable to decrypt sealed secret: '' @ om_Name (ss_Meta s))) (find (\<lambda>s. isl (attemptUnseal c kr s)) ss)"
  using assms(2)
proof (induction ss arbitrary: e)
  case (Cons s ss)
  then obtain content where m: "MarshalSealedSecret L s = Inr content"
    and d: "EnsureNotMultiDoc (ctl_kube c) content = None" "DecodeObject (ctl_kube c) content = Inr (SealedSecretObj s)"
    by (auto simp: transmits_def)
  obtain r where r: "serve c kr ''/v1/verify'' (Inr content) [] = Ret (Some r, [])"
    and st: "status r = (if isl (attemptUnseal c kr s) then 409 else 200)"
    using serve_verify [OF d] by blast
  obtain err e' where p: "ProxyPost E ns service ''/v1/verify'' content e = ((err, Inr (rs_body r)), e')"
    and err: "err = None \<longleftrightarrow> status r = 200" "\<forall>x. err = Some x \<longrightarrow> (isConflict x \<longleftrightarrow> status r = 409)"
    using assms(1) r unfolding proxies_verify_def by blast
  show ?case
    using Cons m p err st by (cases err) (auto split: if_splits)
qed simp


text \<open>The sample: a proxy to the handlers.\<close>

definition proxyEnv :: "(string \<Rightarrow> bytes option) cli_env" where
  "proxyEnv = sampleEnv
     \<lparr> ProxyPost := (\<lambda>ns service path content e. ((case serve rotateController sampleRegistry path (Inr content) [] of
         Ret (Some r, _) \<Rightarrow> ((if status r = 200 then None else Some (StatusError (status r) '''' '''')), Inr (rs_body r))
       | _ \<Rightarrow> (Some (LibError ''offline''), Inl (LibError ''offline''))), e)),
       ProxyGet := (\<lambda>ns name port path e. ((case serve sampleController sampleRegistry path (Inr []) [] of
         Ret (Some r, _) \<Rightarrow> Inr (Inr (rs_body r))
       | _ \<Rightarrow> Inl (LibError ''offline'')), e)) \<rparr>"

lemma serve_verify_rnd:
  "serve c kr ''/v1/verify'' body rnd = Ret (r, rnd') \<Longrightarrow> serve c kr ''/v1/verify'' body [] = Ret (r, [])"
  by (simp add: serve_def)

lemma proxyEnv_verify: "proxies_verify proxyEnv rotateController sampleRegistry"
  unfolding proxies_verify_def
proof (intro allI impI)
  fix ns service content and e :: "string \<Rightarrow> bytes option" and r rnd rnd'
  assume "serve rotateController sampleRegistry ''/v1/verify'' (Inr content) rnd = Ret (Some r, rnd')"
  from serve_verify_rnd [OF this]
  show "\<exists>err e'. ProxyPost proxyEnv ns service ''/v1/verify'' content e = ((err, Inr (rs_body r)), e') \<and>
        (err = None \<longleftrightarrow> status r = 200) \<and> (\<forall>x. err = Some x \<longrightarrow> (isConflict x \<longleftrightarrow> status r = 409))"
    by (simp add: proxyEnv_def isConflict_def)
qed


section \<open>From the certificate to the cluster\<close>

lemma serve_cert:
  assumes "kr_mostRecentKey kr = Some m"
  shows "\<exists>r. serve c kr ''/v1/cert.pem'' body rnd = Ret (Some r, rnd) \<and> status r = 200 \<and>
    rs_body r = EncodeCertPEM (ctl_kube c) (cert_Raw (key_cert m))"
  using assms by (simp add: serve_def handleCert_def certProvider_def getCert_def response_defs Let_def)

lemma OpenCert_cluster:
  assumes "proxies_cert E c kr" "kr_mostRecentKey kr = Some m" "OpenCert E X ns name '''' e = Ret (Inr f, e')"
  shows "f = Inr (EncodeCertPEM (ctl_kube c) (cert_Raw (key_cert m)))"
proof -
  obtain r where r: "serve c kr ''/v1/cert.pem'' (Inr []) [] = Ret (Some r, [])" "status r = 200"
    "rs_body r = EncodeCertPEM (ctl_kube c) (cert_Raw (key_cert m))"
    using serve_cert [OF assms(2)] by blast
  have p: "\<exists>e'. ProxyGet E ns name port ''/v1/cert.pem'' e = (Inr (Inr (rs_body r)), e')" for port e
    using assms(1) r(1,2) unfolding proxies_cert_def by blast
  obtain e1 where "openCertCluster E ns name e1 = Ret (Inr f, e')"
    using assms(3) by (auto simp: OpenCert_def split: prod.splits option.splits)
  then obtain portName e2 where "(case ProxyGet E ns name portName ''/v1/cert.pem'' e2 of
      (Inl err, e) \<Rightarrow> (Inl (Errorf (''cannot fetch certificate: '' @ err_text err)), e)
    | (Inr cert, e) \<Rightarrow> (Inr cert, e)) = (Inr f, e')"
    by (auto simp: openCertCluster_def elim!: obind_RetE split: sum.splits)
  then show ?thesis
    using p [of portName e2] r(3) by auto
qed

text \<open>A secret sealed with the served certificate unseals with every registry that still holds its key.\<close>

lemma served_certificate_opens:
  assumes served: "proxies_cert E c kr" "OpenCert E X ns name '''' e = Ret (Inr f, e1)"
    and latest: "kr_mostRecentKey kr = Some m" "cert_PublicKey (key_cert m) = RSAPublicKey (rsaPublicKey (key_private m))"
      "ParseCertsPEM L (EncodeCertPEM (ctl_kube c) (cert_Raw (key_cert m))) = Inr [key_cert m]"
    and registry: "registry_inv (ctl_crypto c) kr" "fingerprints_injective (ctl_crypto c)"
    and key: "ParseKey L X now f = Inr pub"
    and seal: "NewSealedSecret (ctl_crypto c) pub secret rnd = (Inr s, rnd')" "secret_wf secret"
      "crypto_sound (ctl_crypto c) pub (labelFor (sec_Meta secret))"
  shows "holds_key (privateKeys kr) pub \<and> (holds_key (privateKeys kr') pub \<longrightarrow>
    (\<exists>secret'. attemptUnseal c kr' s = Inr secret' \<and> (\<forall>k. map_get (sec_Data secret') k = plainValue secret k)
    \<and> sec_Type secret' = sec_Type secret \<and> sec_Immutable secret' = sec_Immutable secret
    \<and> om_Name (sec_Meta secret') = om_Name (sec_Meta secret)
    \<and> om_Namespace (sec_Meta secret') = om_Namespace (sec_Meta secret)))"
proof -
  have "f = Inr (EncodeCertPEM (ctl_kube c) (cert_Raw (key_cert m)))"
    by (rule OpenCert_cluster [OF served(1) latest(1) served(2)])
  then have pub: "pub = rsaPublicKey (key_private m)"
    using key latest(2,3) by (auto simp: ParseKey_def split: if_splits)
  have held: "holds_key (privateKeys kr) pub"
    using latest_key_held [OF registry latest(1)] by (simp add: pub)
  have names: "om_Name (ss_Meta s) = om_Name (sec_Meta secret)" "om_Namespace (ss_Meta s) = om_Namespace (sec_Meta secret)"
    by (rule NewSealedSecret_Inr [OF seal(1)], simp)+
  show ?thesis
  proof (intro conjI impI held)
    assume "holds_key (privateKeys kr') pub"
    from Unseal_sealed [OF seal(3) this seal(1) refl sealed_label [OF seal(1)], of "ctl_kube c" "ctl_acceptV1 c"] names
    show "\<exists>secret'. attemptUnseal c kr' s = Inr secret' \<and> (\<forall>k. map_get (sec_Data secret') k = plainValue secret k)
      \<and> sec_Type secret' = sec_Type secret \<and> sec_Immutable secret' = sec_Immutable secret
      \<and> om_Name (sec_Meta secret') = om_Name (sec_Meta secret)
      \<and> om_Namespace (sec_Meta secret') = om_Namespace (sec_Meta secret)"
      by (simp add: attemptUnseal_def map_get_def put_all_Nil_value distinct_plainEntries plainEntries_value [OF seal(2)])
  qed
qed

text \<open>A verification request whose contents are valid is answered with 200 unless it is refused.\<close>

lemma serve_verify_any:
  "serve c kr ''/v1/verify'' body rnd = Ret (r, rnd) \<Longrightarrow> serve c kr ''/v1/verify'' body rnd' = Ret (r, rnd')"
  by (simp add: serve_def)

lemma verify_answered:
  assumes "as_documented T P admit cl ml" "hr_Path request = ''/v1/verify''" "hr_Body request = Inr content"
    "\<And>rnd. serve c kr ''/v1/verify'' (Inr content) rnd = Ret (Some r, rnd)" "status r = 200"
  shows "\<exists>answer h. answers (httpMux T P c kr) [request] s = ([Answer (Some answer)], h)
    \<and> (status answer = 200 \<or> fst (admit limitedBy request (hs_limiter s)) = Some answer)"
proof (cases "admit limitedBy request (hs_limiter s)")
  case (Pair d l)
  then show ?thesis
    using assms by (cases d) (simp_all add: httpMux_def as_documented_def Instrument_def handler_defs routed_def Let_def)
qed

lemma serve_cert_rnd:
  "serve c kr ''/v1/cert.pem'' body rnd = Ret (r, rnd') \<Longrightarrow> serve c kr ''/v1/cert.pem'' body [] = Ret (r, [])"
  by (simp add: serve_def)

lemma proxyEnv_cert: "proxies_cert proxyEnv sampleController sampleRegistry"
  unfolding proxies_cert_def
proof (intro allI impI)
  fix ns name port and e :: "string \<Rightarrow> bytes option" and r rnd rnd'
  assume "serve sampleController sampleRegistry ''/v1/cert.pem'' (Inr []) rnd = Ret (Some r, rnd')"
  from serve_cert_rnd [OF this]
  show "\<exists>e'. ProxyGet proxyEnv ns name port ''/v1/cert.pem'' e = (Inr (Inr (rs_body r)), e')"
    by (simp add: proxyEnv_def)
qed

text \<open>The certificate of the samples, fetched and read.\<close>

definition certKube :: kube_lib where
  "certKube = sampleKube\<lparr>ParseCertsPEM := \<lambda>b. Inr [sampleCert]\<rparr>"

lemma sample_latest:
  "\<exists>m. kr_mostRecentKey sampleRegistry = Some m \<and> key_cert m = sampleCert \<and>
    cert_PublicKey (key_cert m) = RSAPublicKey (rsaPublicKey (key_private m)) \<and> (\<forall>pem. ParseCertsPEM certKube pem = Inr [key_cert m])"
proof -
  obtain m where "kr_mostRecentKey sampleRegistry = Some m" "key_private m = sampleKey" "key_cert m = sampleCert"
    by (simp add: sampleRegistry_def registerNewKey_def PublicKeyFingerprint_def sampleCrypto_def NewKeyRegistry_def Let_def)
  then show ?thesis
    by (simp add: certKube_def sampleCert_def sampleKey_def)
qed

lemma sample_open_cert:
  "OpenCert proxyEnv sampleCli ''kube-system'' ''c'' '''' (\<lambda>_. None) = Ret (Inr (Inr []), \<lambda>_. None)"
proof -
  obtain m where m: "kr_mostRecentKey sampleRegistry = Some m" "key_cert m = sampleCert"
    using sample_latest by blast
  obtain w where "serve sampleController sampleRegistry ''/v1/cert.pem'' (Inr []) [] = Ret (Some w, [])" "rs_body w = []"
    using serve_cert [OF m(1), of sampleController "Inr []" "[]"] by (auto simp: m(2) sampleCert_def sampleKube_def)
  then show ?thesis
    by (simp add: OpenCert_def openCertCluster_def getServicePortName_def proxyEnv_def sampleEnv_def)
qed

lemma sample_ParseKey: "ParseKey certKube sampleCli 120 (Inr []) = Inr (rsaPublicKey sampleKey)"
  by (simp add: certKube_def ParseKey_def sampleCert_def sampleKey_def)

lemma sampleSecret_wf: "secret_wf sampleSecret"
  by (simp add: secret_wf_def sampleSecret_def)

text \<open>A process whose key controller sees the secret of the sample key once more.\<close>

definition keySecret :: Secret where
  "keySecret = emptySecret\<lparr>sec_Data := Some [(TLSPrivateKeyKey, [1]), (TLSCertKey, [1])]\<rparr>"

definition keyedProcess :: "(bool, store, nat) process" where
  "keyedProcess = \<lparr> pr_registry = sampleRegistry, pr_world = emptyStore, pr_metrics = noMetrics,
     pr_runs = [(run_init True (controller_init sampleRegistry emptyStore))\<lparr>rn_informers := [KeySecretInformer]\<rparr>],
     pr_http = startState, pr_answers = [] \<rparr>"

lemma keyedProcess_step:
  "\<exists>p'. process_step rotateController flagQueue (\<lambda>q. True) (\<lambda>q. True) [sampleSetup] sampleFlags onceLimiter samplePromhttp
     keyedProcess p' \<and> pr_http p' = startState"
proof -
  let ?s = "attach keyedProcess (pr_runs keyedProcess ! 0)"
  have registry: "cs_registry (rn_ctl ?s) = sampleRegistry"
    by (simp add: attach_def keyedProcess_def)
  have "\<exists>kr. watchKeySecrets_Add (ctl_crypto rotateController) (ctl_kube rotateController)
    (su_keyOrderPriority sampleSetup) (SecretObj keySecret) (cs_registry (rn_ctl ?s)) = Ret kr"
    unfolding registry by (simp add: watchKeySecrets_Add_def registryNewKeyWithSecret_def readKey_def keySecret_def assertSecret_def
        rotateController_def sampleKube_def map_read_def map_get_def TLSPrivateKeyKey_def TLSCertKey_def split: prod.split)
  then obtain kr where kr: "watchKeySecrets_Add (ctl_crypto rotateController) (ctl_kube rotateController)
    (su_keyOrderPriority sampleSetup) (SecretObj keySecret) (cs_registry (rn_ctl ?s)) = Ret kr"
    by blast
  have "KeySecretInformer \<in> set (rn_informers ?s)"
    by (simp add: attach_def keyedProcess_def)
  from run_step.key_added [OF this kr]
  have "run_step rotateController flagQueue (\<lambda>q. True) (\<lambda>q. True) ([sampleSetup] ! 0) ?s
    (?s\<lparr>rn_ctl := (rn_ctl ?s)\<lparr>cs_registry := kr\<rparr>\<rparr>)"
    by simp
  then have "process_step rotateController flagQueue (\<lambda>q. True) (\<lambda>q. True) [sampleSetup] sampleFlags onceLimiter
      samplePromhttp keyedProcess (detach 0 (?s\<lparr>rn_ctl := (rn_ctl ?s)\<lparr>cs_registry := kr\<rparr>\<rparr>) keyedProcess)"
    by (rule process_step.controller [rotated]) (simp add: keyedProcess_def)
  moreover have "pr_http (detach 0 (?s\<lparr>rn_ctl := (rn_ctl ?s)\<lparr>cs_registry := kr\<rparr>\<rparr>) keyedProcess) = startState"
    by (simp add: keyedProcess_def detach_def)
  ultimately show ?thesis
    by blast
qed

lemma proxyEnv_cert_rotate: "proxies_cert proxyEnv rotateController sampleRegistry"
proof -
  have "EncodeCertPEM (ctl_kube rotateController) = EncodeCertPEM (ctl_kube sampleController)"
    by (simp add: rotateController_def sampleController_def)
  then have "serve rotateController sampleRegistry ''/v1/cert.pem'' body rnd =
      serve sampleController sampleRegistry ''/v1/cert.pem'' body rnd" for body rnd
    by (simp add: serve_def handleCert_def split: sum.splits)
  then show ?thesis
    using proxyEnv_cert unfolding proxies_cert_def by simp
qed

end
