(* ===== verification/Delivery.thy ===== *)
theory Delivery
  imports EndToEnd
begin

text \<open>
  The purpose of the program: a sealed secret applied to a healthy cluster becomes the secret that was sealed.
\<close>

section \<open>A healthy cluster\<close>

text \<open>
  An API server that serves the secrets in \<open>view\<close> when nobody else writes them: a missing one is not found and can be
  created, an existing one is found and can be updated unless it is immutable and its values change.
\<close>

definition serves_secrets :: "'w kube_api \<Rightarrow> ('w \<Rightarrow> string \<times> string \<Rightarrow> Secret option) \<Rightarrow> bool" where
  "serves_secrets api view \<longleftrightarrow>
     (\<forall>ns n w. if view w (ns, n) = None then \<exists>e w'. SecretsGet api ns n w = (Inl e, w') \<and> IsNotFound e
        else \<exists>s w'. SecretsGet api ns n w = (Inr s, w')) \<and>
     (\<forall>ns s w. view w (ns, om_Name (sec_Meta s)) = None \<longrightarrow> om_Name (sec_Meta s) \<noteq> '''' \<longrightarrow>
        (\<exists>r w'. SecretsCreate api ns s w = (Inr r, w'))) \<and>
     (\<forall>ns s w old. view w (ns, om_Name (sec_Meta s)) = Some old \<longrightarrow>
        (sec_Immutable old = Some True \<longrightarrow> map_get (sec_Data s) = map_get (sec_Data old)) \<longrightarrow>
        (\<exists>r w'. SecretsUpdate api ns s w = (Inr r, w')))"

text \<open>A secret whose only owner reference is the one \<open>unseal\<close> makes is controlled by its sealed secret.\<close>

definition owner_controls :: "kube_lib \<Rightarrow> bool" where
  "owner_controls L \<longleftrightarrow> (\<forall>m s. om_OwnerReferences m = [ownerReference L s] \<longrightarrow> IsControlledBy L m (ss_Meta s))"

definition healthy :: "'w Controller \<Rightarrow> ('w \<Rightarrow> string \<times> string \<Rightarrow> Secret option) \<Rightarrow> bool" where
  "healthy c view \<longleftrightarrow> tracks_secrets (ctl_api c) view \<and> serves_secrets (ctl_api c) view \<and>
     semantic_equality (ctl_kube c) \<and> owner_controls (ctl_kube c)"

text \<open>Nothing is in the way of a sealed secret: its place is free, or holds a mutable secret it may write.\<close>

definition may_write :: "kube_lib \<Rightarrow> SealedSecret \<Rightarrow> Secret option \<Rightarrow> bool" where
  "may_write L s existing \<longleftrightarrow> (\<forall>old. existing = Some old \<longrightarrow> \<not> notManaged L s old \<and> sec_Immutable old \<noteq> Some True)"

section \<open>Unsealing succeeds\<close>

lemma getOrCreate_serves:
  assumes "serves_secrets api view" "om_Name (sec_Meta new) \<noteq> ''''"
    "\<And>w r w'. SecretsGet api ns (om_Name (sec_Meta new)) w = (r, w') \<Longrightarrow> view w' = view w"
  shows "\<exists>secret w'. getOrCreate api ns new w = (Inr secret, w')"
proof (cases "view w (ns, om_Name (sec_Meta new))")
  case None
  then obtain e w1 where "SecretsGet api ns (om_Name (sec_Meta new)) w = (Inl e, w1)" "IsNotFound e"
    using assms(1) unfolding serves_secrets_def by meson
  moreover from assms(3) [OF this(1)] None obtain r w' where "SecretsCreate api ns new w1 = (Inr r, w')"
    using assms(1,2) unfolding serves_secrets_def by metis
  ultimately show ?thesis
    by (simp add: getOrCreate_def)
next
  case (Some old)
  then obtain s w' where "SecretsGet api ns (om_Name (sec_Meta new)) w = (Inr s, w')"
    using assms(1) unfolding serves_secrets_def by (metis option.distinct(1))
  then show ?thesis
    by (simp add: getOrCreate_def)
qed

lemma unseal_succeeds:
  assumes healthy: "healthy c view" and index: "cs_index st key = Inr (Some (SealedSecretObj s))"
    and new: "attemptUnseal c (cs_registry st) (defaultTypeMeta s) = Inr new" "spec_Data (ss_Spec s) = None"
    and owner: "om_OwnerReferences (sec_Meta new) = [ownerReference (ctl_kube c) (defaultTypeMeta s)]"
    and named: "om_Name (ss_Meta s) \<noteq> ''''"
    and wf: "map_wf (om_Labels (tmpl_Meta (spec_Template (ss_Spec s))))"
      "map_wf (om_Annotations (tmpl_Meta (spec_Template (ss_Spec s))))"
    and free: "may_write (ctl_kube c) s (view (cs_world st) (om_Namespace (ss_Meta s), om_Name (ss_Meta s)))"
  shows "\<exists>st'. unseal c now key st = Ret (None, st')"
proof -
  let ?ns = "om_Namespace (ss_Meta s)" and ?ss = "defaultTypeMeta s"
  note h = healthy [unfolded healthy_def]
  have tracks: "tracks_secrets (ctl_api c) view" and serves: "serves_secrets (ctl_api c) view"
    and controls: "owner_controls (ctl_kube c)"
    using h by simp_all
  note nf = Unseal_data_wf [OF new(1) [unfolded attemptUnseal_def]]
  have name: "om_Name (sec_Meta new) = om_Name (ss_Meta s)" and sd: "sec_StringData new = None" and nwf: "new_wf new"
    using nf new(2) wf by (simp_all add: new_wf_def)
  obtain secret w1 where get: "getOrCreate (ctl_api c) ?ns new (cs_world st) = (Inr secret, w1)"
    using getOrCreate_serves [OF serves, of new] named secrets_Get(1) [OF tracks] by (metis name)
  note g = getOrCreate_view [OF tracks _ get, unfolded name, OF named]
  obtain updated where merge: "mergeSecret secret new = Ret updated"
    using mergeSecret_returns by blast
  have managed: "\<not> notManaged (ctl_kube c) ?ss secret \<and>
      (sec_Immutable secret = Some True \<longrightarrow> map_get (sec_Data updated) = map_get (sec_Data secret))"
    using g(4)
  proof
    assume "view (cs_world st) (?ns, om_Name (ss_Meta s)) = Some secret"
    with free show ?thesis
      by (simp add: may_write_def notManaged_def)
  next
    assume s: "stored new secret"
    then have "IsControlledBy (ctl_kube c) (sec_Meta secret) (ss_Meta ?ss)"
      using controls owner by (simp add: stored_def owner_controls_def del: defaultTypeMeta_simps)
    moreover have "map_get (sec_Data updated) = map_get (sec_Data secret)"
      using s sd merged_data [OF nwf merge] by (simp add: stored_def)
    ultimately show ?thesis
      by (simp add: notManaged_def)
  qed
  have "\<exists>r w2. SecretsUpdate (ctl_api c) ?ns updated w1 = (Inr r, w2)"
    using serves g(1,2) managed mergeSecret_kept(2) [OF merge] unfolding serves_secrets_def by simp
  then have "\<exists>st1. unsealObject c key ?ss (st\<lparr>cs_metrics := countRequest (cs_metrics st)\<rparr>) = Ret (None, st1)"
    using new(1) get merge managed by (auto simp: unsealObject_def Let_def)
  then show ?thesis
    using unseal_object [OF index] by blast
qed

section \<open>The sealed secret in the cluster\<close>

text \<open>The object as the API server hands it out: what it adds to the metadata has no say in the unsealing.\<close>

definition applied_as :: "SealedSecret \<Rightarrow> SealedSecret \<Rightarrow> bool" where
  "applied_as s s' \<longleftrightarrow> ss_Spec s' = ss_Spec s \<and> om_Name (ss_Meta s') = om_Name (ss_Meta s) \<and>
     om_Namespace (ss_Meta s') = om_Namespace (ss_Meta s) \<and> om_Annotations (ss_Meta s') = om_Annotations (ss_Meta s)"

lemma applied_label: "applied_as s s' \<Longrightarrow> labelFor (ss_Meta s') = labelFor (ss_Meta s)"
  by (simp add: applied_as_def labelFor_def SecretScope_def)

lemma skip_annotation_kept:
  "map_get (om_Annotations (tmpl_Meta (sealTemplate secret))) SealedSecretSkipSetOwnerReferencesAnnotation =
    map_get (om_Annotations (sec_Meta secret)) SealedSecretSkipSetOwnerReferencesAnnotation"
  by (simp add: sealTemplate_def Let_def StripLastAppliedAnnotations_get) code_simp

lemma applied_unseals:
  assumes sound: "crypto_sound (ctl_crypto c) pub (labelFor (sec_Meta secret))" "holds_key (privateKeys kr) pub"
    and seal: "NewSealedSecret (ctl_crypto c) pub secret rnd = (Inr s, rnd')" "secret_wf secret" "applied_as s s'"
    and skip: "map_get (om_Annotations (sec_Meta secret)) SealedSecretSkipSetOwnerReferencesAnnotation \<noteq> Some ''true''"
  shows "\<exists>new. attemptUnseal c kr (defaultTypeMeta s') = Inr new \<and> map_get (sec_Data new) = plainValue secret
    \<and> om_OwnerReferences (sec_Meta new) = [ownerReference (ctl_kube c) (defaultTypeMeta s')]"
proof -
  have t: "spec_Template (ss_Spec s') = sealTemplate secret"
    by (rule NewSealedSecret_Inr [OF seal(1)]) (use seal(3) in \<open>simp add: applied_as_def\<close>)
  have l: "labelFor (ss_Meta (defaultTypeMeta s')) = labelFor (sec_Meta secret)" "ss_Spec (defaultTypeMeta s') = ss_Spec s"
    using applied_label [OF seal(3)] sealed_label [OF seal(1)] seal(3) by (simp_all add: applied_as_def)
  let ?new = "finishUnseal (ctl_kube c) (defaultTypeMeta s') \<lparr> sec_Meta = tmpl_Meta (sealTemplate secret),
    sec_Immutable = sec_Immutable secret, sec_Data = Some (put_all (plainEntries secret) []), sec_StringData = None,
    sec_Type = sec_Type secret \<rparr>"
  have "attemptUnseal c kr (defaultTypeMeta s') = Inr ?new"
    unfolding attemptUnseal_def by (rule Unseal_sealed [OF sound seal(1) l(2,1)])
  moreover have "map_get (sec_Data ?new) = plainValue secret"
    by (simp add: map_get_def fun_eq_iff put_all_Nil_value distinct_plainEntries plainEntries_value [OF seal(2)])
  moreover have "om_OwnerReferences (sec_Meta ?new) = [ownerReference (ctl_kube c) (defaultTypeMeta s')]"
    using skip by (simp add: finishUnseal_def t skip_annotation_kept Let_def)
  ultimately show ?thesis
    by blast
qed

section \<open>One event and one item of the queue\<close>

text \<open>A controller at work whose queue hands out a key that was just added.\<close>

definition listens :: "'w Controller \<Rightarrow> 'q work_queue \<Rightarrow> ('q \<Rightarrow> bool) \<Rightarrow> ('q, 'w) run_state \<Rightarrow> string \<Rightarrow> bool" where
  "listens c Q ready r key \<longleftrightarrow> rn_phase r = Working \<and> SealedSecretInformer \<in> set (rn_informers r) \<and>
     (let q = QAdd Q key (rn_queue r) in ready q \<and> fst (QGet Q q) = (key, False))"

lemma attach_detach:
  "i < length (pr_runs p) \<Longrightarrow> attach (detach i s p) (pr_runs (detach i s p) ! i) = s"
  by (simp add: attach_def detach_def)

lemma run_delivers:
  assumes "listens c Q ready r key" "MetaNamespaceKeyFunc (ctl_kube c) obj = Inr key"
    and "\<And>st. cs_world st = cs_world (rn_ctl r) \<Longrightarrow> cs_registry st = cs_registry (rn_ctl r) \<Longrightarrow>
      cs_index st key = Inr (Some obj) \<Longrightarrow> \<exists>st'. unseal c now key st = Ret (None, st') \<and> X (cs_world st')"
  shows "\<exists>r' r''. run_step c Q shutDown ready su r r' \<and> run_step c Q shutDown ready su r' r'' \<and> X (cs_world (rn_ctl r''))"
proof -
  let ?q = "QAdd Q key (rn_queue r)"
  let ?st = "(rn_ctl r)\<lparr>cs_index := (cs_index (rn_ctl r))(key := Inr (Some obj))\<rparr>"
  let ?r = "r\<lparr>rn_queue := watchSealedSecrets_Add (ctl_kube c) Q obj (rn_queue r), rn_ctl := ?st\<rparr>"
  have add: "run_step c Q shutDown ready su r ?r"
    by (rule run_step.sealed_added) (use assms(1) in \<open>simp add: listens_def\<close>)
  obtain st' where st': "unseal c now key ?st = Ret (None, st')" "X (cs_world st')"
    using assms(3) [of ?st] by auto
  obtain q1 where q1: "QGet Q ?q = ((key, False), q1)"
    using assms(1) by (cases "QGet Q ?q") (auto simp: listens_def Let_def)
  have q: "rn_queue ?r = ?q"
    using assms(2) by (simp add: watchSealedSecrets_Add_def)
  have "processNextItem c Q (su_maxRetries su) now (rn_queue ?r) (rn_ctl ?r) =
      Ret (True, QDone Q key (afterUnseal Q (su_maxRetries su) key None q1), st')"
    unfolding q using q1 st'(1) by (simp add: processNextItem_def)
  then have "run_step c Q shutDown ready su ?r (?r\<lparr>rn_phase := (if True then Working else Polling),
      rn_queue := QDone Q key (afterUnseal Q (su_maxRetries su) key None q1), rn_ctl := st'\<rparr>)"
    by (rule run_step.work [rotated 2]) (use assms(1) q in \<open>simp_all add: listens_def Let_def\<close>)
  with add st'(2) show ?thesis
    by (intro exI [of _ ?r] exI conjI) auto
qed

lemma process_delivers:
  assumes "i < length (pr_runs p)" "listens c Q ready (pr_runs p ! i) key" "MetaNamespaceKeyFunc (ctl_kube c) obj = Inr key"
    and "\<And>st. cs_world st = pr_world p \<Longrightarrow> cs_registry st = pr_registry p \<Longrightarrow> cs_index st key = Inr (Some obj) \<Longrightarrow>
      \<exists>st'. unseal c now key st = Ret (None, st') \<and> X (cs_world st')"
  shows "\<exists>p'. (process_step c Q shutDown ready sus f T P)\<^sup>*\<^sup>* p p' \<and> X (pr_world p')"
proof -
  let ?r = "attach p (pr_runs p ! i)"
  have "listens c Q ready ?r key"
    using assms(2) by (simp add: listens_def attach_def)
  then have "\<exists>r' r''. run_step c Q shutDown ready (sus ! i) ?r r' \<and> run_step c Q shutDown ready (sus ! i) r' r''
      \<and> X (cs_world (rn_ctl r''))"
    by (rule run_delivers [OF _ assms(3)]) (rule assms(4), simp_all add: attach_def)
  then obtain r' r'' where r: "run_step c Q shutDown ready (sus ! i) ?r r'" "run_step c Q shutDown ready (sus ! i) r' r''"
    "X (cs_world (rn_ctl r''))"
    by blast
  let ?p = "detach i r' p"
  have one: "process_step c Q shutDown ready sus f T P p ?p"
    by (rule process_step.controller [OF assms(1) r(1)])
  have "process_step c Q shutDown ready sus f T P ?p (detach i r'' ?p)"
    by (rule process_step.controller) (use assms(1) r(2) in \<open>simp_all add: attach_detach, simp add: detach_def\<close>)
  with one have "(process_step c Q shutDown ready sus f T P)\<^sup>*\<^sup>* p (detach i r'' ?p)"
    by auto
  moreover have "X (pr_world (detach i r'' ?p))"
    using r(3) by (simp add: detach_def)
  ultimately show ?thesis
    by blast
qed

section \<open>From the certificate to the secret\<close>

lemma sealed_template_wf:
  assumes "NewSealedSecret C pub secret rnd = (Inr s, rnd')" "applied_as s s'"
    "map_wf (om_Labels (sec_Meta secret))" "map_wf (om_Annotations (sec_Meta secret))"
  shows "map_wf (om_Labels (tmpl_Meta (spec_Template (ss_Spec s'))))" "map_wf (om_Annotations (tmpl_Meta (spec_Template (ss_Spec s'))))"
    "spec_Data (ss_Spec s') = None"
  by (rule NewSealedSecret_Inr [OF assms(1)],
      use assms(2-4) in \<open>simp add: applied_as_def sealTemplate_def StripLastAppliedAnnotations_wf Let_def\<close>)+

text \<open>What the cluster holds for a secret after the delivery of its sealed secret.\<close>

definition delivered ::
  "('w \<Rightarrow> string \<times> string \<Rightarrow> Secret option) \<Rightarrow> Secret \<Rightarrow> 'w \<Rightarrow> 'w \<Rightarrow> bool" where
  "delivered view secret w w' \<longleftrightarrow> (let place = (om_Namespace (sec_Meta secret), om_Name (sec_Meta secret)) in
     (\<exists>x. view w' place = Some x \<and> (\<forall>k v. plainValue secret k = Some v \<longrightarrow> map_get (sec_Data x) k = Some v)
       \<and> ((\<exists>old. view w place = Some old \<and> isAnnotatedToBePatched old) \<or> map_get (sec_Data x) = plainValue secret))
     \<and> (\<forall>k. k \<noteq> place \<longrightarrow> view w' k = view w k))"

lemma unseal_delivers:
  assumes sound: "crypto_sound (ctl_crypto c) pub (labelFor (sec_Meta secret))" "holds_key (privateKeys (cs_registry st)) pub"
    and seal: "NewSealedSecret (ctl_crypto c) pub secret rnd = (Inr s, rnd')" "secret_wf secret" "applied_as s s'"
    and secret: "om_Name (sec_Meta secret) \<noteq> ''''" "map_wf (om_Labels (sec_Meta secret))" "map_wf (om_Annotations (sec_Meta secret))"
      "map_get (om_Annotations (sec_Meta secret)) SealedSecretSkipSetOwnerReferencesAnnotation \<noteq> Some ''true''"
    and healthy: "healthy c view"
      "may_write (ctl_kube c) s' (view (cs_world st) (om_Namespace (sec_Meta secret), om_Name (sec_Meta secret)))"
    and index: "cs_index st key = Inr (Some (SealedSecretObj s'))"
  shows "\<exists>st'. unseal c now key st = Ret (None, st') \<and> delivered view secret (cs_world st) (cs_world st')"
proof -
  have place: "om_Name (ss_Meta s') = om_Name (sec_Meta secret)" "om_Namespace (ss_Meta s') = om_Namespace (sec_Meta secret)"
    by (rule NewSealedSecret_Inr [OF seal(1)], use seal(3) in \<open>simp add: applied_as_def\<close>)+
  note wf = sealed_template_wf [OF seal(1,3) secret(2,3)]
  obtain new where new: "attemptUnseal c (cs_registry st) (defaultTypeMeta s') = Inr new"
    "map_get (sec_Data new) = plainValue secret"
    "om_OwnerReferences (sec_Meta new) = [ownerReference (ctl_kube c) (defaultTypeMeta s')]"
    using applied_unseals [OF sound seal secret(4)] by blast
  obtain st' where run: "unseal c now key st = Ret (None, st')"
    using unseal_succeeds [OF healthy(1) index new(1) wf(3) new(3) _ wf(1,2)] secret(1) healthy(2) by (auto simp: place)
  obtain new' x where "attemptUnseal c (cs_registry st) (defaultTypeMeta s') = Inr new'"
    "view (cs_world st') (om_Namespace (ss_Meta s'), om_Name (ss_Meta s')) = Some x"
    "\<forall>k v. map_get (sec_Data new') k = Some v \<longrightarrow> map_get (sec_Data x) k = Some v"
    "(\<exists>old. view (cs_world st) (om_Namespace (ss_Meta s'), om_Name (ss_Meta s')) = Some old \<and> isAnnotatedToBePatched old)
      \<or> map_get (sec_Data x) = map_get (sec_Data new')"
    "\<forall>k. k \<noteq> (om_Namespace (ss_Meta s'), om_Name (ss_Meta s')) \<longrightarrow> view (cs_world st') k = view (cs_world st) k"
    using unseal_establishes [OF _ _ index wf(3) _ wf(1,2) run] healthy(1) secret(1) unfolding healthy_def place by blast
  with new(1,2) run show ?thesis
    unfolding delivered_def Let_def place by auto
qed

text \<open>
  C3: what the user sealed arrives: \<open>kubeseal\<close> fetches the certificate of the running process and seals a secret
  with it; whatever the process does then, once the sealed secret is applied to a cluster that serves secrets,
  a controller that listens can take the event and its item of the queue, and after these two steps the
  cluster holds, in the place of the secret, all its values, and no others unless an existing secret asked to be
  patched; no other secret has changed.
\<close>

theorem applied_secret_is_delivered:
  fixes view :: "'w \<Rightarrow> string \<times> string \<Rightarrow> Secret option"
  assumes served: "proxies_cert E c (pr_registry p)" "OpenCert E X ns name '''' e = Ret (Inr f, e1)"
    and latest: "kr_mostRecentKey (pr_registry p) = Some m"
      "cert_PublicKey (key_cert m) = RSAPublicKey (rsaPublicKey (key_private m))"
      "ParseCertsPEM L (EncodeCertPEM (ctl_kube c) (cert_Raw (key_cert m))) = Inr [key_cert m]"
    and registry: "registry_inv (ctl_crypto c) (pr_registry p)" "fingerprints_injective (ctl_crypto c)"
    and key: "ParseKey L X now f = Inr pub"
    and seal: "NewSealedSecret (ctl_crypto c) pub secret rnd = (Inr s, rnd')" "secret_wf secret"
      "crypto_sound (ctl_crypto c) pub (labelFor (sec_Meta secret))"
    and secret: "om_Name (sec_Meta secret) \<noteq> ''''" "map_wf (om_Labels (sec_Meta secret))" "map_wf (om_Annotations (sec_Meta secret))"
      "map_get (om_Annotations (sec_Meta secret)) SealedSecretSkipSetOwnerReferencesAnnotation \<noteq> Some ''true''"
    and run: "(process_step c Q shutDown ready sus flags T P)\<^sup>*\<^sup>* p p'"
    and cluster: "healthy c view" "applied_as s s'"
      "may_write (ctl_kube c) s' (view (pr_world p') (om_Namespace (sec_Meta secret), om_Name (sec_Meta secret)))"
    and controller: "i < length (pr_runs p')" "listens c Q ready (pr_runs p' ! i) k"
      "MetaNamespaceKeyFunc (ctl_kube c) (SealedSecretObj s') = Inr k"
  shows "\<exists>p''. (process_step c Q shutDown ready sus flags T P)\<^sup>*\<^sup>* p' p'' \<and> delivered view secret (pr_world p') (pr_world p'')"
proof (rule process_delivers [OF controller])
  fix st :: "'w ctl_state"
  assume st: "cs_world st = pr_world p'" "cs_registry st = pr_registry p'" "cs_index st k = Inr (Some (SealedSecretObj s'))"
  have "holds_key (privateKeys (pr_registry p')) pub"
    using served_certificate_opens [OF served latest registry key seal] process_steps_hold [OF registry(2) run registry(1)] by blast
  then show "\<exists>st'. unseal c now k st = Ret (None, st') \<and> delivered view secret (pr_world p') (cs_world st')"
    using unseal_delivers [OF seal(3) _ seal(1,2) cluster(2) secret cluster(1) _ st(3)] cluster(3) unfolding st(1,2) by blast
qed

section \<open>A run on the samples\<close>

lemma store_serves: "serves_secrets storeAPI storeView"
  unfolding serves_secrets_def
  by (simp add: storeAPI_def storeView_def notFound_def Let_def split: option.splits)

lemma sample_owner_controls: "owner_controls sampleKube"
  by (simp add: owner_controls_def sample_IsControlledBy ownerReference_def split: prod.split)

lemma sample_healthy: "healthy sampleController storeView"
  by (simp add: healthy_def store_tracks store_serves sample_semantic sample_owner_controls)

definition appliedSealed :: SealedSecret where
  "appliedSealed = sampleSealed\<lparr>ss_Meta := (ss_Meta sampleSealed)\<lparr>om_UID := ''u''\<rparr>\<rparr>"

definition listeningProcess :: "(cqueue, store, nat) process" where
  "listeningProcess = \<lparr> pr_registry = sampleRegistry, pr_world = emptyStore, pr_metrics = noMetrics,
     pr_runs = [(run_init \<lparr> cq_items = [], cq_requeues = \<lambda>_. 0 \<rparr> (controller_init sampleRegistry emptyStore))
       \<lparr>rn_phase := Working, rn_informers := [SealedSecretInformer]\<rparr>],
     pr_http = startState, pr_answers = [] \<rparr>"

theorem applied_secret_is_delivered_witness:
  "\<exists>p. (process_step sampleController sampleQueue (\<lambda>q. q) (\<lambda>q. True) [sampleSetup] sampleFlags onceLimiter samplePromhttp)\<^sup>*\<^sup>*
      listeningProcess p
    \<and> (\<exists>x. storeView (pr_world p) (''prod'', ''db'') = Some x \<and> map_get (sec_Data x) ''pass'' = Some (string_bytes ''x''))"
proof -
  have r: "pr_registry listeningProcess = sampleRegistry" "pr_world listeningProcess = emptyStore"
    by (simp_all add: listeningProcess_def)
  obtain m where m: "kr_mostRecentKey sampleRegistry = Some m"
    "cert_PublicKey (key_cert m) = RSAPublicKey (rsaPublicKey (key_private m))"
    "\<And>pem. ParseCertsPEM certKube pem = Inr [key_cert m]"
    using sample_latest by blast
  have registry: "registry_inv (ctl_crypto sampleController) sampleRegistry" "fingerprints_injective (ctl_crypto sampleController)"
    by (simp_all add: sampleRegistry_facts sample_fingerprints)
  have seal: "NewSealedSecret (ctl_crypto sampleController) (rsaPublicKey sampleKey) sampleSecret sampleRandom
      = (Inr sampleSealed, drop 64 sampleRandom)"
    "crypto_sound (ctl_crypto sampleController) (rsaPublicKey sampleKey) (labelFor (sec_Meta sampleSecret))"
    by (simp_all add: sample_seals sample_sound)
  have secret: "om_Name (sec_Meta sampleSecret) \<noteq> ''''" "map_wf (om_Labels (sec_Meta sampleSecret))"
    "map_wf (om_Annotations (sec_Meta sampleSecret))"
    "map_get (om_Annotations (sec_Meta sampleSecret)) SealedSecretSkipSetOwnerReferencesAnnotation \<noteq> Some ''true''"
    by (simp_all add: sampleSecret_def emptyObjectMeta_def map_get_def)
  have cluster: "applied_as sampleSealed appliedSealed" "may_write (ctl_kube sampleController) appliedSealed
      (storeView emptyStore (om_Namespace (sec_Meta sampleSecret), om_Name (sec_Meta sampleSecret)))"
    by (simp_all add: applied_as_def appliedSealed_def may_write_def storeView_def emptyStore_def)
  have controller: "0 < length (pr_runs listeningProcess)"
    "listens sampleController sampleQueue (\<lambda>q. True) (pr_runs listeningProcess ! 0) ''prod/db''"
    "MetaNamespaceKeyFunc (ctl_kube sampleController) (SealedSecretObj appliedSealed) = Inr ''prod/db''"
    by (simp_all add: listeningProcess_def listens_def run_init_def sampleQueue_def sampleKube_def appliedSealed_def sample_meta)
  have place: "om_Namespace (sec_Meta sampleSecret) = ''prod''" "om_Name (sec_Meta sampleSecret) = ''db''"
    "plainValue sampleSecret ''pass'' = Some (string_bytes ''x'')"
    by (simp_all add: sampleSecret_def plainValue_def map_get_def)
  obtain p where "(process_step sampleController sampleQueue (\<lambda>q. q) (\<lambda>q. True) [sampleSetup] sampleFlags onceLimiter
      samplePromhttp)\<^sup>*\<^sup>* listeningProcess p" "delivered storeView sampleSecret emptyStore (pr_world p)"
    using applied_secret_is_delivered [where c = sampleController and p = listeningProcess and L = certKube and m = m
      and view = storeView, unfolded r, OF proxyEnv_cert sample_open_cert m registry sample_ParseKey seal(1) sampleSecret_wf seal(2)
        secret rtranclp.rtrancl_refl sample_healthy cluster [folded r(2)] controller, unfolded r] by blast
  then show ?thesis
    using place(3) unfolding delivered_def Let_def place(1,2) by blast
qed

end
