(* ===== verification/Spec2Isabelle.thy ===== *)
theory Spec2Isabelle
  imports StatusProps KeyLifecycle ServerProps Schedule CryptoProps CliProps RecoveryProps MainProps Policy WellFormed
    RequestProps InformerProps DeepCopyProps ProcessProps Signals FakeProps Delivery
begin

text \<open>
  Sealed Secrets (\<open>github.com/bitnami-labs/sealed-secrets\<close>): a verification development of its Go program.

  \<^bold>\<open>The program.\<close> \<open>kubeseal\<close> encrypts a Kubernetes \<open>Secret\<close> with the certificate of a controller into a
  \<open>SealedSecret\<close>, which may be public; the controller in the cluster holds the private keys, decrypts each
  \<open>SealedSecret\<close> into a \<open>Secret\<close> it owns, keeps it up to date, renews its keys and serves its certificate, a
  verification and a re-encryption endpoint over HTTP. Label and scope (strict, namespace-wide, cluster-wide)
  tie a ciphertext to the places where it may be unsealed.

  \<^bold>\<open>Data and libraries.\<close> \<open>Prelude\<close> (bytes, strings, maps that may be nil, errors as values, panics as the second
  case of \<open>outcome\<close>), \<open>GoStrings\<close> (package \<open>strings\<close>), \<open>Base64\<close> (\<open>encoding/base64\<close>), \<open>SealedSecretTypes\<close>
  (\<open>pkg/apis/.../types.go\<close>). What the program calls outside the repository is a record of functions:
  \<open>crypto_lib\<close> (\<open>Crypto\<close>: RSA-OAEP, AES-GCM, fingerprints, X.509), \<open>kube_lib\<close> (\<open>External\<close>: codecs, templates,
  PEM), \<open>kube_api\<close> (\<open>KubeAPI\<close>: the API server on an abstract world), \<open>cli_env\<close>, \<open>cli_lib\<close>, \<open>yaml_lib\<close> (\<open>Client\<close>:
  files, the proxy, decoders), \<open>work_queue\<close> (\<open>Worker\<close>), \<open>rest_client\<close> and \<open>rest_lib\<close> (\<open>TypedClient\<close>),
  \<open>throttled_lib\<close> and \<open>promhttp_lib\<close> (\<open>HttpServer\<close>), \<open>test_fake\<close> and \<open>tracker_lib\<close> (\<open>FakeClient\<close>), \<open>library\<close>
  (\<open>DeepCopy\<close>). A property that needs something of them names it: \<open>crypto_sound\<close> and \<open>oaep_correct\<close> (decryption
  inverts encryption under the same key and label only), \<open>fingerprints_injective\<close>, \<open>reads_keep\<close>,
  \<open>quits_after_shutdown\<close>, \<open>counts_requeues\<close>, \<open>as_documented\<close>, \<open>deep_copier\<close>, \<open>proxies_verify\<close>, \<open>proxies_rotate\<close>,
  \<open>proxies_cert\<close> (the API server's proxy hands answers on), \<open>mimics\<close> and \<open>selects_labels\<close> (a tracker of objects
  that behaves like the server), \<open>healthy\<close> (an API server that serves secrets). \<open>Samples\<close> and the ends of the
  theories have instances of all of them, on which the witnesses run in the kernel.

  \<^bold>\<open>Sealing and unsealing.\<close> \<open>Crypto\<close> (\<open>pkg/crypto\<close>: \<open>HybridEncrypt\<close>, \<open>HybridDecrypt\<close>, key generation), \<open>Scope\<close>
  and \<open>Sealing\<close> (\<open>sealedsecret_expansion.go\<close>: labels, scopes, \<open>NewSealedSecret\<close>, \<open>Unseal\<close>), \<open>DeepCopy\<close>
  (\<open>zz_generated.deepcopy.go\<close>, over an explicit store). Properties: \<open>CryptoProps\<close> (who can open a ciphertext,
  the length field), \<open>SealingLaws\<close> and \<open>SealingProps\<close> (round trip wherever the scope allows and refusal
  elsewhere, no widening of a scope, shape of the sealed object), \<open>WellFormed\<close> (maps without duplicate keys),
  \<open>DeepCopyProps\<close> (a copy reads like its original and shares nothing with it, which is why the other theories
  may treat objects as values).

  \<^bold>\<open>The controller.\<close> \<open>Funcs\<close> and \<open>Schedule\<close> (\<open>funcs.go\<close>), \<open>KeyRegistry\<close> (\<open>keyregistry.go\<close>, \<open>keys.go\<close>, the key
  part of \<open>main.go\<close>), \<open>Status\<close> (conditions and gauges), \<open>Controller\<close> (\<open>unseal\<close>, \<open>AttemptUnseal\<close>, \<open>Rotate\<close>),
  \<open>Worker\<close> (queue, event handlers, \<open>processNextItem\<close>), \<open>ControllerRun\<close> (\<open>Run\<close> as a state machine), \<open>Server\<close> and
  \<open>HttpServer\<close> (\<open>server.go\<close>, \<open>metrics.go\<close>), \<open>ControllerMain\<close> (\<open>cmd/controller\<close>, \<open>pkg/log\<close>, \<open>Main\<close>), \<open>Process\<close>
  (everything \<open>Main\<close> started, interleaved on one registry, cluster and set of metrics), \<open>Signals\<close>
  (\<open>signal_*.go\<close>: keys on demand), \<open>TypedClient\<close>, \<open>Informers\<close> and \<open>FakeClient\<close> (\<open>pkg/client\<close>). Properties:
  \<open>KeyRegistryProps\<close> and \<open>KeyLifecycle\<close> (no key is lost, the newest is used, keys are stored before they are
  used, restart and renewal), \<open>StatusProps\<close>, \<open>ControllerProps\<close> and \<open>UnsealProps\<close> (no panic, the secret asked
  for, foreign secrets untouched, every outcome reported), \<open>Policy\<close> (an abstract transition relation of the
  cluster's secrets that \<open>unseal\<close> refines even when answers of the API server are lost), \<open>WorkerProps\<close> (bounded
  retries, termination), \<open>RunProps\<close> (nothing before the caches have synced; when \<open>Run\<close> can end), \<open>RequestProps\<close>
  (of sealed secrets only the status is ever written), \<open>RotateProps\<close>, \<open>ServerProps\<close> and \<open>HttpProps\<close>
  (re-encryption, what the endpoints reveal, metrics and limiter), \<open>InformerProps\<close> (one informer per type,
  started once), \<open>Signals\<close> (no signal is lost), \<open>FakeProps\<close> (the fake clientset stands in for the client),
  \<open>MainProps\<close> (watched namespaces, a key from the start), \<open>ProcessProps\<close> (invariants of the process).

  \<^bold>\<open>The client.\<close> \<open>Client\<close> and \<open>Kubeseal\<close> (\<open>pkg/kubeseal\<close>), \<open>Flags\<close> (\<open>flagenv\<close>, \<open>pflagenv\<close>), \<open>KubesealMain\<close>
  (\<open>cmd/kubeseal\<close>). Properties: \<open>ClientProps\<close> (streams, what is sealed), \<open>MergeProps\<close>, \<open>RecoveryProps\<close> (raw
  mode, recovery), \<open>CliProps\<close> (files, flags), and, with the controller, \<open>ReencryptProps\<close> (\<open>--re-encrypt\<close> keeps
  the secrets), \<open>EndToEnd\<close> (validation, the served certificate), \<open>Delivery\<close> (what was sealed arrives in a
  healthy cluster) and this theory.

  \<^bold>\<open>Interfaces.\<close> Contracts that clients rely on are locales, each interpreted on the model: the encryption
  (\<open>sealing_scheme\<close>), the byte codec (\<open>byte_codec\<close>) and both together (\<open>sealed_values\<close>), the store of keys
  (\<open>key_store\<close>, for the controller and for recovery), a flag with its environment variable (\<open>flag_field\<close>), a
  relation kept by every API call (\<open>world_relation\<close>), a deep copy (\<open>deep_copier\<close>).

  \<^bold>\<open>Time, loops, concurrency.\<close> Integers of Go are \<open>int\<close> with the wrap-around or saturation written where it can
  happen, 16 and 64 bit \<open>word\<close>s for the length field and the timeouts. The two loops that need not end, reading
  documents (\<open>readDocs\<close>) and the worker (\<open>runWorker\<close>), are partial functions, and their termination is a
  property; no fuel is used. Goroutines are step relations (\<open>sched_step\<close>, \<open>signal_step\<close>, \<open>worker_step\<close>,
  \<open>run_step\<close>, \<open>factory_step\<close>, \<open>process_step\<close>), one step per loop iteration, handler or request, so that the
  invariants hold in every interleaving of such steps; data races inside one step are not modelled.

  \<^bold>\<open>Not modelled.\<close> The registration of types with a scheme and the accessors between the generated packages
  (they only pass values on to API machinery); the chain of reactions and the tracker behind the fakes, the
  informers, the rate limiter and the runtime's delivery of signals, which are the libraries' and parameters
  here; the event broadcaster; listening sockets; the kubectl and klog flags and the client configuration;
  messages to the log.
\<close>

section \<open>The promise of the whole system\<close>

text \<open>
  C2: the running process honours the certificates it has served: \<open>kubeseal\<close> fetches the certificate and seals a
  secret with it, and whatever the controllers, the renewal of keys, the clients of the HTTP server and other
  clients of the cluster do from then on, in any order, the secret unseals to the same values, type, name and
  namespace, and a request to verify it is answered with 200 unless the rate limiter refuses it.
\<close>

theorem process_honours_its_certificates:
  assumes served: "proxies_cert E c (pr_registry p)" "OpenCert E X ns name '''' e = Ret (Inr f, e1)"
    and latest: "kr_mostRecentKey (pr_registry p) = Some m"
      "cert_PublicKey (key_cert m) = RSAPublicKey (rsaPublicKey (key_private m))"
      "ParseCertsPEM L (EncodeCertPEM (ctl_kube c) (cert_Raw (key_cert m))) = Inr [key_cert m]"
    and registry: "registry_inv (ctl_crypto c) (pr_registry p)" "fingerprints_injective (ctl_crypto c)"
    and key: "ParseKey L X now f = Inr pub"
    and seal: "NewSealedSecret (ctl_crypto c) pub secret rnd = (Inr s, rnd')" "secret_wf secret"
      "crypto_sound (ctl_crypto c) pub (labelFor (sec_Meta secret))"
    and run: "(process_step c Q shutDown ready sus flags T P)\<^sup>*\<^sup>* p p'"
    and http: "as_documented T P admit cl ml" "hr_Path request = ''/v1/verify''" "hr_Body request = Inr content"
      "EnsureNotMultiDoc (ctl_kube c) content = None" "DecodeObject (ctl_kube c) content = Inr (SealedSecretObj s)"
  shows "(\<exists>secret'. attemptUnseal c (pr_registry p') s = Inr secret'
      \<and> (\<forall>k. map_get (sec_Data secret') k = plainValue secret k)
      \<and> sec_Type secret' = sec_Type secret \<and> sec_Immutable secret' = sec_Immutable secret
      \<and> om_Name (sec_Meta secret') = om_Name (sec_Meta secret)
      \<and> om_Namespace (sec_Meta secret') = om_Namespace (sec_Meta secret))
    \<and> (\<exists>answer h. answers (httpMux T P c (pr_registry p')) [request] (pr_http p') = ([Answer (Some answer)], h)
      \<and> (status answer = 200 \<or> fst (admit limitedBy request (hs_limiter (pr_http p'))) = Some answer))"
proof -
  note opens = served_certificate_opens [OF served latest registry key seal]
  from opens have "holds_key (privateKeys (pr_registry p')) pub"
    using process_steps_hold [OF registry(2) run registry(1)] by blast
  with opens have secret: "\<exists>secret'. attemptUnseal c (pr_registry p') s = Inr secret'
      \<and> (\<forall>k. map_get (sec_Data secret') k = plainValue secret k)
      \<and> sec_Type secret' = sec_Type secret \<and> sec_Immutable secret' = sec_Immutable secret
      \<and> om_Name (sec_Meta secret') = om_Name (sec_Meta secret)
      \<and> om_Namespace (sec_Meta secret') = om_Namespace (sec_Meta secret)"
    by blast
  then have "\<not> isl (attemptUnseal c (pr_registry p') s)"
    by auto
  then obtain r where r: "\<And>rnd. serve c (pr_registry p') ''/v1/verify'' (Inr content) rnd = Ret (Some r, rnd)"
    "status r = 200"
    using serve_verify [OF http(4,5), of "pr_registry p'"] serve_verify_any by metis
  show ?thesis
    using secret verify_answered [OF http(1-3) r] by blast
qed

theorem process_honours_its_certificates_witness:
  "\<exists>p'. process_step rotateController flagQueue (\<lambda>q. True) (\<lambda>q. True) [sampleSetup] sampleFlags onceLimiter samplePromhttp
      keyedProcess p' \<and>
    (\<exists>secret'. attemptUnseal rotateController (pr_registry p') sampleSealed = Inr secret'
      \<and> map_get (sec_Data secret') ''pass'' = Some (string_bytes ''x'')) \<and>
    (\<exists>answer h. answers (httpMux onceLimiter samplePromhttp rotateController (pr_registry p')) [verifyRequest] (pr_http p') =
      ([Answer (Some answer)], h) \<and> status answer = 200)"
proof -
  have r: "pr_registry keyedProcess = sampleRegistry"
    by (simp add: keyedProcess_def)
  obtain p' where step: "process_step rotateController flagQueue (\<lambda>q. True) (\<lambda>q. True) [sampleSetup] sampleFlags
      onceLimiter samplePromhttp keyedProcess p'" and http: "pr_http p' = startState"
    using keyedProcess_step by blast
  obtain m where m: "kr_mostRecentKey sampleRegistry = Some m"
    "cert_PublicKey (key_cert m) = RSAPublicKey (rsaPublicKey (key_private m))"
    "\<And>pem. ParseCertsPEM certKube pem = Inr [key_cert m]"
    using sample_latest by blast
  have registry: "registry_inv (ctl_crypto rotateController) sampleRegistry" "fingerprints_injective (ctl_crypto rotateController)"
    by (simp_all add: rotate_kube sampleRegistry_facts sample_fingerprints)
  have seal: "NewSealedSecret (ctl_crypto rotateController) (rsaPublicKey sampleKey) sampleSecret sampleRandom
      = (Inr sampleSealed, drop 64 sampleRandom)"
    "crypto_sound (ctl_crypto rotateController) (rsaPublicKey sampleKey) (labelFor (sec_Meta sampleSecret))"
    by (simp_all add: rotate_kube sample_seals sample_sound)
  have request: "hr_Path verifyRequest = ''/v1/verify''" "hr_Body verifyRequest = Inr []"
    "EnsureNotMultiDoc (ctl_kube rotateController) [] = None"
    by (simp_all add: verifyRequest_def EnsureNotMultiDoc_def isMultiDocumentYAML_def rotateController_def sampleKube_def)
  have run: "(process_step rotateController flagQueue (\<lambda>q. True) (\<lambda>q. True) [sampleSetup] sampleFlags
      onceLimiter samplePromhttp)\<^sup>*\<^sup>* keyedProcess p'"
    by (rule r_into_rtranclp) (rule step)
  note promise = process_honours_its_certificates [where c = rotateController and p = keyedProcess and L = certKube
      and m = m, unfolded r, OF proxyEnv_cert_rotate sample_open_cert m registry sample_ParseKey seal(1) sampleSecret_wf seal(2) run
        sample_documented request rotate_kube(2)]
  have "plainValue sampleSecret ''pass'' = Some (string_bytes ''x'')"
    by (simp add: plainValue_def sampleSecret_def map_get_def)
  moreover have "fst (once limitedBy verifyRequest (hs_limiter (pr_http p'))) = None"
    by (simp add: http startState_def once_def)
  ultimately show ?thesis
    using promise step by (intro exI [of _ p']) (auto simp: http)
qed

end
